(* ===== verification/Prelude.thy ===== *)
theory Prelude
  imports Complex_Main "HOL-Library.Sublist"
begin

text \<open>
  The JavaScript standard library the UI relies on, on the model's types, and the lemmas the
  component theories share.

  A JS string is a \<open>string\<close>, a list of 8-bit characters holding its UTF-8 text; a finite JS
  number is an \<open>int\<close> where the code uses it as a count, and otherwise the \<open>rat\<close> that the
  double denotes (the rounding of one \<open>/\<close> or \<open>*\<close> to the nearest double is not
  modelled). \<open>undefined\<close>, \<open>null\<close> and the empty string are one value where the code
  only tests them for truth; they are an \<open>option\<close> where it tells them apart.
\<close>

text \<open>
  The collection the component proofs share: \<open>handlers\<close> unfolds the update functions of a
  component with what they call.
\<close>

named_theorems handlers

section \<open>Truth values and defaults\<close>

text \<open>\<open>s || d\<close> on strings: the empty string is falsy.\<close>

definition str_or :: "string \<Rightarrow> string \<Rightarrow> string" where
  "str_or s d = (if s = [] then d else s)"

text \<open>\<open>o?.f || d\<close> for a string field of an object that may be missing.\<close>

definition opt_str :: "('a \<Rightarrow> string) \<Rightarrow> 'a option \<Rightarrow> string \<Rightarrow> string" where
  "opt_str f m d = (case m of None \<Rightarrow> d | Some x \<Rightarrow> str_or (f x) d)"

text \<open>\<open>o || d\<close> where the string itself may be \<open>undefined\<close>.\<close>

definition ostr_or :: "string option \<Rightarrow> string \<Rightarrow> string" where
  "ostr_or m d = (case m of None \<Rightarrow> d | Some s \<Rightarrow> str_or s d)"

lemma ostr_or_simps [simp]: "ostr_or None d = d" "ostr_or (Some s) d = str_or s d"
  by (auto simp: ostr_or_def)

lemma str_or_simps [simp]: "str_or [] d = d" "s \<noteq> [] \<Longrightarrow> str_or s d = s"
  by (auto simp: str_or_def)

lemma str_or_empty [simp]: "str_or s [] = s"
  by (simp add: str_or_def)

lemma str_or_nonempty [simp]: "str_or s d = [] \<longleftrightarrow> s = [] \<and> d = []"
  by (auto simp: str_or_def)

lemma opt_str_simps [simp]: "opt_str f None d = d" "opt_str f (Some x) d = str_or (f x) d"
  by (auto simp: opt_str_def)

section \<open>Strings\<close>

definition is_space :: "char \<Rightarrow> bool" where
  "is_space c \<longleftrightarrow> c \<in> {CHR '' '', CHR 0x09, CHR 0x0A, CHR 0x0B, CHR 0x0C, CHR 0x0D}"

text \<open>\<open>s.trim()\<close>, over the ASCII white space.\<close>

definition trim :: "string \<Rightarrow> string" where
  "trim s = rev (dropWhile is_space (rev (dropWhile is_space s)))"

fun join :: "string \<Rightarrow> string list \<Rightarrow> string" where
  "join sep [] = []"
| "join sep [x] = x"
| "join sep (x # xs) = x @ sep @ join sep xs"

text \<open>\<open>s.split(sep)\<close>, for a separator of one character.\<close>

fun split_on :: "char \<Rightarrow> string \<Rightarrow> string list" where
  "split_on d [] = [[]]"
| "split_on d (c # cs) = (if c = d then [] # split_on d cs
     else case split_on d cs of [] \<Rightarrow> [[c]] | w # ws \<Rightarrow> (c # w) # ws)"

lemma split_on_word: "d \<notin> set w \<Longrightarrow> split_on d w = [w]"
  by (induction w) auto

lemma split_on_append: "d \<notin> set w \<Longrightarrow> split_on d (w @ d # s) = w # split_on d s"
  by (induction w) auto

lemma split_on_join: "ws \<noteq> [] \<Longrightarrow> \<forall>w \<in> set ws. d \<notin> set w \<Longrightarrow> split_on d (join [d] ws) = ws"
  by (induction "[d]" ws rule: join.induct) (auto simp: split_on_word split_on_append)

definition starts_with :: "string \<Rightarrow> string \<Rightarrow> bool" where
  "starts_with p s \<longleftrightarrow> take (length p) s = p"

definition ends_with :: "string \<Rightarrow> string \<Rightarrow> bool" where
  "ends_with p s \<longleftrightarrow> starts_with (rev p) (rev s)"

definition upper_char :: "char \<Rightarrow> char" where
  "upper_char c = (let n = of_char c :: nat in if 97 \<le> n \<and> n \<le> 122 then char_of (n - 32) else c)"

definition lower_char :: "char \<Rightarrow> char" where
  "lower_char c = (let n = of_char c :: nat in if 65 \<le> n \<and> n \<le> 90 then char_of (n + 32) else c)"

definition to_lower :: "string \<Rightarrow> string" where
  "to_lower s = map lower_char s"

text \<open>\<open>d.charAt(0).toUpperCase() + d.slice(1)\<close>\<close>

definition capitalize :: "string \<Rightarrow> string" where
  "capitalize s = (case s of [] \<Rightarrow> [] | c # cs \<Rightarrow> upper_char c # cs)"

lemma starts_with_append [simp]: "starts_with p (p @ s)"
  by (simp add: starts_with_def)

lemma starts_withE: "starts_with p s \<Longrightarrow> (\<And>t. s = p @ t \<Longrightarrow> P) \<Longrightarrow> P"
  by (metis starts_with_def append_take_drop_id)

lemma starts_with_iff: "starts_with p s \<longleftrightarrow> (\<exists>t. s = p @ t)"
  by (auto elim: starts_withE)

lemma ends_with_iff: "ends_with p s \<longleftrightarrow> (\<exists>t. s = t @ p)"
proof
  assume "ends_with p s"
  then obtain t where "rev s = rev p @ t"
    unfolding ends_with_def by (auto elim: starts_withE)
  then have "s = rev t @ p" by (metis rev_append rev_rev_ident)
  then show "\<exists>t. s = t @ p" ..
next
  assume "\<exists>t. s = t @ p"
  then show "ends_with p s" by (auto simp: ends_with_def)
qed

lemma capitalize_Nil_iff [simp]: "capitalize s = [] \<longleftrightarrow> s = []"
  by (auto simp: capitalize_def split: list.splits)

lemma join_Nil_iff: "join sep xs = [] \<longleftrightarrow> xs = [] \<or> (\<forall>x \<in> set xs. x = []) \<and> (sep = [] \<or> length xs = 1)"
  by (induction sep xs rule: join.induct) auto

lemma dropWhile_idem [simp]: "dropWhile P (dropWhile P xs) = dropWhile P xs"
  by (induction xs) auto

lemma dropWhile_rev_fixed:
  assumes "dropWhile P xs = xs"
  shows "dropWhile P (rev (dropWhile P (rev xs))) = rev (dropWhile P (rev xs))"
proof (cases "rev (dropWhile P (rev xs))")
  case Nil
  show ?thesis unfolding Nil by simp
next
  case (Cons y ys)
  have "suffix (dropWhile P (rev xs)) (rev xs)" by (rule suffix_dropWhile)
  then have "prefix (y # ys) xs" using Cons by (metis rev_rev_ident suffix_to_prefix)
  then have "hd xs = y" "xs \<noteq> []" by (auto simp: prefix_def)
  moreover have "\<not> P (hd xs)" using assms \<open>xs \<noteq> []\<close>
    by (metis hd_dropWhile)
  ultimately show ?thesis using Cons by simp
qed

lemma trim_idem [simp]: "trim (trim s) = trim s"
  by (simp add: trim_def dropWhile_rev_fixed)

lemma trim_Nil [simp]: "trim [] = []"
  by (simp add: trim_def)

section \<open>Numbers as text\<close>

fun digits_rev :: "nat \<Rightarrow> string" where
  "digits_rev n = (if n < 10 then [char_of (48 + n)] else char_of (48 + n mod 10) # digits_rev (n div 10))"

declare digits_rev.simps [simp del]

text \<open>\<open>String(n)\<close> of an integer.\<close>

definition show_nat :: "nat \<Rightarrow> string" where
  "show_nat n = rev (digits_rev n)"

definition show_int :: "int \<Rightarrow> string" where
  "show_int i = (if i < 0 then ''-'' @ show_nat (nat (- i)) else show_nat (nat i))"

text \<open>\<open>Math.round\<close>: to the nearest integer, halves up.\<close>

definition js_round :: "rat \<Rightarrow> int" where
  "js_round x = \<lfloor>x + 1 / 2\<rfloor>"

text \<open>
  \<open>x.toFixed(f)\<close> of a number below \<open>10\<^sup>2\<^sup>1\<close>: the integer \<open>n\<close> for which
  \<open>n / 10\<^sup>f - x\<close> is closest to zero, the larger of two, written with \<open>f\<close> decimals; the
  sign is split off first, as ECMAScript does.
\<close>

definition pad_left :: "nat \<Rightarrow> char \<Rightarrow> string \<Rightarrow> string" where
  "pad_left k c s = replicate (k - length s) c @ s"

definition to_fixed_nonneg :: "nat \<Rightarrow> rat \<Rightarrow> string" where
  "to_fixed_nonneg f x =
     (let s = pad_left (Suc f) (CHR ''0'') (show_nat (nat (js_round (x * 10 ^ f))))
      in if f = 0 then s else take (length s - f) s @ ''.'' @ drop (length s - f) s)"

definition to_fixed :: "nat \<Rightarrow> rat \<Rightarrow> string" where
  "to_fixed f x = (if x < 0 then ''-'' @ to_fixed_nonneg f (- x) else to_fixed_nonneg f x)"

lemma digit_chars [simp]:
  "char_of (48 :: nat) = CHR ''0''" "char_of (49 :: nat) = CHR ''1''"
  "char_of (50 :: nat) = CHR ''2''" "char_of (51 :: nat) = CHR ''3''"
  "char_of (52 :: nat) = CHR ''4''" "char_of (53 :: nat) = CHR ''5''"
  "char_of (54 :: nat) = CHR ''6''" "char_of (55 :: nat) = CHR ''7''"
  "char_of (56 :: nat) = CHR ''8''" "char_of (57 :: nat) = CHR ''9''"
  by code_simp+

lemma digits_rev_not_Nil [simp]: "digits_rev n \<noteq> []"
  by (subst digits_rev.simps) simp

lemma show_nat_not_Nil [simp]: "show_nat n \<noteq> []"
  by (simp add: show_nat_def)

lemma digits_rev_code [simp]:
  "n < 10 \<Longrightarrow> digits_rev n = [char_of (48 + n)]"
  "\<not> n < 10 \<Longrightarrow> digits_rev n = char_of (48 + n mod 10) # digits_rev (n div 10)"
  by (simp_all add: digits_rev.simps [of n])

text \<open>Reading the decimal text back: \<open>show_nat\<close> loses nothing.\<close>

definition digit_val :: "char \<Rightarrow> nat" where
  "digit_val c = of_char c - 48"

primrec read_rev :: "string \<Rightarrow> nat" where
  "read_rev [] = 0"
| "read_rev (c # cs) = digit_val c + 10 * read_rev cs"

lemma digit_val_char_of [simp]: "d < 10 \<Longrightarrow> digit_val (char_of (48 + d)) = d"
  by (simp add: digit_val_def)

lemma read_rev_digits: "read_rev (digits_rev n) = n"
proof (induction n rule: digits_rev.induct)
  case (1 n)
  show ?case
  proof (cases "n < 10")
    case True
    then show ?thesis by simp
  next
    case False
    then show ?thesis using 1 by simp
  qed
qed

lemma show_nat_inj [simp]: "show_nat m = show_nat n \<longleftrightarrow> m = n"
  by (metis read_rev_digits rev_swap show_nat_def)

lemma digits_rev_digits: "c \<in> set (digits_rev n) \<Longrightarrow> 48 \<le> (of_char c :: nat) \<and> (of_char c :: nat) < 58"
proof (induction n rule: digits_rev.induct)
  case (1 n)
  then show ?case by (cases "n < 10") auto
qed

lemma show_nat_digits: "c \<in> set (show_nat n) \<Longrightarrow> 48 \<le> (of_char c :: nat) \<and> (of_char c :: nat) < 58"
  by (auto simp: show_nat_def dest: digits_rev_digits)

definition is_digit :: "char \<Rightarrow> bool" where
  "is_digit c \<longleftrightarrow> 48 \<le> (of_char c :: nat) \<and> (of_char c :: nat) < 58"

lemma show_nat_is_digit: "c \<in> set (show_nat n) \<Longrightarrow> is_digit c"
  by (auto simp: is_digit_def dest: show_nat_digits)

section \<open>The text the UI is written in\<close>

abbreviation em_dash :: string where "em_dash \<equiv> [CHR 0xE2, CHR 0x80, CHR 0x94]"
abbreviation en_dash :: string where "en_dash \<equiv> [CHR 0xE2, CHR 0x80, CHR 0x93]"
abbreviation ellipsis :: string where "ellipsis \<equiv> [CHR 0xE2, CHR 0x80, CHR 0xA6]"
abbreviation middot :: string where "middot \<equiv> [CHR 0xC2, CHR 0xB7]"
abbreviation lquote :: string where "lquote \<equiv> [CHR 0xE2, CHR 0x80, CHR 0x9C]"
abbreviation rquote :: string where "rquote \<equiv> [CHR 0xE2, CHR 0x80, CHR 0x9D]"
abbreviation times_sign :: string where "times_sign \<equiv> [CHR 0xC3, CHR 0x97]"
abbreviation right_arrow :: string where "right_arrow \<equiv> [CHR 0xE2, CHR 0x86, CHR 0x92]"

section \<open>Lists and options\<close>

text \<open>\<open>xs.find(p)\<close> and \<open>xs.some(p)\<close> are \<open>find\<close> and \<open>list_ex\<close> of the library;
  a list cut in blocks of \<open>n\<close> is put together again by concatenation.\<close>

lemma concat_blocks:
  "concat (map (\<lambda>k. take n (drop (k * n) xs)) [0..<m]) = take (m * n) xs"
proof (induction m)
  case (Suc m)
  have "take (m * n + n) xs = take (m * n) xs @ take n (drop (m * n) xs)" by (rule take_add)
  then show ?case using Suc by (simp add: add.commute)
qed simp

lemma filter_filter_neq: "distinct (map f xs) \<Longrightarrow> distinct (map f (filter P xs))"
  by (induction xs) auto

lemma find_Some_mem: "find P xs = Some x \<Longrightarrow> x \<in> set xs \<and> P x"
  by (auto simp: find_Some_iff)

end
