(* ===== verification/Model.thy ===== *)
theory Model
  imports Prelude
begin

text \<open>
  The data the API serves and the UI holds, as records: a JSON object of the Go structs under
  \<open>src/internal/core\<close>, with the field names the UI reads them by. A field the server
  may omit is an \<open>option\<close> where the UI tells an absent field from an empty one, and the
  empty string otherwise. Times are the ISO strings the server sends.
\<close>

section \<open>Schedules and retention policies\<close>

record schedule =
  sch_enabled :: bool
  sch_kind :: string
  sch_every :: "string option"
  sch_at :: "string option"
  sch_weekdays :: "int list option"

text \<open>
  The six keep counts are a record of their own, which the policy extends, as the code spreads
  them into one flat object (\<open>{ enabled, preset, ...counts }\<close>).
\<close>

record counts =
  keepLast :: int
  keepHourly :: int
  keepDaily :: int
  keepWeekly :: int
  keepMonthly :: int
  keepWithinDays :: int

record retention = counts +
  ret_enabled :: bool
  ret_preset :: string

section \<open>Runs\<close>

record progress =
  p_percent :: rat
  p_filesDone :: int
  p_totalFiles :: int
  p_bytesDone :: int
  p_totalBytes :: int
  p_currentFile :: string

record speed_test =
  sp_sizeBytes :: int
  sp_uploadSeconds :: rat
  sp_downloadSeconds :: rat
  sp_overheadSeconds :: rat
  sp_uploadBytesPerSec :: rat
  sp_downloadBytesPerSec :: rat
  sp_score :: int
  sp_rating :: string

record summary =
  sm_snapshotId :: string
  sm_filesNew :: int
  sm_filesChanged :: int
  sm_filesUnmodified :: int
  sm_dataAdded :: int
  sm_totalFilesProcessed :: int
  sm_totalBytesProcessed :: int
  sm_filesRestored :: int
  sm_bytesRestored :: int
  sm_totalDuration :: rat
  sm_speed :: "speed_test option"

record run =
  run_id :: string
  run_kind :: string
  run_status :: string
  run_jobId :: string
  run_repositoryId :: string
  run_jobName :: string
  run_folderPath :: string
  run_repoName :: string
  run_params :: "string \<rightharpoonup> string"
  run_startedAt :: string
  run_finishedAt :: string
  run_progress :: "progress option"
  run_summary :: "summary option"
  run_exitCode :: "int option"
  run_error :: string

text \<open>A line of a run's durable log. The server numbers the lines of a run from 1 (\<open>seq\<close>).\<close>

record log_line =
  ln_seq :: nat
  ln_ts :: string
  ln_level :: string
  ln_message :: string

text \<open>The run that holds a repository, as the \<open>busy\<close> error names it.\<close>

record blocking_run =
  bl_runId :: string
  bl_kind :: string
  bl_jobName :: string

section \<open>Jobs, snapshots and containers\<close>

record job =
  job_id :: string
  job_name :: string
  job_folderId :: "string option"
  job_databaseId :: "string option"
  job_repositoryId :: string
  job_schedule :: "schedule option"
  job_retention :: "retention option"
  job_sourceKind :: string
  job_sourceLabel :: string
  job_folderName :: string
  job_folderPath :: string
  job_database :: string
  job_engine :: string
  job_tag :: string
  job_databaseName :: string
  job_repoName :: string
  job_lastRun :: "run option"
  job_nextDueAt :: string
  job_scheduleState :: string

record snapshot =
  sn_id :: string
  sn_shortId :: string
  sn_time :: string
  sn_paths :: "string list"
  sn_tags :: "string list"
  sn_sizeBytes :: "int option"
  sn_fileCount :: "int option"

text \<open>The sources a job can back up: a named folder, a database in a container.\<close>

record folder =
  fd_id :: string
  fd_name :: string
  fd_path :: string

record database =
  ds_id :: string
  ds_name :: string
  ds_engine :: string
  ds_container :: string
  ds_database :: string

text \<open>One entry of a snapshot's folder, for the file browser.\<close>

record entry =
  en_name :: string
  en_path :: string
  en_type :: string
  en_size :: int
  en_mtime :: string

record container =
  ct_id :: string
  ct_name :: string

record docker_status =
  dk_available :: bool
  dk_coolify :: bool
  dk_message :: string

text \<open>What runs on the Docker host, as discovery reports it.\<close>

record job_ref =
  jr_id :: string
  jr_name :: string

record resource_container =
  rk_name :: string
  rk_state :: string

record volume =
  vo_name :: string
  vo_type :: string
  vo_hostPath :: string
  vo_path :: string
  vo_mountedAt :: "string list"
  vo_containers :: "string list"
  vo_databaseData :: bool
  vo_jobs :: "job_ref list"

record source_ref =
  sr_database :: string
  sr_jobs :: "job_ref list"

record db_server =
  sv_container :: string
  sv_containerId :: string
  sv_engine :: string
  sv_image :: string
  sv_state :: string
  sv_sources :: "source_ref list"

record db_link =
  lk_host :: string
  lk_database :: string
  lk_container :: string
  lk_engine :: string
  lk_resource :: string

record resource =
  re_key :: string
  re_kind :: string
  re_name :: string
  re_project :: string
  re_environment :: string
  re_self :: bool
  re_domains :: "string list"
  re_containers :: "resource_container list"
  re_volumes :: "volume list"
  re_databases :: "db_server list"
  re_linked :: "db_link list"

text \<open>The automatic check of a repository, the outcome of the last one, and a speed test with the run that measured it.\<close>

record check_schedule =
  cks_enabled :: bool
  cks_every :: string
  cks_at :: string
  cks_readData :: string

record last_check =
  lc_runId :: string
  lc_status :: string
  lc_startedAt :: string
  lc_finishedAt :: string

record speed_result = speed_test +
  spr_runId :: string
  spr_testedAt :: string

record repository =
  repo_id :: string
  repo_name :: string
  repo_backendType :: string
  repo_localPath :: string
  repo_endpoint :: string
  repo_bucket :: string
  repo_region :: string
  repo_accessKey :: string
  repo_hasSecretKey :: bool
  repo_hasPassword :: bool
  repo_checkSchedule :: "check_schedule option"
  repo_lastCheck :: "last_check option"
  repo_nextCheckAt :: string
  repo_uploadLimitKiB :: int
  repo_downloadLimitKiB :: int
  repo_lastSpeedTest :: "speed_result option"

text \<open>How many of each the server has, in its status.\<close>

record counted =
  cn_repositories :: int
  cn_folders :: int
  cn_databases :: int
  cn_jobs :: int

section \<open>The browser\<close>

text \<open>
  What the code asks the browser for and no file under \<open>src/\<close> fixes: the clock, the reading
  of a date string (milliseconds since 1970, \<open>None\<close> for an invalid date), and the locale's
  renderings of a time, a date, a clock time and a number. \<open>env_day\<close> numbers the local
  calendar day of a time, as comparing local midnights does.
\<close>

record env =
  env_now :: int
  env_parse :: "string \<Rightarrow> int option"
  env_localeString :: "int \<Rightarrow> string"
  env_localeDate :: "int \<Rightarrow> string"
  env_localeTime :: "int \<Rightarrow> string"
  env_longDate :: "bool \<Rightarrow> int \<Rightarrow> string"
  env_day :: "int \<Rightarrow> int"
  env_year :: "int \<Rightarrow> int"
  env_number :: "int \<Rightarrow> string"

section \<open>Sample values\<close>

text \<open>Concrete records the witnesses evaluate on.\<close>

definition sample_run :: run where
  "sample_run = \<lparr>run_id = ''r1'', run_kind = ''backup'', run_status = ''running'', run_jobId = ''j1'',
     run_repositoryId = ''p1'', run_jobName = ''Site'', run_folderPath = '''', run_repoName = ''Main'',
     run_params = Map.empty, run_startedAt = ''2025-01-01T00:00:00Z'', run_finishedAt = '''',
     run_progress = None, run_summary = None, run_exitCode = None, run_error = ''''\<rparr>"

definition sample_job :: job where
  "sample_job = \<lparr>job_id = ''j1'', job_name = ''Site'', job_folderId = Some ''f1'', job_databaseId = None,
     job_repositoryId = ''p1'', job_schedule = None, job_retention = None, job_sourceKind = ''folder'',
     job_sourceLabel = ''/srv'', job_folderName = ''srv'', job_folderPath = ''/srv'',
     job_database = '''', job_engine = '''', job_tag = ''resticweb-job:j1'', job_databaseName = '''', job_repoName = ''Main'',
     job_lastRun = None, job_nextDueAt = '''', job_scheduleState = ''off''\<rparr>"

definition sample_env :: env where
  "sample_env = \<lparr>env_now = 86400000, env_parse = (\<lambda>s. if s = '''' then None else Some 0),
     env_localeString = show_int, env_localeDate = show_int, env_localeTime = show_int,
     env_longDate = (\<lambda>y. show_int), env_day = (\<lambda>t. t div 86400000), env_year = (\<lambda>t. 1970),
     env_number = show_int\<rparr>"

definition sample_snapshot :: snapshot where
  "sample_snapshot = \<lparr>sn_id = ''abc'', sn_shortId = ''abc'', sn_time = '''', sn_paths = [''/srv/site''], sn_tags = [],
     sn_sizeBytes = None, sn_fileCount = None\<rparr>"

definition sample_repository :: repository where
  "sample_repository = \<lparr>repo_id = ''p1'', repo_name = ''Main'', repo_backendType = ''Local'', repo_localPath = ''/backup'',
     repo_endpoint = '''', repo_bucket = '''', repo_region = '''', repo_accessKey = '''', repo_hasSecretKey = False,
     repo_hasPassword = True, repo_checkSchedule = None, repo_lastCheck = None, repo_nextCheckAt = '''',
     repo_uploadLimitKiB = 0, repo_downloadLimitKiB = 0, repo_lastSpeedTest = None\<rparr>"

lemmas sample_defs = sample_repository_def sample_run_def sample_job_def sample_snapshot_def

end
