(* ===== verification/Api.thy ===== *)
theory Api
  imports Model
begin

text \<open>
  \<open>src/ui/src/lib/api.js\<close>: the JSON client. A call is a \<open>request\<close>; what \<open>fetch\<close>
  gives back is a value of \<open>fetch_result\<close>, and \<open>req_result\<close> turns it into the
  \<open>{ status, ok, body }\<close> that every caller sees. Parsed bodies are the record
  \<open>body\<close> of the fields the UI reads, absent ones empty; \<open>null\<close> is \<open>None\<close>.
\<close>

section \<open>JSON values and object literals\<close>

datatype json = JNull | JBool bool | JInt int | JStr string | JArr "json list" | JObj "(string \<times> json) list"

text \<open>
  An object literal: its properties in order, \<open>None\<close> for one that is \<open>undefined\<close>.
  Spreading writes the later value at the place of the earlier key, and
  \<open>JSON.stringify\<close> leaves undefined properties out.
\<close>

type_synonym obj = "(string \<times> json option) list"

fun set_prop :: "string \<Rightarrow> json option \<Rightarrow> obj \<Rightarrow> obj" where
  "set_prop k v [] = [(k, v)]"
| "set_prop k v ((k', v') # ps) = (if k = k' then (k, v) # ps else (k', v') # set_prop k v ps)"

definition spread :: "obj \<Rightarrow> obj \<Rightarrow> obj" where
  "spread base changes = fold (\<lambda>(k, v). set_prop k v) changes base"

fun defined_props :: "obj \<Rightarrow> (string \<times> json) list" where
  "defined_props [] = []"
| "defined_props ((k, v) # ps) = (case v of None \<Rightarrow> defined_props ps | Some j \<Rightarrow> (k, j) # defined_props ps)"

definition json_of :: "obj \<Rightarrow> json" where
  "json_of ps = JObj (defined_props ps)"

definition json_prop :: "json \<Rightarrow> string \<Rightarrow> json option" where
  "json_prop j k = (case j of JObj ps \<Rightarrow> map_of ps k | _ \<Rightarrow> None)"

lemma map_of_set_prop: "map_of (set_prop k v ps) = (map_of ps)(k \<mapsto> v)"
  by (induction ps) (auto simp: fun_eq_iff)

lemma keys_set_prop: "fst ` set (set_prop k v ps) = insert k (fst ` set ps)"
  using arg_cong [OF map_of_set_prop, of dom k v ps] by (simp add: dom_map_of_conv_image_fst)

lemma distinct_set_prop: "distinct (map fst ps) \<Longrightarrow> distinct (map fst (set_prop k v ps))"
proof (induction ps arbitrary: k)
  case (Cons p ps)
  then show ?case by (cases p) (simp add: keys_set_prop)
qed simp

lemma distinct_spread: "distinct (map fst base) \<Longrightarrow> distinct (map fst (spread base changes))"
  unfolding spread_def
  by (induction changes arbitrary: base) (auto simp: distinct_set_prop)

lemma map_of_spread:
  "map_of (spread base changes) k =
     (case map_of (rev changes) k of None \<Rightarrow> map_of base k | Some v \<Rightarrow> Some v)"
  unfolding spread_def
proof (induction changes arbitrary: base)
  case (Cons c cs)
  show ?case
    by (cases c) (auto simp: Cons map_of_set_prop map_add_def split: option.splits)
qed simp

lemma map_of_defined:
  "distinct (map fst ps) \<Longrightarrow> map_of (defined_props ps) k = Option.bind (map_of ps k) id"
proof (induction ps arbitrary: k)
  case (Cons p ps)
  moreover have "map_of (defined_props ps) (fst p) = None"
    using Cons by (simp add: map_of_eq_None_iff [symmetric])
  ultimately show ?case by (cases p; cases "snd p") auto
qed simp

lemma json_prop_json_of:
  "distinct (map fst ps) \<Longrightarrow> json_prop (json_of ps) k = Option.bind (map_of ps k) id"
  by (simp add: json_prop_def json_of_def map_of_defined)

section \<open>Responses\<close>

record body =
  b_error :: string
  b_message :: string
  b_code :: string
  b_runId :: string
  b_run :: "run option"
  b_blockingRun :: "blocking_run option"
  b_repoName :: string
  b_job :: "job option"
  b_runs :: "run list option"
  b_docker :: "docker_status option"
  b_containers :: "container list option"
  b_entries :: "entry list option"
  b_snapshots :: "snapshot list option"
  b_databases :: "database list option"
  b_folders :: "folder list option"
  b_repositories :: "repository list option"
  b_jobs :: "job list option"
  b_repository :: "repository option"
  b_results :: "speed_result list option"
  b_initialized :: "bool option"
  b_detail :: string
  b_counts :: "counted option"
  b_resources :: "resource list option"
  b_databaseNames :: "string list option"
  b_total :: int
  b_ok :: bool
  b_setupRequired :: bool
  b_authenticated :: bool
  b_resticInstalled :: bool
  b_resticVersion :: string

definition empty_body :: body where
  "empty_body = \<lparr>b_error = '''', b_message = '''', b_code = '''', b_runId = '''', b_run = None,
     b_blockingRun = None, b_repoName = '''', b_job = None, b_runs = None, b_docker = None,
     b_containers = None, b_entries = None, b_snapshots = None, b_databases = None, b_folders = None,
     b_repositories = None, b_jobs = None, b_repository = None, b_results = None, b_initialized = None, b_detail = '''',
     b_counts = None, b_resources = None, b_databaseNames = None, b_total = 0, b_ok = False, b_setupRequired = False, b_authenticated = False,
     b_resticInstalled = False, b_resticVersion = ''''\<rparr>"

record response =
  res_status :: int
  res_ok :: bool
  res_body :: "body option"

text \<open>\<open>res.body?.f\<close>, with the falsy default of the field for a missing body.\<close>

definition body_of :: "response \<Rightarrow> body" where
  "body_of r = (case res_body r of None \<Rightarrow> empty_body | Some b \<Rightarrow> b)"

text \<open>\<open>res.body?.xs || []\<close>\<close>

definition or_empty :: "'a list option \<Rightarrow> 'a list" where
  "or_empty m = (case m of None \<Rightarrow> [] | Some xs \<Rightarrow> xs)"

text \<open>
  The HTTP reply as \<open>fetch\<close> resolves it: \<open>h_json\<close> is the body parsed as JSON
  (\<open>None\<close> when \<open>r.json()\<close> rejects), \<open>h_text\<close> its text (\<open>None\<close> when
  reading it rejects). A rejected \<open>fetch\<close> is its error message.
\<close>

record http_reply =
  h_status :: int
  h_ok :: bool
  h_contentType :: "string option"
  h_json :: "body option option"
  h_text :: "string option"
  h_statusText :: string

type_synonym fetch_result = "string + http_reply"

definition includes_text :: "string \<Rightarrow> string \<Rightarrow> bool" where
  "includes_text p s \<longleftrightarrow> list_ex (starts_with p) (map (\<lambda>i. drop i s) [0..<Suc (length s)])"

definition req_result :: "fetch_result \<Rightarrow> response" where
  "req_result f = (case f of
     Inl msg \<Rightarrow> \<lparr>res_status = 0, res_ok = False,
       res_body = Some (empty_body\<lparr>b_code := ''network'',
         b_error := ''Could not reach the app: '' @ msg\<rparr>)\<rparr>
   | Inr r \<Rightarrow>
       let ct = (case h_contentType r of None \<Rightarrow> '''' | Some c \<Rightarrow> c);
           parsed = (if includes_text ''application/json'' ct
                     then (case h_json r of None \<Rightarrow> Some empty_body | Some b \<Rightarrow> b)
                     else Some (empty_body\<lparr>b_error :=
                       str_or (case h_text r of None \<Rightarrow> '''' | Some t \<Rightarrow> t) (h_statusText r)\<rparr>))
       in \<lparr>res_status = h_status r, res_ok = h_ok r, res_body = parsed\<rparr>)"

definition errorOf :: "response \<Rightarrow> string \<Rightarrow> string" where
  "errorOf res fallback = str_or (str_or (b_error (body_of res)) (b_message (body_of res))) fallback"

definition errorOf_default :: string where
  "errorOf_default = ''Something went wrong.''"

lemma errorOf_nonempty: "fallback \<noteq> '''' \<Longrightarrow> errorOf res fallback \<noteq> ''''"
  by (simp add: errorOf_def)

text \<open>A successful response, for the witnesses.\<close>

definition ok_body :: "body \<Rightarrow> response" where
  "ok_body b = \<lparr>res_status = 200, res_ok = True, res_body = Some b\<rparr>"

section \<open>Requests\<close>

record request =
  q_method :: string
  q_url :: string
  q_body :: "json option"

text \<open>What \<open>req\<close> passes to \<open>fetch\<close>: JSON headers exactly when there is a body.\<close>

record fetch_options =
  fo_method :: string
  fo_headers :: "(string \<times> string) list"
  fo_credentials :: string
  fo_body :: "json option"

definition fetch_options_of :: "request \<Rightarrow> fetch_options" where
  "fetch_options_of q = \<lparr>fo_method = q_method q,
     fo_headers = (if q_body q \<noteq> None then [(''Content-Type'', ''application/json'')] else []),
     fo_credentials = ''same-origin'', fo_body = q_body q\<rparr>"

definition api_get :: "string \<Rightarrow> request" where
  "api_get u = \<lparr>q_method = ''GET'', q_url = u, q_body = None\<rparr>"

definition api_post :: "string \<Rightarrow> json option \<Rightarrow> request" where
  "api_post u b = \<lparr>q_method = ''POST'', q_url = u,
     q_body = Some (case b of None \<Rightarrow> JObj [] | Some j \<Rightarrow> j)\<rparr>"

definition api_put :: "string \<Rightarrow> json \<Rightarrow> request" where
  "api_put u b = \<lparr>q_method = ''PUT'', q_url = u, q_body = Some b\<rparr>"

definition api_del :: "string \<Rightarrow> request" where
  "api_del u = \<lparr>q_method = ''DELETE'', q_url = u, q_body = None\<rparr>"

section \<open>URL encoding\<close>

definition in_range :: "nat \<Rightarrow> nat \<Rightarrow> char \<Rightarrow> bool" where
  "in_range a b c \<longleftrightarrow> a \<le> of_char c \<and> of_char c \<le> b"

definition alnum :: "char \<Rightarrow> bool" where
  "alnum c \<longleftrightarrow> in_range 48 57 c \<or> in_range 65 90 c \<or> in_range 97 122 c"

definition hex_digit :: "nat \<Rightarrow> char" where
  "hex_digit n = (if n < 10 then char_of (48 + n) else char_of (55 + n))"

definition percent :: "char \<Rightarrow> string" where
  "percent c = [CHR ''%'', hex_digit (of_char c div 16), hex_digit (of_char c mod 16)]"

text \<open>\<open>encodeURIComponent\<close>, on the UTF-8 bytes of the string.\<close>

definition uri_unreserved :: "char \<Rightarrow> bool" where
  "uri_unreserved c \<longleftrightarrow> alnum c \<or> c \<in> set ''-_.!~*()'' \<or> c = CHR 0x27"

definition encodeURIComponent :: "string \<Rightarrow> string" where
  "encodeURIComponent s = concat (map (\<lambda>c. if uri_unreserved c then [c] else percent c) s)"

text \<open>\<open>URLSearchParams.toString\<close>: form encoding, a space as \<open>+\<close>.\<close>

definition form_unreserved :: "char \<Rightarrow> bool" where
  "form_unreserved c \<longleftrightarrow> alnum c \<or> c \<in> set ''*-._''"

definition form_encode :: "string \<Rightarrow> string" where
  "form_encode s = concat (map (\<lambda>c. if form_unreserved c then [c]
     else if c = CHR '' '' then ''+'' else percent c) s)"

text \<open>
  The loop of \<open>Jobs.runs\<close> and \<open>Runs.list\<close>: the parameters that are set (not
  \<open>undefined\<close>, \<open>null\<close> or empty), in the order of the object's keys.
\<close>

type_synonym params = "(string \<times> string option) list"

fun set_params :: "params \<Rightarrow> (string \<times> string) list" where
  "set_params [] = []"
| "set_params ((k, v) # ps) = (case v of None \<Rightarrow> set_params ps
     | Some s \<Rightarrow> if s = '''' then set_params ps else (k, s) # set_params ps)"

definition query_string :: "params \<Rightarrow> string" where
  "query_string ps = join ''&'' (map (\<lambda>(k, v). form_encode k @ ''='' @ form_encode v) (set_params ps))"

definition with_query :: "string \<Rightarrow> params \<Rightarrow> string" where
  "with_query url ps = (let qs = query_string ps in url @ (if qs \<noteq> '''' then ''?'' @ qs else ''''))"

end
