(* ===== verification/Endpoints.thy ===== *)
theory Endpoints
  imports Api
begin

text \<open>
  The endpoint helpers of \<open>src/ui/src/lib/api.js\<close>, each the request it builds, and the facts
  about the URLs and bodies: percent-encoding is undone by decoding and never emits a URL
  delimiter, a saved job keeps every field that is not changed, and a list query carries
  exactly the parameters that are set.
\<close>

section \<open>JSON renderings of what is sent\<close>

definition opt_json :: "('a \<Rightarrow> json) \<Rightarrow> 'a option \<Rightarrow> json option" where
  "opt_json f m = map_option f m"

definition schedule_json :: "schedule \<Rightarrow> json" where
  "schedule_json s = json_of
     [(''enabled'', Some (JBool (sch_enabled s))), (''kind'', Some (JStr (sch_kind s))),
      (''every'', opt_json JStr (sch_every s)), (''at'', opt_json JStr (sch_at s)),
      (''weekdays'', opt_json (\<lambda>ds. JArr (map JInt ds)) (sch_weekdays s))]"

definition retention_json :: "retention \<Rightarrow> json" where
  "retention_json r = json_of
     [(''enabled'', Some (JBool (ret_enabled r))), (''preset'', Some (JStr (ret_preset r))),
      (''keepLast'', Some (JInt (keepLast r))), (''keepHourly'', Some (JInt (keepHourly r))),
      (''keepDaily'', Some (JInt (keepDaily r))), (''keepWeekly'', Some (JInt (keepWeekly r))),
      (''keepMonthly'', Some (JInt (keepMonthly r))),
      (''keepWithinDays'', Some (JInt (keepWithinDays r)))]"

definition or_null :: "('a \<Rightarrow> json) \<Rightarrow> 'a option \<Rightarrow> json" where
  "or_null f m = (case m of None \<Rightarrow> JNull | Some x \<Rightarrow> f x)"

definition str_list_json :: "string list \<Rightarrow> json" where
  "str_list_json xs = JArr (map JStr xs)"

section \<open>The endpoints\<close>

definition Status_get :: request where
  "Status_get = api_get ''/api/status''"

definition Auth_status :: request where
  "Auth_status = api_get ''/api/auth/status''"

definition Auth_setup :: "string \<Rightarrow> string \<Rightarrow> request" where
  "Auth_setup password setupToken = api_post ''/api/auth/setup''
     (Some (JObj [(''password'', JStr password), (''setupToken'', JStr setupToken)]))"

definition Auth_login :: "string \<Rightarrow> request" where
  "Auth_login password = api_post ''/api/auth/login'' (Some (JObj [(''password'', JStr password)]))"

definition Auth_logout :: request where
  "Auth_logout = api_post ''/api/auth/logout'' None"

definition Auth_changePassword :: "string \<Rightarrow> string \<Rightarrow> request" where
  "Auth_changePassword currentPassword newPassword = api_post ''/api/auth/password''
     (Some (JObj [(''currentPassword'', JStr currentPassword), (''newPassword'', JStr newPassword)]))"

definition repo_url :: "string \<Rightarrow> string \<Rightarrow> string" where
  "repo_url i rest = ''/api/repositories/'' @ i @ rest"

definition Repositories_list :: request where
  "Repositories_list = api_get ''/api/repositories''"

definition Repositories_get :: "string \<Rightarrow> request" where
  "Repositories_get i = api_get (repo_url i '''')"

definition Repositories_create :: "json \<Rightarrow> request" where
  "Repositories_create b = api_post ''/api/repositories'' (Some b)"

definition Repositories_update :: "string \<Rightarrow> json \<Rightarrow> request" where
  "Repositories_update i b = api_put (repo_url i '''') b"

definition Repositories_remove :: "string \<Rightarrow> request" where
  "Repositories_remove i = api_del (repo_url i '''')"

definition Repositories_test :: "string \<Rightarrow> request" where
  "Repositories_test i = api_post (repo_url i ''/test'') None"

definition Repositories_init :: "string \<Rightarrow> request" where
  "Repositories_init i = api_post (repo_url i ''/init'') None"

definition Repositories_unlock :: "string \<Rightarrow> request" where
  "Repositories_unlock i = api_post (repo_url i ''/unlock'') None"

definition Repositories_speedTest :: "string \<Rightarrow> int \<Rightarrow> request" where
  "Repositories_speedTest i sizeMB =
     api_post (repo_url i ''/speedtest'') (Some (JObj [(''sizeMB'', JInt sizeMB)]))"

definition Repositories_speedTests :: "string \<Rightarrow> nat \<Rightarrow> request" where
  "Repositories_speedTests i limit = api_get (repo_url i (''/speedtests?limit='' @ show_nat limit))"

definition Repositories_setCheckSchedule :: "string \<Rightarrow> json \<Rightarrow> request" where
  "Repositories_setCheckSchedule i s = api_put (repo_url i ''/check-schedule'') s"

definition Repositories_setSpeedLimit :: "string \<Rightarrow> json \<Rightarrow> request" where
  "Repositories_setSpeedLimit i limits = api_put (repo_url i ''/speed-limit'') limits"

definition Repositories_snapshots :: "string \<Rightarrow> request" where
  "Repositories_snapshots i = api_get (repo_url i ''/snapshots'')"

definition Repositories_restore ::
    "string \<Rightarrow> string \<Rightarrow> string \<Rightarrow> string list option \<Rightarrow> bool option \<Rightarrow> request" where
  "Repositories_restore i snapshotId target include stopContainers =
     api_post (repo_url i ''/restore'') (Some (json_of
       [(''snapshotId'', Some (JStr snapshotId)), (''target'', Some (JStr target)),
        (''include'', opt_json str_list_json include),
        (''stopContainers'', opt_json JBool stopContainers)]))"

definition Repositories_download :: "string \<Rightarrow> string \<Rightarrow> string list option \<Rightarrow> request" where
  "Repositories_download i snapshotId include =
     api_post (repo_url i ''/download'') (Some (json_of
       [(''snapshotId'', Some (JStr snapshotId)), (''include'', opt_json str_list_json include)]))"

definition Repositories_restoreDb :: "string \<Rightarrow> json \<Rightarrow> request" where
  "Repositories_restoreDb i b = api_post (repo_url i ''/restore-db'') (Some b)"

definition Repositories_files :: "string \<Rightarrow> string \<Rightarrow> string \<Rightarrow> request" where
  "Repositories_files i snapshotId path = api_get (repo_url i (''/snapshots/'' @
     encodeURIComponent snapshotId @ ''/ls?path='' @ encodeURIComponent path))"

definition Repositories_forget :: "string \<Rightarrow> string \<Rightarrow> request" where
  "Repositories_forget i snapshotId =
     api_post (repo_url i ''/forget'') (Some (JObj [(''snapshotId'', JStr snapshotId)]))"

definition Repositories_reset :: "string \<Rightarrow> request" where
  "Repositories_reset i = api_post (repo_url i ''/reset'') None"

definition Folders_list :: request where
  "Folders_list = api_get ''/api/folders''"

definition Folders_create :: "json \<Rightarrow> request" where
  "Folders_create b = api_post ''/api/folders'' (Some b)"

definition Folders_update :: "string \<Rightarrow> json \<Rightarrow> request" where
  "Folders_update i b = api_put (''/api/folders/'' @ i) b"

definition Folders_remove :: "string \<Rightarrow> request" where
  "Folders_remove i = api_del (''/api/folders/'' @ i)"

definition Databases_list :: request where
  "Databases_list = api_get ''/api/databases''"

definition Databases_create :: "json \<Rightarrow> request" where
  "Databases_create b = api_post ''/api/databases'' (Some b)"

definition Databases_update :: "string \<Rightarrow> json \<Rightarrow> request" where
  "Databases_update i b = api_put (''/api/databases/'' @ i) b"

definition Databases_remove :: "string \<Rightarrow> request" where
  "Databases_remove i = api_del (''/api/databases/'' @ i)"

definition Docker_status :: request where
  "Docker_status = api_get ''/api/docker/status''"

definition Docker_resources :: request where
  "Docker_resources = api_get ''/api/docker/resources''"

definition Docker_databases :: "string \<Rightarrow> request" where
  "Docker_databases container =
     api_get (''/api/docker/containers/'' @ encodeURIComponent container @ ''/databases'')"

definition Docker_containersUsing :: "string \<Rightarrow> request" where
  "Docker_containersUsing path =
     api_get (''/api/docker/containers-using?path='' @ encodeURIComponent path)"

definition Docker_createJob :: "json \<Rightarrow> request" where
  "Docker_createJob b = api_post ''/api/docker/jobs'' (Some b)"

definition Jobs_list :: request where
  "Jobs_list = api_get ''/api/jobs''"

definition Jobs_get :: "string \<Rightarrow> request" where
  "Jobs_get i = api_get (''/api/jobs/'' @ i)"

definition Jobs_create :: "json \<Rightarrow> request" where
  "Jobs_create b = api_post ''/api/jobs'' (Some b)"

text \<open>The object \<open>Jobs.save\<close> sends: the job's own fields, with \<open>changes\<close> spread over them.\<close>

definition job_fields :: "job \<Rightarrow> obj" where
  "job_fields j = [(''name'', Some (JStr (job_name j))), (''folderId'', opt_json JStr (job_folderId j)),
     (''databaseId'', opt_json JStr (job_databaseId j)),
     (''repositoryId'', Some (JStr (job_repositoryId j))),
     (''schedule'', Some (or_null schedule_json (job_schedule j))),
     (''retention'', Some (or_null retention_json (job_retention j)))]"

definition Jobs_save :: "job \<Rightarrow> obj \<Rightarrow> request" where
  "Jobs_save j changes = api_put (''/api/jobs/'' @ job_id j) (json_of (spread (job_fields j) changes))"

definition Jobs_remove :: "string \<Rightarrow> request" where
  "Jobs_remove i = api_del (''/api/jobs/'' @ i)"

definition Jobs_run :: "string \<Rightarrow> request" where
  "Jobs_run i = api_post (''/api/jobs/'' @ i @ ''/run'') None"

definition Jobs_retention :: "string \<Rightarrow> bool \<Rightarrow> request" where
  "Jobs_retention i dryRun =
     api_post (''/api/jobs/'' @ i @ ''/retention'') (Some (JObj [(''dryRun'', JBool dryRun)]))"

definition Jobs_forget :: "string \<Rightarrow> bool \<Rightarrow> request" where
  "Jobs_forget i deleteJob =
     api_post (''/api/jobs/'' @ i @ ''/forget'') (Some (JObj [(''deleteJob'', JBool deleteJob)]))"

definition Jobs_runs :: "string \<Rightarrow> params \<Rightarrow> request" where
  "Jobs_runs i ps = api_get (with_query (''/api/jobs/'' @ i @ ''/runs'') ps)"

definition Jobs_snapshots :: "string \<Rightarrow> request" where
  "Jobs_snapshots i = api_get (''/api/jobs/'' @ i @ ''/snapshots'')"

definition Runs_get :: "string \<Rightarrow> request" where
  "Runs_get i = api_get (''/api/runs/'' @ i)"

definition Runs_stop :: "string \<Rightarrow> request" where
  "Runs_stop i = api_post (''/api/runs/'' @ i @ ''/stop'') None"

definition Runs_log :: "string \<Rightarrow> nat \<Rightarrow> request" where
  "Runs_log i after = api_get (''/api/runs/'' @ i @ ''/log?after='' @ show_nat after)"

definition Runs_list :: "params \<Rightarrow> request" where
  "Runs_list ps = api_get (with_query ''/api/runs'' ps)"

definition Runs_downloadURL :: "string \<Rightarrow> string" where
  "Runs_downloadURL i = ''/api/runs/'' @ i @ ''/download''"

section \<open>Percent-encoding\<close>

text \<open>What the server reads back: \<open>decodeURIComponent\<close>.\<close>

definition hex_val :: "char \<Rightarrow> nat" where
  "hex_val c = (let n = of_char c in if n < 58 then n - 48 else n - 55)"

fun decodeURIComponent :: "string \<Rightarrow> string" where
  "decodeURIComponent (c # a # b # cs) = (if c = CHR ''%'' then char_of (16 * hex_val a + hex_val b) # decodeURIComponent cs
     else c # decodeURIComponent (a # b # cs))"
| "decodeURIComponent (c # cs) = c # decodeURIComponent cs"
| "decodeURIComponent [] = []"

lemma hex_val_hex_digit [simp]: "n < 16 \<Longrightarrow> hex_val (hex_digit n) = n"
  by (auto simp: hex_val_def hex_digit_def Let_def)

lemma of_char_hex: "16 * (of_char (c :: char) div 16) + of_char c mod 16 = (of_char c :: nat)"
  by simp

lemma of_char_div_16: "(of_char (c :: char) :: nat) div 16 < 16"
  by (rule less_mult_imp_div_less) simp

lemma decode_percent: "decodeURIComponent (percent c @ cs) = c # decodeURIComponent cs"
  by (simp add: percent_def of_char_div_16)

lemma decode_plain: "c \<noteq> CHR ''%'' \<Longrightarrow> decodeURIComponent (c # cs) = c # decodeURIComponent cs"
  by (cases cs; cases "tl cs") auto

lemma unreserved_not_percent: "uri_unreserved c \<Longrightarrow> c \<noteq> CHR ''%''"
  by (auto simp: uri_unreserved_def alnum_def in_range_def)

lemma encodeURIComponent_Cons:
  "encodeURIComponent (c # cs) = (if uri_unreserved c then [c] else percent c) @ encodeURIComponent cs"
  by (simp add: encodeURIComponent_def)

lemma decode_encode: "decodeURIComponent (encodeURIComponent s) = s"
proof (induction s)
  case Nil
  show ?case by (simp add: encodeURIComponent_def)
next
  case (Cons c cs)
  then show ?case
    by (cases "uri_unreserved c")
      (auto simp: encodeURIComponent_Cons decode_percent decode_plain unreserved_not_percent)
qed

definition url_delimiter :: "char \<Rightarrow> bool" where
  "url_delimiter c \<longleftrightarrow> c \<in> set ''/?#&=+ ''"

lemma hex_digit_alnum: "n < 16 \<Longrightarrow> alnum (hex_digit n)"
  by (auto simp: hex_digit_def alnum_def in_range_def)

lemma percent_chars: "x \<in> set (percent c) \<Longrightarrow> x = CHR ''%'' \<or> alnum x"
  by (auto simp: percent_def intro: hex_digit_alnum of_char_div_16)

lemma delimiter_reserved: "url_delimiter c \<Longrightarrow> \<not> uri_unreserved c \<and> c \<noteq> CHR ''%''"
  by (auto simp: url_delimiter_def uri_unreserved_def alnum_def in_range_def)

lemma encode_no_delimiter: "c \<in> set (encodeURIComponent s) \<Longrightarrow> \<not> url_delimiter c"
proof (induction s)
  case (Cons d ds)
  have "alnum c \<Longrightarrow> \<not> url_delimiter c"
    using delimiter_reserved [of c] by (auto simp: uri_unreserved_def)
  with Cons show ?case using delimiter_reserved [of c]
    by (auto simp: encodeURIComponent_Cons dest: percent_chars split: if_splits)
qed (simp add: encodeURIComponent_def)

section \<open>Properties\<close>

text \<open>
  The server splits a path at the slash and the query at the question mark: whatever the
  snapshot id and the path hold, the parts it reads back are the ones the file browser asked
  for.
\<close>

definition split_at :: "char \<Rightarrow> string \<Rightarrow> string \<times> string" where
  "split_at c s = (takeWhile (\<lambda>x. x \<noteq> c) s, drop 1 (dropWhile (\<lambda>x. x \<noteq> c) s))"

lemma split_at_append: "c \<notin> set xs \<Longrightarrow> split_at c (xs @ c # ys) = (xs, ys)"
  by (induction xs) (auto simp: split_at_def)

text \<open>
  C36. The URL of the snapshot file browser (\<open>Repositories.files\<close>) is read back unambiguously:
  splitting it at its question mark gives the repository's \<open>/snapshots/<id>/ls\<close> path
  and the query \<open>path=...\<close>, the encoded parts hold no delimiter, and decoding them returns
  exactly the snapshot id and the folder asked for, whatever they contain.
\<close>

theorem files_url_roundtrip:
  assumes "CHR ''?'' \<notin> set repo"
  shows "split_at (CHR ''?'') (q_url (Repositories_files repo sid path)) =
      (''/api/repositories/'' @ repo @ ''/snapshots/'' @ encodeURIComponent sid @ ''/ls'',
       ''path='' @ encodeURIComponent path)
    \<and> decodeURIComponent (encodeURIComponent sid) = sid
    \<and> decodeURIComponent (encodeURIComponent path) = path
    \<and> (\<forall>c \<in> set (encodeURIComponent sid @ encodeURIComponent path). \<not> url_delimiter c)"
proof -
  have "CHR ''?'' \<notin> set (encodeURIComponent sid)"
    using encode_no_delimiter [of "CHR ''?''" sid] by (auto simp: url_delimiter_def)
  with assms have "CHR ''?'' \<notin> set (''/api/repositories/'' @ repo @ ''/snapshots/'' @
      encodeURIComponent sid @ ''/ls'')" by simp
  from split_at_append [OF this, of "''path='' @ encodeURIComponent path"]
  show ?thesis
    by (auto simp: Repositories_files_def repo_url_def api_get_def decode_encode encode_no_delimiter)
qed

theorem files_url_roundtrip_witness:
  "split_at (CHR ''?'') (q_url (Repositories_files ''p1'' ''a/b'' ''/x?y=1 2'')) =
     (''/api/repositories/p1/snapshots/a%2Fb/ls'', ''path=%2Fx%3Fy%3D1%202'')"
proof -
  have e: "encodeURIComponent ''a/b'' = ''a%2Fb'' \<and>
      encodeURIComponent ''/x?y=1 2'' = ''%2Fx%3Fy%3D1%202''" by code_simp
  have "CHR ''?'' \<notin> set ''p1''" by simp
  from files_url_roundtrip [OF this, of "''a/b''" "''/x?y=1 2''"] e show ?thesis by simp
qed

lemma distinct_job_fields: "distinct (map fst (job_fields j))"
  by (simp add: job_fields_def)

text \<open>
  \<open>Jobs.save\<close> replaces a whole job without losing any of it: every field of the PUT
  body that \<open>changes\<close> does not mention is the job's own (its source among them, left out when
  absent), and a field it mentions is the last value given.
\<close>

theorem Jobs_save_preserves:
  "json_prop (the (q_body (Jobs_save j changes))) k =
     (case map_of (rev changes) k of
        Some v \<Rightarrow> v
      | None \<Rightarrow> Option.bind (map_of (job_fields j) k) id)
   \<and> q_url (Jobs_save j changes) = ''/api/jobs/'' @ job_id j \<and> q_method (Jobs_save j changes) = ''PUT''"
  by (simp add: Jobs_save_def api_put_def json_prop_json_of distinct_spread distinct_job_fields
      map_of_spread split: option.splits)

text \<open>
  \<open>Runs.list\<close> puts into the query exactly the parameters that are set: a parameter
  that is undefined, null or the empty string never reaches the server, the others keep their
  order, and with none set the URL has no query at all.
\<close>

theorem Runs_list_params:
  "set_params ps = map (\<lambda>(k, v). (k, the v)) (filter (\<lambda>(k, v). v \<noteq> None \<and> v \<noteq> Some '''') ps)
   \<and> q_url (Runs_list ps) = (if set_params ps = [] then ''/api/runs'' else
        ''/api/runs?'' @ join ''&'' (map (\<lambda>(k, v). form_encode k @ ''='' @ form_encode v) (set_params ps)))"
proof
  show "set_params ps = map (\<lambda>(k, v). (k, the v)) (filter (\<lambda>(k, v). v \<noteq> None \<and> v \<noteq> Some '''') ps)"
    by (induction ps rule: set_params.induct) (auto split: option.splits)
  show "q_url (Runs_list ps) = (if set_params ps = [] then ''/api/runs'' else
        ''/api/runs?'' @ join ''&'' (map (\<lambda>(k, v). form_encode k @ ''='' @ form_encode v) (set_params ps)))"
    by (cases "set_params ps")
      (auto simp: Runs_list_def api_get_def with_query_def query_string_def join_Nil_iff Let_def)
qed

end
