(* ===== verification/Format.thy ===== *)
theory Format
  imports Model
begin

text \<open>
  \<open>src/ui/src/lib/format.js\<close> and \<open>speed.js\<close>: sizes, durations, relative times and
  speeds as text. Byte counts are the integers the server sends; everything derived from them by
  division is the exact rational.
\<close>

section \<open>Sizes\<close>

definition byte_units :: "string list" where
  "byte_units = [''KB'', ''MB'', ''GB'', ''TB'', ''PB'']"

text \<open>The \<open>do ... while\<close> loop: \<open>i\<close> is the index after the increment of this round.\<close>

function scale :: "rat \<Rightarrow> nat \<Rightarrow> rat \<times> nat" where
  "scale n i = (let n' = n / 1024
     in if n' \<ge> 1024 \<and> i < length byte_units - 1 then scale n' (Suc i) else (n', i))"
  by pat_completeness auto
termination
  by (relation "measure (\<lambda>(n, i). length byte_units - i)") auto

declare scale.simps [simp del]

definition fmtBytes :: "int \<Rightarrow> string" where
  "fmtBytes n = (if n < 1024 then show_int n @ '' B''
     else let (v, i) = scale (of_int n) 0
          in to_fixed (if v < 10 then 2 else 1) v @ '' '' @ byte_units ! i)"

lemma length_byte_units [simp]: "length byte_units = 5"
  by (simp add: byte_units_def)

lemma scale_exact:
  assumes "i \<le> 4" and "scale n i = (v, j)"
  shows "v * 1024 ^ (Suc j - i) = n \<and> i \<le> j \<and> j \<le> 4"
  using assms
proof (induction n i arbitrary: v j rule: scale.induct)
  case (1 n i)
  show ?case
  proof (cases "n / 1024 \<ge> 1024 \<and> i < 4")
    case True
    with 1(3) have "scale (n / 1024) (Suc i) = (v, j)" by (simp add: scale.simps [of n i] Let_def)
    with True have *: "v * 1024 ^ (Suc j - Suc i) = n / 1024" "Suc i \<le> j \<and> j \<le> 4"
      using 1(1) [OF refl] by auto
    have "Suc j - i = Suc (Suc j - Suc i)" using *(2) by arith
    then have "v * 1024 ^ (Suc j - i) = (v * 1024 ^ (Suc j - Suc i)) * 1024" by simp
    also have "\<dots> = n" unfolding *(1) by simp
    finally show ?thesis using *(2) by simp
  next
    case False
    with 1 show ?thesis by (auto simp: scale.simps [of n i] Let_def)
  qed
qed

lemma scale_range:
  assumes "1024 \<le> n" and "scale n i = (v, j)"
  shows "1 \<le> v \<and> (v < 1024 \<or> 4 \<le> j)"
  using assms
proof (induction n i arbitrary: v j rule: scale.induct)
  case (1 n i)
  show ?case
  proof (cases "n / 1024 \<ge> 1024 \<and> i < 4")
    case True
    with 1(3) have "scale (n / 1024) (Suc i) = (v, j)" by (simp add: scale.simps [of n i] Let_def)
    with True show ?thesis using 1(1) [OF refl] by simp
  next
    case False
    with 1 show ?thesis by (auto simp: scale.simps [of n i] Let_def)
  qed
qed

text \<open>
  \<open>fmtBytes\<close> picks the right unit: from 1024 bytes up, the number it prints is the
  exact size divided by the power of 1024 its unit stands for, it is at least 1, and it is below
  1024 unless the unit is the largest one; below 1024 the count is printed as it is.
\<close>

theorem fmtBytes_unit:
  assumes "1024 \<le> n"
  shows "\<exists>v i. i < length byte_units \<and> of_int n = v * 1024 ^ Suc i \<and> 1 \<le> v \<and> (v < 1024 \<or> i = 4)
    \<and> fmtBytes n = to_fixed (if v < 10 then 2 else 1) v @ '' '' @ byte_units ! i"
proof -
  obtain v i where s: "scale (of_int n) 0 = (v, i)" by (cases "scale (of_int n) 0")
  from scale_exact [OF _ s] have "v * 1024 ^ Suc i = of_int n" "i \<le> 4" by simp_all
  moreover have "(1024 :: rat) \<le> of_int n" using assms by simp
  with scale_range [OF _ s] have "1 \<le> v" "v < 1024 \<or> i = 4" using \<open>i \<le> 4\<close> by auto
  ultimately show ?thesis using assms s
    by (intro exI [of _ v] exI [of _ i]) (simp add: fmtBytes_def)
qed

theorem fmtBytes_unit_witness: "\<exists>v i. fmtBytes 1536 = to_fixed (if v < (10::rat) then 2 else 1) v @ '' '' @ byte_units ! i \<and> v * 1024 ^ Suc i = 1536"
proof -
  have "(1024 :: int) \<le> 1536" by simp
  from fmtBytes_unit [OF this] show ?thesis by (metis of_int_numeral)
qed

section \<open>Durations\<close>

text \<open>\<open>Math.floor(sec / 60)\<close> and \<open>Math.round(sec % 60)\<close>, for a non-negative number.\<close>

definition whole_minutes :: "rat \<Rightarrow> int" where
  "whole_minutes sec = \<lfloor>sec / 60\<rfloor>"

definition rest_seconds :: "rat \<Rightarrow> int" where
  "rest_seconds sec = js_round (sec - 60 * of_int \<lfloor>sec / 60\<rfloor>)"

definition fmtDur :: "rat \<Rightarrow> string" where
  "fmtDur sec = (if sec < 60 then to_fixed 1 sec @ ''s''
     else let m = whole_minutes sec; s = rest_seconds sec
          in if m < 60 then show_int m @ ''m '' @ show_int s @ ''s''
             else show_int (m div 60) @ ''h '' @ show_int (m mod 60) @ ''m'')"

lemma js_round_bounds: "of_int (js_round x) - 1 / 2 \<le> x \<and> x < of_int (js_round x) + 1 / 2"
  unfolding js_round_def by linarith

lemma rest_bounds:
  "0 \<le> sec - 60 * of_int \<lfloor>sec / 60\<rfloor>" "sec - 60 * of_int \<lfloor>sec / 60\<rfloor> < (60 :: rat)"
  using floor_correct [of "sec / 60"] by (auto simp: field_simps)

text \<open>
  A duration under an hour is printed as minutes and seconds that are within half a second of
  it; the seconds lie between 0 and 60, and they read 60, a minute too few and a second value
  no clock shows, exactly when less than half a second is missing to the next minute.
\<close>

theorem fmtDur_minutes:
  assumes "60 \<le> sec" and "sec < 3600"
  shows "fmtDur sec = show_int (whole_minutes sec) @ ''m '' @ show_int (rest_seconds sec) @ ''s''
    \<and> 1 \<le> whole_minutes sec \<and> whole_minutes sec < 60
    \<and> \<bar>of_int (60 * whole_minutes sec + rest_seconds sec) - sec\<bar> \<le> 1 / 2
    \<and> 0 \<le> rest_seconds sec \<and> rest_seconds sec \<le> 60
    \<and> (rest_seconds sec = 60 \<longleftrightarrow> 59 + 1 / 2 \<le> sec - 60 * of_int (whole_minutes sec))"
proof -
  let ?m = "whole_minutes sec" and ?s = "rest_seconds sec"
  have m: "1 \<le> ?m" "?m < 60"
    using assms by (auto simp: whole_minutes_def le_floor_iff floor_less_iff)
  have r: "0 \<le> sec - 60 * of_int ?m" "sec - 60 * of_int ?m < 60"
    using rest_bounds [of sec] by (simp_all add: whole_minutes_def)
  have s: "of_int ?s - 1 / 2 \<le> sec - 60 * of_int ?m" "sec - 60 * of_int ?m < of_int ?s + 1 / 2"
    using js_round_bounds [of "sec - 60 * of_int ?m"]
    by (simp_all add: rest_seconds_def whole_minutes_def)
  have "(-1 :: rat) < of_int ?s" "of_int ?s < (61 :: rat)" using r s by linarith+
  then have b: "0 \<le> ?s" "?s \<le> 60" by linarith+
  have e: "?s = 60 \<longleftrightarrow> 59 + 1 / 2 \<le> sec - 60 * of_int ?m"
  proof
    assume "?s = 60"
    then show "59 + 1 / 2 \<le> sec - 60 * of_int ?m" using s(1) by simp
  next
    assume "59 + 1 / 2 \<le> sec - 60 * of_int ?m"
    then have "(59 :: rat) < of_int ?s" using s(2) by linarith
    then show "?s = 60" using b by linarith
  qed
  have a: "\<bar>of_int (60 * ?m + ?s) - sec\<bar> \<le> 1 / 2" unfolding abs_le_iff using s by simp
  have f: "fmtDur sec = show_int ?m @ ''m '' @ show_int ?s @ ''s''"
    using assms m by (simp add: fmtDur_def Let_def)
  show ?thesis using m b e a f by blast
qed

theorem fmtDur_minutes_witness: "rest_seconds (1197 / 10) = 60 \<and> fmtDur (1197 / 10) = ''1m 60s''"
proof -
  have m: "whole_minutes (1197 / 10) = 1" by (simp add: whole_minutes_def floor_eq_iff)
  have "(60 :: rat) \<le> 1197 / 10" "1197 / 10 < (3600 :: rat)" by simp_all
  note t = fmtDur_minutes [OF this]
  then have "rest_seconds (1197 / 10) = 60" using m by simp
  then show ?thesis using t m by (simp add: show_int_def show_nat_def)
qed

section \<open>Times\<close>

definition fmtTime :: "env \<Rightarrow> string \<Rightarrow> string" where
  "fmtTime e ts = (if ts = '''' then em_dash
     else case env_parse e ts of None \<Rightarrow> ts | Some t \<Rightarrow> env_localeString e t)"

definition fmtRelative :: "env \<Rightarrow> string \<Rightarrow> string" where
  "fmtRelative e ts = (if ts = '''' then em_dash
     else case env_parse e ts of None \<Rightarrow> ts
     | Some t \<Rightarrow>
         let diff = of_int (env_now e - t) / (1000 :: rat); a = \<bar>diff\<bar>;
             suffix = (if diff \<ge> 0 then '' ago'' else ''''); prefix = (if diff < 0 then ''in '' else '''');
             say = (\<lambda>unit u. prefix @ show_int (js_round (a / unit)) @ u @ suffix)
         in if a < 10 then (if diff < 0 then ''soon'' else ''just now'')
            else if a < 60 then say 1 ''s''
            else if a < 3600 then say 60 ''m''
            else if a < 86400 then say 3600 ''h''
            else if a < 7 * 86400 then say 86400 ''d''
            else env_localeDate e t)"

text \<open>
  \<open>runDuration\<close> of a run that started and maybe finished. An unreadable date makes the
  difference \<open>NaN\<close>, which \<open>Math.max\<close> passes on and \<open>fmtDur\<close> turns into 0.
\<close>

definition runDuration :: "env \<Rightarrow> run option \<Rightarrow> string" where
  "runDuration e r = (case r of None \<Rightarrow> em_dash
     | Some r \<Rightarrow> if run_startedAt r = '''' then em_dash
         else let start = env_parse e (run_startedAt r);
                  stop = (if run_finishedAt r \<noteq> '''' then env_parse e (run_finishedAt r)
                          else Some (env_now e))
              in case (start, stop) of
                   (Some a, Some b) \<Rightarrow> fmtDur (max 0 (of_int (b - a) / 1000))
                 | _ \<Rightarrow> fmtDur 0)"

definition shortId :: "string \<Rightarrow> string" where
  "shortId i = take 8 i"

definition fmtCount :: "env \<Rightarrow> int \<Rightarrow> string" where
  "fmtCount e n = env_number e n"

definition repoLocation :: "repository option \<Rightarrow> string" where
  "repoLocation repo = (case repo of None \<Rightarrow> ''''
     | Some r \<Rightarrow> if repo_backendType r = ''S3''
         then join ''/'' (filter (\<lambda>s. s \<noteq> '''') [repo_endpoint r, repo_bucket r])
         else repo_localPath r)"

section \<open>Speeds\<close>

definition fmtSpeed :: "rat \<Rightarrow> string" where
  "fmtSpeed bps = fmtBytes (js_round bps) @ ''/s''"

definition speedTone :: "int \<Rightarrow> string" where
  "speedTone score = (if score \<ge> 60 then ''success'' else if score \<ge> 40 then ''warning'' else ''destructive'')"

definition estimateSeconds :: "int \<Rightarrow> rat \<Rightarrow> rat \<Rightarrow> rat option" where
  "estimateSeconds bytes bps overheadSeconds =
     (if bps = 0 then None else Some (overheadSeconds + of_int bytes / bps))"

definition fmtEstimate :: "rat option \<Rightarrow> string" where
  "fmtEstimate sec = (case sec of None \<Rightarrow> em_dash
     | Some s \<Rightarrow>
         if s < 60 then ''about '' @ show_int (max 1 (js_round s)) @ '' s''
         else if s < 3600 then ''about '' @ show_int (js_round (s / 60)) @ '' min''
         else let h = s / 3600
              in ''about '' @ (if h < 10 then to_fixed 1 h else show_int (js_round h)) @ '' h'')"

definition speedSummary :: "speed_test option \<Rightarrow> string option" where
  "speedSummary sp = (case sp of None \<Rightarrow> None
     | Some s \<Rightarrow> Some (''Score '' @ show_int (sp_score s) @ '' '' @ middot @ '' '' @ sp_rating s @
         '' '' @ middot @ '' up '' @ fmtSpeed (sp_uploadBytesPerSec s) @
         '' '' @ middot @ '' down '' @ fmtSpeed (sp_downloadBytesPerSec s)))"

end
