(* ===== verification/Pagination.thy ===== *)
theory Pagination
  imports Prelude
begin

text \<open>
  \<open>src/ui/src/lib/pagination.js\<close>: one page of an in-memory list, and the range line that
  \<open>components/pagination.jsx\<close> prints under it. Pages count from 1; both functions clamp a page
  that is out of range.
\<close>

definition PAGE_SIZE :: int where
  "PAGE_SIZE = 100"

record 'a page_slice =
  pg_items :: "'a list"
  pg_page :: int
  pg_totalPages :: int
  pg_total :: int
  pg_size :: int

text \<open>\<open>Math.ceil(a / b)\<close> of integers, \<open>b\<close> positive.\<close>

definition ceil_div :: "int \<Rightarrow> int \<Rightarrow> int" where
  "ceil_div a b = - ((- a) div b)"

definition pageSlice :: "'a list option \<Rightarrow> int \<Rightarrow> int \<Rightarrow> 'a page_slice" where
  "pageSlice items page pageSize =
     (let xs = (case items of None \<Rightarrow> [] | Some xs \<Rightarrow> xs);
          size = max 1 pageSize;
          totalPages = max 1 (ceil_div (int (length xs)) size);
          safePage = min (max 1 page) totalPages;
          start = (safePage - 1) * size
      in \<lparr>pg_items = take (nat size) (drop (nat start) xs), pg_page = safePage,
          pg_totalPages = totalPages, pg_total = int (length xs), pg_size = size\<rparr>)"

text \<open>The numbers \<open>ListPagination\<close> derives from \<open>page\<close>, \<open>pageSize\<close> and \<open>total\<close>.\<close>

record page_range =
  rg_totalPages :: int
  rg_safePage :: int
  rg_from :: int
  rg_to :: int

definition page_range :: "int \<Rightarrow> int \<Rightarrow> int \<Rightarrow> page_range" where
  "page_range page pageSize tot =
     (let totalPages = max 1 (ceil_div tot pageSize);
          safePage = min (max 1 page) totalPages
      in \<lparr>rg_totalPages = totalPages, rg_safePage = safePage,
          rg_from = (safePage - 1) * pageSize + 1, rg_to = min (safePage * pageSize) tot\<rparr>)"

section \<open>Facts about the page count\<close>

lemma ceil_div_bounds:
  assumes "0 < b"
  shows "(ceil_div a b - 1) * b < a" "a \<le> ceil_div a b * b"
proof -
  define q where "q = (- a) div b"
  have "- a = b * q + (- a) mod b" by (simp add: q_def)
  moreover have "0 \<le> (- a) mod b" "(- a) mod b < b" using assms by simp_all
  ultimately have "b * q \<le> - a" "- a < b * q + b" by linarith+
  then show "(ceil_div a b - 1) * b < a" "a \<le> ceil_div a b * b"
    by (simp_all add: ceil_div_def flip: q_def) (simp_all add: algebra_simps)
qed

lemma ceil_div_pos:
  assumes "0 < b" "0 < a"
  shows "1 \<le> ceil_div a b"
proof (rule ccontr)
  assume "\<not> 1 \<le> ceil_div a b"
  then have "ceil_div a b * b \<le> 0" using assms(1) by (simp add: mult_le_0_iff)
  with ceil_div_bounds(2) [OF assms(1), of a] assms(2) show False by linarith
qed

text \<open>Every page before the last starts inside the list, and the last page reaches its end.\<close>

lemma last_page_start: "0 < b \<Longrightarrow> 0 < a \<Longrightarrow> p \<le> max 1 (ceil_div a b) \<Longrightarrow> (p - 1) * b < a"
proof -
  assume b: "0 < b" and a: "0 < a" and p: "p \<le> max 1 (ceil_div a b)"
  with ceil_div_pos [OF b a] have "p \<le> ceil_div a b" by simp
  then have "(p - 1) * b \<le> (ceil_div a b - 1) * b" using b by simp
  also have "\<dots> < a" by (rule ceil_div_bounds [OF b])
  finally show ?thesis .
qed

lemma pages_reach_end: "0 < b \<Longrightarrow> a \<le> max 1 (ceil_div a b) * b"
proof -
  assume b: "0 < b"
  have "ceil_div a b * b \<le> max 1 (ceil_div a b) * b" using b by simp
  with ceil_div_bounds(2) [OF b, of a] show ?thesis by linarith
qed

lemma pageSlice_fields [simp]:
  "pg_total (pageSlice (Some xs) p n) = int (length xs)"
  "pg_size (pageSlice (Some xs) p n) = max 1 n"
  "pg_totalPages (pageSlice (Some xs) p n) = max 1 (ceil_div (int (length xs)) (max 1 n))"
  "pg_page (pageSlice (Some xs) p n) = min (max 1 p) (max 1 (ceil_div (int (length xs)) (max 1 n)))"
  by (simp_all add: pageSlice_def Let_def)

lemma pageSlice_items:
  "pg_items (pageSlice (Some xs) p n) =
     take (nat (max 1 n)) (drop (nat ((pg_page (pageSlice (Some xs) p n) - 1) * max 1 n)) xs)"
  by (simp only: pageSlice_def Let_def option.case page_slice.simps)

lemma take_drop_range:
  assumes "0 \<le> a" and "0 \<le> n"
  shows "take (nat n) (drop (nat a) xs) = map (nth xs) [nat a..<nat (min (a + n) (int (length xs)))]"
proof -
  have "take k (drop i xs) = map (nth xs) [i..<min (i + k) (length xs)]" for i k
    by (rule nth_equalityI) auto
  moreover have "min (nat a + nat n) (length xs) = nat (min (a + n) (int (length xs)))"
    using assms by (auto simp: min_def nat_add_distrib)
  ultimately show ?thesis by simp
qed

text \<open>
  Paging loses and repeats nothing: the pages 1 to \<open>totalPages\<close> of a list, put one after
  another, are the list.
\<close>

theorem pageSlice_partition:
  "concat (map (\<lambda>k. pg_items (pageSlice (Some xs) (int k + 1) n))
     [0..<nat (pg_totalPages (pageSlice (Some xs) 1 n))]) = xs"
proof -
  define b where "b = max 1 n"
  define t where "t = max 1 (ceil_div (int (length xs)) b)"
  have page: "pg_items (pageSlice (Some xs) (int k + 1) n) = take (nat b) (drop (k * nat b) xs)"
    if "k < nat t" for k
  proof -
    have "pg_page (pageSlice (Some xs) (int k + 1) n) = int k + 1"
      unfolding pageSlice_fields b_def [symmetric] t_def [symmetric] using that by linarith
    moreover have "nat (int k * b) = k * nat b" by (simp add: nat_mult_distrib)
    ultimately show ?thesis by (simp add: pageSlice_items flip: b_def)
  qed
  have "int (length xs) \<le> t * b" unfolding t_def by (rule pages_reach_end) (simp add: b_def)
  then have "nat (int (length xs)) \<le> nat (t * b)" by (rule nat_mono)
  then have len: "length xs \<le> nat t * nat b" by (simp add: nat_mult_distrib t_def)
  have "concat (map (\<lambda>k. pg_items (pageSlice (Some xs) (int k + 1) n)) [0..<nat t])
      = concat (map (\<lambda>k. take (nat b) (drop (k * nat b) xs)) [0..<nat t])"
    using page by (intro arg_cong [where f = concat] map_cong) auto
  also have "\<dots> = xs" using len by (simp add: concat_blocks)
  finally show ?thesis by (simp add: t_def b_def)
qed

text \<open>
  The range line agrees with the page it stands under: for a non-empty list and a page size of
  at least 1, \<open>ListPagination\<close> clamps to the same page as \<open>pageSlice\<close>, its
  first and last numbers are the positions of the page's first and last item, and the page is
  never empty, whatever page was asked for.
\<close>

theorem page_range_matches_slice:
  assumes "xs \<noteq> []" and "1 \<le> n"
  shows "rg_safePage (page_range p n (int (length xs))) = pg_page (pageSlice (Some xs) p n)
    \<and> pg_items (pageSlice (Some xs) p n) \<noteq> []
    \<and> pg_items (pageSlice (Some xs) p n) =
        map (nth xs) [nat (rg_from (page_range p n (int (length xs))) - 1)..<nat (rg_to (page_range p n (int (length xs))))]"
proof -
  have n: "max 1 n = n" using assms by simp
  define t where "t = max 1 (ceil_div (int (length xs)) n)"
  define s where "s = min (max 1 p) t"
  define a where "a = (s - 1) * n"
  have s: "1 \<le> s" "s \<le> t" by (simp_all add: s_def t_def)
  then have a0: "0 \<le> a" using assms(2) by (simp add: a_def)
  have a1: "a < int (length xs)"
    unfolding a_def by (rule last_page_start) (use assms s t_def in auto)
  have sn: "s * n = a + n" by (simp add: a_def algebra_simps)
  have page: "pg_page (pageSlice (Some xs) p n) = s" by (simp only: pageSlice_fields n s_def t_def)
  have items: "pg_items (pageSlice (Some xs) p n) = map (nth xs) [nat a..<nat (min (a + n) (int (length xs)))]"
    unfolding pageSlice_items page n using take_drop_range [OF a0, of n xs] assms(2)
    by (simp flip: a_def)
  have "pg_items (pageSlice (Some xs) p n) \<noteq> []"
    using items a0 a1 assms by auto
  moreover have "page_range p n (int (length xs)) =
      \<lparr>rg_totalPages = t, rg_safePage = s, rg_from = a + 1, rg_to = min (a + n) (int (length xs))\<rparr>"
    by (simp only: page_range_def Let_def flip: t_def s_def a_def sn)
  ultimately show ?thesis using items page by (simp only: page_range.simps add_diff_cancel_right') simp
qed

theorem page_range_matches_slice_witness:
  "pg_items (pageSlice (Some [10, 20, 30, 40, 50 :: int]) 9 2) = [50]
   \<and> rg_from (page_range 9 2 5) = 5 \<and> rg_to (page_range 9 2 5) = 5"
proof -
  have r: "rg_from (page_range 9 2 5) = 5" "rg_to (page_range 9 2 5) = 5"
    by (simp_all add: page_range_def ceil_div_def Let_def)
  have "[10, 20, 30, 40, 50 :: int] \<noteq> []" "(1 :: int) \<le> 2" by simp_all
  from page_range_matches_slice [OF this, of 9] r show ?thesis by (simp add: upt_rec)
qed

end
