(* ===== verification/RunStatus.thy ===== *)
theory RunStatus
  imports Model
begin

text \<open>
  \<open>src/ui/src/lib/runs.js\<close>: what a run status and a run kind are called, which colour they
  wear and whether they count as active. The tables are the object literals of the file; indexing
  one with an unknown key gives \<open>undefined\<close>, here \<open>None\<close>.
\<close>

type_synonym table = "(string \<times> string) list"

definition lookup :: "table \<Rightarrow> string \<Rightarrow> string option" where
  "lookup t k = map_of t k"

text \<open>\<open>TABLE[k] || d\<close>\<close>

definition lookup_or :: "table \<Rightarrow> string \<Rightarrow> string \<Rightarrow> string" where
  "lookup_or t k d = (case map_of t k of None \<Rightarrow> d | Some v \<Rightarrow> str_or v d)"

definition ACTIVE_STATUSES :: "string list" where
  "ACTIVE_STATUSES = [''starting'', ''running'']"

definition isActive :: "string \<Rightarrow> bool" where
  "isActive status \<longleftrightarrow> status \<in> set ACTIVE_STATUSES"

definition STATUS_LABEL :: table where
  "STATUS_LABEL = [(''starting'', ''Starting''), (''running'', ''Running''), (''success'', ''Success''),
     (''success_warnings'', ''Warnings''), (''failed'', ''Failed''), (''canceled'', ''Stopped''),
     (''interrupted'', ''Interrupted'')]"

definition STATUS_VARIANT :: table where
  "STATUS_VARIANT = [(''starting'', ''running''), (''running'', ''running''), (''success'', ''success''),
     (''success_warnings'', ''warning''), (''failed'', ''destructive''),
     (''interrupted'', ''destructive''), (''canceled'', ''secondary'')]"

definition STATUS_FILL :: table where
  "STATUS_FILL = [(''starting'', ''bg-running''), (''running'', ''bg-running''),
     (''success'', ''bg-success''), (''success_warnings'', ''bg-warning''),
     (''failed'', ''bg-destructive''), (''interrupted'', ''bg-destructive''),
     (''canceled'', ''bg-muted-foreground/45'')]"

definition STATUS_TEXT :: table where
  "STATUS_TEXT = [(''starting'', ''text-running''), (''running'', ''text-running''),
     (''success'', ''text-success''), (''success_warnings'', ''text-warning''),
     (''failed'', ''text-destructive''), (''interrupted'', ''text-destructive''),
     (''canceled'', ''text-muted-foreground'')]"

definition STATUS_PHASE :: table where
  "STATUS_PHASE = [(''starting'', ''Starting'' @ ellipsis), (''running'', ''Running'' @ ellipsis),
     (''success'', ''Complete''), (''success_warnings'', ''Complete, with warnings''),
     (''failed'', ''Failed''), (''canceled'', ''Stopped''), (''interrupted'', ''Interrupted'')]"

definition KIND_LABEL :: table where
  "KIND_LABEL = [(''backup'', ''Backup''), (''restore'', ''Restore''), (''init'', ''Initialize''),
     (''download'', ''Download''), (''unlock'', ''Unlock''), (''retention'', ''Retention''),
     (''forget'', ''Forget''), (''check'', ''Check''), (''restore_db'', ''Database restore''),
     (''speedtest'', ''Speed test'')]"

definition statusLabel :: "string \<Rightarrow> string" where
  "statusLabel status = lookup_or STATUS_LABEL status (str_or status em_dash)"

definition kindLabel :: "string \<Rightarrow> string" where
  "kindLabel kind = lookup_or KIND_LABEL kind (str_or kind em_dash)"

definition displayPercent :: "run option \<Rightarrow> rat" where
  "displayPercent r = (case r of None \<Rightarrow> 0
     | Some r \<Rightarrow> if run_status r = ''success'' \<or> run_status r = ''success_warnings'' then 100
         else let p = (case run_progress r of None \<Rightarrow> 0 | Some p \<Rightarrow> p_percent p)
              in max 0 (min 100 (p * 100)))"

section \<open>The server's vocabulary\<close>

text \<open>The \<open>RunStatus\<close> and \<open>RunKind\<close> constants of \<open>src/internal/core/model.go\<close>.\<close>

definition go_run_statuses :: "string list" where
  "go_run_statuses = [''starting'', ''running'', ''success'', ''success_warnings'', ''failed'',
     ''canceled'', ''interrupted'']"

definition go_run_kinds :: "string list" where
  "go_run_kinds = [''backup'', ''restore'', ''init'', ''download'', ''unlock'', ''retention'', ''forget'',
     ''check'', ''restore_db'', ''speedtest'']"

definition go_terminal :: "string \<Rightarrow> bool" where
  "go_terminal s \<longleftrightarrow> s \<in> {''success'', ''success_warnings'', ''failed'', ''canceled'', ''interrupted''}"

lemmas status_tables = STATUS_LABEL_def STATUS_VARIANT_def STATUS_FILL_def STATUS_TEXT_def
  STATUS_PHASE_def KIND_LABEL_def ACTIVE_STATUSES_def go_run_statuses_def go_run_kinds_def

section \<open>Properties\<close>

text \<open>
  The UI knows the server's whole vocabulary: each of its status tables has exactly the
  server's seven statuses as keys and the kind table exactly its ten kinds, no label is empty, and
  a status of the server is active in the UI exactly when it is not terminal on the server, which
  is exactly when its badge is the running one.
\<close>

theorem status_vocabulary_complete:
  "list_all (\<lambda>t. set (map fst t) = set go_run_statuses \<and> distinct (map fst t) \<and> '''' \<notin> set (map snd t))
     [STATUS_LABEL, STATUS_VARIANT, STATUS_FILL, STATUS_TEXT, STATUS_PHASE]
   \<and> set (map fst KIND_LABEL) = set go_run_kinds \<and> '''' \<notin> set (map snd KIND_LABEL)
   \<and> list_all (\<lambda>s. isActive s = (\<not> go_terminal s) \<and> isActive s = (lookup STATUS_VARIANT s = Some ''running''))
       go_run_statuses"
  by code_simp

text \<open>
  The percentage shown for a run always lies between 0 and 100, and a run that finished
  successfully reads 100 whatever its last progress report said.
\<close>

theorem displayPercent_bounds:
  "0 \<le> displayPercent (Some r) \<and> displayPercent (Some r) \<le> 100
   \<and> displayPercent (Some (r\<lparr>run_status := ''success''\<rparr>)) = 100
   \<and> displayPercent (Some (r\<lparr>run_status := ''success_warnings''\<rparr>)) = 100"
  by (auto simp: displayPercent_def Let_def max_def)

end
