(* ===== verification/Schedule.thy ===== *)
theory Schedule
  imports Model
begin

text \<open>
  \<open>src/ui/src/lib/schedule.js\<close>: the automatic-backup schedule of a job as text, as an editable
  form and as the object sent to the API; and the Go \<open>JobSchedule.Describe\<close> its text must
  match.
\<close>

record weekday =
  wd_value :: int
  wd_label :: string
  wd_short :: string

definition WEEKDAYS :: "weekday list" where
  "WEEKDAYS =
     [\<lparr>wd_value = 0, wd_label = ''Sun'', wd_short = ''S''\<rparr>, \<lparr>wd_value = 1, wd_label = ''Mon'', wd_short = ''M''\<rparr>,
      \<lparr>wd_value = 2, wd_label = ''Tue'', wd_short = ''T''\<rparr>, \<lparr>wd_value = 3, wd_label = ''Wed'', wd_short = ''W''\<rparr>,
      \<lparr>wd_value = 4, wd_label = ''Thu'', wd_short = ''T''\<rparr>, \<lparr>wd_value = 5, wd_label = ''Fri'', wd_short = ''F''\<rparr>,
      \<lparr>wd_value = 6, wd_label = ''Sat'', wd_short = ''S''\<rparr>]"

definition describeSchedule :: "schedule option \<Rightarrow> string" where
  "describeSchedule s = (case s of None \<Rightarrow> ''''
     | Some s \<Rightarrow>
         if sch_kind s = ''hourly'' then ''hourly''
         else if sch_kind s = ''every'' then ''every '' @ trim (ostr_or (sch_every s) '''')
         else if sch_kind s = ''daily'' then ''daily at '' @ trim (ostr_or (sch_at s) '''')
         else if sch_kind s = ''weekly'' then
           let names = map wd_label WEEKDAYS;
               days = (case sch_weekdays s of None \<Rightarrow> [] | Some ds \<Rightarrow> ds);
               parts = map (\<lambda>d. names ! nat d) (filter (\<lambda>d. d \<ge> 0 \<and> d < int (length names)) days)
           in ''weekly on '' @ join '', '' parts @ '' at '' @ trim (ostr_or (sch_at s) '''')
         else sch_kind s)"

definition describeScheduleTitle :: "schedule option \<Rightarrow> string" where
  "describeScheduleTitle s = (let d = describeSchedule s in if d = '''' then '''' else capitalize d)"

record schedule_form =
  sf_enabled :: bool
  sf_kind :: string
  sf_every :: string
  sf_at :: string
  sf_weekdays :: "int list"

definition scheduleFormFromJob :: "job option \<Rightarrow> schedule_form" where
  "scheduleFormFromJob j = (let s = Option.bind j job_schedule in
     \<lparr>sf_enabled = (case s of None \<Rightarrow> False | Some s \<Rightarrow> sch_enabled s),
      sf_kind = opt_str sch_kind s ''daily'',
      sf_every = ostr_or (Option.bind s sch_every) ''6h'',
      sf_at = ostr_or (Option.bind s sch_at) ''02:00'',
      sf_weekdays = (case Option.bind s sch_weekdays of None \<Rightarrow> [1]
        | Some ds \<Rightarrow> if ds \<noteq> [] then ds else [1])\<rparr>)"

definition schedulePayload :: "schedule_form option \<Rightarrow> schedule option" where
  "schedulePayload form = (case form of None \<Rightarrow> None
     | Some f \<Rightarrow>
         let kind = str_or (sf_kind f) ''daily'';
             base = \<lparr>sch_enabled = sf_enabled f, sch_kind = kind, sch_every = None, sch_at = None,
                     sch_weekdays = None\<rparr>
         in if kind = ''every'' then Some (base\<lparr>sch_every := Some (trim (str_or (sf_every f) ''6h''))\<rparr>)
            else if kind = ''daily'' then Some (base\<lparr>sch_at := Some (trim (str_or (sf_at f) ''02:00''))\<rparr>)
            else if kind = ''weekly'' then
              let weekdays = sort (filter (\<lambda>d. d \<ge> 0 \<and> d \<le> 6) (sf_weekdays f))
              in Some (base\<lparr>sch_at := Some (trim (str_or (sf_at f) ''02:00'')), sch_weekdays := Some weekdays\<rparr>)
            else Some base)"

section \<open>The server's description\<close>

text \<open>\<open>JobSchedule.Describe\<close> of \<open>src/internal/core/model.go\<close>: the loop appends the names in order.\<close>

definition go_day_names :: "string list" where
  "go_day_names = [''Sun'', ''Mon'', ''Tue'', ''Wed'', ''Thu'', ''Fri'', ''Sat'']"

fun go_day_parts :: "int list \<Rightarrow> string list \<Rightarrow> string list" where
  "go_day_parts [] parts = parts"
| "go_day_parts (d # ds) parts =
     (if d \<ge> 0 \<and> d < int (length go_day_names) then go_day_parts ds (parts @ [go_day_names ! nat d])
      else go_day_parts ds parts)"

definition go_describe_schedule :: "schedule option \<Rightarrow> string" where
  "go_describe_schedule s = (case s of None \<Rightarrow> ''''
     | Some s \<Rightarrow>
         let every = (case sch_every s of None \<Rightarrow> '''' | Some x \<Rightarrow> x);
             tm = (case sch_at s of None \<Rightarrow> '''' | Some x \<Rightarrow> x);
             days = (case sch_weekdays s of None \<Rightarrow> [] | Some x \<Rightarrow> x)
         in if sch_kind s = ''hourly'' then ''hourly''
            else if sch_kind s = ''every'' then ''every '' @ trim every
            else if sch_kind s = ''daily'' then ''daily at '' @ trim tm
            else if sch_kind s = ''weekly'' then
              ''weekly on '' @ join '', '' (go_day_parts days []) @ '' at '' @ trim tm
            else sch_kind s)"

section \<open>Properties\<close>

lemma go_day_parts_eq:
  "go_day_parts ds parts = parts @ map (\<lambda>d. go_day_names ! nat d)
     (filter (\<lambda>d. d \<ge> 0 \<and> d < int (length go_day_names)) ds)"
  by (induction ds parts rule: go_day_parts.induct) auto

lemma weekday_names: "map wd_label WEEKDAYS = go_day_names"
  by (simp add: WEEKDAYS_def go_day_names_def)

lemma str_or_id [simp]: "str_or s [] = s"
  by (simp add: str_or_def)

lemma trim_ostr_or: "trim (ostr_or m '''') = trim (case m of None \<Rightarrow> '''' | Some x \<Rightarrow> x)"
  by (simp split: option.splits)

text \<open>
  C30. The schedule text of the UI is the one the server prints: \<open>describeSchedule\<close> agrees with
  Go's \<open>JobSchedule.Describe\<close> on every schedule, unknown kinds, weekdays out of range and
  missing fields included.
\<close>

theorem describeSchedule_matches_go: "describeSchedule s = go_describe_schedule s"
  by (simp add: describeSchedule_def go_describe_schedule_def weekday_names go_day_parts_eq
      trim_ostr_or Let_def split: option.splits)

definition valid_days :: "int list \<Rightarrow> bool" where
  "valid_days ds \<longleftrightarrow> sorted ds \<and> (\<forall>d \<in> set ds. 0 \<le> d \<and> d \<le> 6)"

lemma sort_filter_valid: "valid_days (sort (filter (\<lambda>d. d \<ge> 0 \<and> d \<le> 6) ds))"
  by (auto simp: valid_days_def)

lemma valid_days_fixed: "valid_days ds \<Longrightarrow> sort (filter (\<lambda>d. d \<ge> 0 \<and> d \<le> 6) ds) = ds"
  by (simp add: valid_days_def sorted_sort_id)

lemma schedulePayload_cases:
  assumes "schedulePayload (Some f) = Some s"
  obtains "sch_kind s = ''every''" "sch_every s = Some (trim (str_or (sf_every f) ''6h''))"
      "sch_at s = None" "sch_weekdays s = None"
  | "sch_kind s = ''daily''" "sch_at s = Some (trim (str_or (sf_at f) ''02:00''))"
      "sch_every s = None" "sch_weekdays s = None"
  | ds where "sch_kind s = ''weekly''" "sch_at s = Some (trim (str_or (sf_at f) ''02:00''))"
      "sch_every s = None" "sch_weekdays s = Some ds" "valid_days ds"
  | "sch_kind s \<notin> {'''', ''every'', ''daily'', ''weekly''}"
      "sch_every s = None" "sch_at s = None" "sch_weekdays s = None"
  using assms sort_filter_valid
  by (auto simp: schedulePayload_def Let_def split: if_splits)

text \<open>
  Saving a schedule and opening the editor again loses nothing: the form read back from a saved
  schedule produces the same schedule, provided the text fields it uses are not blank and a weekly
  schedule has a weekday.
\<close>

theorem schedule_form_roundtrip:
  assumes "schedulePayload (Some f) = Some s"
    and "sch_every s \<noteq> Some ''''" and "sch_at s \<noteq> Some ''''" and "sch_weekdays s \<noteq> Some []"
  shows "schedulePayload (Some (scheduleFormFromJob (Some (j\<lparr>job_schedule := Some s\<rparr>)))) = Some s"
  using assms
  by (cases rule: schedulePayload_cases)
    (auto simp: scheduleFormFromJob_def schedulePayload_def Let_def str_or_def valid_days_fixed
      split: option.splits)

definition weekly_form :: schedule_form where
  "weekly_form = \<lparr>sf_enabled = True, sf_kind = ''weekly'', sf_every = ''6h'', sf_at = '' 03:30'',
     sf_weekdays = [5, 1, 9]\<rparr>"

theorem schedule_form_roundtrip_witness:
  "schedulePayload (Some (scheduleFormFromJob (Some (sample_job\<lparr>job_schedule :=
      schedulePayload (Some weekly_form)\<rparr>)))) =
   Some \<lparr>sch_enabled = True, sch_kind = ''weekly'', sch_every = None, sch_at = Some ''03:30'',
      sch_weekdays = Some [1, 5]\<rparr>"
proof -
  have p: "schedulePayload (Some weekly_form) = Some \<lparr>sch_enabled = True, sch_kind = ''weekly'',
      sch_every = None, sch_at = Some ''03:30'', sch_weekdays = Some [1, 5]\<rparr>"
    by (simp add: schedulePayload_def weekly_form_def Let_def trim_def is_space_def str_or_def)
  show ?thesis unfolding p by (rule schedule_form_roundtrip [OF p]) simp_all
qed

end
