(* ===== verification/Retention.thy ===== *)
theory Retention
  imports Model
begin

text \<open>
  \<open>src/ui/src/lib/retention.js\<close>: the keep policy of a job as text, form and API object, with
  the Go \<open>JobRetention\<close> operations it mirrors. The form and the API object have the same
  shape (\<open>{ enabled, preset, ...counts }\<close>), the record \<open>retention\<close>.
\<close>

definition mk_counts :: "int \<Rightarrow> int \<Rightarrow> int \<Rightarrow> int \<Rightarrow> int \<Rightarrow> int \<Rightarrow> counts" where
  "mk_counts l h d w m n = \<lparr>keepLast = l, keepHourly = h, keepDaily = d, keepWeekly = w, keepMonthly = m,
     keepWithinDays = n\<rparr>"

record preset =
  ps_id :: string
  ps_label :: string
  ps_description :: string
  ps_values :: "counts option"

definition RETENTION_PRESETS :: "preset list" where
  "RETENTION_PRESETS =
     [\<lparr>ps_id = ''light'', ps_label = ''Light'', ps_description = ''Last 24 snapshots and 7 dailies'',
       ps_values = Some (mk_counts 24 0 7 0 0 0)\<rparr>,
      \<lparr>ps_id = ''balanced'', ps_label = ''Balanced'',
       ps_description = ''Last 24, 7 daily, 4 weekly '' @ em_dash @ '' good for hourly jobs'',
       ps_values = Some (mk_counts 24 0 7 4 0 0)\<rparr>,
      \<lparr>ps_id = ''long'', ps_label = ''Long'', ps_description = ''Last 48, 14 daily, 8 weekly, 12 monthly'',
       ps_values = Some (mk_counts 48 0 14 8 12 0)\<rparr>,
      \<lparr>ps_id = ''custom'', ps_label = ''Custom'', ps_description = ''Set keep counts yourself'',
       ps_values = None\<rparr>]"

definition emptyCounts :: counts where
  "emptyCounts = mk_counts 0 0 0 0 0 0"

text \<open>\<open>countsFrom(r)\<close>: the counts of a policy, each \<open>Number(r?.x) || 0\<close>.\<close>

definition countsFrom :: "retention option \<Rightarrow> counts" where
  "countsFrom r = (case r of None \<Rightarrow> emptyCounts | Some r \<Rightarrow> counts.truncate r)"

text \<open>\<open>{ enabled, preset, ...counts }\<close>\<close>

definition policy :: "bool \<Rightarrow> string \<Rightarrow> counts \<Rightarrow> retention" where
  "policy en pr c = counts.extend c (retention.fields en pr)"

definition find_preset :: "string \<Rightarrow> preset option" where
  "find_preset i = find (\<lambda>p. ps_id p = i) RETENTION_PRESETS"

definition preset_values :: "string \<Rightarrow> counts option" where
  "preset_values i = Option.bind (find_preset i) ps_values"

definition retentionFormFromJob :: "job option \<Rightarrow> retention" where
  "retentionFormFromJob j =
     (let r = Option.bind j job_retention;
          preset = opt_str ret_preset r ''balanced'';
          fromPreset = preset_values preset;
          counts = (case (if preset \<noteq> ''custom'' then fromPreset else None) of
              Some v \<Rightarrow> v
            | None \<Rightarrow> (case r of Some _ \<Rightarrow> countsFrom r
                | None \<Rightarrow> (case preset_values ''balanced'' of Some v \<Rightarrow> v | None \<Rightarrow> emptyCounts)))
      in policy (case r of None \<Rightarrow> False | Some r \<Rightarrow> ret_enabled r) preset counts)"

definition retentionPayload :: "retention option \<Rightarrow> retention option" where
  "retentionPayload form = (case form of None \<Rightarrow> None
     | Some f \<Rightarrow>
         let preset = str_or (ret_preset f) ''custom'';
             counts = (case (if preset \<noteq> ''custom'' then preset_values preset else None) of
                 Some v \<Rightarrow> v | None \<Rightarrow> countsFrom (Some f))
         in Some (policy (ret_enabled f) preset counts))"

text \<open>\<open>describeRetention\<close>: the parts are pushed in this order.\<close>

definition describe_parts :: "('a counts_scheme) \<Rightarrow> string list" where
  "describe_parts r =
     (if keepLast r > 0 then [''last '' @ show_int (keepLast r)] else []) @
     (if keepHourly r > 0 then [show_int (keepHourly r) @ '' hourly''] else []) @
     (if keepDaily r > 0 then [show_int (keepDaily r) @ '' daily''] else []) @
     (if keepWeekly r > 0 then [show_int (keepWeekly r) @ '' weekly''] else []) @
     (if keepMonthly r > 0 then [show_int (keepMonthly r) @ '' monthly''] else []) @
     (if keepWithinDays r > 0 then [''within '' @ show_int (keepWithinDays r) @ ''d''] else [])"

definition describeRetention :: "retention option \<Rightarrow> string" where
  "describeRetention r = (case r of None \<Rightarrow> '''' | Some r \<Rightarrow> join '', '' (describe_parts r))"

definition describeRetentionTitle :: "retention option \<Rightarrow> string" where
  "describeRetentionTitle r = (let d = describeRetention r in if d = '''' then '''' else capitalize d)"

section \<open>The server's policy\<close>

definition go_preset_values :: "string \<Rightarrow> counts" where
  "go_preset_values preset =
     (if preset = ''light'' then mk_counts 24 0 7 0 0 0
      else if preset = ''balanced'' then mk_counts 24 0 7 4 0 0
      else if preset = ''long'' then mk_counts 48 0 14 8 12 0
      else emptyCounts)"

definition go_normalize :: "retention \<Rightarrow> retention" where
  "go_normalize r =
     (let r1 = (if ret_preset r \<in> {''light'', ''balanced'', ''long''}
                then policy (ret_enabled r) (ret_preset r) ((go_preset_values (ret_preset r))\<lparr>keepWithinDays := 0\<rparr>)
                else if ret_preset r = '''' then r\<lparr>ret_preset := ''custom''\<rparr> else r)
      in r1\<lparr>keepLast := max 0 (keepLast r1), keepHourly := max 0 (keepHourly r1),
            keepDaily := max 0 (keepDaily r1), keepWeekly := max 0 (keepWeekly r1),
            keepMonthly := max 0 (keepMonthly r1), keepWithinDays := max 0 (keepWithinDays r1)\<rparr>)"

definition has_keep_rule :: "('a counts_scheme) \<Rightarrow> bool" where
  "has_keep_rule r \<longleftrightarrow> keepLast r > 0 \<or> keepHourly r > 0 \<or> keepDaily r > 0 \<or> keepWeekly r > 0 \<or>
     keepMonthly r > 0 \<or> keepWithinDays r > 0"

definition nonneg_counts :: "('a counts_scheme) \<Rightarrow> bool" where
  "nonneg_counts r \<longleftrightarrow> keepLast r \<ge> 0 \<and> keepHourly r \<ge> 0 \<and> keepDaily r \<ge> 0 \<and> keepWeekly r \<ge> 0 \<and>
     keepMonthly r \<ge> 0 \<and> keepWithinDays r \<ge> 0"

section \<open>Properties\<close>

lemma policy_fields [simp]:
  "ret_enabled (policy en pr c) = en" "ret_preset (policy en pr c) = pr"
  "counts.truncate (policy en pr c) = c"
  "keepLast (policy en pr c) = keepLast c" "keepHourly (policy en pr c) = keepHourly c"
  "keepDaily (policy en pr c) = keepDaily c" "keepWeekly (policy en pr c) = keepWeekly c"
  "keepMonthly (policy en pr c) = keepMonthly c" "keepWithinDays (policy en pr c) = keepWithinDays c"
  by (simp_all add: policy_def counts.defs retention.defs)

lemma retention_eqI:
  "counts.truncate (r :: retention) = counts.truncate s \<Longrightarrow> ret_enabled r = ret_enabled s \<Longrightarrow>
   ret_preset r = ret_preset s \<Longrightarrow> r = s"
  by (cases r; cases s) (simp add: counts.defs)

lemma preset_values_cases:
  "preset_values i = (if i = ''light'' then Some (mk_counts 24 0 7 0 0 0)
     else if i = ''balanced'' then Some (mk_counts 24 0 7 4 0 0)
     else if i = ''long'' then Some (mk_counts 48 0 14 8 12 0) else None)"
  by (simp add: preset_values_def find_preset_def RETENTION_PRESETS_def)

text \<open>
  C37. A saved policy survives being edited: whatever the form held, the policy it saves, read back
  into the form, saves as the same policy again.
\<close>

theorem retention_form_roundtrip:
  "retentionPayload (Some (retentionFormFromJob (Some (j\<lparr>job_retention := retentionPayload (Some f)\<rparr>)))) =
   retentionPayload (Some f)"
  by (simp add: retentionPayload_def retentionFormFromJob_def countsFrom_def preset_values_cases Let_def)

lemma payload_fixed:
  assumes "retentionPayload (Some f) = Some r" and "nonneg_counts f"
  shows "go_normalize r = r"
  using assms
  by (auto intro!: retention_eqI simp: retentionPayload_def go_normalize_def go_preset_values_def
      preset_values_cases countsFrom_def nonneg_counts_def mk_counts_def emptyCounts_def Let_def
      counts.defs split: if_splits)

text \<open>
  The presets of the UI are the server's: for the three named presets the payload is a fixed point
  of Go's \<open>Normalize\<close>, so the counts the user sees are the counts the server applies; and so is
  a custom policy with no negative count.
\<close>

theorem payload_normalized:
  assumes "retentionPayload (Some f) = Some r" and "nonneg_counts f"
  shows "go_normalize r = r"
  using assms by (rule payload_fixed)

theorem payload_normalized_witness:
  "go_normalize (policy True ''long'' (mk_counts 48 0 14 8 12 0)) = policy True ''long'' (mk_counts 48 0 14 8 12 0)"
proof -
  have p: "retentionPayload (Some (policy True ''long'' emptyCounts)) =
      Some (policy True ''long'' (mk_counts 48 0 14 8 12 0))"
    by (simp add: retentionPayload_def preset_values_cases)
  show ?thesis
    by (rule payload_normalized [OF p]) (simp add: nonneg_counts_def emptyCounts_def mk_counts_def)
qed

lemma describe_parts_nonempty: "p \<in> set (describe_parts r) \<Longrightarrow> p \<noteq> ''''"
  by (auto simp: describe_parts_def split: if_splits)

text \<open>
  A policy is described by an empty text exactly when it has no keep rule, so the editor's
  "On" fallback and the server's "needs at least one keep rule" mean the same thing.
\<close>

theorem describe_empty_iff_no_rule:
  "describeRetention (Some r) = '''' \<longleftrightarrow> \<not> has_keep_rule r"
proof -
  have "join '', '' (describe_parts r) = '''' \<longleftrightarrow> describe_parts r = []"
    using describe_parts_nonempty [of _ r] by (auto simp: join_Nil_iff)
  moreover have "describe_parts r = [] \<longleftrightarrow> \<not> has_keep_rule r"
    by (auto simp: describe_parts_def has_keep_rule_def)
  ultimately show ?thesis by (simp add: describeRetention_def)
qed

end
