(* ===== verification/SnapshotTags.thy ===== *)
theory SnapshotTags
  imports Model
begin

text \<open>\<open>src/ui/src/lib/snapshots.js\<close>: reading what a snapshot holds from the tags the app sets.\<close>

definition DB_TAG :: string where
  "DB_TAG = ''resticweb-db:''"

definition PRE_RESTORE_TAG :: string where
  "PRE_RESTORE_TAG = ''resticweb-prerestore''"

definition ENGINE_LABEL :: "(string \<times> string) list" where
  "ENGINE_LABEL = [(''postgres'', ''PostgreSQL''), (''mysql'', ''MySQL''), (''mariadb'', ''MariaDB'')]"

definition engineLabel :: "string \<Rightarrow> string" where
  "engineLabel engine = (case map_of ENGINE_LABEL engine of Some l \<Rightarrow> l | None \<Rightarrow> str_or engine ''Database'')"

definition tags_of :: "snapshot option \<Rightarrow> string list" where
  "tags_of sn = (case sn of None \<Rightarrow> [] | Some s \<Rightarrow> sn_tags s)"

fun first_db_tag :: "string list \<Rightarrow> string" where
  "first_db_tag [] = ''''"
| "first_db_tag (t # ts) = (if starts_with DB_TAG t then drop (length DB_TAG) t else first_db_tag ts)"

definition snapshotEngine :: "snapshot option \<Rightarrow> string" where
  "snapshotEngine sn = first_db_tag (tags_of sn)"

definition isSafetySnapshot :: "snapshot option \<Rightarrow> bool" where
  "isSafetySnapshot sn \<longleftrightarrow> PRE_RESTORE_TAG \<in> set (tags_of sn)"

text \<open>\<open>p.replace(/^\//, "").replace(/\.sql$/, "")\<close>\<close>

definition strip_slash :: "string \<Rightarrow> string" where
  "strip_slash p = (case p of c # cs \<Rightarrow> if c = CHR ''/'' then cs else p | [] \<Rightarrow> [])"

definition strip_sql :: "string \<Rightarrow> string" where
  "strip_sql p = (if ends_with ''.sql'' p then take (length p - 4) p else p)"

definition dumpDatabaseName :: "snapshot option \<Rightarrow> string" where
  "dumpDatabaseName sn =
     (let p = (case sn of None \<Rightarrow> '''' | Some s \<Rightarrow> (case sn_paths s of [] \<Rightarrow> '''' | q # _ \<Rightarrow> q))
      in strip_sql (strip_slash p))"

lemma first_db_tag_append:
  "\<forall>t \<in> set ts. \<not> starts_with DB_TAG t \<Longrightarrow> first_db_tag (ts @ (DB_TAG @ e) # us) = e"
  by (induction ts) auto

text \<open>
  A database snapshot names what it holds: when the dump is stored as \<open>/<name>.sql\<close> with
  the tag \<open>resticweb-db:<engine>\<close> after other tags, the UI reads back exactly that engine and
  that database name, even when the name itself holds slashes or ends in \<open>.sql\<close>.
\<close>

theorem dump_snapshot_roundtrip:
  assumes "sn_tags s = ts @ (DB_TAG @ engine) # us" and "\<forall>t \<in> set ts. \<not> starts_with DB_TAG t"
    and "sn_paths s = (CHR ''/'' # name @ ''.sql'') # ps"
  shows "snapshotEngine (Some s) = engine \<and> dumpDatabaseName (Some s) = name"
  using assms
  by (simp add: snapshotEngine_def tags_of_def first_db_tag_append dumpDatabaseName_def strip_slash_def
      strip_sql_def ends_with_iff)

theorem dump_snapshot_roundtrip_witness:
  "snapshotEngine (Some (sample_snapshot\<lparr>sn_paths := [''/shop.sql''], sn_tags := [''job-1'', ''resticweb-db:postgres'']\<rparr>))
     = ''postgres''
   \<and> dumpDatabaseName (Some (sample_snapshot\<lparr>sn_paths := [''/shop.sql''],
       sn_tags := [''job-1'', ''resticweb-db:postgres'']\<rparr>)) = ''shop''"
  by (rule dump_snapshot_roundtrip [where ts = "[''job-1'']" and us = "[]" and ps = "[]"])
    (simp_all add: DB_TAG_def starts_with_def)

end
