(* ===== verification/React.thy ===== *)
theory React
  imports Endpoints
begin

text \<open>
  How a React component is modelled. Its hooks' state is a record; what it renders is a tree of
  \<open>'m ui\<close> whose handlers are messages; a handler, and each continuation of an \<open>await\<close> in
  one, is an equation of the component's update function, which returns the new state and the
  commands it issues, in order. A request or a confirmation carries the message its reply becomes.

  Styling (class names, icon sizes, ARIA decoration) is left out of the trees; texts, tags, links,
  values, handlers and the \<open>disabled\<close>, \<open>checked\<close> and \<open>open\<close> flags are kept.
\<close>

section \<open>Rendered trees\<close>

datatype 'm attr =
    At string string
  | Flag string bool
  | On string 'm
  | OnText string "string \<Rightarrow> 'm"
  | OnBool string "bool \<Rightarrow> 'm"

datatype 'm ui = Txt string | Node string "'m attr list" "'m ui list"

text \<open>\<open>{c ? xs : null}\<close>\<close>

definition shown :: "bool \<Rightarrow> 'a list \<Rightarrow> 'a list" where
  "shown c xs = (if c then xs else [])"

lemma shown_simps [simp]: "shown True xs = xs" "shown False xs = []"
  by (simp_all add: shown_def)

lemma set_shown [simp]: "set (shown c xs) = (if c then set xs else {})"
  by (simp add: shown_def)

primrec attr_msgs :: "'m attr \<Rightarrow> 'm set" where
  "attr_msgs (At n v) = {}"
| "attr_msgs (Flag n b) = {}"
| "attr_msgs (On n m) = {m}"
| "attr_msgs (OnText n f) = range f"
| "attr_msgs (OnBool n f) = range f"

definition is_disabled :: "'m attr list \<Rightarrow> bool" where
  "is_disabled as \<longleftrightarrow> list_ex (\<lambda>a. case a of Flag n b \<Rightarrow> n = ''disabled'' \<and> b | _ \<Rightarrow> False) as"

definition is_submit :: "'m attr list \<Rightarrow> bool" where
  "is_submit as \<longleftrightarrow> list_ex (\<lambda>a. case a of At n v \<Rightarrow> n = ''type'' \<and> v = ''submit'' | _ \<Rightarrow> False) as"

text \<open>
  A form is submitted by its submit button, or by Enter, which activates that button: neither
  does anything while the button is disabled.
\<close>

primrec can_submit :: "'m ui \<Rightarrow> bool" where
  "can_submit (Txt s) = False"
| "can_submit (Node t as cs) = (is_submit as \<and> \<not> is_disabled as \<or> True \<in> set (map can_submit cs))"

text \<open>The messages a user can fire on a tree: every handler of an element that is not disabled.\<close>

primrec msgs :: "'m ui \<Rightarrow> 'm set" where
  "msgs (Txt s) = {}"
| "msgs (Node t as cs) =
     (if is_disabled as \<or> t = ''form'' \<and> True \<notin> set (map can_submit cs) then {}
      else \<Union> (attr_msgs ` set as)) \<union> \<Union> (set (map msgs cs))"

text \<open>The same over a list of children, which is how the trees below are put together.\<close>

definition submits :: "'m ui list \<Rightarrow> bool" where
  "submits cs \<longleftrightarrow> list_ex can_submit cs"

definition msgs_of :: "'m ui list \<Rightarrow> 'm set" where
  "msgs_of cs = \<Union> (set (map msgs cs))"

lemma can_submit_Node [simp]: "can_submit (Node t as cs) \<longleftrightarrow> is_submit as \<and> \<not> is_disabled as \<or> submits cs"
  by (auto simp: submits_def list_ex_iff)

lemma msgs_Node [simp]: "msgs (Node t as cs) =
    (if is_disabled as \<or> t = ''form'' \<and> \<not> submits cs then {} else \<Union> (attr_msgs ` set as)) \<union> msgs_of cs"
  by (auto simp: submits_def msgs_of_def list_ex_iff)

declare can_submit.simps(2) [simp del] msgs.simps(2) [simp del]

lemma submits_simps [simp]:
  "submits [] = False"
  "submits (c # cs) = (can_submit c \<or> submits cs)"
  "submits (cs @ ds) = (submits cs \<or> submits ds)"
  "submits (shown b cs) = (b \<and> submits cs)"
  "submits (map f xs) = (\<exists>x \<in> set xs. can_submit (f x))"
  "submits (replicate n c) = (0 < n \<and> can_submit c)"
  by (auto simp: submits_def list_ex_iff)

lemma msgs_of_simps [simp]:
  "msgs_of [] = {}"
  "msgs_of (c # cs) = msgs c \<union> msgs_of cs"
  "msgs_of (cs @ ds) = msgs_of cs \<union> msgs_of ds"
  "msgs_of (shown b cs) = (if b then msgs_of cs else {})"
  "msgs_of (map f xs) = (\<Union>x \<in> set xs. msgs (f x))"
  "msgs_of (replicate n c) = (if n = 0 then {} else msgs c)"
  by (auto simp: msgs_of_def)

lemma msgs_of_split [simp]:
  "msgs_of (case x of None \<Rightarrow> cs | Some y \<Rightarrow> f y) = (case x of None \<Rightarrow> msgs_of cs | Some y \<Rightarrow> msgs_of (f y))"
  "submits (case x of None \<Rightarrow> cs | Some y \<Rightarrow> f y) = (case x of None \<Rightarrow> submits cs | Some y \<Rightarrow> submits (f y))"
  "msgs_of (if b then cs else ds) = (if b then msgs_of cs else msgs_of ds)"
  "submits (if b then cs else ds) = (if b then submits cs else submits ds)"
  by (auto split: option.split)

primrec texts :: "'m ui \<Rightarrow> string list" where
  "texts (Txt s) = [s]"
| "texts (Node t as cs) = concat (map texts cs)"

lemma is_disabled_simps [simp]:
  "is_disabled [] = False"
  "is_disabled (At n v # as) = is_disabled as"
  "is_disabled (Flag n b # as) = (n = ''disabled'' \<and> b \<or> is_disabled as)"
  "is_disabled (On n m # as) = is_disabled as"
  "is_disabled (OnText n f # as) = is_disabled as"
  "is_disabled (OnBool n g # as) = is_disabled as"
  by (simp_all add: is_disabled_def)

lemma is_disabled_append [simp]:
  "is_disabled (as @ bs) = (is_disabled as \<or> is_disabled bs)"
  "is_disabled (shown b as) = (b \<and> is_disabled as)"
  by (auto simp: is_disabled_def shown_def)

lemma is_submit_simps [simp]:
  "is_submit [] = False"
  "is_submit (At n v # as) = (n = ''type'' \<and> v = ''submit'' \<or> is_submit as)"
  "is_submit (Flag n b # as) = is_submit as"
  "is_submit (On n m # as) = is_submit as"
  "is_submit (OnText n f # as) = is_submit as"
  "is_submit (OnBool n g # as) = is_submit as"
  by (simp_all add: is_submit_def)

lemma is_submit_append [simp]:
  "is_submit (as @ bs) = (is_submit as \<or> is_submit bs)"
  "is_submit (shown b as) = (b \<and> is_submit as)"
  by (auto simp: is_submit_def shown_def)

text \<open>A tree whose messages are wrapped, as a child component's are in its parent's tree.\<close>

lemma attr_map [simp]:
  "is_disabled (map (map_attr f) as) = is_disabled as" "is_submit (map (map_attr f) as) = is_submit as"
  "attr_msgs (map_attr f a) = f ` attr_msgs a"
proof -
  show "is_disabled (map (map_attr f) as) = is_disabled as" "is_submit (map (map_attr f) as) = is_submit as"
    by (induction as) (auto simp: is_disabled_def is_submit_def split: attr.splits)
  show "attr_msgs (map_attr f a) = f ` attr_msgs a" by (cases a) auto
qed

lemma can_submit_map [simp]: "can_submit (map_ui f u) = can_submit u"
  by (induction u) (auto simp: submits_def list_ex_iff)

lemma msgs_map [simp]: "msgs (map_ui f u) = f ` msgs u"
proof (induction u)
  case (Node t as cs)
  have "submits (map (map_ui f) cs) = submits cs" by (simp add: submits_def list_ex_iff)
  moreover have "msgs_of (map (map_ui f) cs) = f ` msgs_of cs"
    using Node by (auto simp: msgs_of_def image_Union)
  moreover have "\<Union> (attr_msgs ` set (map (map_attr f) as)) = f ` \<Union> (attr_msgs ` set as)"
    by (simp add: image_image image_UN)
  ultimately show ?case by (simp add: image_Un)
qed simp

section \<open>Commands\<close>

datatype toast_kind = Success | Warning | Failure

text \<open>A toast; its action button is a label and the path it navigates to.\<close>

record toast =
  to_kind :: toast_kind
  to_title :: string
  to_description :: string
  to_action :: "(string \<times> string) option"
  to_duration :: "nat option"

definition plain_toast :: "toast_kind \<Rightarrow> string \<Rightarrow> toast" where
  "plain_toast k s = \<lparr>to_kind = k, to_title = s, to_description = '''', to_action = None, to_duration = None\<rparr>"

record confirm_opts =
  co_title :: string
  co_description :: string
  co_confirmLabel :: string
  co_cancelLabel :: string
  co_destructive :: bool

text \<open>The defaults \<open>confirm\<close> spreads its argument over (\<open>components/confirm.jsx\<close>).\<close>

definition confirm_defaults :: confirm_opts where
  "confirm_defaults = \<lparr>co_title = ''Are you sure?'', co_description = '''', co_confirmLabel = ''Confirm'',
     co_cancelLabel = ''Cancel'', co_destructive = False\<rparr>"

text \<open>The effects with no reply the component waits for.\<close>

datatype effect =
    Toast toast
  | Navigate string bool \<comment> \<open>the path, and whether it replaces the current entry\<close>
  | GoBack
  | Reload
  | SetTitle string

datatype ('m, 'o) cmd =
    Do effect
  | Call request "response \<Rightarrow> 'm"
  | CallAll "request list" "response list \<Rightarrow> 'm" \<comment> \<open>\<open>await Promise.all\<close>\<close>
  | Ask confirm_opts "bool \<Rightarrow> 'm"
  | Copy string "bool \<Rightarrow> 'm"
  | After nat 'm
  | Out 'o

text \<open>The commands whose reply is still to come: what is in flight.\<close>

primrec awaits :: "('m, 'o) cmd \<Rightarrow> bool" where
  "awaits (Do e) = False"
| "awaits (Call q k) = True"
| "awaits (CallAll qs g) = True"
| "awaits (Ask c k) = True"
| "awaits (Copy s k) = True"
| "awaits (After n m) = True"
| "awaits (Out x) = False"

definition awaiting :: "('m, 'o) cmd list \<Rightarrow> ('m, 'o) cmd list" where
  "awaiting cs = filter awaits cs"

text \<open>The messages a reply to a command can become.\<close>

primrec replies :: "('m, 'o) cmd \<Rightarrow> 'm set" where
  "replies (Do e) = {}"
| "replies (Call q k) = range k"
| "replies (CallAll qs g) = g ` {rs. length rs = length qs}"
| "replies (Ask c k) = range k"
| "replies (Copy s k) = range k"
| "replies (After n m) = {m}"
| "replies (Out x) = {}"

primrec is_call :: "('m, 'o) cmd \<Rightarrow> bool" where
  "is_call (Do e) = False"
| "is_call (Call q k) = True"
| "is_call (CallAll qs g) = True"
| "is_call (Ask c k) = False"
| "is_call (Copy s k) = False"
| "is_call (After n m) = False"
| "is_call (Out x) = False"

definition calls :: "('m, 'o) cmd list \<Rightarrow> ('m, 'o) cmd list" where
  "calls cs = filter is_call cs"

lemma awaiting_simps [simp]:
  "awaiting [] = []"
  "awaiting (c # cs) = (if awaits c then [c] else []) @ awaiting cs"
  "awaiting (cs @ ds) = awaiting cs @ awaiting ds"
  by (simp_all add: awaiting_def)

lemma awaiting_map_Do [simp]: "awaiting (map Do es) = []"
  by (induction es) simp_all

lemma calls_simps [simp]:
  "calls [] = []"
  "calls (c # cs) = (if is_call c then [c] else []) @ calls cs"
  "calls (cs @ ds) = calls cs @ calls ds"
  by (simp_all add: calls_def)

lemma calls_map_Do [simp]: "calls (map Do es) = []"
  by (induction es) simp_all

section \<open>A component inside another\<close>

text \<open>
  The commands of a child, for its parent: replies come back as wrapped messages, and what the
  child hands out is for the parent to handle (\<open>outs\<close>).
\<close>

primrec lift_cmd :: "('m \<Rightarrow> 'n) \<Rightarrow> ('m, 'o) cmd \<Rightarrow> ('n, 'p) cmd list" where
  "lift_cmd f (Do e) = [Do e]"
| "lift_cmd f (Call q k) = [Call q (f \<circ> k)]"
| "lift_cmd f (CallAll qs g) = [CallAll qs (f \<circ> g)]"
| "lift_cmd f (Ask c k) = [Ask c (f \<circ> k)]"
| "lift_cmd f (Copy s k) = [Copy s (f \<circ> k)]"
| "lift_cmd f (After n m) = [After n (f m)]"
| "lift_cmd f (Out x) = []"

definition lift_cmds :: "('m \<Rightarrow> 'n) \<Rightarrow> ('m, 'o) cmd list \<Rightarrow> ('n, 'p) cmd list" where
  "lift_cmds f cs = concat (map (lift_cmd f) cs)"

fun outs :: "('m, 'o) cmd list \<Rightarrow> 'o list" where
  "outs [] = []"
| "outs (Out x # cs) = x # outs cs"
| "outs (c # cs) = outs cs"

lemma lift_cmds_simps [simp]:
  "lift_cmds f [] = []" "lift_cmds f (c # cs) = lift_cmd f c @ lift_cmds f cs"
  "lift_cmds f (cs @ ds) = lift_cmds f cs @ lift_cmds f ds"
  by (simp_all add: lift_cmds_def)

lemma outs_append [simp]: "outs (cs @ ds) = outs cs @ outs ds"
  by (induction cs rule: outs.induct) auto

lemma outs_map_Do [simp]: "outs (map Do es) = []"
  by (induction es) auto

lemma awaiting_lift_cmd [simp]: "awaiting (lift_cmd f c) = (if awaits c then lift_cmd f c else [])"
  by (cases c) simp_all

lemma awaiting_lift: "awaiting (lift_cmds f cs) = lift_cmds f (awaiting cs)"
  by (induction cs) simp_all

lemma lift_cmds_map_Do [simp]: "lift_cmds f (map Do es) = map Do es"
  by (induction es) auto

lemma calls_lift_cmds: "calls (lift_cmds f cs) = [] \<longleftrightarrow> calls cs = []"
proof (induction cs)
  case (Cons c cs)
  then show ?case by (cases c) auto
qed simp

lemma lift_cmds_mem:
  "Call q g \<in> set (lift_cmds f cs) \<longleftrightarrow> (\<exists>k. g = f \<circ> k \<and> Call q k \<in> set cs)"
  "Ask c h \<in> set (lift_cmds f cs) \<longleftrightarrow> (\<exists>k. h = f \<circ> k \<and> Ask c k \<in> set cs)"
proof -
  have "Call q g \<in> set (lift_cmd f x) \<longleftrightarrow> (\<exists>k. g = f \<circ> k \<and> x = Call q k)" for x by (cases x) auto
  then show "Call q g \<in> set (lift_cmds f cs) \<longleftrightarrow> (\<exists>k. g = f \<circ> k \<and> Call q k \<in> set cs)" by (induction cs) auto
  have "Ask c h \<in> set (lift_cmd f x) \<longleftrightarrow> (\<exists>k. h = f \<circ> k \<and> x = Ask c k)" for x by (cases x) auto
  then show "Ask c h \<in> set (lift_cmds f cs) \<longleftrightarrow> (\<exists>k. h = f \<circ> k \<and> Ask c k \<in> set cs)" by (induction cs) auto
qed

section \<open>Executions\<close>

type_synonym ('s, 'm, 'o) update = "'m \<Rightarrow> 's \<Rightarrow> 's \<times> ('m, 'o) cmd list"

text \<open>
  A mounted component: the user fires a message of what is on screen, the environment one of
  \<open>env\<close> (new props, an event of a stream), or a reply to something in flight arrives, in any
  order. A configuration is the state and what is in flight.
\<close>

inductive reach ::
  "('s, 'm, 'o) update \<Rightarrow> ('s \<Rightarrow> 'm ui) \<Rightarrow> 'm set \<Rightarrow> 's \<times> ('m, 'o) cmd list \<Rightarrow>
   's \<Rightarrow> ('m, 'o) cmd list \<Rightarrow> bool"
  for upd view env start where
  mount: "start = (s, cs) \<Longrightarrow> reach upd view env start s (awaiting cs)"
| act: "reach upd view env start s p \<Longrightarrow> m \<in> msgs (view s) \<union> env \<Longrightarrow> upd m s = (s', cs) \<Longrightarrow>
    reach upd view env start s' (p @ awaiting cs)"
| reply: "reach upd view env start s (p @ c # q) \<Longrightarrow> m \<in> replies c \<Longrightarrow> upd m s = (s', cs) \<Longrightarrow>
    reach upd view env start s' (p @ q @ awaiting cs)"

text \<open>A step that sends nothing, as typing does, and the first state.\<close>

lemma reach_quiet: "reach upd view env start s p \<Longrightarrow> m \<in> msgs (view s) \<union> env \<Longrightarrow> upd m s = (s', []) \<Longrightarrow>
    reach upd view env start s' p"
  using reach.act [of upd view env start s p m s' "[]"] by simp

lemma reach_first: "reach upd view env start (fst start) (awaiting (snd start))"
  by (rule reach.mount) simp

text \<open>The contract of an invariant over the executions of a component.\<close>

locale component =
  fixes upd :: "('s, 'm, 'o) update"
    and view :: "'s \<Rightarrow> 'm ui"
    and env :: "'m set"
    and start :: "'s \<times> ('m, 'o) cmd list"
    and inv :: "'s \<Rightarrow> ('m, 'o) cmd list \<Rightarrow> bool"
  assumes mounted: "start = (s, cs) \<Longrightarrow> inv s (awaiting cs)"
    and acted: "inv s p \<Longrightarrow> m \<in> msgs (view s) \<union> env \<Longrightarrow> upd m s = (s', cs) \<Longrightarrow> inv s' (p @ awaiting cs)"
    and replied: "inv s (p @ c # q) \<Longrightarrow> m \<in> replies c \<Longrightarrow> upd m s = (s', cs) \<Longrightarrow> inv s' (p @ q @ awaiting cs)"
begin

lemma invariant: "reach upd view env start s p \<Longrightarrow> inv s p"
  by (induction rule: reach.induct) (auto intro: mounted acted replied)

lemma screen_invariant: "reach upd view env start s p \<Longrightarrow> m \<in> msgs (view s) \<Longrightarrow> upd m s = (s', cs) \<Longrightarrow>
    inv s' (p @ awaiting cs)"
  by (blast intro: acted dest: invariant)

end

text \<open>
  The special case every screen uses: whatever is in flight was sent with its checks passed,
  because no handler sends anything else.
\<close>

locale sends_only =
  fixes upd :: "('s, 'm, 'o) update"
    and view :: "'s \<Rightarrow> 'm ui"
    and env :: "'m set"
    and start :: "'s \<times> ('m, 'o) cmd list"
    and checked :: "('m, 'o) cmd \<Rightarrow> bool"
  assumes mount_sends: "start = (s, cs) \<Longrightarrow> c \<in> set cs \<Longrightarrow> awaits c \<Longrightarrow> checked c"
    and update_sends: "upd m s = (s', cs) \<Longrightarrow> c \<in> set cs \<Longrightarrow> awaits c \<Longrightarrow> checked c"

sublocale sends_only \<subseteq> in_flight_checked: component upd view env start "\<lambda>s p. \<forall>c \<in> set p. checked c"
  by unfold_locales (auto simp: awaiting_def dest: mount_sends update_sends)

text \<open>
  The flag pattern of every form: a \<open>busy\<close> flag is set while one of the requests the form
  guards (\<open>guarded\<close>) is in flight. The replies of guarded requests are \<open>finished\<close>
  messages, every other reply is \<open>neutral\<close>. When the handlers on screen start a guarded
  request only while the flag is clear, at most one is in flight.
\<close>

locale single_flight =
  fixes upd :: "('s, 'm, 'o) update"
    and view :: "'s \<Rightarrow> 'm ui"
    and env :: "'m set"
    and start :: "'s \<times> ('m, 'o) cmd list"
    and guarded :: "('m, 'o) cmd \<Rightarrow> bool"
    and busy :: "'s \<Rightarrow> bool"
    and finished :: "'m set"
    and neutral :: "'m set"
  assumes guarded_awaits: "guarded c \<Longrightarrow> awaits c"
    and mount_idle: "start = (s, cs) \<Longrightarrow> filter guarded cs = [] \<and> \<not> busy s \<and> (\<forall>c \<in> set cs. replies c \<subseteq> neutral)"
    and emits: "upd m s = (s', cs) \<Longrightarrow> c \<in> set cs \<Longrightarrow> replies c \<subseteq> (if guarded c then finished else neutral)"
    and finishes: "m \<in> finished \<Longrightarrow> upd m s = (s', cs) \<Longrightarrow> filter guarded cs = [] \<and> \<not> busy s'"
    and passes: "m \<in> neutral \<Longrightarrow> upd m s = (s', cs) \<Longrightarrow> filter guarded cs = [] \<and> busy s' = busy s"
    and starts: "m \<in> msgs (view s) \<union> env \<Longrightarrow> upd m s = (s', cs) \<Longrightarrow>
      (if filter guarded cs = [] then busy s' = busy s
       else \<not> busy s \<and> busy s' \<and> length (filter guarded cs) = 1)"
begin

definition settled :: "('m, 'o) cmd list \<Rightarrow> bool" where
  "settled p \<longleftrightarrow> (\<forall>c \<in> set p. replies c \<subseteq> (if guarded c then finished else neutral))"

lemma guarded_awaiting: "filter guarded (awaiting cs) = filter guarded cs"
  using guarded_awaits by (induction cs) auto

lemma settled_simps [simp]:
  "settled (p @ q) = (settled p \<and> settled q)"
  "settled (c # q) = (replies c \<subseteq> (if guarded c then finished else neutral) \<and> settled q)"
  by (auto simp: settled_def)

lemma settled_awaiting: "settled cs \<Longrightarrow> settled (awaiting cs)"
  by (auto simp: settled_def awaiting_def)

lemma settled_emits: "upd m s = (s', cs) \<Longrightarrow> settled (awaiting cs)"
  using emits [of m s s' cs] by (auto simp: settled_def awaiting_def)

lemma in_flight:
  "reach upd view env start s p \<Longrightarrow> settled p \<and> length (filter guarded p) = (if busy s then 1 else 0)"
proof (induction rule: reach.induct)
  case (mount s cs)
  from mount_idle [OF this] have idle: "filter guarded cs = []" "\<not> busy s" "\<forall>c \<in> set cs. replies c \<subseteq> neutral"
    by auto
  then have "settled cs" by (auto simp: settled_def filter_empty_conv)
  with idle show ?case by (simp add: guarded_awaiting settled_awaiting)
next
  case (act s p m s' cs)
  then show ?case using starts [of m s s' cs] settled_emits
    by (auto simp: guarded_awaiting split: if_splits)
next
  case (reply s p c q m s' cs)
  have "settled (p @ c # q)" and len: "length (filter guarded (p @ c # q)) = (if busy s then 1 else 0)"
    using reply.IH by auto
  then have m: "m \<in> (if guarded c then finished else neutral)" "settled p" "settled q"
    using reply.hyps by auto
  show ?case
    using m len reply.hyps finishes [of m s s' cs] passes [of m s s' cs] settled_emits
    by (cases "guarded c") (auto simp: guarded_awaiting split: if_splits)
qed

lemma at_most_one: "reach upd view env start s p \<Longrightarrow> length (filter guarded p) \<le> 1"
  using in_flight [of s p] by (simp split: if_splits)

lemma idle_none: "reach upd view env start s p \<Longrightarrow> \<not> busy s \<Longrightarrow> filter guarded p = []"
  using in_flight [of s p] by simp

end

end
