(* ===== verification/Hooks.thy ===== *)
theory Hooks
  imports Api
begin

text \<open>
  The loading hooks: \<open>src/ui/src/lib/use-fetch.js\<close> and \<open>docker.js\<close>, and the contract they
  share with every effect of the UI that loads something.

  An effect is run again when a dependency changes, after the cleanup of the run before it. The runs
  of one effect are numbered; the cleanup's \<open>cancelled\<close> (or \<open>!alive\<close>) flag of a run is set
  exactly when a later run or the unmount has happened, so a run is alive when its number is the
  current one.
\<close>

section \<open>The contract: only the newest load is shown\<close>

locale guarded_load =
  fixes gen :: "'s \<Rightarrow> nat"
    and deliver :: "nat \<Rightarrow> 'r \<Rightarrow> 's \<Rightarrow> 's"
    and visible :: "'s \<Rightarrow> 'v"
    and outcome :: "'s \<Rightarrow> 'r \<Rightarrow> 'v"
  assumes gen_deliver: "gen (deliver n r s) = gen s"
    and stale: "n \<noteq> gen s \<Longrightarrow> deliver n r s = s"
    and current: "visible (deliver (gen s) r s) = outcome s r"
begin

definition deliver_all :: "(nat \<times> 'r) list \<Rightarrow> 's \<Rightarrow> 's" where
  "deliver_all ds s = fold (\<lambda>(n, r). deliver n r) ds s"

lemma gen_deliver_all: "gen (deliver_all ds s) = gen s"
  unfolding deliver_all_def by (induction ds arbitrary: s) (auto simp: gen_deliver)

lemma deliver_all_stale: "(\<forall>d \<in> set ds. fst d \<noteq> gen s) \<Longrightarrow> deliver_all ds s = s"
  unfolding deliver_all_def by (induction ds arbitrary: s) (auto simp: stale)

lemma newest_wins:
  assumes "ds = as @ (gen s, r) # bs"
    and "\<forall>d \<in> set as \<union> set bs. fst d \<noteq> gen s"
  shows "visible (deliver_all ds s) = outcome s r"
proof -
  have "deliver_all ds s = deliver_all bs (deliver (gen s) r (deliver_all as s))"
    using assms(1) by (simp add: deliver_all_def)
  also have "deliver_all as s = s" using assms(2) by (intro deliver_all_stale) auto
  also have "deliver_all bs (deliver (gen s) r s) = deliver (gen s) r s"
    using assms(2) by (intro deliver_all_stale) (auto simp: gen_deliver)
  finally show ?thesis by (simp add: current)
qed

end

section \<open>useFetch\<close>

record ('a, 'e) fetch_hook =
  fh_data :: "'a option"
  fh_loading :: bool
  fh_error :: "'e option"
  fh_nonce :: nat
  fh_generation :: nat
  fh_cancelled :: "nat set"

definition fetch_init :: "'a option \<Rightarrow> ('a, 'e) fetch_hook" where
  "fetch_init initial = \<lparr>fh_data = initial, fh_loading = True, fh_error = None, fh_nonce = 0,
     fh_generation = 0, fh_cancelled = {}\<rparr>"

text \<open>
  The effect: the cleanup of the run before sets its \<open>cancelled\<close>; then
  \<open>mine = ++generation.current\<close> and \<open>setLoading(true)\<close>.
\<close>

definition fetch_cleanup :: "nat \<Rightarrow> ('a, 'e) fetch_hook \<Rightarrow> ('a, 'e) fetch_hook" where
  "fetch_cleanup mine s = s\<lparr>fh_cancelled := insert mine (fh_cancelled s)\<rparr>"

definition fetch_effect :: "('a, 'e) fetch_hook \<Rightarrow> ('a, 'e) fetch_hook" where
  "fetch_effect s = (let s1 = fetch_cleanup (fh_generation s) s
     in s1\<lparr>fh_generation := Suc (fh_generation s1), fh_loading := True\<rparr>)"

definition fetch_ignored :: "nat \<Rightarrow> ('a, 'e) fetch_hook \<Rightarrow> bool" where
  "fetch_ignored mine s \<longleftrightarrow> mine \<in> fh_cancelled s \<or> mine \<noteq> fh_generation s"

definition fetch_then :: "nat \<Rightarrow> 'a \<Rightarrow> ('a, 'e) fetch_hook \<Rightarrow> ('a, 'e) fetch_hook" where
  "fetch_then mine value s = (if fetch_ignored mine s then s else s\<lparr>fh_data := Some value, fh_error := None\<rparr>)"

definition fetch_catch :: "nat \<Rightarrow> 'e \<Rightarrow> ('a, 'e) fetch_hook \<Rightarrow> ('a, 'e) fetch_hook" where
  "fetch_catch mine err s = (if fetch_ignored mine s then s else s\<lparr>fh_error := Some err\<rparr>)"

definition fetch_finally :: "nat \<Rightarrow> ('a, 'e) fetch_hook \<Rightarrow> ('a, 'e) fetch_hook" where
  "fetch_finally mine s = (if fetch_ignored mine s then s else s\<lparr>fh_loading := False\<rparr>)"

text \<open>The promise of one run settles: its value or its error, then \<open>finally\<close>.\<close>

definition fetch_settle :: "nat \<Rightarrow> 'e + 'a \<Rightarrow> ('a, 'e) fetch_hook \<Rightarrow> ('a, 'e) fetch_hook" where
  "fetch_settle mine res s = fetch_finally mine
     (case res of Inl err \<Rightarrow> fetch_catch mine err s | Inr value \<Rightarrow> fetch_then mine value s)"

definition fetch_reload :: "('a, 'e) fetch_hook \<Rightarrow> ('a, 'e) fetch_hook" where
  "fetch_reload s = fetch_effect (s\<lparr>fh_nonce := Suc (fh_nonce s)\<rparr>)"

definition fetch_setData :: "'a \<Rightarrow> ('a, 'e) fetch_hook \<Rightarrow> ('a, 'e) fetch_hook" where
  "fetch_setData v s = s\<lparr>fh_data := Some v\<rparr>"

text \<open>What a component reads from the hook.\<close>

definition fetch_view :: "('a, 'e) fetch_hook \<Rightarrow> 'a option \<times> bool \<times> 'e option" where
  "fetch_view s = (fh_data s, fh_loading s, fh_error s)"

text \<open>The microtasks of any number of runs, and reloads, in any order.\<close>

datatype ('a, 'e) fetch_event = Settled nat "'e + 'a" | Restart | Unmount

primrec fetch_step :: "('a, 'e) fetch_event \<Rightarrow> ('a, 'e) fetch_hook \<Rightarrow> ('a, 'e) fetch_hook" where
  "fetch_step (Settled n r) s = fetch_settle n r s"
| "fetch_step Restart s = fetch_effect s"
| "fetch_step Unmount s = fetch_cleanup (fh_generation s) s"

definition fetch_wf :: "('a, 'e) fetch_hook \<Rightarrow> bool" where
  "fetch_wf s \<longleftrightarrow> (\<forall>n \<in> fh_cancelled s. n < fh_generation s)"

lemma fetch_init_effect_wf: "fetch_wf (fetch_effect (fetch_init i))"
  by (simp add: fetch_wf_def fetch_effect_def fetch_cleanup_def fetch_init_def Let_def)

lemma fetch_effect_wf: "fetch_wf s \<Longrightarrow> fetch_wf (fetch_effect s)"
  by (auto simp: fetch_wf_def fetch_effect_def fetch_cleanup_def Let_def)

lemma fetch_settle_frame:
  "fh_generation (fetch_settle n r s) = fh_generation s" "fh_cancelled (fetch_settle n r s) = fh_cancelled s"
  by (auto simp: fetch_settle_def fetch_finally_def fetch_catch_def fetch_then_def split: sum.splits)

lemma fetch_settle_wf: "fetch_wf s \<Longrightarrow> fetch_wf (fetch_settle n r s)"
  by (simp add: fetch_wf_def fetch_settle_frame)

lemma fetch_settle_stale: "n \<noteq> fh_generation s \<Longrightarrow> fetch_settle n r s = s"
  by (auto simp: fetch_settle_def fetch_finally_def fetch_catch_def fetch_then_def fetch_ignored_def
      split: sum.splits)

lemma fetch_settle_current:
  "fetch_wf s \<Longrightarrow> fetch_view (fetch_settle (fh_generation s) r s) =
     (case r of Inl err \<Rightarrow> (fh_data s, False, Some err) | Inr v \<Rightarrow> (Some v, False, None))"
  by (auto simp: fetch_settle_def fetch_finally_def fetch_catch_def fetch_then_def fetch_ignored_def
      fetch_view_def fetch_wf_def split: sum.splits)

text \<open>
  \<open>useFetch\<close> keeps the contract; the well-formedness of its flags is carried by restricting the
  delivery to well-formed states.
\<close>

definition fetch_deliver :: "nat \<Rightarrow> 'e + 'a \<Rightarrow> ('a, 'e) fetch_hook \<Rightarrow> ('a, 'e) fetch_hook" where
  "fetch_deliver n r s = fetch_settle n r s"

definition fetch_outcome :: "('a, 'e) fetch_hook \<Rightarrow> 'e + 'a \<Rightarrow> 'a option \<times> bool \<times> 'e option" where
  "fetch_outcome s r = (if fh_generation s \<in> fh_cancelled s then fetch_view s
     else case r of Inl err \<Rightarrow> (fh_data s, False, Some err) | Inr v \<Rightarrow> (Some v, False, None))"

interpretation use_fetch: guarded_load fh_generation fetch_deliver fetch_view fetch_outcome
proof
  fix n :: nat and r :: "'e + 'a" and s :: "('a, 'e) fetch_hook"
  show "fh_generation (fetch_deliver n r s) = fh_generation s"
    by (simp add: fetch_deliver_def fetch_settle_frame)
  show "n \<noteq> fh_generation s \<Longrightarrow> fetch_deliver n r s = s"
    by (simp add: fetch_deliver_def fetch_settle_stale)
  show "fetch_view (fetch_deliver (fh_generation s) r s) = fetch_outcome s r"
    by (auto simp: fetch_deliver_def fetch_outcome_def fetch_settle_def fetch_finally_def
        fetch_catch_def fetch_then_def fetch_ignored_def fetch_view_def split: sum.splits)
qed

definition fetch_run :: "('a, 'e) fetch_event list \<Rightarrow> ('a, 'e) fetch_hook \<Rightarrow> ('a, 'e) fetch_hook" where
  "fetch_run es s = fold fetch_step es s"

lemma fetch_run_settled:
  "fetch_run (map (\<lambda>(n, r). Settled n r) ds) s = use_fetch.deliver_all ds s"
  unfolding fetch_run_def use_fetch.deliver_all_def
  by (induction ds arbitrary: s) (auto simp: fetch_deliver_def)

lemma fetch_run_wf: "fetch_wf s \<Longrightarrow> Unmount \<notin> set es \<Longrightarrow> fetch_wf (fetch_run es s)"
  unfolding fetch_run_def
proof (induction es arbitrary: s)
  case (Cons e es)
  then have "fetch_wf (fetch_step e s)"
    by (cases e) (auto simp: fetch_effect_wf fetch_settle_wf)
  with Cons show ?case by simp
qed simp

text \<open>
  C17. The newest request wins: whatever loads and replies came before, once the effect has run again,
  the value its own request resolves to is what the component shows, with loading off and no
  error, however many replies of older requests arrive before or after it; an error it rejects
  with is shown beside the data of before.
\<close>

theorem useFetch_newest_wins:
  assumes "Unmount \<notin> set es" and "s = fetch_effect (fetch_run es (fetch_effect (fetch_init i)))"
    and "\<forall>d \<in> set as \<union> set bs. fst d \<noteq> fh_generation s"
  shows "fetch_view (fetch_run (map (\<lambda>(n, r). Settled n r) (as @ (fh_generation s, res) # bs)) s) =
    (case res of Inl err \<Rightarrow> (fh_data s, False, Some err) | Inr v \<Rightarrow> (Some v, False, None))"
proof -
  have "fetch_wf s"
    unfolding assms(2) by (intro fetch_effect_wf fetch_run_wf fetch_init_effect_wf assms(1))
  then have "fh_generation s \<notin> fh_cancelled s" by (auto simp: fetch_wf_def)
  then show ?thesis
    unfolding fetch_run_settled using use_fetch.newest_wins [OF refl assms(3), of res]
    by (simp add: fetch_outcome_def)
qed

theorem useFetch_newest_wins_witness:
  "fetch_view (fetch_run [Settled 2 (Inr 20), Settled 1 (Inr 10)]
      (fetch_effect (fetch_run [] (fetch_effect (fetch_init None))) :: (int, string) fetch_hook)) =
   (Some 20, False, None)"
proof -
  let ?s = "fetch_effect (fetch_run [] (fetch_effect (fetch_init None))) :: (int, string) fetch_hook"
  have g: "fh_generation ?s = 2"
    by (simp add: fetch_effect_def fetch_run_def fetch_cleanup_def fetch_init_def Let_def)
  have u: "Unmount \<notin> set ([] :: (int, string) fetch_event list)" by simp
  from useFetch_newest_wins [OF u refl, of "[]" "[(1, Inr 10)]" None "Inr 20"] g show ?thesis by simp
qed

section \<open>The Docker status, fetched once\<close>

text \<open>
  The module variables of \<open>docker.js\<close> and the hooks that use them, by a number per mounted
  component. \<open>dw_waiting\<close> are the mounted components whose \<open>then\<close> is registered on
  \<open>pending\<close>; \<open>dw_requests\<close> counts the requests issued.
\<close>

record docker_world =
  dw_cached :: "docker_status option"
  dw_pending :: bool
  dw_waiting :: "nat set"
  dw_mounted :: "nat set"
  dw_status :: "nat \<Rightarrow> docker_status option"
  dw_requests :: nat

definition docker_init :: docker_world where
  "docker_init = \<lparr>dw_cached = None, dw_pending = False, dw_waiting = {}, dw_mounted = {},
     dw_status = (\<lambda>_. None), dw_requests = 0\<rparr>"

definition fetchStatus :: "docker_world \<Rightarrow> docker_world" where
  "fetchStatus w = (if \<not> dw_pending w then w\<lparr>dw_pending := True, dw_requests := Suc (dw_requests w)\<rparr> else w)"

definition docker_mount :: "nat \<Rightarrow> docker_world \<Rightarrow> docker_world" where
  "docker_mount c w =
     (let w1 = w\<lparr>dw_mounted := insert c (dw_mounted w), dw_status := (dw_status w)(c := dw_cached w)\<rparr>
      in if dw_cached w \<noteq> None then w1
         else let w2 = fetchStatus w1 in w2\<lparr>dw_waiting := insert c (dw_waiting w2)\<rparr>)"

definition docker_unmount :: "nat \<Rightarrow> docker_world \<Rightarrow> docker_world" where
  "docker_unmount c w = w\<lparr>dw_mounted := dw_mounted w - {c}, dw_waiting := dw_waiting w - {c}\<rparr>"

definition docker_unreachable :: docker_status where
  "docker_unreachable = \<lparr>dk_available = False, dk_coolify = False, dk_message = ''Could not ask the server.''\<rparr>"

definition docker_reply :: "response \<Rightarrow> docker_world \<Rightarrow> docker_world" where
  "docker_reply res w =
     (let s = (case b_docker (body_of res) of Some d \<Rightarrow> d | None \<Rightarrow> docker_unreachable)
      in w\<lparr>dw_cached := Some s,
           dw_status := (\<lambda>c. if c \<in> dw_waiting w then Some s else dw_status w c),
           dw_waiting := {}\<rparr>)"

text \<open>The reply arrives once, to the one request.\<close>

inductive docker_reach :: "docker_world \<Rightarrow> bool" where
  dr_init: "docker_reach docker_init"
| dr_mount: "docker_reach w \<Longrightarrow> c \<notin> dw_mounted w \<Longrightarrow> docker_reach (docker_mount c w)"
| dr_unmount: "docker_reach w \<Longrightarrow> docker_reach (docker_unmount c w)"
| dr_reply: "docker_reach w \<Longrightarrow> dw_pending w \<Longrightarrow> dw_cached w = None \<Longrightarrow> docker_reach (docker_reply res w)"

definition docker_inv :: "docker_world \<Rightarrow> bool" where
  "docker_inv w \<longleftrightarrow> dw_requests w = (if dw_pending w then 1 else 0)
     \<and> (\<forall>c \<in> dw_mounted w. dw_status w c = dw_cached w)
     \<and> (dw_cached w = None \<longrightarrow> dw_waiting w = dw_mounted w)
     \<and> (dw_mounted w \<noteq> {} \<longrightarrow> dw_cached w = None \<longrightarrow> dw_pending w)"

lemma docker_reach_inv: "docker_reach w \<Longrightarrow> docker_inv w"
proof (induction rule: docker_reach.induct)
  case dr_init
  show ?case by (simp add: docker_inv_def docker_init_def)
next
  case (dr_mount w c)
  then show ?case
    by (auto simp: docker_inv_def docker_mount_def fetchStatus_def Let_def)
next
  case (dr_unmount w c)
  then show ?case by (auto simp: docker_inv_def docker_unmount_def)
next
  case (dr_reply w res)
  then show ?case by (auto simp: docker_inv_def docker_reply_def Let_def)
qed

text \<open>
  The Docker status is asked for at most once while the page is open, however components mount
  and unmount, and at every moment all mounted components show the same status: nothing before
  the reply, the reply (or "could not ask") after it.
\<close>

theorem docker_status_shared:
  assumes "docker_reach w"
  shows "dw_requests w \<le> 1 \<and> (\<forall>c \<in> dw_mounted w. dw_status w c = dw_cached w)
    \<and> (dw_mounted w \<noteq> {} \<longrightarrow> dw_requests w = 1 \<or> dw_cached w \<noteq> None)"
  using docker_reach_inv [OF assms] by (auto simp: docker_inv_def)

theorem docker_status_shared_witness:
  "dw_requests (docker_mount 2 (docker_mount 1 docker_init)) \<le> 1"
proof -
  have "docker_reach (docker_mount 2 (docker_mount 1 docker_init))"
    by (intro dr_mount dr_init) (simp_all add: docker_mount_def docker_init_def fetchStatus_def Let_def)
  from docker_status_shared [OF this] show ?thesis by simp
qed

section \<open>The containers that use a path\<close>

record containers_hook =
  ch_containers :: "container list"
  ch_run :: nat
  ch_live :: bool \<comment> \<open>whether the current run of the effect has issued a request\<close>

definition containers_init :: containers_hook where
  "containers_init = \<lparr>ch_containers = [], ch_run = 0, ch_live = False\<rparr>"

text \<open>The effect of \<open>useContainersUsing\<close>, with the request it issues, if any.\<close>

definition containers_effect :: "bool \<Rightarrow> string \<Rightarrow> containers_hook \<Rightarrow> containers_hook \<times> string option" where
  "containers_effect available path s =
     (let s1 = s\<lparr>ch_containers := [], ch_run := Suc (ch_run s)\<rparr>
      in if \<not> available \<or> path = '''' \<or> \<not> starts_with ''/'' path then (s1\<lparr>ch_live := False\<rparr>, None)
         else (s1\<lparr>ch_live := True\<rparr>, Some path))"

definition containers_reply :: "nat \<Rightarrow> response \<Rightarrow> containers_hook \<Rightarrow> containers_hook" where
  "containers_reply n res s =
     (if n = ch_run s \<and> res_ok res
      then s\<lparr>ch_containers := (case b_containers (body_of res) of None \<Rightarrow> [] | Some cs \<Rightarrow> cs)\<rparr> else s)"

definition containers_outcome :: "containers_hook \<Rightarrow> response \<Rightarrow> container list" where
  "containers_outcome s res = (if res_ok res
     then (case b_containers (body_of res) of None \<Rightarrow> [] | Some cs \<Rightarrow> cs) else ch_containers s)"

interpretation containers_using: guarded_load ch_run containers_reply ch_containers containers_outcome
  by unfold_locales (auto simp: containers_reply_def containers_outcome_def)

text \<open>
  The containers a restore would stop are those of the path on screen: after the path changes, the
  list is empty until the reply for the new path arrives and then is that reply's, whatever late
  replies for earlier paths come in between.
\<close>

theorem containersUsing_current_path:
  assumes "containers_effect True path s = (s', Some path)"
    and "\<forall>d \<in> set as \<union> set bs. fst d \<noteq> ch_run s'"
  shows "ch_containers (fold (\<lambda>(n, r). containers_reply n r) as s') = []
    \<and> (res_ok res \<longrightarrow>
        ch_containers (fold (\<lambda>(n, r). containers_reply n r) (as @ (ch_run s', res) # bs) s') =
        (case b_containers (body_of res) of None \<Rightarrow> [] | Some cs \<Rightarrow> cs))"
proof -
  have e: "ch_containers s' = []"
    using assms(1) by (auto simp: containers_effect_def Let_def split: if_splits)
  have "containers_using.deliver_all as s' = s'"
    using assms(2) by (intro containers_using.deliver_all_stale) auto
  with e show ?thesis
    using containers_using.newest_wins [OF refl assms(2), of res]
    unfolding containers_using.deliver_all_def by (simp add: containers_outcome_def)
qed

theorem containersUsing_current_path_witness:
  "ch_containers (fold (\<lambda>(n, r). containers_reply n r)
     [(1, ok_body (empty_body\<lparr>b_containers := Some [\<lparr>ct_id = ''c'', ct_name = ''web''\<rparr>]\<rparr>))]
     (fst (containers_effect True ''/srv'' containers_init))) = [\<lparr>ct_id = ''c'', ct_name = ''web''\<rparr>]"
proof -
  let ?res = "ok_body (empty_body\<lparr>b_containers := Some [\<lparr>ct_id = ''c'', ct_name = ''web''\<rparr>]\<rparr>)"
  let ?s = "fst (containers_effect True ''/srv'' containers_init)"
  have e: "containers_effect True ''/srv'' containers_init = (?s, Some ''/srv'')"
    by (simp add: containers_effect_def Let_def starts_with_def)
  have r: "ch_run ?s = 1" by (simp add: containers_effect_def containers_init_def Let_def starts_with_def)
  from containersUsing_current_path [OF e, of "[]" "[]" ?res] r show ?thesis
    by (simp add: ok_body_def body_of_def)
qed

end
