(* ===== verification/Live.thy ===== *)
theory Live
  imports RunStatus Api
begin

text \<open>
  \<open>src/ui/src/lib/live.jsx\<close>: the live state fed by the server's event streams: the provider's list
  of active runs, and one run's record, progress and log.
\<close>

text \<open>
  What \<open>JSON.parse(e.data)\<close> gives \<open>onmessage\<close>: nothing when it throws, else the event's
  \<open>type\<close> and the payloads it carries.
\<close>

record stream_event =
  ev_type :: string
  ev_run :: "run option"
  ev_progress :: "progress option"
  ev_line :: "log_line option"

type_synonym message = "stream_event option"

section \<open>The provider of the active runs\<close>

record server_status =
  ss_resticInstalled :: bool
  ss_resticVersion :: string

record live =
  lv_status :: server_status
  lv_activeRuns :: "run list"
  lv_runsVersion :: nat

definition live_init :: live where
  "live_init = \<lparr>lv_status = \<lparr>ss_resticInstalled = False, ss_resticVersion = ''''\<rparr>, lv_activeRuns = [],
     lv_runsVersion = 0\<rparr>"

text \<open>The continuation of \<open>refreshStatus\<close>, on the reply to \<open>Status.get\<close>.\<close>

definition refreshStatus :: "response \<Rightarrow> live \<Rightarrow> live" where
  "refreshStatus r s = (if res_ok r
     then s\<lparr>lv_status := \<lparr>ss_resticInstalled = b_resticInstalled (body_of r),
            ss_resticVersion = b_resticVersion (body_of r)\<rparr>\<rparr>
     else s)"

definition live_onmessage :: "message \<Rightarrow> live \<Rightarrow> live" where
  "live_onmessage e s = (case e of None \<Rightarrow> s
     | Some ev \<Rightarrow> (if ev_type ev \<noteq> ''run'' then s
         else case ev_run ev of None \<Rightarrow> s
         | Some r \<Rightarrow>
             let rest = filter (\<lambda>x. run_id x \<noteq> run_id r) (lv_activeRuns s)
             in s\<lparr>lv_activeRuns := (if isActive (run_status r) then rest @ [r] else rest),
                  lv_runsVersion := Suc (lv_runsVersion s)\<rparr>))"

definition live_run :: "message list \<Rightarrow> live \<Rightarrow> live" where
  "live_run es s = fold live_onmessage es s"

text \<open>The abstract specification: the last run record the stream sent, by run id.\<close>

definition run_event :: "message \<Rightarrow> run option" where
  "run_event e = (case e of None \<Rightarrow> None | Some ev \<Rightarrow> if ev_type ev = ''run'' then ev_run ev else None)"

definition last_record :: "message list \<Rightarrow> string \<rightharpoonup> run" where
  "last_record es = fold (\<lambda>e m. case run_event e of None \<Rightarrow> m | Some r \<Rightarrow> m(run_id r \<mapsto> r)) es Map.empty"

definition live_matches :: "live \<Rightarrow> (string \<rightharpoonup> run) \<Rightarrow> bool" where
  "live_matches s m \<longleftrightarrow> distinct (map run_id (lv_activeRuns s)) \<and>
     (\<forall>r. r \<in> set (lv_activeRuns s) \<longleftrightarrow> m (run_id r) = Some r \<and> isActive (run_status r))"

lemma live_onmessage_step:
  assumes "live_matches s m"
  shows "live_matches (live_onmessage e s) (case run_event e of None \<Rightarrow> m | Some r \<Rightarrow> m(run_id r \<mapsto> r))"
proof (cases "run_event e")
  case None
  then have "live_onmessage e s = s"
    by (auto simp: live_onmessage_def run_event_def split: option.splits if_splits)
  with None assms show ?thesis by simp
next
  case (Some r)
  then have "live_onmessage e s = s\<lparr>lv_activeRuns :=
      (if isActive (run_status r) then filter (\<lambda>x. run_id x \<noteq> run_id r) (lv_activeRuns s) @ [r]
       else filter (\<lambda>x. run_id x \<noteq> run_id r) (lv_activeRuns s)),
      lv_runsVersion := Suc (lv_runsVersion s)\<rparr>"
    by (auto simp: live_onmessage_def run_event_def Let_def split: option.splits if_splits)
  with Some assms show ?thesis
    by (auto simp: live_matches_def filter_filter_neq)
qed

lemma live_run_matches:
  "live_matches s m \<Longrightarrow> live_matches (live_run es s)
     (fold (\<lambda>e m. case run_event e of None \<Rightarrow> m | Some r \<Rightarrow> m(run_id r \<mapsto> r)) es m)"
  unfolding live_run_def
proof (induction es arbitrary: s m)
  case (Cons e es)
  then show ?case using live_onmessage_step [OF Cons.prems, of e] by simp
qed simp

lemma live_version: "lv_runsVersion (live_run es s) = lv_runsVersion s + length (filter (\<lambda>e. run_event e \<noteq> None) es)"
  unfolding live_run_def
proof (induction es arbitrary: s)
  case (Cons e es)
  have "lv_runsVersion (live_onmessage e s) = lv_runsVersion s + (if run_event e \<noteq> None then 1 else 0)"
    by (auto simp: live_onmessage_def run_event_def Let_def split: option.splits)
  with Cons show ?case by simp
qed simp

text \<open>
  C20. The list of active runs is what the stream says: after any sequence of messages, garbled and
  foreign ones included, it holds, once each, exactly the runs whose last record on the stream is
  an active one, and \<open>runsVersion\<close> counts the run events, so every change of a run bumps it.
\<close>

theorem activeRuns_refines_stream:
  "distinct (map run_id (lv_activeRuns (live_run es live_init)))
   \<and> set (lv_activeRuns (live_run es live_init)) =
       {r. last_record es (run_id r) = Some r \<and> isActive (run_status r)}
   \<and> lv_runsVersion (live_run es live_init) = length (filter (\<lambda>e. run_event e \<noteq> None) es)"
proof -
  have "live_matches live_init Map.empty" by (simp add: live_matches_def live_init_def)
  from live_run_matches [OF this, of es] show ?thesis
    by (auto simp: live_matches_def last_record_def live_version live_init_def)
qed

section \<open>One run's stream\<close>

definition SKIP_BACKLOG_SEQ :: nat where
  "SKIP_BACKLOG_SEQ = 9007199254740991"

record run_stream =
  rs_run :: "run option"
  rs_lines :: "log_line list"
  rs_seenSeq :: nat
  rs_withLog :: bool
  rs_url :: "string option" \<comment> \<open>the open \<open>EventSource\<close>, if any\<close>

definition run_stream_init :: "bool \<Rightarrow> run_stream" where
  "run_stream_init withLog = \<lparr>rs_run = None, rs_lines = [], rs_seenSeq = 0, rs_withLog = withLog, rs_url = None\<rparr>"

text \<open>
  The effect on \<open>[runId, withLog]\<close>: the stream before is closed; without a run id nothing is
  opened, and nothing is reset either.
\<close>

definition run_stream_effect :: "string \<Rightarrow> run_stream \<Rightarrow> run_stream" where
  "run_stream_effect runId s =
     (if runId = '''' then s\<lparr>rs_url := None\<rparr>
      else s\<lparr>rs_seenSeq := 0, rs_lines := [],
             rs_url := Some (if rs_withLog s then ''/api/runs/'' @ runId @ ''/events''
               else ''/api/runs/'' @ runId @ ''/events?after='' @ show_nat SKIP_BACKLOG_SEQ)\<rparr>)"

definition stream_line :: "log_line \<Rightarrow> run_stream \<Rightarrow> run_stream" where
  "stream_line line s =
     (if ln_seq line \<noteq> 0 \<and> ln_seq line \<le> rs_seenSeq s then s
      else s\<lparr>rs_seenSeq := (if ln_seq line \<noteq> 0 then ln_seq line else rs_seenSeq s),
             rs_lines := rs_lines s @ [line]\<rparr>)"

definition run_onmessage :: "message \<Rightarrow> run_stream \<Rightarrow> run_stream" where
  "run_onmessage e s = (case e of None \<Rightarrow> s
     | Some ev \<Rightarrow>
         if ev_type ev = ''run'' \<and> ev_run ev \<noteq> None then s\<lparr>rs_run := ev_run ev\<rparr>
         else if ev_type ev = ''progress'' \<and> ev_progress ev \<noteq> None then
           s\<lparr>rs_run := map_option (\<lambda>r. r\<lparr>run_progress := ev_progress ev\<rparr>) (rs_run s)\<rparr>
         else if ev_type ev = ''log'' \<and> ev_line ev \<noteq> None \<and> rs_withLog s then
           stream_line (the (ev_line ev)) s
         else s)"

definition stream_run :: "message list \<Rightarrow> run_stream \<Rightarrow> run_stream" where
  "stream_run es s = fold run_onmessage es s"

definition log_msg :: "log_line \<Rightarrow> message" where
  "log_msg l = Some \<lparr>ev_type = ''log'', ev_run = None, ev_progress = None, ev_line = Some l\<rparr>"

text \<open>The numbered lines a stream has delivered are in strictly increasing order.\<close>

definition seqs :: "run_stream \<Rightarrow> nat list" where
  "seqs s = filter (\<lambda>n. n \<noteq> 0) (map ln_seq (rs_lines s))"

definition stream_inv :: "run_stream \<Rightarrow> bool" where
  "stream_inv s \<longleftrightarrow> sorted_wrt (<) (seqs s) \<and> (\<forall>n \<in> set (seqs s). n \<le> rs_seenSeq s)"

lemma stream_line_inv: "stream_inv s \<Longrightarrow> stream_inv (stream_line l s)"
  by (auto simp: stream_inv_def stream_line_def seqs_def sorted_wrt_append)

lemma run_onmessage_inv: "stream_inv s \<Longrightarrow> stream_inv (run_onmessage e s)"
proof -
  assume s: "stream_inv s"
  have frame: "stream_inv (s\<lparr>rs_run := r\<rparr>)" for r using s by (simp add: stream_inv_def seqs_def)
  show ?thesis
    by (cases e) (auto simp: run_onmessage_def s frame stream_line_inv)
qed

lemma stream_run_inv: "stream_inv s \<Longrightarrow> stream_inv (stream_run es s)"
  unfolding stream_run_def by (induction es arbitrary: s) (auto simp: run_onmessage_inv)

text \<open>
  No log line is shown twice: whatever the stream sends, in whatever order, with lines replayed or
  events mixed in, the numbered lines on screen are in strictly increasing sequence order.
\<close>

theorem stream_lines_increasing:
  "sorted_wrt (<) (seqs (stream_run es (run_stream_effect runId (run_stream_init withLog))))"
proof -
  have "stream_inv (run_stream_effect runId (run_stream_init withLog))"
    by (simp add: stream_inv_def run_stream_effect_def run_stream_init_def seqs_def)
  then show ?thesis using stream_run_inv by (auto simp: stream_inv_def)
qed

text \<open>
  The server's side of a resumed stream: the durable log numbers its lines from 1, and each
  connection sends a stretch of it that starts no later than where the last one stopped.
\<close>

definition durable_log :: "log_line list \<Rightarrow> bool" where
  "durable_log lg \<longleftrightarrow> map ln_seq lg = [1..<Suc (length lg)]"

definition stretch :: "log_line list \<Rightarrow> nat \<times> nat \<Rightarrow> message list" where
  "stretch lg ab = map log_msg (take (snd ab - fst ab) (drop (fst ab) lg))"

fun no_gap :: "nat \<Rightarrow> (nat \<times> nat) list \<Rightarrow> bool" where
  "no_gap k [] = True"
| "no_gap k ((a, b) # cs) = (a \<le> k \<and> a \<le> b \<and> no_gap (max k b) cs)"

lemma durable_seq: "durable_log lg \<Longrightarrow> i < length lg \<Longrightarrow> ln_seq (lg ! i) = Suc i"
proof -
  assume lg: "durable_log lg" and i: "i < length lg"
  have "ln_seq (lg ! i) = map ln_seq lg ! i" using i by simp
  also have "\<dots> = [1..<Suc (length lg)] ! i" using lg by (simp only: durable_log_def)
  finally show ?thesis using i by (simp del: upt_Suc)
qed

definition caught_up :: "log_line list \<Rightarrow> nat \<Rightarrow> run_stream \<Rightarrow> bool" where
  "caught_up lg k s \<longleftrightarrow> k \<le> length lg \<and> rs_withLog s \<and> rs_seenSeq s = k \<and> rs_lines s = take k lg"

lemma deliver_line:
  assumes "durable_log lg" and "i < length lg" and "i \<le> k" and "caught_up lg k s"
  shows "caught_up lg (max k (Suc i)) (run_onmessage (log_msg (lg ! i)) s)"
proof -
  have q: "ln_seq (lg ! i) = Suc i" by (rule durable_seq [OF assms(1,2)])
  have "run_onmessage (log_msg (lg ! i)) s = stream_line (lg ! i) s"
    using assms(4) by (simp add: run_onmessage_def log_msg_def caught_up_def)
  moreover have "caught_up lg (max k (Suc i)) (stream_line (lg ! i) s)"
  proof (cases "i = k")
    case True
    then show ?thesis using q assms(2,4)
      by (simp add: caught_up_def stream_line_def max_def take_Suc_conv_app_nth)
  next
    case False
    then have "Suc i \<le> k" using assms(3) by simp
    moreover from this have "max k (Suc i) = k" by simp
    ultimately show ?thesis using q assms(4) by (simp add: caught_up_def stream_line_def)
  qed
  ultimately show ?thesis by simp
qed

lemma stretch_Suc:
  "a < b \<Longrightarrow> a < length lg \<Longrightarrow> stretch lg (a, b) = log_msg (lg ! a) # stretch lg (Suc a, b)"
  by (simp add: stretch_def Cons_nth_drop_Suc [symmetric] take_Cons' del: drop_Suc)

lemma deliver_stretch:
  assumes "durable_log lg" and "caught_up lg k s" and "a \<le> k" and "a \<le> b"
  shows "caught_up lg (max k (min b (length lg))) (stream_run (stretch lg (a, b)) s)"
  using assms(2-)
proof (induction "b - a" arbitrary: a k s)
  case 0
  then show ?case by (auto simp: stretch_def stream_run_def caught_up_def max_def)
next
  case (Suc d)
  show ?case
  proof (cases "a < length lg")
    case True
    have "caught_up lg (max k (Suc a)) (run_onmessage (log_msg (lg ! a)) s)"
      by (rule deliver_line [OF assms(1) True Suc.prems(2,1)])
    then have "caught_up lg (max (max k (Suc a)) (min b (length lg)))
        (stream_run (stretch lg (Suc a, b)) (run_onmessage (log_msg (lg ! a)) s))"
      using Suc.hyps(2) by (intro Suc.hyps(1)) auto
    moreover have "max (max k (Suc a)) (min b (length lg)) = max k (min b (length lg))"
      using True Suc.hyps(2) by auto
    ultimately show ?thesis
      using True Suc.hyps(2) by (simp add: stretch_Suc stream_run_def)
  next
    case False
    then show ?thesis using Suc.prems by (auto simp: stretch_def stream_run_def caught_up_def max_def)
  qed
qed

lemma deliver_stretches:
  assumes "durable_log lg" and "caught_up lg k s" and "no_gap k cs"
    and "\<forall>c \<in> set cs. snd c \<le> length lg"
  shows "caught_up lg (fold max (map snd cs) k) (stream_run (concat (map (stretch lg) cs)) s)"
  using assms(2-)
proof (induction cs arbitrary: k s)
  case Nil
  then show ?case by (simp add: stream_run_def)
next
  case (Cons c cs)
  obtain a b where c: "c = (a, b)" by (cases c)
  have "caught_up lg (max k (min b (length lg))) (stream_run (stretch lg (a, b)) s)"
    using Cons.prems c by (intro deliver_stretch [OF assms(1)]) auto
  then have s: "caught_up lg (max k b) (stream_run (stretch lg (a, b)) s)"
    using Cons.prems c by (simp add: min_def)
  have "caught_up lg (fold max (map snd cs) (max k b))
      (stream_run (concat (map (stretch lg) cs)) (stream_run (stretch lg (a, b)) s))"
    using Cons.prems c by (intro Cons.IH [OF s]) auto
  then show ?case using c by (simp add: stream_run_def max.commute)
qed

text \<open>
  C1. The log on screen is the durable log, exactly once and in order: over any number of connections
  that each resume at or before the end of what was sent (a replay from the start included), the
  lines are the first \<open>k\<close> lines of the log, where \<open>k\<close> is the furthest line sent.
\<close>

theorem stream_log_exactly_once:
  assumes "durable_log lg" and "no_gap 0 cs" and "\<forall>c \<in> set cs. snd c \<le> length lg" and "runId \<noteq> ''''"
  shows "rs_lines (stream_run (concat (map (stretch lg) cs))
      (run_stream_effect runId (run_stream_init True))) = take (fold max (map snd cs) 0) lg"
proof -
  have "caught_up lg 0 (run_stream_effect runId (run_stream_init True))"
    using assms(4) by (simp add: caught_up_def run_stream_effect_def run_stream_init_def)
  from deliver_stretches [OF assms(1) this assms(2,3)] show ?thesis by (simp add: caught_up_def)
qed

definition three_lines :: "log_line list" where
  "three_lines = map (\<lambda>n. \<lparr>ln_seq = n, ln_ts = '''', ln_level = ''info'', ln_message = show_nat n\<rparr>) [1, 2, 3]"

theorem stream_log_exactly_once_witness:
  "rs_lines (stream_run (concat (map (stretch three_lines) [(0, 2), (0, 1), (1, 3)]))
      (run_stream_effect ''r1'' (run_stream_init True))) = three_lines"
proof -
  have d: "durable_log three_lines" by (simp add: durable_log_def three_lines_def upt_rec)
  have n: "no_gap 0 [(0, 2), (0, 1), (1, 3)]" by simp
  have l: "\<forall>c \<in> set [(0, 2), (0, 1), (1, 3)]. snd c \<le> length three_lines"
    by (simp add: three_lines_def)
  show ?thesis using stream_log_exactly_once [OF d n l, of "''r1''"] by (simp add: three_lines_def)
qed

text \<open>Opening another run keeps the record of the one before on screen until the new stream's first event.\<close>

lemma run_stream_effect_keeps_run: "rs_run (run_stream_effect runId s) = rs_run s"
  by (simp add: run_stream_effect_def)

end
