(* ===== verification/Auth.thy ===== *)
theory Auth
  imports Endpoints
begin

text \<open>
  \<open>src/ui/src/lib/auth.jsx\<close> and the routing of \<open>main.jsx\<close>: the session state of the UI, and
  which screen a path shows under it. The \<open>Navigate\<close> elements of \<open>RequireAuth\<close>, the
  index route and the early returns of the login and setup screens are redirects.
\<close>

section \<open>The session state\<close>

record auth =
  au_loading :: bool
  au_setupRequired :: bool
  au_authenticated :: bool

definition auth_init :: auth where
  "auth_init = \<lparr>au_loading = True, au_setupRequired = False, au_authenticated = False\<rparr>"

definition auth_apply :: "body option \<Rightarrow> auth \<Rightarrow> auth" where
  "auth_apply b a = (case b of
     None \<Rightarrow> a\<lparr>au_setupRequired := False, au_authenticated := False\<rparr>
   | Some b \<Rightarrow> a\<lparr>au_setupRequired := b_setupRequired b, au_authenticated := b_authenticated b\<rparr>)"

definition auth_refresh :: "response \<Rightarrow> auth \<Rightarrow> auth" where
  "auth_refresh res a =
     (if res_ok res then auth_apply (res_body res) a
      else a\<lparr>au_setupRequired := False, au_authenticated := False\<rparr>)\<lparr>au_loading := False\<rparr>"

definition auth_setup :: "response \<Rightarrow> auth \<Rightarrow> auth" where
  "auth_setup res a = (if res_ok res then a\<lparr>au_setupRequired := False, au_authenticated := True\<rparr> else a)"

definition auth_login :: "response \<Rightarrow> auth \<Rightarrow> auth" where
  "auth_login res a = (if res_ok res then a\<lparr>au_authenticated := True, au_setupRequired := False\<rparr> else a)"

definition auth_logout :: "response \<Rightarrow> auth \<Rightarrow> auth" where
  "auth_logout res a = a\<lparr>au_authenticated := False\<rparr>"

definition authError :: "response \<Rightarrow> string \<Rightarrow> string" where
  "authError res fallback = errorOf res fallback"

section \<open>The routes\<close>

datatype page = PSetup | PLogin | PDashboard | PJobs | PJobDetail string | PRepositories
  | PRepositoryDetail string | PFolders | PCoolify | PActivity | PRunView string | PSettings | PNotFound

type_synonym path = "string list"

datatype outcome = Blank | Redirect path | Show page

text \<open>\<open>RequireAuth\<close>: the children only when none of its guards returns.\<close>

definition RequireAuth :: "auth \<Rightarrow> outcome \<Rightarrow> outcome" where
  "RequireAuth a children =
     (if au_loading a then Blank
      else if au_setupRequired a then Redirect [''setup'']
      else if \<not> au_authenticated a then Redirect [''login'']
      else children)"

text \<open>The children of the root route, by the segments of the path.\<close>

fun app_route :: "path \<Rightarrow> outcome" where
  "app_route [] = Redirect [''dashboard'']"
| "app_route [p] =
     (if p = ''dashboard'' then Show PDashboard else if p = ''jobs'' then Show PJobs
      else if p = ''repositories'' then Show PRepositories else if p = ''folders'' then Show PFolders
      else if p = ''coolify'' then Show PCoolify else if p = ''activity'' then Show PActivity
      else if p = ''settings'' then Show PSettings else Show PNotFound)"
| "app_route [p, i] =
     (if p = ''jobs'' then Show (PJobDetail i) else if p = ''repositories'' then Show (PRepositoryDetail i)
      else if p = ''runs'' then Show (PRunView i) else Show PNotFound)"
| "app_route _ = Show PNotFound"

text \<open>The early returns of \<open>routes/setup.jsx\<close> and \<open>routes/login.jsx\<close>.\<close>

definition setup_screen :: "auth \<Rightarrow> outcome" where
  "setup_screen a =
     (if au_loading a then Blank
      else if \<not> au_setupRequired a \<and> au_authenticated a then Redirect [''dashboard'']
      else if \<not> au_setupRequired a \<and> \<not> au_authenticated a then Redirect [''login'']
      else Show PSetup)"

definition login_screen :: "auth \<Rightarrow> outcome" where
  "login_screen a =
     (if au_loading a then Blank
      else if au_setupRequired a then Redirect [''setup'']
      else if au_authenticated a then Redirect [''dashboard'']
      else Show PLogin)"

definition router :: "auth \<Rightarrow> path \<Rightarrow> outcome" where
  "router a p = (if p = [''setup''] then setup_screen a else if p = [''login''] then login_screen a
     else RequireAuth a (app_route p))"

text \<open>Following a redirect, if there is one.\<close>

definition hop :: "auth \<Rightarrow> path \<Rightarrow> path" where
  "hop a p = (case router a p of Redirect q \<Rightarrow> q | _ \<Rightarrow> p)"

lemma app_route_cases: "app_route p = Redirect [''dashboard''] \<and> p = [] \<or>
    (\<exists>g. app_route p = Show g \<and> g \<noteq> PSetup \<and> g \<noteq> PLogin)"
  by (cases p rule: app_route.cases) auto

text \<open>
  C2. Nothing behind the login shows without a session: if a path shows any page but the setup and
  login screens, the status is known, no setup is pending and the user is logged in. The setup
  form shows only while a setup is pending, the login form only when it is not.
\<close>

theorem protected_pages:
  assumes "router a p = Show g"
  shows "\<not> au_loading a \<and> (g = PSetup \<longleftrightarrow> au_setupRequired a)
    \<and> (g = PLogin \<longleftrightarrow> \<not> au_setupRequired a \<and> \<not> au_authenticated a)
    \<and> (g \<noteq> PSetup \<and> g \<noteq> PLogin \<longrightarrow> au_authenticated a \<and> \<not> au_setupRequired a)"
  using assms app_route_cases [of p]
  by (auto simp: router_def setup_screen_def login_screen_def RequireAuth_def split: if_splits)

theorem protected_pages_witness:
  "router \<lparr>au_loading = False, au_setupRequired = False, au_authenticated = True\<rparr> [''jobs'', ''j1''] = Show (PJobDetail ''j1'')
   \<and> au_authenticated \<lparr>au_loading = False, au_setupRequired = False, au_authenticated = True\<rparr>"
proof -
  let ?a = "\<lparr>au_loading = False, au_setupRequired = False, au_authenticated = True\<rparr>"
  have r: "router ?a [''jobs'', ''j1''] = Show (PJobDetail ''j1'')"
    by (simp add: router_def RequireAuth_def)
  from protected_pages [OF r] r show ?thesis by simp
qed

text \<open>
  C34. Redirects never loop: from any path and any session state, one redirect at most leads to a path
  that redirects no further. While the status is loading nothing redirects; after it, the user
  ends at the setup screen, the login screen or a page of the app, as the session says.
\<close>

theorem redirects_settle:
  "case router a (hop a p) of
     Blank \<Rightarrow> au_loading a
   | Redirect q \<Rightarrow> False
   | Show g \<Rightarrow> g = (if au_setupRequired a then PSetup else if \<not> au_authenticated a then PLogin else g)"
  using app_route_cases [of p]
  by (auto simp: hop_def router_def setup_screen_def login_screen_def RequireAuth_def
      split: if_splits)

text \<open>
  The session operations land where they should: once a setup or login succeeded, the dashboard
  path shows the dashboard; after a logout every path ends at the login screen, whatever the
  server answered; and a failed status call leaves the user at the login screen, never waiting.
\<close>

theorem session_operations:
  assumes "\<not> au_loading a" and "res_ok res"
  shows "router (auth_setup res a) [''dashboard''] = Show PDashboard
    \<and> router (auth_login res a) [''dashboard''] = Show PDashboard
    \<and> (\<forall>r p. router (auth_logout r (auth_login res a)) (hop (auth_logout r (auth_login res a)) p) = Show PLogin)
    \<and> (\<forall>r b p. \<not> res_ok r \<longrightarrow> router (auth_refresh r b) (hop (auth_refresh r b) p) = Show PLogin)"
proof -
  have out: "router b (hop b p) = Show PLogin"
    if "\<not> au_loading b" "\<not> au_setupRequired b" "\<not> au_authenticated b" for b p
    using that by (auto simp: hop_def router_def setup_screen_def login_screen_def RequireAuth_def)
  have "router (auth_setup res a) [''dashboard''] = Show PDashboard"
    "router (auth_login res a) [''dashboard''] = Show PDashboard"
    using assms by (simp_all add: auth_setup_def auth_login_def router_def RequireAuth_def)
  moreover have "router (auth_logout r (auth_login res a)) (hop (auth_logout r (auth_login res a)) p) = Show PLogin"
    for r p
    by (rule out) (use assms in \<open>simp_all add: auth_login_def auth_logout_def\<close>)
  moreover have "router (auth_refresh r b) (hop (auth_refresh r b) p) = Show PLogin" if "\<not> res_ok r" for r b p
    by (rule out) (use that in \<open>simp_all add: auth_refresh_def\<close>)
  ultimately show ?thesis by blast
qed

theorem session_operations_witness:
  "router (auth_login \<lparr>res_status = 200, res_ok = True, res_body = None\<rparr>
     (auth_refresh \<lparr>res_status = 200, res_ok = True, res_body = None\<rparr> auth_init)) [''dashboard''] = Show PDashboard"
proof -
  let ?r = "\<lparr>res_status = 200, res_ok = True, res_body = None\<rparr>"
  have "\<not> au_loading (auth_refresh ?r auth_init)" "res_ok ?r"
    by (simp_all add: auth_refresh_def auth_apply_def)
  from session_operations [OF this] show ?thesis by blast
qed

end
