(* ===== verification/Theme.thy ===== *)
theory Theme
  imports React
begin

text \<open>
  \<open>src/ui/src/lib/theme.jsx\<close>, the pre-paint script \<open>src/ui/public/theme-init.js\<close> that must
  agree with it, and the switch of \<open>components/brand.jsx\<close>. The browser's storage either throws
  (private mode) or holds a value for the key, or none.
\<close>

datatype storage = Unavailable | Stored "string option"

section \<open>The pre-paint script\<close>

text \<open>
  Whether the \<open>dark\<close> class is on the document after the script: a throw leaves it as the page was
  served.
\<close>

definition theme_init_script :: "storage \<Rightarrow> bool \<Rightarrow> bool \<Rightarrow> bool" where
  "theme_init_script st systemDark served = (case st of
     Unavailable \<Rightarrow> served
   | Stored v \<Rightarrow> let t = ostr_or v ''dark'' in t = ''dark'' \<or> t = ''system'' \<and> systemDark)"

section \<open>The provider\<close>

record theme =
  th_theme :: string
  th_systemDark :: bool

definition theme_initial :: "storage \<Rightarrow> bool \<Rightarrow> theme" where
  "theme_initial st systemDark = \<lparr>th_theme = (case st of Unavailable \<Rightarrow> ''dark'' | Stored v \<Rightarrow> ostr_or v ''dark''),
     th_systemDark = systemDark\<rparr>"

definition theme_resolved :: "theme \<Rightarrow> string" where
  "theme_resolved t = (if th_theme t = ''system'' then (if th_systemDark t then ''dark'' else ''light'')
     else th_theme t)"

text \<open>The effect on \<open>[resolved]\<close>: the \<open>dark\<close> class and the colour scheme of the document.\<close>

definition theme_effect :: "theme \<Rightarrow> bool \<times> string" where
  "theme_effect t = (theme_resolved t = ''dark'', theme_resolved t)"

definition theme_onChange :: "bool \<Rightarrow> theme \<Rightarrow> theme" where
  "theme_onChange matches t = t\<lparr>th_systemDark := matches\<rparr>"

definition setTheme :: "string \<Rightarrow> theme \<Rightarrow> storage \<Rightarrow> theme \<times> storage" where
  "setTheme next_theme t st = (t\<lparr>th_theme := next_theme\<rparr>,
     (case st of Unavailable \<Rightarrow> Unavailable | Stored v \<Rightarrow> Stored (Some next_theme)))"

text \<open>
  No flash of the wrong theme: with the page served dark, as \<open>index.html\<close> is, the script
  before first paint and the provider's first effect agree on the \<open>dark\<close> class, for every
  stored value, for a storage that throws, and for either system preference.
\<close>

theorem prepaint_agrees_with_provider:
  "theme_init_script st systemDark True = fst (theme_effect (theme_initial st systemDark))"
  by (cases st) (auto simp: theme_init_script_def theme_effect_def theme_resolved_def theme_initial_def Let_def)

text \<open>
  A chosen theme persists: after \<open>setTheme\<close>, a reload with a working storage starts in the
  theme just chosen, and the script paints it before the provider mounts.
\<close>

theorem setTheme_persists:
  assumes "setTheme n t (Stored v) = (t', st)" and "n \<noteq> ''''"
  shows "th_theme (theme_initial st systemDark) = n
    \<and> theme_init_script st systemDark served = fst (theme_effect (t'\<lparr>th_systemDark := systemDark\<rparr>))"
  using assms by (auto simp: setTheme_def theme_initial_def theme_init_script_def theme_effect_def
      theme_resolved_def Let_def)

theorem setTheme_persists_witness:
  "th_theme (theme_initial (snd (setTheme ''light'' (theme_initial (Stored None) True) (Stored None))) True) = ''light''"
proof -
  have "setTheme ''light'' (theme_initial (Stored None) True) (Stored None) =
      ((theme_initial (Stored None) True)\<lparr>th_theme := ''light''\<rparr>, Stored (Some ''light''))"
    by (simp add: setTheme_def)
  from setTheme_persists [OF this, of True False] show ?thesis by (simp add: setTheme_def)
qed

section \<open>The theme switch\<close>

definition THEMES :: "(string \<times> string) list" where
  "THEMES = [(''light'', ''Light''), (''dark'', ''Dark''), (''system'', ''System'')]"

definition ThemeSwitch :: "string \<Rightarrow> string ui" where
  "ThemeSwitch theme = Node ''div'' [At ''role'' ''radiogroup'', At ''aria-label'' ''Theme'']
     (map (\<lambda>(value, label). Node ''Tooltip'' []
        [Node ''TooltipTrigger'' []
           [Node ''button'' [At ''type'' ''button'', At ''role'' ''radio'', Flag ''aria-checked'' (theme = value),
              At ''aria-label'' (label @ '' theme''), On ''click'' value] []],
         Node ''TooltipContent'' [] [Txt label]]) THEMES)"

lemma ThemeSwitch_msgs: "msgs (ThemeSwitch t) = {''light'', ''dark'', ''system''}"
  by (auto simp: ThemeSwitch_def THEMES_def)

end
