(* ===== verification/StartRun.thy ===== *)
theory StartRun
  imports React RunStatus
begin

text \<open>
  \<open>src/ui/src/lib/start-run.js\<close>: what the response of a "start a long-running operation" endpoint
  becomes. The result is the function's return value and the effects it runs.
\<close>

definition run_path :: "string \<Rightarrow> string" where
  "run_path i = ''/runs/'' @ i"

definition handleStartResponse :: "response \<Rightarrow> string \<Rightarrow> bool \<Rightarrow> bool \<times> effect list" where
  "handleStartResponse res fallback stay =
     (let b = body_of res in
      if res_status res = 202 \<and> b_runId b \<noteq> '''' then
        (if stay then
           (let kind = (case b_run b of
                None \<Rightarrow> ''Operation''
              | Some r \<Rightarrow> if run_kind r \<noteq> '''' then kindLabel (run_kind r) else ''Operation'')
            in (True, [Toast \<lparr>to_kind = Success, to_title = kind @ '' started'', to_description = '''',
                  to_action = Some (''Open run'', run_path (b_runId b)), to_duration = None\<rparr>]))
         else (True, [Navigate (run_path (b_runId b)) False]))
      else if res_status res = 409 \<and> b_code b = ''busy'' then
        (let what = (case b_blockingRun b of
               None \<Rightarrow> ''another operation'' | Some bl \<Rightarrow> to_lower (kindLabel (bl_kind bl)));
             for_job = (case b_blockingRun b of
               None \<Rightarrow> '''' | Some bl \<Rightarrow> if bl_jobName bl \<noteq> '''' then '' for '' @ lquote @ bl_jobName bl @ rquote else '''')
         in (False, [Toast \<lparr>to_kind = Warning, to_title = str_or (b_repoName b) ''That repository'' @ '' is busy'',
              to_description = ''A '' @ what @ for_job @ '' is already running. Stop it or wait for it to finish.'',
              to_action = (case b_blockingRun b of None \<Rightarrow> None
                | Some bl \<Rightarrow> if bl_runId bl \<noteq> '''' then Some (''View it'', run_path (bl_runId bl)) else None),
              to_duration = Some 8000\<rparr>]))
      else if b_code b = ''no_restic'' then
        (False, [Toast \<lparr>to_kind = Failure, to_title = ''restic is not installed'',
           to_description = errorOf res fallback, to_action = None, to_duration = None\<rparr>])
      else (False, [Toast (plain_toast Failure (errorOf res fallback))]))"

definition start_fallback :: string where
  "start_fallback = ''Could not start.''"

text \<open>The run an effect leads the user to: where it navigates, or the target of a toast's button.\<close>

fun leads_to :: "effect \<Rightarrow> string option" where
  "leads_to (Navigate p r) = Some p"
| "leads_to (Toast t) = map_option snd (to_action t)"
| "leads_to _ = None"

text \<open>
  C38. A start request is never answered by silence: every response gives exactly one effect, which is
  a navigation or a toast with a non-empty text; it reports success exactly when the server
  accepted the run (202 with a run id), and then it leads to that run, on the page or by the
  toast's button; a busy repository leads to the run that holds it when the server names it.
\<close>

theorem handleStartResponse_outcome:
  assumes "handleStartResponse res fallback stay = (started, es)" and "fallback \<noteq> ''''"
  shows "length es = 1
    \<and> (case hd es of Toast t \<Rightarrow> to_title t \<noteq> '''' | Navigate p r \<Rightarrow> \<not> stay | _ \<Rightarrow> False)
    \<and> (started \<longleftrightarrow> res_status res = 202 \<and> b_runId (body_of res) \<noteq> '''')
    \<and> (started \<longrightarrow> leads_to (hd es) = Some (run_path (b_runId (body_of res))))
    \<and> (\<not> started \<longrightarrow> (case hd es of Toast t \<Rightarrow> to_kind t \<noteq> Success | _ \<Rightarrow> False))
    \<and> (res_status res = 409 \<and> b_code (body_of res) = ''busy'' \<longrightarrow>
        (\<forall>bl. b_blockingRun (body_of res) = Some bl \<and> bl_runId bl \<noteq> '''' \<longrightarrow>
          leads_to (hd es) = Some (run_path (bl_runId bl))))"
  using assms errorOf_nonempty [OF assms(2), of res]
  by (auto simp: handleStartResponse_def plain_toast_def Let_def split: if_splits option.splits)

theorem handleStartResponse_outcome_witness:
  "leads_to (hd (snd (handleStartResponse \<lparr>res_status = 202, res_ok = True,
      res_body = Some (empty_body\<lparr>b_runId := ''r7''\<rparr>)\<rparr> start_fallback True))) = Some ''/runs/r7''"
proof -
  let ?r = "\<lparr>res_status = 202, res_ok = True, res_body = Some (empty_body\<lparr>b_runId := ''r7''\<rparr>)\<rparr>"
  have f: "start_fallback \<noteq> ''''" by (simp add: start_fallback_def)
  obtain st es where h: "handleStartResponse ?r start_fallback True = (st, es)" by (metis surj_pair)
  from handleStartResponse_outcome [OF h f] h show ?thesis by (simp add: body_of_def run_path_def)
qed

end
