(* ===== verification/Widgets.thy ===== *)
theory Widgets
  imports React Pagination RunStatus Format Theme
begin

text \<open>
  The stateless elements of \<open>src/ui/src/components\<close> the screens are built from: the tiles of
  \<open>kind.jsx\<close>, the empty, error and inline states of \<open>empty.jsx\<close>, the form rows of
  \<open>fields.jsx\<close>, \<open>filter-tabs.jsx\<close>, \<open>status-badge.jsx\<close>, \<open>run-strip.jsx\<close>,
  \<open>pagination.jsx\<close> and the frame of \<open>auth-layout.jsx\<close>. Each is a function from its props
  to a tree; an element that may render \<open>null\<close> gives a list. A class name is kept, as an
  attribute, where it depends on the props.
\<close>

section \<open>Kinds and tiles (kind.jsx)\<close>

definition KIND :: "(string \<times> string \<times> string) list" where
  "KIND = [(''job'', ''Workflow'', ''violet''), (''repository'', ''Vault'', ''cyan''),
     (''folder'', ''FolderOpen'', ''fuchsia''), (''database'', ''Database'', ''fuchsia''),
     (''site'', ''Container'', ''fuchsia'')]"

definition TONE_TILE :: table where
  "TONE_TILE = [(''neutral'', ''bg-secondary text-muted-foreground''), (''brand'', ''bg-primary/12 text-primary''),
     (''violet'', ''bg-violet/12 text-violet''), (''cyan'', ''bg-cyan/14 text-cyan''),
     (''fuchsia'', ''bg-fuchsia/12 text-fuchsia''), (''success'', ''bg-success/12 text-success''),
     (''warning'', ''bg-warning/15 text-warning''), (''destructive'', ''bg-destructive/12 text-destructive'')]"

definition TONE_TEXT :: table where
  "TONE_TEXT = [(''neutral'', ''text-muted-foreground''), (''brand'', ''text-primary''),
     (''violet'', ''text-violet''), (''cyan'', ''text-cyan''), (''fuchsia'', ''text-fuchsia''),
     (''success'', ''text-success''), (''warning'', ''text-warning''), (''destructive'', ''text-destructive'')]"

definition TILE_SIZE :: table where
  "TILE_SIZE = [(''sm'', ''size-8 rounded-lg [&_svg]:size-4''), (''md'', ''size-10 rounded-xl [&_svg]:size-5''),
     (''lg'', ''size-12 rounded-[14px] [&_svg]:size-6'')]"

text \<open>An icon element: lucide's component of that name, drawn by the library.\<close>

definition Icon :: "string \<Rightarrow> 'm ui" where
  "Icon name = Node name [] []"

definition class_of :: "string option \<Rightarrow> 'm attr list" where
  "class_of c = (case c of None \<Rightarrow> [] | Some v \<Rightarrow> [At ''class'' v])"

lemma class_of_simps [simp]: "is_disabled (class_of c @ as) = is_disabled as" "is_disabled (class_of c) = False"
  "attr_msgs ` set (class_of c) \<subseteq> {{}}"
  by (auto simp: class_of_def split: option.splits)

definition IconTile :: "string option \<Rightarrow> string \<Rightarrow> string \<Rightarrow> 'm ui" where
  "IconTile icon tone sz = Node ''span'' (class_of (lookup TILE_SIZE sz) @ class_of (lookup TONE_TILE tone))
     (case icon of None \<Rightarrow> [] | Some i \<Rightarrow> [Icon i])"

definition repositoryIcon :: "repository option \<Rightarrow> string" where
  "repositoryIcon repo = (case repo of
     Some r \<Rightarrow> if repo_backendType r = ''S3'' then ''Cloud'' else ''HardDrive'' | None \<Rightarrow> ''HardDrive'')"

definition KindTile :: "string \<Rightarrow> string option \<Rightarrow> string \<Rightarrow> 'm ui" where
  "KindTile kind icon sz = (case map_of KIND kind of
     Some (kicon, tone) \<Rightarrow> IconTile (case icon of None \<Rightarrow> Some kicon | Some i \<Rightarrow> Some i) tone sz
   | None \<Rightarrow> IconTile icon ''neutral'' sz)"

lemma Icon_msgs [simp]: "msgs (Icon i) = {}"
  by (simp add: Icon_def)

lemma IconTile_msgs [simp]: "msgs (IconTile icon tone sz) = {}"
  by (auto simp: IconTile_def class_of_def split: option.splits)

lemma KindTile_msgs [simp]: "msgs (KindTile kind icon sz) = {}"
  by (auto simp: KindTile_def split: option.splits)

lemma tiles_no_submit [simp]:
  "can_submit (Icon i) = False" "can_submit (IconTile icon tone sz) = False"
  by (auto simp: IconTile_def class_of_def Icon_def split: option.splits)

section \<open>Empty and error states (empty.jsx)\<close>

text \<open>Text children of an element, absent when the prop is empty.\<close>

definition para :: "string \<Rightarrow> 'm ui list" where
  "para s = shown (s \<noteq> '''') [Node ''p'' [] [Txt s]]"

lemma para_simps [simp]: "msgs_of (para s) = {}" "\<not> submits (para s)"
  by (auto simp: para_def)

definition EmptyState :: "string option \<Rightarrow> string \<Rightarrow> string \<Rightarrow> string \<Rightarrow> 'm ui list \<Rightarrow> bool \<Rightarrow> 'm ui" where
  "EmptyState icon tone title description action framed = Node ''div''
     (shown framed [At ''class'' ''rounded-2xl border border-dashed border-input bg-card/60 py-16''])
     ((case icon of None \<Rightarrow> [] | Some i \<Rightarrow> [IconTile (Some i) tone ''lg'']) @
      [Node ''p'' [] [Txt title]] @ para description @
      shown (action \<noteq> []) [Node ''div'' [] action])"

definition ErrorState :: "string option \<Rightarrow> string \<Rightarrow> 'm option \<Rightarrow> 'm ui" where
  "ErrorState title description onRetry = Node ''div'' [At ''role'' ''alert'']
     ([IconTile (Some ''TriangleAlert'') ''destructive'' ''md'',
       Node ''div'' []
         [Node ''p'' [] [Txt (case title of None \<Rightarrow> ''Could not load this page'' | Some t \<Rightarrow> t)],
          Node ''p'' [] [Txt (str_or description
            ''The server did not answer. Check that restic-web is running, then retry.'')]]] @
      (case onRetry of None \<Rightarrow> []
       | Some m \<Rightarrow> [Node ''Button'' [On ''click'' m] [Icon ''RotateCw'', Txt ''Retry'']]))"

definition InlineError :: "string \<Rightarrow> 'm ui list" where
  "InlineError s = shown (s \<noteq> '''')
     [Node ''p'' [At ''role'' ''alert''] [Icon ''TriangleAlert'', Node ''span'' [] [Txt s]]]"

lemma InlineError_simps [simp]:
  "msgs_of (InlineError s) = {}" "\<not> submits (InlineError s)"
  by (auto simp: InlineError_def)

lemma EmptyState_msgs: "msgs (EmptyState icon tone title description action framed) = msgs_of action"
  by (cases framed) (auto simp: EmptyState_def split: option.splits)

lemma ErrorState_msgs: "msgs (ErrorState title description onRetry) = set_option onRetry"
  by (cases onRetry) (auto simp: ErrorState_def)

section \<open>Form rows (fields.jsx)\<close>

definition Field :: "string \<Rightarrow> string \<Rightarrow> string \<Rightarrow> 'm ui list \<Rightarrow> 'm ui" where
  "Field label htmlFor hint children = Node ''div'' []
     (shown (label \<noteq> '''') [Node ''Label'' [At ''htmlFor'' htmlFor] [Txt label]] @ children @ para hint)"

definition CheckOption :: "bool \<Rightarrow> (bool \<Rightarrow> 'm) \<Rightarrow> bool \<Rightarrow> string \<Rightarrow> string \<Rightarrow> 'm ui" where
  "CheckOption checked onChange disabled title description = Node ''label'' []
     [Node ''input'' [At ''type'' ''checkbox'', Flag ''checked'' checked, OnBool ''change'' onChange,
        Flag ''disabled'' disabled] [],
      Node ''span'' [] ([Node ''span'' [] [Txt title]] @
        shown (description \<noteq> '''') [Node ''span'' [] [Txt description]])]"

definition SwitchRow :: "string \<Rightarrow> bool \<Rightarrow> (bool \<Rightarrow> 'm) \<Rightarrow> bool \<Rightarrow> string \<Rightarrow> string \<Rightarrow> 'm ui" where
  "SwitchRow i checked onCheckedChange disabled title description = Node ''div''
     (shown checked [At ''class'' ''border-primary/30 bg-primary/5''])
     [Node ''label'' [At ''htmlFor'' i] ([Node ''span'' [] [Txt title]] @
        shown (description \<noteq> '''') [Node ''span'' [] [Txt description]]),
      Node ''Switch'' [At ''id'' i, Flag ''checked'' checked, OnBool ''checkedChange'' onCheckedChange,
        Flag ''disabled'' disabled] []]"

definition Segmented :: "(string \<times> string \<times> string option) list \<Rightarrow> string \<Rightarrow> (string \<Rightarrow> 'm) \<Rightarrow> string option \<Rightarrow> string \<Rightarrow> 'm ui" where
  "Segmented options value onChange tone label =
     Node ''div'' [At ''role'' ''radiogroup'', At ''aria-label'' label]
       (map (\<lambda>(v, text, icon). Node ''button''
           [At ''type'' ''button'', At ''role'' ''radio'', Flag ''aria-checked'' (v = value), On ''click'' (onChange v)]
           ((case icon of None \<Rightarrow> [] | Some i \<Rightarrow> [Node i
               (class_of (if v = value then Option.bind tone (lookup TONE_TEXT) else None)) []]) @
            [Node ''span'' [] [Txt text]])) options)"

definition CALLOUT :: "(string \<times> string \<times> string) list" where
  "CALLOUT = [(''info'', ''bg-primary/8 text-primary'', ''Info''),
     (''success'', ''bg-success/10 text-success'', ''CircleCheck''),
     (''warning'', ''bg-warning/12 text-warning'', ''TriangleAlert''),
     (''destructive'', ''bg-destructive/8 text-destructive'', ''CircleAlert'')]"

definition Callout :: "string \<Rightarrow> string option \<Rightarrow> string \<Rightarrow> 'm ui list \<Rightarrow> 'm ui" where
  "Callout tone icon title children =
     (let (cls, defaultIcon) = (case map_of CALLOUT tone of Some c \<Rightarrow> c
            | None \<Rightarrow> (''bg-primary/8 text-primary'', ''Info''))
      in Node ''div'' [At ''role'' (if tone = ''destructive'' \<or> tone = ''warning'' then ''alert'' else ''status''),
           At ''class'' cls]
         [Icon (case icon of None \<Rightarrow> defaultIcon | Some i \<Rightarrow> i),
          Node ''div'' [] (para title @ shown (children \<noteq> []) [Node ''div'' [] children])])"

definition PathValue :: "string \<Rightarrow> 'm ui" where
  "PathValue s = Node ''p'' [] [Txt s]"

lemma Field_msgs [simp]: "msgs (Field label htmlFor hint children) = msgs_of children"
  by (auto simp: Field_def para_def)

lemma Field_submit [simp]: "can_submit (Field label htmlFor hint children) \<longleftrightarrow> submits children"
  by (auto simp: Field_def para_def shown_def)

lemma CheckOption_msgs [simp]:
  "msgs (CheckOption checked onChange disabled title description) = (if disabled then {} else range onChange)"
  by (auto simp: CheckOption_def)

lemma SwitchRow_msgs [simp]:
  "msgs (SwitchRow i checked onCheckedChange disabled title description) = (if disabled then {} else range onCheckedChange)"
  by (cases checked) (auto simp: SwitchRow_def)

lemma rows_submit [simp]:
  "can_submit (CheckOption checked onChange disabled title description) = False"
  "can_submit (SwitchRow i checked onCheckedChange disabled title description) = False"
  "can_submit (PathValue s) = False"
  by (cases checked; auto simp: CheckOption_def SwitchRow_def PathValue_def)+

lemma Segmented_msgs: "msgs (Segmented options value onChange tone label) = onChange ` fst ` set options"
  by (force simp: Segmented_def class_of_def split: option.splits if_splits)

lemma Callout_msgs [simp]: "msgs (Callout tone icon title children) = msgs_of children"
  by (auto simp: Callout_def para_def split: prod.splits option.splits)

lemma Callout_submit [simp]: "can_submit (Callout tone icon title children) \<longleftrightarrow> submits children"
  by (auto simp: Callout_def para_def Icon_def shown_def split: prod.splits option.splits)

lemma PathValue_msgs [simp]: "msgs (PathValue s) = {}"
  by (simp add: PathValue_def)

section \<open>Selects\<close>

text \<open>A select with its items (value and label), as the forms put it together.\<close>

definition Select :: "string \<Rightarrow> (string \<Rightarrow> 'm) \<Rightarrow> string \<Rightarrow> (string \<times> string) list \<Rightarrow> 'm ui" where
  "Select value onValueChange i items = Node ''Select'' [At ''value'' value]
     [Node ''SelectTrigger'' [At ''id'' i] [Node ''SelectValue'' [] []],
      Node ''SelectContent'' [] (map (\<lambda>(v, label). Node ''SelectItem'' [At ''value'' v, On ''valueChange'' (onValueChange v)]
        [Txt label]) items)]"

lemma Select_msgs [simp]: "msgs (Select v f i items) = f ` fst ` set items" "\<not> can_submit (Select v f i items)"
  by (force simp: Select_def) (auto simp: Select_def)

text \<open>A select whose items are drawn with more than a text.\<close>

definition SelectOf :: "string \<Rightarrow> (string \<Rightarrow> 'm) \<Rightarrow> string \<Rightarrow> (string \<times> 'm ui list) list \<Rightarrow> 'm ui" where
  "SelectOf value onValueChange label items = Node ''Select'' [At ''value'' value]
     [Node ''SelectTrigger'' [At ''aria-label'' label] [Node ''SelectValue'' [] []],
      Node ''SelectContent'' [] (map (\<lambda>(v, content). Node ''SelectItem'' [At ''value'' v, On ''valueChange'' (onValueChange v)]
        content) items)]"

lemma SelectOf_msgs: "msgs (SelectOf v f label items) = f ` fst ` set items \<union> (\<Union>i \<in> set items. msgs_of (snd i))"
  by (force simp: SelectOf_def)

lemma Segmented_submit [simp]: "\<not> can_submit (Segmented os v f t l)"
  by (auto simp: Segmented_def class_of_def split: option.splits)

section \<open>Dialogs\<close>

text \<open>The library's dialog: its content is mounted while it is open; Escape and a click outside close it.\<close>

definition Dialog :: "bool \<Rightarrow> (bool \<Rightarrow> 'm) \<Rightarrow> 'm ui list \<Rightarrow> 'm ui" where
  "Dialog isOpen onOpenChange content = Node ''Dialog'' [Flag ''open'' isOpen, OnBool ''openChange'' onOpenChange]
     (shown isOpen [Node ''DialogContent'' [] content])"

lemma Dialog_msgs [simp]: "msgs (Dialog b f content) = range f \<union> (if b then msgs_of content else {})"
  by (simp add: Dialog_def)

section \<open>Filter tabs (filter-tabs.jsx)\<close>

record filter_option =
  fo_value :: string
  fo_label :: string
  fo_icon :: "string option"
  fo_tone :: "string option"
  fo_count :: "int option"

definition FilterTabs :: "filter_option list \<Rightarrow> string \<Rightarrow> (string \<Rightarrow> 'm) \<Rightarrow> string \<Rightarrow> 'm ui" where
  "FilterTabs options value onChange label =
     Node ''div'' [At ''role'' ''tablist'', At ''aria-label'' label]
       (map (\<lambda>opt. let selected = (fo_value opt = value) in
          Node ''button'' [At ''type'' ''button'', At ''role'' ''tab'', Flag ''aria-selected'' selected,
              On ''click'' (onChange (fo_value opt))]
            ((case fo_icon opt of None \<Rightarrow> []
              | Some i \<Rightarrow> [Node i (class_of (if selected then Option.bind (fo_tone opt) (lookup TONE_TEXT) else None)) []]) @
             [Txt (fo_label opt)] @
             (case fo_count opt of None \<Rightarrow> [] | Some n \<Rightarrow> [Node ''span'' [] [Txt (show_int n)]]))) options)"

lemma FilterTabs_msgs: "msgs (FilterTabs options value onChange label) = onChange ` fo_value ` set options"
  by (force simp: FilterTabs_def class_of_def Let_def split: option.splits if_splits)

section \<open>Run status (status-badge.jsx)\<close>

definition StatusDot :: "string \<Rightarrow> 'm ui" where
  "StatusDot status =
     (let fill = lookup_or STATUS_FILL status ''bg-muted-foreground/45''
      in Node ''span'' [] (shown (isActive status) [Node ''span'' [At ''class'' (''animate-ping '' @ fill)] []] @
           [Node ''span'' [At ''class'' fill] []]))"

definition StatusBadge :: "string \<Rightarrow> 'm ui" where
  "StatusBadge status = Node ''Badge'' [At ''variant'' (lookup_or STATUS_VARIANT status ''secondary'')]
     [StatusDot status, Txt (statusLabel status)]"

lemma status_msgs [simp]: "msgs (StatusDot s) = {}" "msgs (StatusBadge s) = {}"
  by (auto simp: StatusDot_def StatusBadge_def Let_def)

lemma status_submit [simp]: "\<not> can_submit (StatusDot s)" "\<not> can_submit (StatusBadge s)"
  by (auto simp: StatusDot_def StatusBadge_def Let_def)

section \<open>The run strip (run-strip.jsx)\<close>

definition run_bar :: "env \<Rightarrow> run \<Rightarrow> 'm ui" where
  "run_bar e r = Node ''Tooltip'' []
     [Node ''TooltipTrigger'' []
        [Node ''Link''
           ([At ''to'' (''/runs/'' @ run_id r), At ''role'' ''listitem'',
             At ''aria-label'' (statusLabel (run_status r) @ '', '' @ fmtRelative e (run_startedAt r)),
             At ''class'' (lookup_or STATUS_FILL (run_status r) ''bg-muted-foreground/45'')] @
            shown (isActive (run_status r)) [At ''class'' ''animate-pulse'']) []],
      Node ''TooltipContent'' []
        [Txt (statusLabel (run_status r) @ '' '' @ middot @ '' '' @ fmtRelative e (run_startedAt r))]]"

text \<open>The runs drawn, oldest first: \<open>runs.slice(0, slots).reverse()\<close>.\<close>

definition strip_runs :: "run list \<Rightarrow> nat \<Rightarrow> run list" where
  "strip_runs runs slots = rev (take slots runs)"

definition RunStrip :: "env \<Rightarrow> run list option \<Rightarrow> nat \<Rightarrow> 'm ui" where
  "RunStrip e runs slots =
     (let drawn = strip_runs (case runs of None \<Rightarrow> [] | Some rs \<Rightarrow> rs) slots;
          vacant = slots - length drawn
      in Node ''div'' [At ''role'' ''list'',
             At ''aria-label'' (''Last '' @ show_nat (length drawn) @ '' backups, oldest first'')]
           (replicate vacant (Node ''span'' [At ''class'' ''bg-muted''] []) @ map (run_bar e) drawn))"

definition RunStripLegend :: "'m ui" where
  "RunStripLegend = Node ''div'' []
     (map (\<lambda>(label, fill). Node ''span'' [] [Node ''span'' [At ''class'' fill] [], Txt label])
       [(''Succeeded'', ''bg-success''), (''Warnings'', ''bg-warning''), (''Failed'', ''bg-destructive''),
        (''Running'', ''bg-running''), (''Stopped'', ''bg-muted-foreground/45'')])"

lemma run_bar_msgs [simp]: "msgs (run_bar e r) = {}"
  by (cases "isActive (run_status r)") (auto simp: run_bar_def)

lemma RunStrip_msgs [simp]: "msgs (RunStrip e runs slots) = {}"
  by (auto simp: RunStrip_def Let_def)

lemma take_bars_of_strip: "slots - length (strip_runs rs slots) = slots - length rs"
  by (simp add: strip_runs_def)

text \<open>The children of an element, and the value of a text attribute.\<close>

primrec kids :: "'m ui \<Rightarrow> 'm ui list" where
  "kids (Txt s) = []"
| "kids (Node t as cs) = cs"

text \<open>Every link of a tree, in document order: its \<open>to\<close>.\<close>

definition link_of :: "'m attr \<Rightarrow> string list" where
  "link_of a = (case a of At n v \<Rightarrow> shown (n = ''to'') [v] | _ \<Rightarrow> [])"

primrec links :: "'m ui \<Rightarrow> string list" where
  "links (Txt s) = []"
| "links (Node t as cs) = concat (map link_of as) @ concat (map links cs)"

lemma run_bar_links [simp]: "links (run_bar e r) = [''/runs/'' @ run_id r]"
  by (cases "isActive (run_status r)") (auto simp: run_bar_def link_of_def)

text \<open>
  The strip always has exactly its number of slots, so strips line up across cards: the runs it
  shows are the newest ones, one bar each, oldest first, and placeholders fill the slots before
  them. The last bar is the newest run's.
\<close>

theorem run_strip_slots:
  "length (kids (RunStrip e runs slots :: 'm ui)) = slots
   \<and> links (RunStrip e (Some rs) slots :: 'm ui) = map (\<lambda>r. ''/runs/'' @ run_id r) (rev (take slots rs))
   \<and> (0 < slots \<longrightarrow> rs \<noteq> [] \<longrightarrow>
        links (last (kids (RunStrip e (Some rs) slots :: 'm ui))) = [''/runs/'' @ run_id (hd rs)])"
proof -
  have "length (kids (RunStrip e runs slots :: 'm ui)) = slots"
    by (simp add: RunStrip_def Let_def strip_runs_def)
  moreover have "concat (replicate n []) = []" for n :: nat
    by (induction n) simp_all
  then have "links (RunStrip e (Some rs) slots :: 'm ui) = map (\<lambda>r. ''/runs/'' @ run_id r) (rev (take slots rs))"
    by (simp add: RunStrip_def Let_def strip_runs_def link_of_def comp_def concat_map_singleton)
  moreover have "links (last (kids (RunStrip e (Some rs) slots :: 'm ui))) = [''/runs/'' @ run_id (hd rs)]"
    if "0 < slots" "rs \<noteq> []"
    using that by (simp add: RunStrip_def Let_def strip_runs_def last_map last_rev hd_take)
  ultimately show ?thesis by blast
qed

theorem run_strip_slots_witness:
  "links (last (kids (RunStrip sample_env (Some [sample_run\<lparr>run_id := ''b''\<rparr>, sample_run\<lparr>run_id := ''a''\<rparr>]) 5
      :: effect ui))) = [''/runs/b'']"
proof -
  let ?rs = "[sample_run\<lparr>run_id := ''b''\<rparr>, sample_run\<lparr>run_id := ''a''\<rparr>]"
  have "links (last (kids (RunStrip sample_env (Some ?rs) 5 :: effect ui))) = [''/runs/'' @ run_id (hd ?rs)]"
    using run_strip_slots [where ?'m = effect, of sample_env None 5 ?rs] by auto
  then show ?thesis by simp
qed

section \<open>Pagination controls (pagination.jsx)\<close>

definition ListPagination :: "int \<Rightarrow> int \<Rightarrow> int \<Rightarrow> (int \<Rightarrow> 'm) \<Rightarrow> 'm ui list" where
  "ListPagination page pageSize tot onPageChange =
     (if tot = 0 \<or> tot \<le> pageSize then []
      else let rg = page_range page pageSize tot; safePage = rg_safePage rg; totalPages = rg_totalPages rg
        in [Node ''div'' []
          [Node ''p'' [] [Txt ''Showing '',
             Node ''span'' [] [Txt (show_int (rg_from rg) @ en_dash @ show_int (rg_to rg))],
             Txt '' of '', Node ''span'' [] [Txt (show_int tot)]],
           Node ''div'' []
             [Node ''Button'' [At ''type'' ''button'', Flag ''disabled'' (safePage \<le> 1),
                 On ''click'' (onPageChange (safePage - 1)), At ''aria-label'' ''Previous page'']
                [Icon ''ChevronLeft'', Txt ''Previous''],
              Node ''span'' [] [Txt (show_int safePage @ '' / '' @ show_int totalPages)],
              Node ''Button'' [At ''type'' ''button'', Flag ''disabled'' (totalPages \<le> safePage),
                 On ''click'' (onPageChange (safePage + 1)), At ''aria-label'' ''Next page'']
                [Txt ''Next'', Icon ''ChevronRight'']]]])"

text \<open>
  The page controls can only ask for a page that exists: whatever page number they are given, the
  two buttons offer exactly the neighbours of the page shown that lie between 1 and the last page,
  and a list that fits on one page has no controls.
\<close>

lemma ListPagination_msgs:
  assumes "0 < pageSize" and "0 \<le> tot"
  shows "msgs_of (ListPagination page pageSize tot f) =
    (if tot \<le> pageSize then {} else f ` {q. 1 \<le> q \<and> q \<le> rg_totalPages (page_range page pageSize tot)
       \<and> \<bar>q - rg_safePage (page_range page pageSize tot)\<bar> = 1})"
proof (cases "tot \<le> pageSize")
  case True
  then show ?thesis by (simp add: ListPagination_def)
next
  case False
  define s t where "s = rg_safePage (page_range page pageSize tot)" and "t = rg_totalPages (page_range page pageSize tot)"
  have st: "1 \<le> s" "s \<le> t" by (auto simp: s_def t_def page_range_def Let_def)
  have "{q. 1 \<le> q \<and> q \<le> t \<and> \<bar>q - s\<bar> = 1} = (if s \<le> 1 then {} else {s - 1}) \<union> (if t \<le> s then {} else {s + 1})"
    using st by auto
  then show ?thesis
    using False assms by (simp add: ListPagination_def Let_def image_Un flip: s_def t_def)
qed

lemma ListPagination_pages: "m \<in> msgs_of (ListPagination page pageSize tot f) \<Longrightarrow>
    \<exists>q. m = f q \<and> 1 \<le> q \<and> q \<le> rg_totalPages (page_range page pageSize tot)"
  by (auto simp: ListPagination_def page_range_def Let_def split: if_splits)

section \<open>The progress bar (ui/progress.jsx)\<close>

definition Progress :: "rat \<Rightarrow> bool \<Rightarrow> string option \<Rightarrow> 'm ui" where
  "Progress value indeterminate barClassName =
     (let pct = max 0 (min 100 value)
      in Node ''div'' ([At ''role'' ''progressbar'', At ''aria-valuemin'' ''0'', At ''aria-valuemax'' ''100''] @
             shown (\<not> indeterminate) [At ''aria-valuenow'' (show_int (js_round pct))])
           [if indeterminate then Node ''div'' [At ''class'' ''animate-[progress-sweep_1.4s_ease-in-out_infinite]''] []
            else Node ''div'' (class_of barClassName @ [At ''style-width-percent'' (to_fixed 3 pct)]) []])"

lemma Progress_msgs [simp]: "msgs (Progress value indeterminate barClassName) = {}"
  by (auto simp: Progress_def Let_def class_of_def split: option.splits)

section \<open>Page frames (page.jsx)\<close>

definition Page :: "'m ui list \<Rightarrow> 'm ui" where
  "Page children = Node ''div'' [] children"

definition PageHeader :: "'m ui list \<Rightarrow> 'm ui list \<Rightarrow> 'm ui list \<Rightarrow> 'm ui list \<Rightarrow> 'm ui list \<Rightarrow> 'm ui" where
  "PageHeader title description actions breadcrumb icon = Node ''header'' [] (breadcrumb @
     [Node ''div'' [] ([Node ''div'' [] (shown (icon \<noteq> []) [Node ''div'' [] icon] @
         [Node ''div'' [] ([Node ''h1'' [] title] @ shown (description \<noteq> []) [Node ''div'' [] description])])] @
       shown (actions \<noteq> []) [Node ''div'' [] actions])])"

definition Breadcrumb :: "string \<Rightarrow> string \<Rightarrow> string \<Rightarrow> 'm ui" where
  "Breadcrumb to label current = Node ''nav'' []
     [Node ''Link'' [At ''to'' to] [Txt label], Icon ''ChevronRight'', Node ''span'' [] [Txt current]]"

definition Section :: "'m ui list \<Rightarrow> string \<Rightarrow> 'm ui list \<Rightarrow> 'm ui list \<Rightarrow> 'm ui" where
  "Section title description action children = Node ''section'' []
     ([Node ''div'' [] ([Node ''div'' [] ([Node ''h2'' [] title] @ para description)] @ action)] @ children)"

definition SeeAll :: "string \<Rightarrow> 'm ui list \<Rightarrow> 'm ui" where
  "SeeAll to children = Node ''Link'' [At ''to'' to] (children @ [Icon ''ArrowRight''])"

definition Mono :: "'m ui list \<Rightarrow> 'm ui" where
  "Mono children = Node ''span'' [] children"

lemma Mono_msgs [simp]: "msgs (Mono cs) = msgs_of cs" "can_submit (Mono cs) = submits cs"
  by (simp_all add: Mono_def)

text \<open>\<open>Facts\<close>: an item is absent (\<open>null\<close>), or a label with a value and its layout flags.\<close>

record 'm fact =
  fa_label :: string
  fa_value :: "'m ui list"
  fa_mono :: bool
  fa_wide :: bool

definition text_fact :: "string \<Rightarrow> string \<Rightarrow> bool \<Rightarrow> 'm fact" where
  "text_fact label value m = \<lparr>fa_label = label, fa_value = shown (value \<noteq> '''') [Txt value], fa_mono = m, fa_wide = False\<rparr>"

definition fact_shown :: "'m fact option \<Rightarrow> bool" where
  "fact_shown i = (case i of None \<Rightarrow> False | Some f \<Rightarrow> fa_value f \<noteq> [])"

definition Facts :: "'m fact option list \<Rightarrow> 'm ui" where
  "Facts items = Node ''dl'' [] (map (\<lambda>i. Node ''div'' (shown (fa_wide (the i)) [At ''class'' ''sm:col-span-2''])
     [Node ''dt'' [] [Txt (fa_label (the i))],
      Node ''dd'' [At ''class'' (if fa_mono (the i) then ''font-mono text-[0.8125rem] break-all'' else ''font-medium'')]
        (fa_value (the i))]) (filter fact_shown items))"

lemma Facts_quiet: "(\<And>f. Some f \<in> set items \<Longrightarrow> msgs_of (fa_value f) = {}) \<Longrightarrow> msgs (Facts items) = {}"
  by (auto simp: Facts_def fact_shown_def split: option.splits)

lemma Page_msgs [simp]: "msgs (Page children) = msgs_of children"
  by (simp add: Page_def)

lemma PageHeader_msgs [simp]: "msgs (PageHeader title description actions breadcrumb icon) =
    msgs_of breadcrumb \<union> msgs_of icon \<union> msgs_of title \<union> msgs_of description \<union> msgs_of actions"
  by (auto simp: PageHeader_def)

lemma Breadcrumb_msgs [simp]: "msgs (Breadcrumb to label current) = {}"
  by (simp add: Breadcrumb_def)

section \<open>The frame of setup and login (auth-layout.jsx)\<close>

definition BAND :: "string list" where
  "BAND = [''bg-primary'', ''bg-violet'', ''bg-cyan'', ''bg-fuchsia'']"

definition BrandMark :: "'m ui" where
  "BrandMark = Node ''span'' [] [Node ''svg'' [] [Node ''path'' [] [], Node ''path'' [] []]]"

text \<open>The theme switch holds handlers of its own, which set the theme and nothing of the screen.\<close>

definition AuthLayout :: "'m ui \<Rightarrow> string \<Rightarrow> string \<Rightarrow> 'm ui list \<Rightarrow> string \<Rightarrow> 'm ui" where
  "AuthLayout themeSwitch title description children footnote = Node ''div'' []
     [Node ''header'' [] [themeSwitch],
      Node ''main'' [] [Node ''div'' []
        ([Node ''div'' [] [BrandMark, Node ''div'' [] [Node ''p'' [] [Txt ''restic''], Node ''p'' [] [Txt ''backup manager'']]],
          Node ''div'' [] [Node ''div'' [] (map (\<lambda>c. Node ''span'' [At ''class'' c] []) BAND),
            Node ''div'' [] ([Node ''h1'' [] [Txt title]] @ para description @ [Node ''div'' [] children])]] @
         para footnote)]]"

lemma AuthLayout_msgs [simp]:
  "msgs (AuthLayout sw title description children footnote) = msgs sw \<union> msgs_of children"
  by (auto simp: AuthLayout_def BrandMark_def para_def BAND_def)

section \<open>Last resorts (error-boundary.jsx, not-found.jsx)\<close>

text \<open>
  The boundary's state is the error a render below it threw. A thrown value is its \<open>message\<close>, if
  it has one, and its text.
\<close>

record boundary =
  eb_error :: "(string \<times> string) option"

definition getDerivedStateFromError :: "string \<times> string \<Rightarrow> boundary \<Rightarrow> boundary" where
  "getDerivedStateFromError err s = s\<lparr>eb_error := Some err\<rparr>"

definition ErrorBoundary :: "boundary \<Rightarrow> effect ui list \<Rightarrow> effect ui list" where
  "ErrorBoundary s children = (case eb_error s of
     None \<Rightarrow> children
   | Some (message, text) \<Rightarrow> [Node ''div'' [] [Node ''div'' []
       [IconTile (Some ''TriangleAlert'') ''destructive'' ''lg'',
        Node ''h1'' [] [Txt ''Something broke in the interface''],
        Node ''p'' [] [Txt (''Your backups and their history are stored by the server, not the browser, so '' @
          ''nothing has been lost. Reloading should restore the page.'')],
        Node ''pre'' [] [Txt (str_or message text)],
        Node ''Button'' [On ''click'' Reload] [Icon ''RotateCw'', Txt ''Reload'']]]])"

definition NotFound_title :: string where
  "NotFound_title = ''Not found '' @ middot @ '' restic backup manager''"

definition NotFound :: "'m \<Rightarrow> 'm ui" where
  "NotFound goBack = Page [EmptyState (Some ''Compass'') ''brand'' ''This page does not exist''
     ''The link may be out of date, or the thing it pointed at was deleted.''
     [Node ''Button'' [] [Node ''Link'' [At ''to'' ''/dashboard''] [Icon ''LayoutGrid'', Txt ''Go to Dashboard'']],
      Node ''Button'' [On ''click'' goBack] [Txt ''Go back'']] True]"

lemma NotFound_msgs [simp]: "msgs (NotFound goBack) = {goBack}"
  by (simp add: NotFound_def EmptyState_msgs)

end
