(* ===== verification/Confirm.thy ===== *)
theory Confirm
  imports Widgets
begin

text \<open>
  \<open>src/ui/src/components/confirm.jsx\<close>: the dialog that answers \<open>await confirm(...)\<close>.
  Promises are numbered as \<open>confirm\<close> makes them; \<open>resolver.current\<close> is the number of the
  one it would resolve, and \<open>cp_resolved\<close> the resolutions so far, newest first.
\<close>

record confirm_provider =
  cp_state :: "confirm_opts option"
  cp_resolver :: "nat option"
  cp_next :: nat
  cp_resolved :: "(nat \<times> bool) list"

definition confirm_init :: confirm_provider where
  "confirm_init = \<lparr>cp_state = None, cp_resolver = None, cp_next = 0, cp_resolved = []\<rparr>"

definition confirm_open :: "confirm_opts \<Rightarrow> confirm_provider \<Rightarrow> confirm_provider" where
  "confirm_open opts s = s\<lparr>cp_state := Some opts, cp_resolver := Some (cp_next s), cp_next := Suc (cp_next s)\<rparr>"

definition confirm_settle :: "bool \<Rightarrow> confirm_provider \<Rightarrow> confirm_provider" where
  "confirm_settle v s = (let s1 = s\<lparr>cp_state := None\<rparr> in
     case cp_resolver s1 of None \<Rightarrow> s1
     | Some i \<Rightarrow> s1\<lparr>cp_resolved := (i, v) # cp_resolved s1, cp_resolver := None\<rparr>)"

definition confirm_openChange :: "bool \<Rightarrow> confirm_provider \<Rightarrow> confirm_provider" where
  "confirm_openChange isOpen s = (if \<not> isOpen then confirm_settle False s else s)"

datatype confirm_msg = Settle bool | OpenChange bool | Confirm confirm_opts

primrec confirm_step :: "confirm_msg \<Rightarrow> confirm_provider \<Rightarrow> confirm_provider" where
  "confirm_step (Settle v) s = confirm_settle v s"
| "confirm_step (OpenChange b) s = confirm_openChange b s"
| "confirm_step (Confirm opts) s = confirm_open opts s"

definition confirm_run :: "confirm_msg list \<Rightarrow> confirm_provider \<Rightarrow> confirm_provider" where
  "confirm_run ms s = fold confirm_step ms s"

definition ConfirmDialog :: "confirm_provider \<Rightarrow> confirm_msg ui" where
  "ConfirmDialog s = Node ''AlertDialog'' [Flag ''open'' (cp_state s \<noteq> None), OnBool ''openChange'' OpenChange]
     (case cp_state s of None \<Rightarrow> [] | Some st \<Rightarrow>
       [Node ''AlertDialogContent'' []
         [Node ''div'' []
            [IconTile (Some (if co_destructive st then ''TriangleAlert'' else ''CircleHelp''))
               (if co_destructive st then ''destructive'' else ''brand'') ''md'',
             Node ''AlertDialogHeader'' []
               ([Node ''AlertDialogTitle'' [] [Txt (co_title st)]] @
                shown (co_description st \<noteq> '''') [Node ''AlertDialogDescription'' [] [Txt (co_description st)]])],
          Node ''AlertDialogFooter'' []
            [Node ''AlertDialogCancel'' [On ''click'' (Settle False)] [Txt (co_cancelLabel st)],
             Node ''AlertDialogAction''
               ([On ''click'' (Settle True)] @ shown (co_destructive st) [At ''class'' ''buttonVariants destructive''])
               [Txt (co_confirmLabel st)]]]])"

lemmas confirm_defs [handlers] =
  confirm_init_def confirm_open_def confirm_settle_def confirm_openChange_def confirm_run_def Let_def

text \<open>What the dialog offers: to answer while it is open, and the library's open changes.\<close>

lemma ConfirmDialog_msgs:
  "msgs (ConfirmDialog s) = range OpenChange \<union> (if cp_state s = None then {} else {Settle True, Settle False})"
  by (cases "cp_state s") (auto simp: ConfirmDialog_def)

section \<open>Promises\<close>

definition confirm_inv :: "confirm_provider \<Rightarrow> bool" where
  "confirm_inv s \<longleftrightarrow> distinct (map fst (cp_resolved s)) \<and> (\<forall>i \<in> set (map fst (cp_resolved s)). i < cp_next s)
     \<and> (case cp_resolver s of None \<Rightarrow> cp_state s = None
        | Some i \<Rightarrow> cp_state s \<noteq> None \<and> Suc i = cp_next s \<and> i \<notin> set (map fst (cp_resolved s)))"

lemma confirm_inv_init: "confirm_inv confirm_init"
  by (simp add: confirm_inv_def handlers)

lemma confirm_inv_step: "confirm_inv s \<Longrightarrow> confirm_inv (confirm_step m s)"
  by (cases m; cases "cp_resolver s") (force simp: confirm_inv_def handlers)+

lemma confirm_inv_run: "confirm_inv s \<Longrightarrow> confirm_inv (confirm_run ms s)"
  unfolding confirm_run_def by (induction ms arbitrary: s) (auto simp: confirm_inv_step)

lemma confirm_run_Cons: "confirm_run (m # ms) s = confirm_run ms (confirm_step m s)"
  by (simp add: confirm_run_def)

text \<open>The handlers that close the dialog, and the answer each gives.\<close>

fun answer_of :: "confirm_msg \<Rightarrow> bool option" where
  "answer_of (Settle v) = Some v"
| "answer_of (OpenChange b) = (if b then None else Some False)"
| "answer_of (Confirm opts) = None"

lemma confirm_closed_stays:
  assumes "cp_resolver s = None" and "\<forall>m \<in> set ms. answer_of m \<noteq> None"
  shows "cp_resolver (confirm_run ms s) = None \<and> cp_resolved (confirm_run ms s) = cp_resolved s"
  using assms
proof (induction ms arbitrary: s)
  case (Cons m ms)
  have "cp_resolver (confirm_step m s) = None \<and> cp_resolved (confirm_step m s) = cp_resolved s"
    using Cons.prems by (cases m) (auto simp: handlers)
  then show ?case using Cons by (simp add: confirm_run_Cons)
qed (simp add: handlers)



text \<open>
  A second question asked while the first is open takes the dialog over: whatever the user does
  from then on, the first promise is never resolved, so its caller waits for ever.
\<close>

theorem confirm_overwritten_never_settles:
  assumes "cp_resolver (confirm_run ms confirm_init) = Some i"
  shows "i \<notin> set (map fst (cp_resolved (confirm_run (Confirm opts # after) (confirm_run ms confirm_init))))"
proof -
  let ?s = "confirm_run ms confirm_init"
  have inv: "confirm_inv ?s" by (simp add: confirm_inv_run confirm_inv_init)
  have keep: "i \<notin> set (map fst (cp_resolved (confirm_run after t))) \<and> confirm_inv (confirm_run after t)"
    if "i \<notin> set (map fst (cp_resolved t))" "cp_resolver t \<noteq> Some i" "i < cp_next t" "confirm_inv t" for t
    using that
  proof (induction after arbitrary: t)
    case (Cons m ms)
    have "confirm_inv (confirm_step m t)" using Cons.prems by (simp add: confirm_inv_step)
    moreover have "i \<notin> set (map fst (cp_resolved (confirm_step m t)))" "cp_resolver (confirm_step m t) \<noteq> Some i"
      "i < cp_next (confirm_step m t)"
      using Cons.prems by (cases m; cases "cp_resolver t"; auto simp: handlers)+
    ultimately show ?case using Cons.IH by (simp add: confirm_run_Cons)
  qed (simp add: handlers)
  show ?thesis
    unfolding confirm_run_Cons
    by (rule keep [THEN conjunct1])
      (use inv assms in \<open>auto simp: confirm_inv_def confirm_inv_step handlers\<close>)
qed

theorem confirm_overwritten_never_settles_witness:
  "0 \<notin> set (map fst (cp_resolved (confirm_run [Confirm confirm_defaults, Settle True, OpenChange False]
     (confirm_run [Confirm confirm_defaults] confirm_init))))"
  using confirm_overwritten_never_settles [of "[Confirm confirm_defaults]" 0 confirm_defaults "[Settle True, OpenChange False]"]
  by (simp add: handlers)

end
