(* ===== verification/AuthScreens.thy ===== *)
theory AuthScreens
  imports Widgets Auth
begin

text \<open>
  The two screens outside the login, \<open>src/ui/src/routes/setup.jsx\<close> and \<open>login.jsx\<close>: their
  state, with the session of \<open>AuthProvider\<close> they change, their handlers and what they render.
  An outgoing value is a call of \<open>setTheme\<close>.
\<close>

section \<open>First open: choosing the password (setup.jsx)\<close>

definition MIN_LEN :: nat where
  "MIN_LEN = 12"

record setup_state =
  su_auth :: auth
  su_token :: string
  su_password :: string
  su_confirm :: string
  su_busy :: bool
  su_error :: string

datatype setup_msg = SetupToken string | SetupPassword string | SetupConfirm string | SetupSubmit
  | SetupReply response | SetupAuth auth | SetupTheme string

definition setup_mount :: "auth \<Rightarrow> setup_state \<times> (setup_msg, string) cmd list" where
  "setup_mount a = (\<lparr>su_auth = a, su_token = '''', su_password = '''', su_confirm = '''', su_busy = False,
     su_error = ''''\<rparr>, [Do (SetTitle (''Set a password '' @ middot @ '' restic backup manager''))])"

definition setup_submit :: "setup_state \<Rightarrow> setup_state \<times> (setup_msg, string) cmd list" where
  "setup_submit s =
     (if trim (su_token s) = '''' then (s\<lparr>su_error := ''Enter the setup token from the server log.''\<rparr>, [])
      else if length (su_password s) < MIN_LEN
        then (s\<lparr>su_error := ''Use at least '' @ show_nat MIN_LEN @ '' characters.''\<rparr>, [])
      else if su_password s \<noteq> su_confirm s
        then (s\<lparr>su_error := ''The two passwords do not match.''\<rparr>, [])
      else (s\<lparr>su_error := '''', su_busy := True\<rparr>,
        [Call (Auth_setup (su_password s) (trim (su_token s))) SetupReply]))"

text \<open>The reply goes through the provider's \<open>setup\<close> first.\<close>

definition setup_reply :: "response \<Rightarrow> setup_state \<Rightarrow> setup_state \<times> (setup_msg, string) cmd list" where
  "setup_reply res s0 =
     (let s = s0\<lparr>su_auth := auth_setup res (su_auth s0), su_busy := False\<rparr>
      in if res_ok res then (s, [Do (Navigate ''/dashboard'' True)])
         else (s\<lparr>su_error := authError res ''Could not save the password.''\<rparr>, []))"

primrec setup_update :: "(setup_state, setup_msg, string) update" where
  "setup_update (SetupToken v) s = (s\<lparr>su_token := v\<rparr>, [])"
| "setup_update (SetupPassword v) s = (s\<lparr>su_password := v\<rparr>, [])"
| "setup_update (SetupConfirm v) s = (s\<lparr>su_confirm := v\<rparr>, [])"
| "setup_update SetupSubmit s = setup_submit s"
| "setup_update (SetupReply res) s = setup_reply res s"
| "setup_update (SetupAuth a) s = (s\<lparr>su_auth := a\<rparr>, [])"
| "setup_update (SetupTheme t) s = (s, [Out t])"

definition setup_form :: "setup_state \<Rightarrow> setup_msg ui" where
  "setup_form s = Node ''form'' [On ''submit'' SetupSubmit]
     ([Field ''Setup token'' ''setup-token''
         (''The server prints it in its log when it starts with no password set: look for '' @ lquote @
          ''setup token'' @ rquote @ ''. On Coolify, it is in the app's Logs.'')
         [Node ''Input'' [At ''id'' ''setup-token'', At ''value'' (su_token s), OnText ''change'' SetupToken] []],
       Field ''Password'' ''setup-password'' ''''
         [Node ''Input'' [At ''id'' ''setup-password'', At ''type'' ''password'', At ''value'' (su_password s),
            OnText ''change'' SetupPassword,
            At ''placeholder'' (''at least '' @ show_nat MIN_LEN @ '' characters'')] []],
       Field ''Confirm password'' ''setup-confirm'' ''''
         [Node ''Input'' [At ''id'' ''setup-confirm'', At ''type'' ''password'', At ''value'' (su_confirm s),
            OnText ''change'' SetupConfirm] []]] @
      InlineError (su_error s) @
      [Node ''Button'' [At ''type'' ''submit'', Flag ''disabled'' (su_busy s)]
         [Txt (if su_busy s then ''Saving'' @ ellipsis else ''Save password and continue'')]])"

definition Setup :: "string \<Rightarrow> setup_state \<Rightarrow> setup_msg ui" where
  "Setup theme s = (case setup_screen (su_auth s) of
     Blank \<Rightarrow> Node ''div'' [] []
   | Redirect p \<Rightarrow> Node ''Navigate'' [At ''to'' (''/'' @ join ''/'' p), Flag ''replace'' True] []
   | Show g \<Rightarrow> AuthLayout (map_ui SetupTheme (ThemeSwitch theme)) ''Set a login password''
       (''This is the first time the app has been opened. Choose a password to protect access on '' @
        ''this machine. You can change it later in Settings.'')
       [setup_form s] '''')"

lemma setup_form_msgs: "msgs (setup_form s) =
    range SetupToken \<union> range SetupPassword \<union> range SetupConfirm \<union> (if su_busy s then {} else {SetupSubmit})"
  by (auto simp: setup_form_def InlineError_def)

lemma Setup_msgs: "msgs (Setup theme s) = (case setup_screen (su_auth s) of Show g \<Rightarrow>
     SetupTheme ` {''light'', ''dark'', ''system''} \<union> msgs (setup_form s) | _ \<Rightarrow> {})"
  by (simp add: Setup_def ThemeSwitch_msgs split: outcome.split)

text \<open>What may be in flight: one call of the setup endpoint, with a checked token and password.\<close>

definition setup_call_ok :: "(setup_msg, string) cmd \<Rightarrow> bool" where
  "setup_call_ok c \<longleftrightarrow> (\<exists>pw tok. c = Call (Auth_setup pw tok) SetupReply \<and> 12 \<le> length pw
     \<and> tok \<noteq> '''' \<and> trim tok = tok)"

lemmas setup_defs [handlers] = setup_submit_def setup_reply_def setup_mount_def

lemma setup_call_okI [intro!]:
  "12 \<le> length pw \<Longrightarrow> tok \<noteq> '''' \<Longrightarrow> trim tok = tok \<Longrightarrow> setup_call_ok (Call (Auth_setup pw tok) SetupReply)"
  by (auto simp: setup_call_ok_def)

interpretation setup_calls: sends_only setup_update "Setup theme" "range SetupAuth" "setup_mount a" setup_call_ok
  for theme a
proof unfold_locales
  fix m s s' c and cs :: "(setup_msg, string) cmd list"
  assume "setup_update m s = (s', cs)" "c \<in> set cs" "awaits c"
  then show "setup_call_ok c"
    by (cases m) (auto simp: handlers MIN_LEN_def Let_def split: if_splits)
qed (auto simp: handlers)

interpretation setup_flight: single_flight setup_update "Setup theme" "range SetupAuth" "setup_mount a"
  is_call su_busy "range SetupReply" "{}"
  for theme a
proof unfold_locales
  fix m s s' and cs :: "(setup_msg, string) cmd list"
  assume "m \<in> msgs (Setup theme s) \<union> range SetupAuth" "setup_update m s = (s', cs)"
  then show "if filter is_call cs = [] then su_busy s' = su_busy s
      else \<not> su_busy s \<and> su_busy s' \<and> length (filter is_call cs) = 1"
    by (auto simp: Setup_msgs setup_form_msgs handlers split: outcome.splits if_splits)
next
  fix m s s' c and cs :: "(setup_msg, string) cmd list"
  assume "setup_update m s = (s', cs)" "c \<in> set cs"
  then show "replies c \<subseteq> (if is_call c then range SetupReply else {})"
    by (cases m) (auto simp: handlers Let_def split: if_splits)
next
  fix c :: "(setup_msg, string) cmd"
  assume "is_call c"
  then show "awaits c" by (cases c) auto
qed (auto simp: handlers Let_def split: if_splits)

text \<open>
  C32. However the user types, submits and waits, the setup screen never has two requests in flight;
  each one it sends carries a trimmed, non-empty token and a password of at least twelve
  characters, and the submit button is dead until the reply is in.
\<close>

theorem setup_requests:
  assumes "reach setup_update (Setup theme) (range SetupAuth) (setup_mount a) s p"
  shows "length (filter is_call p) = (if su_busy s then 1 else 0) \<and> (\<forall>c \<in> set p. setup_call_ok c)
    \<and> (su_busy s \<longrightarrow> SetupSubmit \<notin> msgs (Setup theme s))"
  using setup_flight.in_flight [OF assms] setup_calls.in_flight_checked.invariant [OF assms]
  by (auto simp: Setup_msgs setup_form_msgs split: outcome.splits)

definition setup_pending :: auth where
  "setup_pending = \<lparr>au_loading = False, au_setupRequired = True, au_authenticated = False\<rparr>"

lemma setup_pending_shows [simp]: "su_auth s = setup_pending \<Longrightarrow>
    msgs (Setup theme s) = SetupTheme ` {''light'', ''dark'', ''system''} \<union> msgs (setup_form s)"
  by (simp add: Setup_msgs setup_screen_def setup_pending_def)

theorem setup_requests_witness:
  "\<exists>s p. reach setup_update (Setup ''dark'') (range SetupAuth) (setup_mount setup_pending) s p
     \<and> length (filter is_call p) = 1"
proof -
  let ?R = "reach setup_update (Setup ''dark'') (range SetupAuth) (setup_mount setup_pending)"
  define s0 where "s0 = fst (setup_mount setup_pending)"
  define s1 where "s1 = s0\<lparr>su_token := ''tok'', su_password := ''correct horse'', su_confirm := ''correct horse''\<rparr>"
  have "?R s0 []" unfolding s0_def
    using reach.mount [of "setup_mount setup_pending" _ _ setup_update] by (force simp: handlers)
  then have "?R (s0\<lparr>su_token := ''tok''\<rparr>) ([] @ awaiting [])"
    by (rule reach.act [where m = "SetupToken ''tok''"])
      (auto simp: s0_def handlers setup_form_msgs)
  then have "?R (s0\<lparr>su_token := ''tok'', su_password := ''correct horse''\<rparr>) (([] @ awaiting []) @ awaiting [])"
    by (rule reach.act [where m = "SetupPassword ''correct horse''"])
      (auto simp: s0_def handlers setup_form_msgs)
  then have "?R s1 ((([] @ awaiting []) @ awaiting []) @ awaiting [])"
    by (rule reach.act [where m = "SetupConfirm ''correct horse''"])
      (auto simp: s0_def s1_def handlers setup_form_msgs)
  then have "?R (s1\<lparr>su_error := '''', su_busy := True\<rparr>)
      (((([] @ awaiting []) @ awaiting []) @ awaiting []) @ awaiting [Call (Auth_setup ''correct horse'' ''tok'') SetupReply])"
    by (rule reach.act [where m = SetupSubmit])
      (auto simp: s0_def s1_def handlers setup_form_msgs MIN_LEN_def trim_def is_space_def)
  from setup_requests [OF this] this show ?thesis
    by (intro exI [of _ "s1\<lparr>su_error := '''', su_busy := True\<rparr>"]) (rule exI, rule conjI, assumption, simp)
qed

section \<open>Logging in (login.jsx)\<close>

record login_state =
  li_auth :: auth
  li_password :: string
  li_busy :: bool
  li_error :: string

datatype login_msg = LoginPassword string | LoginSubmit | LoginReply response | LoginAuth auth | LoginTheme string

definition login_mount :: "auth \<Rightarrow> login_state \<times> (login_msg, string) cmd list" where
  "login_mount a = (\<lparr>li_auth = a, li_password = '''', li_busy = False, li_error = ''''\<rparr>,
     [Do (SetTitle (''Log in '' @ middot @ '' restic backup manager''))])"

definition login_submit :: "login_state \<Rightarrow> login_state \<times> (login_msg, string) cmd list" where
  "login_submit s = (s\<lparr>li_error := '''', li_busy := True\<rparr>, [Call (Auth_login (li_password s)) LoginReply])"

definition login_reply :: "response \<Rightarrow> login_state \<Rightarrow> login_state \<times> (login_msg, string) cmd list" where
  "login_reply res s0 =
     (let s = s0\<lparr>li_auth := auth_login res (li_auth s0), li_busy := False\<rparr>
      in if res_ok res then (s, [Do (Navigate ''/dashboard'' True)])
         else (s\<lparr>li_error := authError res ''Incorrect password.'', li_password := ''''\<rparr>, []))"

primrec login_update :: "(login_state, login_msg, string) update" where
  "login_update (LoginPassword v) s = (s\<lparr>li_password := v\<rparr>, [])"
| "login_update LoginSubmit s = login_submit s"
| "login_update (LoginReply res) s = login_reply res s"
| "login_update (LoginAuth a) s = (s\<lparr>li_auth := a\<rparr>, [])"
| "login_update (LoginTheme t) s = (s, [Out t])"

definition login_form :: "login_state \<Rightarrow> login_msg ui" where
  "login_form s = Node ''form'' [On ''submit'' LoginSubmit]
     ([Field ''Password'' ''login-password'' ''''
         [Node ''Input'' [At ''id'' ''login-password'', At ''type'' ''password'', At ''value'' (li_password s),
            OnText ''change'' LoginPassword] []]] @
      InlineError (li_error s) @
      [Node ''Button'' [At ''type'' ''submit'', Flag ''disabled'' (li_busy s \<or> li_password s = '''')]
         [Txt (if li_busy s then ''Checking'' @ ellipsis else ''Log in'')]])"

definition Login :: "string \<Rightarrow> login_state \<Rightarrow> login_msg ui" where
  "Login theme s = (case login_screen (li_auth s) of
     Blank \<Rightarrow> Node ''div'' [] []
   | Redirect p \<Rightarrow> Node ''Navigate'' [At ''to'' (''/'' @ join ''/'' p), Flag ''replace'' True] []
   | Show g \<Rightarrow> AuthLayout (map_ui LoginTheme (ThemeSwitch theme)) ''Log in''
       ''Enter the password you chose when you first opened this app.''
       [login_form s] ''Scheduled backups keep running while you are logged out.'')"

lemma login_form_msgs: "msgs (login_form s) =
    range LoginPassword \<union> (if li_busy s \<or> li_password s = '''' then {} else {LoginSubmit})"
  by (auto simp: login_form_def InlineError_def)

lemma Login_msgs: "msgs (Login theme s) = (case login_screen (li_auth s) of Show g \<Rightarrow>
     LoginTheme ` {''light'', ''dark'', ''system''} \<union> msgs (login_form s) | _ \<Rightarrow> {})"
  by (simp add: Login_def ThemeSwitch_msgs split: outcome.split)

lemmas login_defs [handlers] = login_submit_def login_reply_def login_mount_def

text \<open>A request in flight is a login with a password that was typed.\<close>

definition login_call_ok :: "(login_msg, string) cmd \<Rightarrow> bool" where
  "login_call_ok c \<longleftrightarrow> (\<exists>pw. c = Call (Auth_login pw) LoginReply \<and> pw \<noteq> '''')"

lemma login_call_okI [intro!]: "pw \<noteq> '''' \<Longrightarrow> login_call_ok (Call (Auth_login pw) LoginReply)"
  by (auto simp: login_call_ok_def)

interpretation login_calls: component login_update "Login theme" "range LoginAuth" "login_mount a"
    "\<lambda>s p. \<forall>c \<in> set p. login_call_ok c"
  for theme a
proof unfold_locales
  fix s s' p m and cs :: "(login_msg, string) cmd list"
  assume "\<forall>c \<in> set p. login_call_ok c" "m \<in> msgs (Login theme s) \<union> range LoginAuth"
    "login_update m s = (s', cs)"
  then show "\<forall>c \<in> set (p @ awaiting cs). login_call_ok c"
    by (auto simp: Login_msgs login_form_msgs handlers split: outcome.splits if_splits)
next
  fix s s' p c q m and cs :: "(login_msg, string) cmd list"
  assume "\<forall>c \<in> set (p @ c # q). login_call_ok c" "m \<in> replies c" "login_update m s = (s', cs)"
  then show "\<forall>c \<in> set (p @ q @ awaiting cs). login_call_ok c"
    by (auto simp: handlers login_call_ok_def [of c] Let_def split: if_splits)
qed (auto simp: handlers)

interpretation login_flight: single_flight login_update "Login theme" "range LoginAuth" "login_mount a"
  is_call li_busy "range LoginReply" "{}"
  for theme a
proof unfold_locales
  fix m s s' and cs :: "(login_msg, string) cmd list"
  assume "m \<in> msgs (Login theme s) \<union> range LoginAuth" "login_update m s = (s', cs)"
  then show "if filter is_call cs = [] then li_busy s' = li_busy s
      else \<not> li_busy s \<and> li_busy s' \<and> length (filter is_call cs) = 1"
    by (auto simp: Login_msgs login_form_msgs handlers split: outcome.splits if_splits)
next
  fix m s s' c and cs :: "(login_msg, string) cmd list"
  assume "login_update m s = (s', cs)" "c \<in> set cs"
  then show "replies c \<subseteq> (if is_call c then range LoginReply else {})"
    by (cases m) (auto simp: handlers Let_def split: if_splits)
next
  fix c :: "(login_msg, string) cmd"
  assume "is_call c"
  then show "awaits c" by (cases c) auto
qed (auto simp: handlers Let_def split: if_splits)

text \<open>
  The login screen sends one attempt at a time, never an empty password; while it waits the button
  is dead, and once the server accepts, the session is open and the screen gives way to the
  dashboard, in place of itself.
\<close>

theorem login_requests:
  assumes "reach login_update (Login theme) (range LoginAuth) (login_mount a) s p"
  shows "length (filter is_call p) = (if li_busy s then 1 else 0) \<and> (\<forall>c \<in> set p. login_call_ok c)
    \<and> (li_busy s \<longrightarrow> LoginSubmit \<notin> msgs (Login theme s))
    \<and> (\<forall>res s' cs. res_ok res \<longrightarrow> login_update (LoginReply res) s = (s', cs) \<longrightarrow>
         cs = [Do (Navigate ''/dashboard'' True)] \<and> (\<not> au_loading (li_auth s) \<longrightarrow>
         router (li_auth s') [''dashboard''] = Show PDashboard))"
  using login_flight.in_flight [OF assms] login_calls.invariant [OF assms]
  by (auto simp: Login_msgs login_form_msgs handlers auth_login_def router_def RequireAuth_def Let_def
      split: outcome.splits)

definition logged_out :: auth where
  "logged_out = \<lparr>au_loading = False, au_setupRequired = False, au_authenticated = False\<rparr>"

theorem login_requests_witness:
  "\<exists>s p. reach login_update (Login ''dark'') (range LoginAuth) (login_mount logged_out) s p
     \<and> length (filter is_call p) = 1"
proof -
  let ?R = "reach login_update (Login ''dark'') (range LoginAuth) (login_mount logged_out)"
  define s0 where "s0 = fst (login_mount logged_out)"
  have shows_form [simp]: "li_auth s = logged_out \<Longrightarrow> msgs (Login ''dark'' s) =
      LoginTheme ` {''light'', ''dark'', ''system''} \<union> msgs (login_form s)" for s
    by (simp add: Login_msgs login_screen_def logged_out_def)
  have "?R s0 []" unfolding s0_def
    using reach.mount [of "login_mount logged_out" _ _ login_update] by (force simp: handlers)
  then have "?R (s0\<lparr>li_password := ''pw''\<rparr>) ([] @ awaiting [])"
    by (rule reach.act [where m = "LoginPassword ''pw''"]) (auto simp: s0_def handlers login_form_msgs)
  then have "?R (s0\<lparr>li_password := ''pw'', li_busy := True\<rparr>)
      (([] @ awaiting []) @ awaiting [Call (Auth_login ''pw'') LoginReply])"
    by (rule reach.act [where m = LoginSubmit]) (auto simp: s0_def handlers login_form_msgs)
  from login_requests [OF this] this show ?thesis
    by (intro exI [of _ "s0\<lparr>li_password := ''pw'', li_busy := True\<rparr>"]) (rule exI, rule conjI, assumption, simp)
qed

end
