(* ===== verification/ScheduleEditor.thy ===== *)
theory ScheduleEditor
  imports Widgets Schedule
begin

text \<open>
  \<open>src/ui/src/components/schedule-editor.jsx\<close>: the form for a job's automatic backup. Its state
  holds the \<open>job\<close> prop, so that a new prop is a message of the environment; a save carries
  the schedule it sent to its reply. The outgoing value is \<open>onSaved(res.body.job)\<close>.
\<close>

section \<open>State and handlers\<close>

record schedule_editor =
  sed_job :: job
  sed_form :: schedule_form
  sed_busy :: bool
  sed_error :: string

datatype sched_msg = SchedJob job | SchedEnabled bool | SchedKind string | SchedEvery string
  | SchedAt string | SchedToggleDay int | SchedSubmit | SchedSaved schedule response

definition sched_mount :: "job \<Rightarrow> schedule_editor \<times> (sched_msg, job option) cmd list" where
  "sched_mount j = (\<lparr>sed_job = j, sed_form = scheduleFormFromJob (Some j), sed_busy = False, sed_error = ''''\<rparr>, [])"

text \<open>The effect on \<open>[job]\<close>: a new job resets the form and the error, not \<open>busy\<close>.\<close>

definition sched_newJob :: "job \<Rightarrow> schedule_editor \<Rightarrow> schedule_editor" where
  "sched_newJob j s = s\<lparr>sed_job := j, sed_form := scheduleFormFromJob (Some j), sed_error := ''''\<rparr>"

definition toggleDay :: "int \<Rightarrow> schedule_form \<Rightarrow> schedule_form" where
  "toggleDay day f =
     (let has = day \<in> set (sf_weekdays f);
          weekdays = (if has then filter (\<lambda>d. d \<noteq> day) (sf_weekdays f) else sort (sf_weekdays f @ [day]))
      in f\<lparr>sf_weekdays := weekdays\<rparr>)"

definition sched_save :: "schedule_form \<Rightarrow> schedule_editor \<Rightarrow> schedule_editor \<times> (sched_msg, job option) cmd list" where
  "sched_save nextForm s =
     (s\<lparr>sed_busy := True, sed_error := ''''\<rparr>,
      (case schedulePayload (Some nextForm) of None \<Rightarrow> []
       | Some schedule \<Rightarrow> [Call (Jobs_save (sed_job s) [(''schedule'', Some (schedule_json schedule))]) (SchedSaved schedule)]))"

definition sched_saved :: "schedule \<Rightarrow> response \<Rightarrow> schedule_editor \<Rightarrow> schedule_editor \<times> (sched_msg, job option) cmd list" where
  "sched_saved schedule res s0 =
     (let s = s0\<lparr>sed_busy := False\<rparr> in
      if res_ok res then
        (s, [Do (Toast (plain_toast Success
               (if sch_enabled schedule
                then ''Automatic backup: '' @ describeScheduleTitle (Some schedule) @ ''.''
                else ''Automatic backup paused.'')))] @
            (case res_body res of None \<Rightarrow> [] | Some b \<Rightarrow> [Out (b_job b)]))
      else (s\<lparr>sed_error := errorOf res ''Could not save the schedule.''\<rparr>, []))"

definition sched_onSubmit :: "schedule_editor \<Rightarrow> schedule_editor \<times> (sched_msg, job option) cmd list" where
  "sched_onSubmit s =
     (if sf_enabled (sed_form s) \<and> sf_kind (sed_form s) = ''weekly'' \<and> sf_weekdays (sed_form s) = []
      then (s\<lparr>sed_error := ''Choose at least one weekday.''\<rparr>, [])
      else sched_save (sed_form s) s)"

primrec sched_update :: "(schedule_editor, sched_msg, job option) update" where
  "sched_update (SchedJob j) s = (sched_newJob j s, [])"
| "sched_update (SchedEnabled v) s = (s\<lparr>sed_form := (sed_form s)\<lparr>sf_enabled := v\<rparr>\<rparr>, [])"
| "sched_update (SchedKind v) s = (s\<lparr>sed_form := (sed_form s)\<lparr>sf_kind := v\<rparr>\<rparr>, [])"
| "sched_update (SchedEvery v) s = (s\<lparr>sed_form := (sed_form s)\<lparr>sf_every := v\<rparr>\<rparr>, [])"
| "sched_update (SchedAt v) s = (s\<lparr>sed_form := (sed_form s)\<lparr>sf_at := v\<rparr>\<rparr>, [])"
| "sched_update (SchedToggleDay d) s = (s\<lparr>sed_form := toggleDay d (sed_form s)\<rparr>, [])"
| "sched_update SchedSubmit s = sched_onSubmit s"
| "sched_update (SchedSaved schedule res) s = sched_saved schedule res s"

section \<open>What it renders\<close>

definition sched_state :: "job \<Rightarrow> string" where
  "sched_state j = str_or (job_scheduleState j) ''off''"

definition sched_nextLine :: "env \<Rightarrow> job \<Rightarrow> string option" where
  "sched_nextLine e j =
     (if sched_state j = ''overdue'' then Some (''Overdue '' @ em_dash @ '' a backup will run when the app can.'')
      else if sched_state j = ''running'' then Some ''A backup is running now.''
      else if job_nextDueAt j \<noteq> '''' then Some (''Next run '' @ fmtRelative e (job_nextDueAt j))
      else None)"

definition sched_days :: "schedule_form \<Rightarrow> sched_msg ui" where
  "sched_days f = Node ''div'' [] (map (\<lambda>d. let isOn = wd_value d \<in> set (sf_weekdays f) in
     Node ''button'' [At ''type'' ''button'', On ''click'' (SchedToggleDay (wd_value d)), Flag ''aria-pressed'' isOn,
       At ''aria-label'' (wd_label d), At ''title'' (wd_label d)] [Txt (wd_short d)]) WEEKDAYS)"

definition sched_fields :: "schedule_form \<Rightarrow> sched_msg ui list" where
  "sched_fields f =
     [Field ''How often'' ''sched-kind'' '''' [Select (sf_kind f) SchedKind ''sched-kind''
        [(''hourly'', ''Hourly''), (''every'', ''Every N hours''), (''daily'', ''Daily''), (''weekly'', ''Weekly'')]]] @
     shown (sf_kind f = ''every'') [Field ''Interval'' ''sched-every'' '''' [Select (sf_every f) SchedEvery ''sched-every''
        [(''4h'', ''Every 4 hours''), (''6h'', ''Every 6 hours''), (''12h'', ''Every 12 hours'')]]] @
     shown (sf_kind f = ''daily'' \<or> sf_kind f = ''weekly'') [Field ''Time of day'' ''sched-at'' ''''
        [Node ''Input'' [At ''id'' ''sched-at'', At ''type'' ''time'', At ''value'' (sf_at f), OnText ''change'' SchedAt] []]] @
     shown (sf_kind f = ''weekly'') [Field ''Days'' '''' '''' [sched_days f]]"

definition sched_next :: "env \<Rightarrow> job \<Rightarrow> schedule_form \<Rightarrow> sched_msg ui list" where
  "sched_next e j f = (case sched_nextLine e j of None \<Rightarrow> []
     | Some line \<Rightarrow> shown ((case job_schedule j of None \<Rightarrow> False | Some sc \<Rightarrow> sch_enabled sc) \<or> sf_enabled f)
         [Node ''p'' [At ''class'' (if sched_state j = ''overdue'' then ''text-warning'' else ''text-muted-foreground'')]
            [Icon ''CalendarClock'', Txt line]])"

definition ScheduleEditor :: "env \<Rightarrow> schedule_editor \<Rightarrow> sched_msg ui" where
  "ScheduleEditor e s =
     (let j = sed_job s; f = sed_form s in
      Node ''Card'' []
       [Node ''CardHeader'' [] [Node ''div'' []
          [Node ''CardTitle'' [] [Txt ''Automatic backup''],
           Node ''CardDescription'' [] [Txt (''Runs this job on a schedule while the app is running. Closing the browser is '' @
             ''fine; quitting the app is not.'')]]],
        Node ''CardContent'' [] [Node ''form'' [On ''submit'' SchedSubmit]
         ([SwitchRow (''sched-enabled-'' @ job_id j) (sf_enabled f) SchedEnabled (sed_busy s) ''Enable schedule''
            (if sf_enabled f then str_or (describeScheduleTitle (schedulePayload (Some f))) ''On''
             else ''Off '' @ em_dash @ '' run backups manually'')] @
          shown (sf_enabled f) [Node ''div'' [] (sched_fields f)] @
          sched_next e j f @
          InlineError (sed_error s) @
          [Node ''div'' [] [Node ''Button'' [At ''type'' ''submit'', Flag ''disabled'' (sed_busy s)]
             [Txt (if sed_busy s then ''Saving'' @ ellipsis else ''Save schedule'')]]])]])"

lemma sched_days_msgs [simp]: "msgs (sched_days f) = SchedToggleDay ` {0..6}"
proof -
  have "{0..6 :: int} = {0, 1, 2, 3, 4, 5, 6}" by auto
  then show ?thesis by (auto simp: sched_days_def WEEKDAYS_def Let_def)
qed

lemma sched_days_submit [simp]: "can_submit (sched_days f) = False"
  by (simp add: sched_days_def WEEKDAYS_def Let_def)

lemma sched_fields_msgs: "msgs_of (sched_fields f) \<subseteq>
    range SchedKind \<union> range SchedEvery \<union> range SchedAt \<union> SchedToggleDay ` {0..6}"
  by (auto simp: sched_fields_def)

lemma sched_next_msgs [simp]: "msgs_of (sched_next e j f) = {}"
  by (simp add: sched_next_def split: option.split)

lemma sched_no_submit [simp]: "\<not> submits (sched_fields f)" "\<not> submits (sched_next e j f)"
  by (auto simp: sched_fields_def sched_next_def split: option.split)

lemma ScheduleEditor_msgs: "msgs (ScheduleEditor e s) \<subseteq>
    range SchedEnabled \<union> range SchedKind \<union> range SchedEvery \<union> range SchedAt \<union> SchedToggleDay ` {0..6}
    \<union> (if sed_busy s then {} else {SchedSubmit})"
  using sched_fields_msgs [of "sed_form s"] by (auto simp: ScheduleEditor_def Let_def)

section \<open>What it sends\<close>

definition days_in_week :: "int list \<Rightarrow> bool" where
  "days_in_week ds \<longleftrightarrow> (\<forall>d \<in> set ds. 0 \<le> d \<and> d \<le> 6)"

definition job_days_ok :: "job \<Rightarrow> bool" where
  "job_days_ok j \<longleftrightarrow> days_in_week (sf_weekdays (scheduleFormFromJob (Some j)))"

text \<open>
  A schedule the server accepts as far as weekdays go: an enabled weekly one names some, in order
  and in the week.
\<close>

definition weekly_ok :: "schedule \<Rightarrow> bool" where
  "weekly_ok sc \<longleftrightarrow> (sch_enabled sc \<longrightarrow> sch_kind sc = ''weekly'' \<longrightarrow>
     (case sch_weekdays sc of None \<Rightarrow> False | Some ds \<Rightarrow> ds \<noteq> [] \<and> valid_days ds))"

definition sched_call_ok :: "(sched_msg, job option) cmd \<Rightarrow> bool" where
  "sched_call_ok c \<longleftrightarrow> (\<exists>j sc. c = Call (Jobs_save j [(''schedule'', Some (schedule_json sc))]) (SchedSaved sc)
     \<and> weekly_ok sc)"

lemmas sched_defs [handlers] =
  sched_mount_def sched_newJob_def toggleDay_def sched_save_def sched_saved_def sched_onSubmit_def

lemma toggleDay_set: "set (sf_weekdays (toggleDay d f)) =
    (if d \<in> set (sf_weekdays f) then set (sf_weekdays f) - {d} else insert d (set (sf_weekdays f)))"
  by (auto simp: toggleDay_def Let_def)

lemma toggleDay_days: "days_in_week (sf_weekdays f) \<Longrightarrow> 0 \<le> d \<Longrightarrow> d \<le> 6 \<Longrightarrow>
    days_in_week (sf_weekdays (toggleDay d f))"
  unfolding days_in_week_def toggleDay_set by auto

lemma toggleDay_sorted: "sorted (sf_weekdays f) \<Longrightarrow> sorted (sf_weekdays (toggleDay d f))"
  by (simp add: toggleDay_def Let_def sorted_filter [of "\<lambda>x. x", simplified])

text \<open>
  A weekday button flips its own day and nothing else: after a click the chosen days are the old
  ones with that day added or removed, in order, still in the week; clicking it again gives the
  old set back.
\<close>

theorem toggleDay_flips:
  assumes "valid_days (sf_weekdays f)" and "0 \<le> d" and "d \<le> 6"
  shows "set (sf_weekdays (toggleDay d f)) = (set (sf_weekdays f) - {d}) \<union> ({d} - set (sf_weekdays f))
    \<and> valid_days (sf_weekdays (toggleDay d f))
    \<and> set (sf_weekdays (toggleDay d (toggleDay d f))) = set (sf_weekdays f)
    \<and> sf_kind (toggleDay d f) = sf_kind f \<and> sf_at (toggleDay d f) = sf_at f"
  using assms toggleDay_sorted [of f d] toggleDay_days [of f d]
  unfolding toggleDay_set
  by (auto simp: valid_days_def days_in_week_def toggleDay_def Let_def)

theorem toggleDay_flips_witness:
  "sf_weekdays (toggleDay 3 \<lparr>sf_enabled = True, sf_kind = ''weekly'', sf_every = ''6h'', sf_at = ''02:00'',
     sf_weekdays = [1, 5]\<rparr>) = [1, 3, 5]
   \<and> set (sf_weekdays (toggleDay 3 (toggleDay 3 \<lparr>sf_enabled = True, sf_kind = ''weekly'', sf_every = ''6h'',
     sf_at = ''02:00'', sf_weekdays = [1, 5]\<rparr>))) = {1, 5}"
proof -
  let ?f = "\<lparr>sf_enabled = True, sf_kind = ''weekly'', sf_every = ''6h'', sf_at = ''02:00'', sf_weekdays = [1, 5]\<rparr>"
  have "valid_days (sf_weekdays ?f)" by (simp add: valid_days_def)
  from toggleDay_flips [OF this, of 3] show ?thesis by (simp add: toggleDay_def Let_def)
qed

lemma sched_call_okI [intro!]: "weekly_ok sc \<Longrightarrow>
    sched_call_ok (Call (Jobs_save j [(''schedule'', Some (schedule_json sc))]) (SchedSaved sc))"
  by (auto simp: sched_call_ok_def)

lemma sort_Nil_iff [simp]: "sort xs = [] \<longleftrightarrow> xs = []" for xs :: "int list"
  by (metis length_0_conv length_sort)

lemma saved_weekly_ok:
  assumes "days_in_week (sf_weekdays f)" and "schedulePayload (Some f) = Some sc"
    and "\<not> (sf_enabled f \<and> sf_kind f = ''weekly'' \<and> sf_weekdays f = [])"
  shows "weekly_ok sc"
proof -
  have "filter (\<lambda>d. d \<ge> 0 \<and> d \<le> 6) (sf_weekdays f) = sf_weekdays f"
    using assms(1) by (simp add: days_in_week_def filter_id_conv)
  then show ?thesis
    using assms sort_filter_valid [of "sf_weekdays f"]
    by (auto simp: weekly_ok_def schedulePayload_def Let_def str_or_def split: if_splits)
qed

definition sched_inv :: "schedule_editor \<Rightarrow> (sched_msg, job option) cmd list \<Rightarrow> bool" where
  "sched_inv s p \<longleftrightarrow> days_in_week (sf_weekdays (sed_form s)) \<and> (\<forall>c \<in> set p. sched_call_ok c)"

lemma sched_submit_inv:
  assumes "sched_inv s p" and "sched_onSubmit s = (s', cs)"
  shows "sched_inv s' (p @ awaiting cs)"
  using assms saved_weekly_ok [of "sed_form s"]
  by (auto simp: handlers sched_inv_def split: if_splits option.splits)

lemma sched_act_inv:
  assumes "sched_inv s p" and "m \<in> msgs (ScheduleEditor e s) \<union> SchedJob ` {j. job_days_ok j}"
    and "sched_update m s = (s', cs)"
  shows "sched_inv s' (p @ awaiting cs)"
proof (cases m)
  case (SchedToggleDay d)
  then have "0 \<le> d" "d \<le> 6" using assms(2) ScheduleEditor_msgs [of e s] by (auto split: if_splits)
  then show ?thesis
    using assms SchedToggleDay toggleDay_days [of "sed_form s" d] by (auto simp: sched_inv_def)
next
  case SchedSubmit
  then show ?thesis using assms sched_submit_inv by simp
next
  case (SchedJob j)
  then have "job_days_ok j" using assms(2) ScheduleEditor_msgs [of e s] by (auto split: if_splits)
  then show ?thesis using assms SchedJob by (auto simp: sched_inv_def handlers job_days_ok_def)
next
  case (SchedSaved sc res)
  then show ?thesis using assms(2) ScheduleEditor_msgs [of e s] by (auto split: if_splits)
qed (use assms in \<open>auto simp: sched_inv_def\<close>)

lemma sched_reply_inv:
  assumes "sched_inv s (p @ c # q)" and "m \<in> replies c" and "sched_update m s = (s', cs)"
  shows "sched_inv s' (p @ q @ awaiting cs)"
  using assms by (auto simp: sched_inv_def sched_call_ok_def [of c] handlers Let_def split: if_splits option.splits)

interpretation sched_calls: component sched_update "ScheduleEditor e" "SchedJob ` {j. job_days_ok j}" "sched_mount j"
    "\<lambda>s p. job_days_ok j \<longrightarrow> sched_inv s p"
  for e j
proof unfold_locales
  fix s and cs :: "(sched_msg, job option) cmd list"
  assume "sched_mount j = (s, cs)"
  then show "job_days_ok j \<longrightarrow> sched_inv s (awaiting cs)"
    by (auto simp: sched_inv_def job_days_ok_def handlers)
qed (blast intro: sched_act_inv sched_reply_inv)+

interpretation sched_flight: single_flight sched_update "ScheduleEditor e" "SchedJob ` {j. job_days_ok j}" "sched_mount j"
  is_call sed_busy "{m. \<exists>sc r. m = SchedSaved sc r}" "{}"
  for e j
proof unfold_locales
  fix m s s' and cs :: "(sched_msg, job option) cmd list"
  assume "m \<in> msgs (ScheduleEditor e s) \<union> SchedJob ` {j. job_days_ok j}" "sched_update m s = (s', cs)"
  moreover have "sched_onSubmit s = (s', cs) \<Longrightarrow> \<not> sed_busy s \<Longrightarrow> if filter is_call cs = [] then sed_busy s' = sed_busy s
      else \<not> sed_busy s \<and> sed_busy s' \<and> length (filter is_call cs) = 1"
    by (auto simp: handlers schedulePayload_def Let_def split: if_splits option.splits)
  ultimately show "if filter is_call cs = [] then sed_busy s' = sed_busy s
      else \<not> sed_busy s \<and> sed_busy s' \<and> length (filter is_call cs) = 1"
    using ScheduleEditor_msgs [of e s] by (cases m) (auto simp: handlers split: if_splits)
next
  fix m s s' c and cs :: "(sched_msg, job option) cmd list"
  assume "sched_update m s = (s', cs)" "c \<in> set cs"
  then show "replies c \<subseteq> (if is_call c then {m. \<exists>sc r. m = SchedSaved sc r} else {})"
    by (cases m) (auto simp: handlers Let_def split: if_splits option.splits)
next
  fix c :: "(sched_msg, job option) cmd"
  assume "is_call c"
  then show "awaits c" by (cases c) auto
qed (auto simp: handlers Let_def split: if_splits option.splits)

text \<open>
  C5. The schedule editor saves one schedule at a time, and never an enabled weekly schedule without a
  weekday: whatever the user clicks and however often the job is refreshed from the server while a
  save is in flight, each request is a \<open>PUT\<close> of the job with a schedule whose weekdays are
  in order, in the week and, when it is on, not empty; while it waits, the form cannot be
  submitted.
\<close>

theorem schedule_editor_requests:
  assumes "reach sched_update (ScheduleEditor e) (SchedJob ` {j. job_days_ok j}) (sched_mount j) s p"
    and "job_days_ok j"
  shows "length (filter is_call p) = (if sed_busy s then 1 else 0) \<and> (\<forall>c \<in> set p. sched_call_ok c)
    \<and> (sed_busy s \<longrightarrow> SchedSubmit \<notin> msgs (ScheduleEditor e s))"
  using sched_flight.in_flight [OF assms(1)] sched_calls.invariant [OF assms(1)] assms(2)
    ScheduleEditor_msgs [of e s]
  by (auto simp: sched_inv_def)

lemma ScheduleEditor_submit: "\<not> sed_busy s \<Longrightarrow> SchedSubmit \<in> msgs (ScheduleEditor e s)"
  by (simp add: ScheduleEditor_def Let_def)

definition weekly_job :: job where
  "weekly_job = sample_job\<lparr>job_schedule := Some \<lparr>sch_enabled = True, sch_kind = ''weekly'', sch_every = None,
     sch_at = Some ''03:00'', sch_weekdays = Some [1, 4]\<rparr>\<rparr>"

theorem schedule_editor_requests_witness:
  "\<exists>s p. reach sched_update (ScheduleEditor sample_env) (SchedJob ` {j. job_days_ok j}) (sched_mount weekly_job) s p
     \<and> length (filter is_call p) = 1"
proof -
  let ?R = "reach sched_update (ScheduleEditor sample_env) (SchedJob ` {j. job_days_ok j}) (sched_mount weekly_job)"
  define s0 where "s0 = fst (sched_mount weekly_job)"
  have ok: "job_days_ok weekly_job"
    by (simp add: job_days_ok_def days_in_week_def weekly_job_def scheduleFormFromJob_def Let_def)
  have "?R s0 (awaiting [])" unfolding s0_def by (rule reach.mount) (simp add: handlers)
  then have R: "?R (fst (sched_update SchedSubmit s0)) (awaiting [] @ awaiting (snd (sched_update SchedSubmit s0)))"
    by (rule reach.act [where m = SchedSubmit])
      (simp_all add: ScheduleEditor_submit s0_def sched_mount_def)
  have "sed_busy (fst (sched_update SchedSubmit s0))"
    by (simp add: s0_def handlers weekly_job_def scheduleFormFromJob_def Let_def)
  then show ?thesis using schedule_editor_requests [OF R ok] R by (metis (lifting))
qed

end
