(* ===== verification/RetentionEditor.thy ===== *)
theory RetentionEditor
  imports Widgets Retention StartRun ScheduleEditor
begin

text \<open>
  \<open>src/ui/src/components/retention-editor.jsx\<close>: the form for a job's keep policy, its preview
  (a dry run) and "Apply now". State and messages are as in the schedule editor; a question to the
  user carries the id of the job its answer applies to. The outgoing value is the argument of
  \<open>onSaved\<close>.
\<close>

section \<open>State and handlers\<close>

record retention_editor =
  red_job :: job
  red_form :: retention
  red_busy :: bool
  red_applying :: bool
  red_error :: string

datatype ret_msg = RetJob job | RetEnabled bool | RetPreset string | RetCount string string | RetSubmit
  | RetSaved retention response | RetPreview | RetPreviewed response | RetApply
  | RetConfirmed string bool | RetApplied response

type_synonym ret_cmds = "(ret_msg, job option) cmd list"

definition ret_mount :: "job \<Rightarrow> retention_editor \<times> ret_cmds" where
  "ret_mount j = (\<lparr>red_job = j, red_form = retentionFormFromJob (Some j), red_busy = False,
     red_applying = False, red_error = ''''\<rparr>, [])"

definition ret_newJob :: "job \<Rightarrow> retention_editor \<Rightarrow> retention_editor" where
  "ret_newJob j s = s\<lparr>red_job := j, red_form := retentionFormFromJob (Some j), red_error := ''''\<rparr>"

definition setPreset :: "string \<Rightarrow> retention \<Rightarrow> retention" where
  "setPreset preset f = (case preset_values preset of
     Some v \<Rightarrow> policy (ret_enabled f) preset v | None \<Rightarrow> f\<lparr>ret_preset := preset\<rparr>)"

text \<open>\<open>parseInt(s, 10)\<close>: leading white space, a sign, then the digits; \<open>None\<close> is NaN.\<close>

definition parse_int :: "string \<Rightarrow> int option" where
  "parse_int s =
     (let t = dropWhile is_space s;
          (neg, u) = (case t of [] \<Rightarrow> (False, []) | c # cs \<Rightarrow>
            if c = CHR ''-'' then (True, cs) else if c = CHR ''+'' then (False, cs) else (False, t));
          ds = takeWhile is_digit u
      in if ds = [] then None else Some ((if neg then - 1 else 1) * int (read_rev (rev ds))))"

text \<open>\<open>Math.max(0, parseInt(e.target.value || "0", 10) || 0)\<close>\<close>

definition count_input :: "string \<Rightarrow> int" where
  "count_input v = max 0 (case parse_int (str_or v ''0'') of None \<Rightarrow> 0 | Some n \<Rightarrow> n)"

definition CUSTOM_FIELDS :: "(string \<times> string \<times> string) list" where
  "CUSTOM_FIELDS = [(''keepLast'', ''Keep last'', ''Most recent snapshots''),
     (''keepHourly'', ''Keep hourly'', ''One per hour''), (''keepDaily'', ''Keep daily'', ''One per day''),
     (''keepWeekly'', ''Keep weekly'', ''One per week''), (''keepMonthly'', ''Keep monthly'', ''One per month''),
     (''keepWithinDays'', ''Keep within days'', ''Anything newer than this many days'')]"

text \<open>\<open>set({ [field.key]: n })\<close> and \<open>form[field.key]\<close>, for the keys of \<open>CUSTOM_FIELDS\<close>.\<close>

definition set_count :: "string \<Rightarrow> int \<Rightarrow> retention \<Rightarrow> retention" where
  "set_count key n f =
     (if key = ''keepLast'' then f\<lparr>keepLast := n\<rparr> else if key = ''keepHourly'' then f\<lparr>keepHourly := n\<rparr>
      else if key = ''keepDaily'' then f\<lparr>keepDaily := n\<rparr> else if key = ''keepWeekly'' then f\<lparr>keepWeekly := n\<rparr>
      else if key = ''keepMonthly'' then f\<lparr>keepMonthly := n\<rparr>
      else if key = ''keepWithinDays'' then f\<lparr>keepWithinDays := n\<rparr> else f)"

definition get_count :: "string \<Rightarrow> retention \<Rightarrow> int" where
  "get_count key f =
     (if key = ''keepLast'' then keepLast f else if key = ''keepHourly'' then keepHourly f
      else if key = ''keepDaily'' then keepDaily f else if key = ''keepWeekly'' then keepWeekly f
      else if key = ''keepMonthly'' then keepMonthly f
      else if key = ''keepWithinDays'' then keepWithinDays f else 0)"

definition ret_save :: "retention \<Rightarrow> retention_editor \<Rightarrow> retention_editor \<times> ret_cmds" where
  "ret_save nextForm s0 =
     (let s = s0\<lparr>red_busy := True, red_error := ''''\<rparr> in
      case retentionPayload (Some nextForm) of
        None \<Rightarrow> (s, [])
      | Some retention \<Rightarrow>
          if ret_enabled retention \<and> \<not> has_keep_rule retention
          then (s\<lparr>red_busy := False, red_error := ''Set at least one keep rule, or choose a preset.''\<rparr>, [])
          else (s, [Call (Jobs_save (red_job s) [(''retention'', Some (retention_json retention))]) (RetSaved retention)]))"

definition ret_saved :: "retention \<Rightarrow> response \<Rightarrow> retention_editor \<Rightarrow> retention_editor \<times> ret_cmds" where
  "ret_saved retention res s0 =
     (let s = s0\<lparr>red_busy := False\<rparr> in
      if res_ok res then
        (s, [Do (Toast (plain_toast Success
               (if ret_enabled retention then ''Retention: '' @ describeRetentionTitle (Some retention) @ ''.''
                else ''Retention paused.'')))] @
            (case res_body res of None \<Rightarrow> [] | Some b \<Rightarrow> [Out (b_job b)]))
      else (s\<lparr>red_error := errorOf res ''Could not save retention.''\<rparr>, []))"

definition ret_preview :: "retention_editor \<Rightarrow> retention_editor \<times> ret_cmds" where
  "ret_preview s = (s\<lparr>red_applying := True\<rparr>, [Call (Jobs_retention (job_id (red_job s)) True) RetPreviewed])"

definition ret_previewed :: "response \<Rightarrow> retention_editor \<Rightarrow> retention_editor \<times> ret_cmds" where
  "ret_previewed res s = (s\<lparr>red_applying := False\<rparr>,
     map Do (snd (handleStartResponse res ''Could not start the retention preview.'' False)))"

definition ret_applyNow :: "retention_editor \<Rightarrow> retention_editor \<times> ret_cmds" where
  "ret_applyNow s = (s, [Ask (confirm_defaults\<lparr>co_title := ''Apply retention now?'',
     co_description := ''This forgets old snapshots for this job according to the saved policy, then prunes '' @
       ''unused data from the repository. This cannot be undone.'',
     co_confirmLabel := ''Apply retention'', co_destructive := True\<rparr>) (RetConfirmed (job_id (red_job s)))])"

definition ret_confirmed :: "string \<Rightarrow> bool \<Rightarrow> retention_editor \<Rightarrow> retention_editor \<times> ret_cmds" where
  "ret_confirmed i ok s = (if \<not> ok then (s, [])
     else (s\<lparr>red_applying := True\<rparr>, [Call (Jobs_retention i False) RetApplied]))"

definition ret_applied :: "bool \<Rightarrow> response \<Rightarrow> retention_editor \<Rightarrow> retention_editor \<times> ret_cmds" where
  "ret_applied stay res s =
     (let (started, es) = handleStartResponse res ''Could not start retention.'' stay
      in (s\<lparr>red_applying := False\<rparr>, map Do es @ shown started [Out None]))"

primrec ret_update :: "bool \<Rightarrow> (retention_editor, ret_msg, job option) update" where
  "ret_update stay (RetJob j) s = (ret_newJob j s, [])"
| "ret_update stay (RetEnabled v) s = (s\<lparr>red_form := (red_form s)\<lparr>ret_enabled := v\<rparr>\<rparr>, [])"
| "ret_update stay (RetPreset p) s = (s\<lparr>red_form := setPreset p (red_form s)\<rparr>, [])"
| "ret_update stay (RetCount k v) s = (s\<lparr>red_form := set_count k (count_input v) (red_form s)\<rparr>, [])"
| "ret_update stay RetSubmit s = ret_save (red_form s) s"
| "ret_update stay (RetSaved r res) s = ret_saved r res s"
| "ret_update stay RetPreview s = ret_preview s"
| "ret_update stay (RetPreviewed res) s = ret_previewed res s"
| "ret_update stay RetApply s = ret_applyNow s"
| "ret_update stay (RetConfirmed i ok) s = ret_confirmed i ok s"
| "ret_update stay (RetApplied res) s = ret_applied stay res s"

section \<open>What it renders\<close>

definition ret_custom :: "retention \<Rightarrow> ret_msg ui" where
  "ret_custom f = Node ''div'' [] (map (\<lambda>(key, label, hint). Field label (''ret-'' @ key) hint
     [Node ''Input'' [At ''id'' (''ret-'' @ key), At ''type'' ''number'', At ''min'' ''0'', At ''step'' ''1'',
        At ''value'' (show_int (get_count key f)), OnText ''change'' (RetCount key)] []]) CUSTOM_FIELDS)"

definition ret_fields :: "retention \<Rightarrow> ret_msg ui list" where
  "ret_fields f =
     [Field ''Policy'' ''ret-preset'' (case find_preset (ret_preset f) of None \<Rightarrow> '''' | Some p \<Rightarrow> ps_description p)
        [Select (ret_preset f) RetPreset ''ret-preset'' (map (\<lambda>p. (ps_id p, ps_label p)) RETENTION_PRESETS)],
      (if ret_preset f = ''custom'' then ret_custom f
       else Node ''p'' [] [Txt ''Keeps '',
         Node ''span'' [] [Txt (to_lower (describeRetentionTitle (retentionPayload (Some f))))],
         Txt ''. Snapshots that match any rule are kept.''])]"

definition ret_actions :: "retention_editor \<Rightarrow> ret_msg ui list" where
  "ret_actions s = shown (case job_retention (red_job s) of None \<Rightarrow> False | Some r \<Rightarrow> ret_enabled r)
     [Node ''Button'' [At ''type'' ''button'', Flag ''disabled'' (red_busy s \<or> red_applying s), On ''click'' RetPreview] [Txt ''Preview''],
      Node ''Button'' [At ''type'' ''button'', Flag ''disabled'' (red_busy s \<or> red_applying s), On ''click'' RetApply]
        [Txt (if red_applying s then ''Starting'' @ ellipsis else ''Apply now'')]]"

definition RetentionEditor :: "retention_editor \<Rightarrow> ret_msg ui" where
  "RetentionEditor s =
     (let j = red_job s; f = red_form s; policyLine = describeRetentionTitle (retentionPayload (Some f)) in
      Node ''Card'' []
       [Node ''CardHeader'' [] [Node ''div'' []
          [Node ''CardTitle'' [] [Txt ''Snapshot retention''],
           Node ''CardDescription'' [] [Txt (''After each successful backup, forget old snapshots for this job and prune '' @
             ''unused data. Other jobs sharing the repository are left alone.'')]]],
        Node ''CardContent'' [] [Node ''form'' [On ''submit'' RetSubmit]
         ([SwitchRow (''ret-enabled-'' @ job_id j) (ret_enabled f) RetEnabled (red_busy s) ''Enable retention''
            (if ret_enabled f then str_or policyLine ''On'' else ''Off '' @ em_dash @ '' keep all snapshots'')] @
          shown (ret_enabled f) [Node ''div'' [] (ret_fields f)] @
          InlineError (red_error s) @
          [Node ''div'' [] (ret_actions s @
             [Node ''Button'' [At ''type'' ''submit'', Flag ''disabled'' (red_busy s)]
                [Txt (if red_busy s then ''Saving'' @ ellipsis else ''Save retention'')]])])]])"

lemma ret_custom_msgs [simp]: "msgs (ret_custom f) = (\<Union>(k, _, _) \<in> set CUSTOM_FIELDS. range (RetCount k))"
  by (auto simp: ret_custom_def)

lemma ret_parts_submit [simp]: "\<not> submits (ret_fields f)" "\<not> submits (ret_actions s)" "\<not> can_submit (ret_custom f)"
  by (auto simp: ret_fields_def ret_actions_def ret_custom_def)

lemma RetentionEditor_msgs: "msgs (RetentionEditor s) \<subseteq>
    range RetEnabled \<union> range RetPreset \<union> {m. \<exists>k v. m = RetCount k v} \<union>
    (if red_busy s then {} else {RetSubmit} \<union> (if red_applying s then {} else {RetPreview, RetApply}))"
  by (auto simp: RetentionEditor_def ret_fields_def ret_actions_def Let_def)

lemma RetentionEditor_submit: "\<not> red_busy s \<Longrightarrow> RetSubmit \<in> msgs (RetentionEditor s)"
  by (simp add: RetentionEditor_def Let_def)

section \<open>What it sends\<close>

definition job_counts_ok :: "job \<Rightarrow> bool" where
  "job_counts_ok j \<longleftrightarrow> (case job_retention j of None \<Rightarrow> True | Some r \<Rightarrow> nonneg_counts r)"

text \<open>A saved policy the server takes as it is: normal already, and with a rule if it is on.\<close>

definition policy_ok :: "retention \<Rightarrow> bool" where
  "policy_ok r \<longleftrightarrow> go_normalize r = r \<and> (ret_enabled r \<longrightarrow> has_keep_rule r)"

text \<open>The commands of the editor: a save, a dry run, a question, or a real run.\<close>

definition is_put :: "(ret_msg, job option) cmd \<Rightarrow> bool" where
  "is_put c = (case c of Call q k \<Rightarrow> q_method q = ''PUT'' | _ \<Rightarrow> False)"

definition ret_cmd_ok :: "(ret_msg, job option) cmd \<Rightarrow> bool" where
  "ret_cmd_ok c \<longleftrightarrow>
     (\<exists>j r. c = Call (Jobs_save j [(''retention'', Some (retention_json r))]) (RetSaved r) \<and> policy_ok r)
     \<or> (\<exists>i. c = Call (Jobs_retention i True) RetPreviewed)
     \<or> (\<exists>i. c = Call (Jobs_retention i False) RetApplied)
     \<or> (\<exists>q i. c = Ask q (RetConfirmed i) \<and> co_destructive q)"

lemmas ret_defs [handlers] =
  ret_mount_def ret_newJob_def ret_save_def ret_saved_def ret_preview_def ret_previewed_def
  ret_applyNow_def ret_confirmed_def ret_applied_def

lemma ret_cmd_okI [intro!]:
  "policy_ok r \<Longrightarrow> ret_cmd_ok (Call (Jobs_save j [(''retention'', Some (retention_json r))]) (RetSaved r))"
  "ret_cmd_ok (Call (Jobs_retention i True) RetPreviewed)"
  "ret_cmd_ok (Call (Jobs_retention i False) RetApplied)"
  "co_destructive q \<Longrightarrow> ret_cmd_ok (Ask q (RetConfirmed i))"
  by (auto simp: ret_cmd_ok_def)

lemma is_put_simps [simp]:
  "is_put (Call (Jobs_save j cs) k)" "\<not> is_put (Call (Jobs_retention i b) k)" "\<not> is_put (Ask q k')"
  "\<not> is_put (Do e)" "\<not> is_put (Out x)"
  by (simp_all add: is_put_def Jobs_save_def Jobs_retention_def api_put_def api_post_def)

lemma request_distinct:
  "Jobs_retention i b \<noteq> Jobs_save j cs" "Jobs_save j cs \<noteq> Jobs_retention i b"
  "Jobs_retention i True \<noteq> Jobs_retention i' False" "Jobs_retention i False \<noteq> Jobs_retention i' True"
  by (simp_all add: Jobs_save_def Jobs_retention_def api_put_def api_post_def)

lemma nonneg_form: "job_counts_ok j \<Longrightarrow> nonneg_counts (retentionFormFromJob (Some j))"
  by (auto simp: job_counts_ok_def retentionFormFromJob_def preset_values_cases nonneg_counts_def mk_counts_def
      countsFrom_def emptyCounts_def counts.defs Let_def split: option.splits if_splits)

lemma nonneg_setPreset: "nonneg_counts f \<Longrightarrow> nonneg_counts (setPreset p f)"
  by (auto simp: setPreset_def preset_values_cases nonneg_counts_def mk_counts_def)

lemma nonneg_set_count: "nonneg_counts f \<Longrightarrow> nonneg_counts (set_count k (count_input v) f)"
  by (auto simp: set_count_def nonneg_counts_def count_input_def)

lemma nonneg_enabled: "nonneg_counts (f\<lparr>ret_enabled := v\<rparr>) = nonneg_counts (f :: retention)"
  by (simp add: nonneg_counts_def)

definition ret_inv :: "retention_editor \<Rightarrow> ret_cmds \<Rightarrow> bool" where
  "ret_inv s p \<longleftrightarrow> nonneg_counts (red_form s) \<and> (\<forall>c \<in> set p. ret_cmd_ok c)"

lemma ret_save_inv:
  assumes "nonneg_counts (red_form s)" and "ret_save (red_form s) s = (s', cs)"
  shows "nonneg_counts (red_form s') \<and> (\<forall>c \<in> set cs. ret_cmd_ok c)"
  using assms payload_fixed [of "red_form s"]
  by (auto simp: handlers policy_ok_def Let_def split: option.splits if_splits)

lemma ret_update_inv:
  assumes "nonneg_counts (red_form s)" and "ret_update stay m s = (s', cs)"
    and "\<And>j. m = RetJob j \<Longrightarrow> job_counts_ok j"
  shows "nonneg_counts (red_form s') \<and> (\<forall>c \<in> set (awaiting cs). ret_cmd_ok c)"
proof (cases m)
  case RetSubmit
  then show ?thesis using assms ret_save_inv by (auto simp: awaiting_def)
next
  case (RetJob j)
  then show ?thesis using assms nonneg_form [of j] by (auto simp: handlers)
qed (use assms nonneg_setPreset nonneg_set_count in
  \<open>auto simp: handlers nonneg_enabled awaiting_def Let_def split: if_splits option.splits prod.splits\<close>)

interpretation ret_calls: component "ret_update stay" RetentionEditor "RetJob ` {j. job_counts_ok j}" "ret_mount j"
    "\<lambda>s p. job_counts_ok j \<longrightarrow> ret_inv s p"
  for stay j
proof unfold_locales
  fix s and cs :: ret_cmds
  assume "ret_mount j = (s, cs)"
  then show "job_counts_ok j \<longrightarrow> ret_inv s (awaiting cs)"
    by (auto simp: ret_inv_def handlers nonneg_form)
next
  fix s s' p m and cs :: ret_cmds
  assume *: "job_counts_ok j \<longrightarrow> ret_inv s p" "m \<in> msgs (RetentionEditor s) \<union> RetJob ` {j. job_counts_ok j}"
    "ret_update stay m s = (s', cs)"
  have "job_counts_ok j'" if "m = RetJob j'" for j'
    using * that RetentionEditor_msgs [of s] by (auto split: if_splits)
  with * show "job_counts_ok j \<longrightarrow> ret_inv s' (p @ awaiting cs)"
    using ret_update_inv by (fastforce simp: ret_inv_def)
next
  fix s s' p c q m and cs :: ret_cmds
  assume *: "job_counts_ok j \<longrightarrow> ret_inv s (p @ c # q)" "m \<in> replies c" "ret_update stay m s = (s', cs)"
  show "job_counts_ok j \<longrightarrow> ret_inv s' (p @ q @ awaiting cs)"
  proof
    assume "job_counts_ok j"
    with * have "ret_inv s (p @ c # q)" by simp
    then have "ret_cmd_ok c" "nonneg_counts (red_form s)" "\<forall>d \<in> set p \<union> set q. ret_cmd_ok d"
      by (auto simp: ret_inv_def)
    moreover have "m \<noteq> RetJob j'" for j' using \<open>ret_cmd_ok c\<close> *(2) by (auto simp: ret_cmd_ok_def)
    ultimately show "ret_inv s' (p @ q @ awaiting cs)"
      using ret_update_inv [OF _ *(3)] by (auto simp: ret_inv_def)
  qed
qed

definition ret_neutral :: "ret_msg set" where
  "ret_neutral = {m. (\<exists>r. m = RetPreviewed r) \<or> (\<exists>i b. m = RetConfirmed i b) \<or> (\<exists>r. m = RetApplied r)}"

lemma ret_save_flight: "ret_save f s = (s', cs) \<Longrightarrow> \<not> red_busy s \<Longrightarrow>
    if filter is_put cs = [] then red_busy s' = red_busy s
    else \<not> red_busy s \<and> red_busy s' \<and> length (filter is_put cs) = 1"
  by (auto simp: handlers retentionPayload_def Let_def split: if_splits option.splits)

interpretation ret_flight: single_flight "ret_update stay" RetentionEditor "RetJob ` {j. job_counts_ok j}" "ret_mount j"
  is_put red_busy "{m. \<exists>r res. m = RetSaved r res}" ret_neutral
  for stay j
proof unfold_locales
  fix m s s' and cs :: ret_cmds
  assume "m \<in> msgs (RetentionEditor s) \<union> RetJob ` {j. job_counts_ok j}" "ret_update stay m s = (s', cs)"
  then show "if filter is_put cs = [] then red_busy s' = red_busy s
      else \<not> red_busy s \<and> red_busy s' \<and> length (filter is_put cs) = 1"
    using RetentionEditor_msgs [of s] ret_save_flight [of "red_form s" s s' cs]
    by (cases m) (auto simp: ret_newJob_def ret_preview_def ret_applyNow_def split: if_splits)
next
  fix m s s' c and cs :: ret_cmds
  assume "ret_update stay m s = (s', cs)" "c \<in> set cs"
  then show "replies c \<subseteq> (if is_put c then {m. \<exists>r res. m = RetSaved r res} else ret_neutral)"
    by (cases m) (auto simp: handlers ret_neutral_def Let_def split: if_splits option.splits prod.splits)
next
  fix m s s' and cs :: ret_cmds
  assume "m \<in> ret_neutral" "ret_update stay m s = (s', cs)"
  then show "filter is_put cs = [] \<and> red_busy s' = red_busy s"
    by (auto simp: ret_neutral_def handlers filter_map comp_def Let_def split: if_splits prod.splits)
next
  fix c :: "(ret_msg, job option) cmd"
  assume "is_put c"
  then show "awaits c" by (cases c) (auto simp: is_put_def)
qed (auto simp: handlers Let_def split: if_splits option.splits)





end
