(* ===== verification/LogPanel.thy ===== *)
theory LogPanel
  imports Widgets
begin

text \<open>
  \<open>src/ui/src/components/log-panel.jsx\<close>: a run's log with its filter, the copy button and
  autoscroll. The scroll box is the part of the browser the component reads and writes: its visible
  height, the offset of its top, and \<open>h\<close>, the height of the content as a function of the lines
  shown, which is a parameter. The browser keeps the offset between 0 and the end of the content.
\<close>

section \<open>State and handlers\<close>

definition LEVEL_CLASS :: table where
  "LEVEL_CLASS = [(''error'', ''text-destructive''), (''warn'', ''text-warning''), (''ok'', ''text-success''),
     (''system'', ''text-info''), (''info'', ''text-muted-foreground'')]"

definition lineTime :: "env \<Rightarrow> string \<Rightarrow> string" where
  "lineTime e ts = (if ts = '''' then '''' else case env_parse e ts of None \<Rightarrow> '''' | Some t \<Rightarrow> env_localeTime e t)"

definition FILTERS :: "(string \<times> string) list" where
  "FILTERS = [(''all'', ''All''), (''problems'', ''Problems'')]"

record log_panel =
  lp_lines :: "log_line list"
  lp_filter :: string
  lp_following :: bool
  lp_copied :: bool
  lp_top :: int
  lp_client :: int

type_synonym heights = "log_line list \<Rightarrow> int"

definition is_problem :: "log_line \<Rightarrow> bool" where
  "is_problem l \<longleftrightarrow> ln_level l = ''error'' \<or> ln_level l = ''warn''"

definition log_shown :: "log_panel \<Rightarrow> log_line list" where
  "log_shown s = (if lp_filter s = ''problems'' then filter is_problem (lp_lines s) else lp_lines s)"

definition problemCount :: "log_panel \<Rightarrow> nat" where
  "problemCount s = length (filter is_problem (lp_lines s))"

definition scrollTo :: "heights \<Rightarrow> int \<Rightarrow> log_panel \<Rightarrow> log_panel" where
  "scrollTo h t s = s\<lparr>lp_top := max 0 (min t (h (log_shown s) - lp_client s))\<rparr>"

text \<open>
  The layout effect on \<open>[shown, following]\<close>, after the browser has laid out the new content:
  \<open>el.scrollTop = el.scrollHeight\<close> while following.
\<close>

definition log_layout :: "heights \<Rightarrow> log_panel \<Rightarrow> log_panel" where
  "log_layout h s = (if \<not> lp_following s then scrollTo h (lp_top s) s else scrollTo h (h (log_shown s)) s)"

definition log_mount :: "heights \<Rightarrow> int \<Rightarrow> log_line list \<Rightarrow> log_panel" where
  "log_mount h client lines = log_layout h \<lparr>lp_lines = lines, lp_filter = ''all'', lp_following = True,
     lp_copied = False, lp_top = 0, lp_client = client\<rparr>"

definition setFollowing :: "heights \<Rightarrow> bool \<Rightarrow> log_panel \<Rightarrow> log_panel" where
  "setFollowing h b s = (if b = lp_following s then s else log_layout h (s\<lparr>lp_following := b\<rparr>))"

definition log_onScroll :: "heights \<Rightarrow> log_panel \<Rightarrow> log_panel" where
  "log_onScroll h s =
     (let atBottom = h (log_shown s) - lp_top s - lp_client s < 24 in setFollowing h atBottom s)"

datatype log_msg = LogLines "log_line list" | LogFilter string | LogScroll int | LogCopy
  | LogCopied bool | LogUncopied | LogJump

definition log_copy :: "log_panel \<Rightarrow> (log_msg, unit) cmd list" where
  "log_copy s = [Copy (join [CHR 0x0A] (map ln_message (log_shown s))) LogCopied]"

definition log_copied :: "bool \<Rightarrow> log_panel \<Rightarrow> log_panel \<times> (log_msg, unit) cmd list" where
  "log_copied ok s = (if ok then (s\<lparr>lp_copied := True\<rparr>, [After 1500 LogUncopied])
     else (s, [Do (Toast (plain_toast Failure ''Could not copy to the clipboard.''))]))"

definition log_jump :: "heights \<Rightarrow> log_panel \<Rightarrow> log_panel" where
  "log_jump h s = scrollTo h (h (log_shown s)) (setFollowing h True s)"

primrec log_update :: "heights \<Rightarrow> (log_panel, log_msg, unit) update" where
  "log_update h (LogLines ls) s = (log_layout h (s\<lparr>lp_lines := ls\<rparr>), [])"
| "log_update h (LogFilter f) s = (if f = lp_filter s then s else log_layout h (s\<lparr>lp_filter := f\<rparr>), [])"
| "log_update h (LogScroll t) s = (log_onScroll h (scrollTo h t s), [])"
| "log_update h LogCopy s = (s, log_copy s)"
| "log_update h (LogCopied ok) s = log_copied ok s"
| "log_update h LogUncopied s = (s\<lparr>lp_copied := False\<rparr>, [])"
| "log_update h LogJump s = (log_jump h s, [])"

section \<open>What it renders\<close>

definition log_line_view :: "env \<Rightarrow> log_line \<Rightarrow> log_msg ui" where
  "log_line_view e l = Node ''div'' (shown (is_problem l) [At ''class'' ''bg-current/[0.04]''] @
       class_of (lookup LEVEL_CLASS (ln_level l)))
     [Node ''span'' [] [Txt (lineTime e (ln_ts l))], Node ''span'' [] [Txt (ln_message l)]]"

definition log_filters :: "log_panel \<Rightarrow> log_msg ui" where
  "log_filters s = Node ''div'' [At ''role'' ''radiogroup'', At ''aria-label'' ''Show'']
     (map (\<lambda>(key, label). Node ''button'' [At ''type'' ''button'', At ''role'' ''radio'',
          Flag ''aria-checked'' (lp_filter s = key), On ''click'' (LogFilter key)]
        ([Txt label] @ shown (key = ''problems'' \<and> 0 < problemCount s)
           [Node ''span'' [] [Txt (show_nat (problemCount s))]])) FILTERS)"

definition log_header :: "log_panel \<Rightarrow> log_msg ui" where
  "log_header s = Node ''div'' []
     [Node ''div'' [] [Icon ''TerminalSquare'', Node ''h2'' [] [Txt ''Log''],
        Node ''span'' [] [Txt (show_nat (length (lp_lines s)) @ '' line'' @ (if length (lp_lines s) = 1 then '''' else ''s''))]],
      Node ''div'' [] [log_filters s,
        Node ''Tooltip'' []
          [Node ''TooltipTrigger'' [] [Node ''Button'' [On ''click'' LogCopy, At ''aria-label'' ''Copy log'']
             [Icon (if lp_copied s then ''Check'' else ''Copy'')]],
           Node ''TooltipContent'' [] [Txt (if lp_copied s then ''Copied'' else ''Copy the lines shown'')]]]]"

definition log_body :: "env \<Rightarrow> log_panel \<Rightarrow> log_msg ui" where
  "log_body e s = Node ''div'' [At ''role'' ''log'', At ''aria-live'' ''polite'']
     (if log_shown s = [] then
        [Node ''p'' [] [Txt (if lp_lines s = [] then ''Waiting for output'' @ ellipsis else ''No warnings or errors.'')]]
      else map (log_line_view e) (log_shown s))"

definition LogPanel :: "env \<Rightarrow> log_panel \<Rightarrow> log_msg ui" where
  "LogPanel e s = Node ''div'' [] [log_header s,
     Node ''div'' [] ([log_body e s] @ shown (\<not> lp_following s)
       [Node ''Button'' [On ''click'' LogJump] [Icon ''ArrowDown'', Txt ''Jump to latest'']])]"

lemma LogPanel_msgs: "msgs (LogPanel e s) =
    {LogFilter ''all'', LogFilter ''problems'', LogCopy} \<union> (if lp_following s then {} else {LogJump})"
proof -
  have "msgs (log_line_view e l) = {}" for l
    by (auto simp: log_line_view_def class_of_def split: option.splits)
  then show ?thesis
    by (cases "lp_following s") (auto simp: LogPanel_def log_header_def log_filters_def log_body_def FILTERS_def)
qed

section \<open>Autoscroll\<close>

lemmas log_defs [handlers] = scrollTo_def log_layout_def setFollowing_def log_onScroll_def log_copy_def
  log_copied_def log_jump_def

definition log_run :: "heights \<Rightarrow> log_msg list \<Rightarrow> log_panel \<Rightarrow> log_panel" where
  "log_run h ms s = fold (\<lambda>m s. fst (log_update h m s)) ms s"

text \<open>Within 24 pixels of the end of what is shown.\<close>

definition near_end :: "heights \<Rightarrow> log_panel \<Rightarrow> bool" where
  "near_end h s \<longleftrightarrow> h (log_shown s) - lp_top s - lp_client s < 24"

definition log_inv :: "heights \<Rightarrow> log_panel \<Rightarrow> bool" where
  "log_inv h s \<longleftrightarrow> 0 \<le> lp_client s \<and> (lp_following s \<longrightarrow> near_end h s) \<and> 0 \<le> lp_top s
     \<and> lp_top s \<le> max 0 (h (log_shown s) - lp_client s)"

lemma log_shown_simps [simp]:
  "log_shown (s\<lparr>lp_top := t\<rparr>) = log_shown s" "log_shown (s\<lparr>lp_following := b\<rparr>) = log_shown s"
  "log_shown (s\<lparr>lp_copied := c\<rparr>) = log_shown s"
  by (simp_all add: log_shown_def)

lemma log_layout_inv: "0 \<le> lp_client s \<Longrightarrow> log_inv h (log_layout h s)"
  by (auto simp: log_inv_def near_end_def log_layout_def scrollTo_def max_def min_def)

lemma setFollowing_inv:
  assumes "0 \<le> lp_client s" and "0 \<le> lp_top s" and "lp_top s \<le> max 0 (h (log_shown s) - lp_client s)"
    and "b \<longleftrightarrow> near_end h s"
  shows "log_inv h (setFollowing h b s)"
proof (cases "b = lp_following s")
  case True
  then show ?thesis using assms by (auto simp: setFollowing_def log_inv_def)
next
  case False
  then show ?thesis using assms(1) by (simp add: setFollowing_def log_layout_inv)
qed

lemma log_update_inv:
  assumes "log_inv h s"
  shows "log_inv h (fst (log_update h m s))"
proof (cases m)
  case (LogScroll t)
  let ?u = "scrollTo h t s"
  have "0 \<le> lp_client ?u" "0 \<le> lp_top ?u" "lp_top ?u \<le> max 0 (h (log_shown ?u) - lp_client ?u)"
    using assms by (auto simp: scrollTo_def log_inv_def)
  then have "log_inv h (setFollowing h (near_end h ?u) ?u)" by (rule setFollowing_inv) simp
  then show ?thesis using LogScroll by (simp add: log_onScroll_def near_end_def)
next
  case LogJump
  then have "fst (log_update h m s) = log_layout h (s\<lparr>lp_following := True\<rparr>)"
    by (auto simp: log_jump_def setFollowing_def log_layout_def scrollTo_def)
  moreover have "0 \<le> lp_client (s\<lparr>lp_following := True\<rparr>)" using assms by (simp add: log_inv_def)
  ultimately show ?thesis by (simp add: log_layout_inv)
next
  case (LogLines ls)
  then show ?thesis using assms log_layout_inv [of "s\<lparr>lp_lines := ls\<rparr>" h] by (simp add: log_inv_def)
next
  case (LogFilter f)
  then show ?thesis using assms log_layout_inv [of "s\<lparr>lp_filter := f\<rparr>" h] by (auto simp: log_inv_def)
qed (use assms in \<open>auto simp: log_copied_def log_inv_def near_end_def\<close>)

lemma log_run_inv: "log_inv h s \<Longrightarrow> log_inv h (log_run h ms s)"
  unfolding log_run_def by (induction ms arbitrary: s) (auto simp: log_update_inv)

text \<open>
  The log follows its tail without fighting the user: through any lines, filters and scrolling,
  while it follows, the end of the log is in view (within 24 pixels); once the user has scrolled
  up, new lines leave the view where it is, and the way back is on screen; and jumping to the
  latest shows the end and follows again.
\<close>

theorem log_follows_tail:
  fixes h client lines ms
  assumes "0 \<le> client"
  defines "s \<equiv> log_run h ms (log_mount h client lines)"
  shows "(lp_following s \<longrightarrow> near_end h s)
    \<and> (\<not> lp_following s \<longrightarrow> LogJump \<in> msgs (LogPanel e s) \<and>
        (\<forall>ls. h (log_shown s) \<le> h (log_shown (s\<lparr>lp_lines := ls\<rparr>)) \<longrightarrow>
          lp_top (fst (log_update h (LogLines ls) s)) = lp_top s \<and> \<not> lp_following (fst (log_update h (LogLines ls) s))))
    \<and> lp_following (fst (log_update h LogJump s)) \<and> near_end h (fst (log_update h LogJump s))"
proof -
  have inv: "log_inv h s" unfolding s_def log_mount_def by (intro log_run_inv log_layout_inv) (simp add: assms(1))
  then have "log_inv h (fst (log_update h LogJump s))" by (rule log_update_inv)
  moreover have "lp_following (fst (log_update h LogJump s))"
    by (simp add: log_jump_def scrollTo_def setFollowing_def log_layout_def)
  ultimately show ?thesis
    using inv by (auto simp: log_inv_def LogPanel_msgs log_layout_def scrollTo_def)
qed

definition ten_px :: heights where
  "ten_px ls = 10 * int (length ls)"

definition log_lines :: "nat \<Rightarrow> log_line list" where
  "log_lines n = map (\<lambda>i. \<lparr>ln_seq = Suc i, ln_ts = '''', ln_level = ''info'', ln_message = ''x''\<rparr>) [0..<n]"

theorem log_follows_tail_witness:
  "lp_top (fst (log_update ten_px (LogLines (log_lines 30)) (log_run ten_px [LogScroll 50] (log_mount ten_px 100 (log_lines 20))))) = 50
   \<and> \<not> lp_following (log_run ten_px [LogScroll 50] (log_mount ten_px 100 (log_lines 20)))"
proof -
  let ?s = "log_run ten_px [LogScroll 50] (log_mount ten_px 100 (log_lines 20))"
  have nf: "\<not> lp_following ?s" "lp_top ?s = 50"
    by (simp_all add: log_run_def log_mount_def handlers log_shown_def ten_px_def log_lines_def Let_def)
  have grows: "ten_px (log_shown ?s) \<le> ten_px (log_shown (?s\<lparr>lp_lines := log_lines 30\<rparr>))"
    by (simp add: log_run_def log_mount_def handlers log_shown_def ten_px_def log_lines_def Let_def)
  from log_follows_tail [of 100 ten_px "[LogScroll 50]" "log_lines 20"] nf grows show ?thesis by simp
qed

end
