(* ===== verification/RunLists.thy ===== *)
theory RunLists
  imports Widgets Live
begin

text \<open>
  Lists of runs: \<open>src/ui/src/components/run-history.jsx\<close> (rows, and rows grouped by the day
  they started) and \<open>active-runs.jsx\<close> (runs in progress, each with its own stream).
\<close>

section \<open>One run in a list (run-history.jsx)\<close>

definition KIND_ICON :: table where
  "KIND_ICON = [(''backup'', ''Play''), (''restore'', ''FolderInput''), (''init'', ''Database''),
     (''download'', ''ArrowDownToLine''), (''unlock'', ''Unlock''), (''retention'', ''Scissors''),
     (''forget'', ''Eraser''), (''check'', ''ShieldCheck''), (''restore_db'', ''DatabaseBackup''),
     (''speedtest'', ''Gauge'')]"

definition STATUS_TONE :: table where
  "STATUS_TONE = [(''starting'', ''brand''), (''running'', ''brand''), (''success'', ''success''),
     (''success_warnings'', ''warning''), (''failed'', ''destructive''), (''interrupted'', ''destructive''),
     (''canceled'', ''neutral'')]"

definition storedSummary :: "run \<Rightarrow> string option" where
  "storedSummary r = (case run_summary r of None \<Rightarrow> None
     | Some s \<Rightarrow>
         if run_kind r = ''speedtest'' then speedSummary (sm_speed s)
         else if run_kind r = ''restore'' \<or> run_kind r = ''download'' then Some (fmtBytes (sm_bytesRestored s) @ '' restored'')
         else let parts = shown (sm_dataAdded s \<noteq> 0) [fmtBytes (sm_dataAdded s) @ '' added''] @
                    shown (sm_snapshotId s \<noteq> '''') [''snapshot '' @ shortId (sm_snapshotId s)];
                  line = join ('' '' @ middot @ '' '') parts
              in if line = '''' then None else Some line)"

definition RunKindCell :: "string \<Rightarrow> 'm ui" where
  "RunKindCell kind = Node ''span'' [] [Icon (lookup_or KIND_ICON kind ''Play''), Txt (kindLabel kind)]"

definition RunRow :: "env \<Rightarrow> run \<Rightarrow> bool \<Rightarrow> 'm ui" where
  "RunRow e r showContext =
     (let stored = storedSummary r; context = str_or (run_jobName r) (run_repoName r) in
      Node ''Link'' [At ''to'' (''/runs/'' @ run_id r)]
       [IconTile (Some (lookup_or KIND_ICON (run_kind r) ''Play'')) (lookup_or STATUS_TONE (run_status r) ''neutral'') ''md'',
        Node ''div'' []
          [Node ''div'' [] ([Node ''span'' [] [Txt (kindLabel (run_kind r))]] @
             shown (showContext \<and> context \<noteq> '''') [Node ''span'' [] [Txt context]] @
             [StatusBadge (run_status r)]),
           Node ''p'' [At ''class'' (if run_error r \<noteq> '''' then ''text-destructive'' else ''text-muted-foreground'')]
             [if run_error r \<noteq> '''' then Txt (run_error r)
              else Node ''span'' [] [Txt (ostr_or stored em_dash)]]],
        Node ''div'' [] [Node ''div'' []
          [Node ''Tooltip'' [] [Node ''TooltipTrigger'' [] [Node ''p'' [] [Txt (fmtRelative e (run_startedAt r))]],
             Node ''TooltipContent'' [] [Txt (fmtTime e (run_startedAt r))]],
           Node ''p'' [] [Txt (runDuration e (Some r))]], Icon ''ChevronRight'']])"

section \<open>Runs by day\<close>

text \<open>Days are compared as the numbers of local calendar days, \<open>start(x)\<close> in the code.\<close>

definition dayLabel :: "env \<Rightarrow> string \<Rightarrow> string" where
  "dayLabel e ts = (case env_parse e ts of None \<Rightarrow> ''Earlier''
     | Some d \<Rightarrow>
         let days = env_day e (env_now e) - env_day e d
         in if days = 0 then ''Today'' else if days = 1 then ''Yesterday''
            else env_longDate e (env_year e d \<noteq> env_year e (env_now e)) d)"

text \<open>
  One iteration of the loop of \<open>byDay\<close>: the run joins the last group when the label is the same,
  else it opens a group.
\<close>

definition byDay_push :: "env \<Rightarrow> run \<Rightarrow> (string \<times> run list) list \<Rightarrow> (string \<times> run list) list" where
  "byDay_push e r groups =
     (let label = dayLabel e (run_startedAt r) in
      case rev groups of
        [] \<Rightarrow> [(label, [r])]
      | (l, rs) # before \<Rightarrow> if l = label then rev before @ [(l, rs @ [r])] else groups @ [(label, [r])])"

definition byDay :: "env \<Rightarrow> run list \<Rightarrow> (string \<times> run list) list" where
  "byDay e runs = fold (byDay_push e) runs []"

definition run_group :: "env \<Rightarrow> bool \<Rightarrow> string \<times> run list \<Rightarrow> 'm ui" where
  "run_group e showContext g = Node ''section'' [At ''aria-label'' (fst g)]
     [Node ''h3'' [] [Txt (fst g), Node ''span'' [] [Txt (show_nat (length (snd g)))]],
      Node ''div'' [] (map (\<lambda>r. RunRow e r showContext) (snd g))]"

definition RunHistory :: "env \<Rightarrow> run list \<Rightarrow> bool \<Rightarrow> bool \<Rightarrow> string option \<Rightarrow> 'm ui" where
  "RunHistory e runs showContext groupByDay emptyMessage =
     (if runs = [] then Node ''div'' [] [IconTile (Some ''History'') ''neutral'' ''md'',
        Node ''p'' [] [Txt (case emptyMessage of None \<Rightarrow> ''No runs yet.'' | Some m \<Rightarrow> m)]]
      else if groupByDay then Node ''div'' [] (map (run_group e showContext) (byDay e runs))
      else Node ''div'' [] (map (\<lambda>r. RunRow e r showContext) runs))"

definition groups_ok :: "env \<Rightarrow> (string \<times> run list) list \<Rightarrow> bool" where
  "groups_ok e gs \<longleftrightarrow> (\<forall>(l, rs) \<in> set gs. rs \<noteq> [] \<and> (\<forall>r \<in> set rs. dayLabel e (run_startedAt r) = l))
     \<and> (\<forall>i. Suc i < length gs \<longrightarrow> fst (gs ! i) \<noteq> fst (gs ! Suc i))"

lemma groups_ok_snoc: "groups_ok e (gs @ [g]) \<longleftrightarrow> groups_ok e gs \<and> snd g \<noteq> []
    \<and> (\<forall>r \<in> set (snd g). dayLabel e (run_startedAt r) = fst g) \<and> (gs \<noteq> [] \<longrightarrow> fst (last gs) \<noteq> fst g)"
proof -
  have "(\<forall>i. Suc i < length (gs @ [g]) \<longrightarrow> fst ((gs @ [g]) ! i) \<noteq> fst ((gs @ [g]) ! Suc i)) \<longleftrightarrow>
      (\<forall>i. Suc i < length gs \<longrightarrow> fst (gs ! i) \<noteq> fst (gs ! Suc i)) \<and> (gs \<noteq> [] \<longrightarrow> fst (last gs) \<noteq> fst g)"
    by (cases gs rule: rev_cases) (auto simp: nth_append less_Suc_eq)
  then show ?thesis by (auto simp: groups_ok_def split: prod.splits)
qed

lemma byDay_push_ok:
  assumes "groups_ok e gs"
  shows "groups_ok e (byDay_push e r gs) \<and> concat (map snd (byDay_push e r gs)) = concat (map snd gs) @ [r]"
proof (cases gs rule: rev_cases)
  case Nil
  then show ?thesis by (simp add: byDay_push_def groups_ok_def Let_def)
next
  case (snoc before g)
  let ?l = "dayLabel e (run_startedAt r)"
  have ok: "groups_ok e (before @ [g])" using assms snoc by simp
  have push: "byDay_push e r gs = (if fst g = ?l then before @ [(fst g, snd g @ [r])] else gs @ [(?l, [r])])"
    by (cases g) (simp add: byDay_push_def Let_def snoc)
  then show ?thesis
  proof (cases "fst g = ?l")
    case True
    with ok show ?thesis unfolding push by (simp add: groups_ok_snoc snoc ball_Un)
  next
    case False
    with assms show ?thesis unfolding push by (simp add: groups_ok_snoc [of e gs]) (simp add: snoc)
  qed
qed

lemma fold_byDay: "groups_ok e gs \<Longrightarrow> groups_ok e (fold (byDay_push e) rs gs)
    \<and> concat (map snd (fold (byDay_push e) rs gs)) = concat (map snd gs) @ rs"
  by (induction rs arbitrary: gs) (auto simp: byDay_push_ok)

text \<open>
  Grouping by day loses and reorders nothing: the groups put together are the list of runs, no group
  is empty, every run stands under the label of the day it started, and no two consecutive
  headings are the same.
\<close>

theorem byDay_groups:
  "concat (map snd (byDay e runs)) = runs \<and> groups_ok e (byDay e runs)"
  using fold_byDay [of e "[]" runs] by (simp add: byDay_def groups_ok_def)

lemma links_IconTile [simp]: "links (IconTile i t s) = []"
  by (auto simp: IconTile_def Icon_def class_of_def link_of_def split: option.splits)

lemma links_StatusBadge [simp]: "links (StatusBadge st) = []"
  by (auto simp: StatusBadge_def StatusDot_def Let_def link_of_def shown_def)

lemma RunRow_links [simp]: "links (RunRow e r showContext) = [''/runs/'' @ run_id r]"
  by (simp add: RunRow_def Let_def link_of_def Icon_def shown_def)

lemma RunHistory_links: "links (RunHistory e runs showContext groupByDay msg) = map (\<lambda>r. ''/runs/'' @ run_id r) runs"
proof -
  have rows: "concat (map (\<lambda>r. links (RunRow e r showContext)) rs) = map (\<lambda>r. ''/runs/'' @ run_id r) rs" for rs
    by (induction rs) simp_all
  have "concat (map (\<lambda>g. map (\<lambda>r. ''/runs/'' @ run_id r) (snd g)) gs) =
      map (\<lambda>r. ''/runs/'' @ run_id r) (concat (map snd gs))" for gs :: "(string \<times> run list) list"
    by (induction gs) simp_all
  moreover have "concat (map snd (byDay e runs)) = runs"
    using fold_byDay [of e "[]" runs] by (simp add: byDay_def groups_ok_def)
  ultimately show ?thesis
    using rows by (simp add: RunHistory_def run_group_def link_of_def comp_def split: option.splits)
qed

section \<open>Runs in progress (active-runs.jsx)\<close>

definition ActiveRunRow :: "env \<Rightarrow> run_stream \<Rightarrow> run \<Rightarrow> 'm ui" where
  "ActiveRunRow e stream r =
     (let live = (case rs_run stream of None \<Rightarrow> r | Some l \<Rightarrow> l);
          pct = displayPercent (Some live);
          indeterminate = (pct = 0 \<and> (case run_progress live of None \<Rightarrow> True | Some p \<Rightarrow> p_totalBytes p = 0))
      in Node ''Link'' [At ''to'' (''/runs/'' @ run_id live)]
        ([Node ''div'' []
           [IconTile (Some (lookup_or KIND_ICON (run_kind live) ''Play'')) ''brand'' ''md'',
            Node ''div'' []
              [Node ''div'' [] [Node ''span'' [] [Txt (kindLabel (run_kind live))],
                 Node ''span'' [] [Txt (str_or (run_jobName live) (str_or (run_repoName live) em_dash))],
                 StatusBadge (run_status live)],
               Node ''p'' [] [Txt (''started '' @ fmtRelative e (run_startedAt live) @ '' '' @ middot @ '' '' @
                 runDuration e (Some live))]],
            Node ''span'' [] [Txt (if indeterminate then em_dash else show_int (js_round pct) @ ''%'')]],
          Node ''div'' [] [Progress pct indeterminate None]] @
         (case run_progress live of None \<Rightarrow> []
          | Some p \<Rightarrow> shown (p_currentFile p \<noteq> '''') [Node ''p'' [] [Txt (p_currentFile p)]])))"

text \<open>
  Newest first, stably; the dates the server sends parse (an unreadable one counts as the epoch
  here, where the code's comparison has no defined order).
\<close>

definition sort_newest :: "env \<Rightarrow> run list \<Rightarrow> run list" where
  "sort_newest e runs = sort_key (\<lambda>r. - (case env_parse e (run_startedAt r) of None \<Rightarrow> 0 | Some t \<Rightarrow> t)) runs"

record 'm active_card =
  ac_title :: string
  ac_description :: string
  ac_emptyDescription :: string
  ac_emptyAction :: "'m ui list"
  ac_showActivityLink :: bool

definition active_card_defaults :: "'m active_card" where
  "active_card_defaults = \<lparr>ac_title = ''Running now'', ac_description = ''Operations in progress, updating live.'',
     ac_emptyDescription = ''Start a backup from a job and it will appear here, with live progress.'',
     ac_emptyAction = [], ac_showActivityLink = False\<rparr>"

definition ActiveRunsCard :: "env \<Rightarrow> (run \<Rightarrow> run_stream) \<Rightarrow> run list \<Rightarrow> 'm active_card \<Rightarrow> 'm ui" where
  "ActiveRunsCard e stream runs c =
     (let sorted = sort_newest e runs in
      Node ''Card'' (shown (sorted \<noteq> []) [At ''class'' ''border-running/30''])
       ([Node ''CardHeader'' [] [Node ''div'' []
           [Node ''CardTitle'' [] ([Txt (ac_title c)] @ shown (sorted \<noteq> []) [Node ''span'' [] [Txt (show_nat (length sorted))]]),
            Node ''CardDescription'' [] [Txt (ac_description c)]]],
         (if sorted = [] then Node ''div'' []
            ([IconTile (Some ''Activity'') ''neutral'' ''md'',
              Node ''div'' [] [Node ''p'' [] [Txt ''Nothing is running''], Node ''p'' [] [Txt (ac_emptyDescription c)]]] @
             ac_emptyAction c)
          else Node ''div'' [] (map (\<lambda>r. ActiveRunRow e (stream r) r) sorted))] @
        shown (ac_showActivityLink c \<and> sorted \<noteq> []) [Node ''CardFooter'' [] [SeeAll ''/activity'' [Txt ''Open Activity'']]]))"

lemma sort_newest_set [simp]: "set (sort_newest e runs) = set runs"
  by (simp add: sort_newest_def)

lemma RunRow_msgs [simp]: "msgs (RunRow e r showContext) = {}"
  by (auto simp: RunRow_def Let_def)

lemma RunHistory_msgs [simp]: "msgs (RunHistory e runs showContext groupByDay emptyMessage) = {}"
  by (auto simp: RunHistory_def run_group_def)

lemma ActiveRunRow_msgs [simp]: "msgs (ActiveRunRow e stream r) = {}"
  by (auto simp: ActiveRunRow_def Let_def split: option.splits)

lemma ActiveRunsCard_msgs [simp]: "msgs (ActiveRunsCard e stream runs c) = (if runs = [] then msgs_of (ac_emptyAction c) else {})"
proof -
  have "sort_newest e runs = [] \<longleftrightarrow> runs = []" by (simp add: sort_newest_def flip: length_0_conv)
  then show ?thesis by (auto simp: ActiveRunsCard_def SeeAll_def Let_def)
qed

end
