(* ===== verification/JobCard.thy ===== *)
theory JobCard
  imports RunLists Schedule StartRun Hooks
begin

text \<open>
  \<open>src/ui/src/components/job-card.jsx\<close>: the hook that loads the run strips of the job cards,
  the texts of a card, and the card with its live progress and its "Run backup" button.
\<close>

section \<open>useJobStrips\<close>

definition STRIP_SLOTS :: nat where
  "STRIP_SLOTS = 24"


record strips_hook =
  js_strips :: "string \<rightharpoonup> run list"
  js_gen :: nat

definition strips_init :: strips_hook where
  "strips_init = \<lparr>js_strips = Map.empty, js_gen = 0\<rparr>"

definition strip_request :: "string \<Rightarrow> request" where
  "strip_request i = Runs_list [(''jobId'', Some i), (''kind'', Some ''backup''), (''limit'', Some (show_nat STRIP_SLOTS))]"

definition strip_entry :: "string \<Rightarrow> response \<Rightarrow> string \<times> run list" where
  "strip_entry i r = (i, case b_runs (body_of r) of None \<Rightarrow> [] | Some rs \<Rightarrow> rs)"

definition strips_answers :: "string list \<Rightarrow> response list \<Rightarrow> (string \<times> run list) list" where
  "strips_answers ids rs = map (\<lambda>(i, r). strip_entry i r) (zip ids rs)"

text \<open>
  The effect on \<open>[key, version]\<close>: the run before is dead; without jobs the strips are cleared,
  else one request per job starts, and all of them are awaited together.
\<close>

definition strips_effect :: "string list \<Rightarrow> strips_hook \<Rightarrow> strips_hook \<times> request list" where
  "strips_effect jobIds s0 =
     (let key = join '','' jobIds; s = s0\<lparr>js_gen := Suc (js_gen s0)\<rparr>
      in if key = '''' then (s\<lparr>js_strips := Map.empty\<rparr>, [])
         else (s, map strip_request (split_on (CHR '','') key)))"

definition strips_deliver :: "nat \<Rightarrow> (string \<times> run list) list \<Rightarrow> strips_hook \<Rightarrow> strips_hook" where
  "strips_deliver mine entries s = (if mine = js_gen s then s\<lparr>js_strips := map_of (rev entries)\<rparr> else s)"

definition strips_outcome :: "strips_hook \<Rightarrow> (string \<times> run list) list \<Rightarrow> string \<rightharpoonup> run list" where
  "strips_outcome s entries = map_of (rev entries)"

interpretation job_strips: guarded_load js_gen strips_deliver js_strips strips_outcome
  by unfold_locales (auto simp: strips_deliver_def strips_outcome_def)


section \<open>The texts of a card\<close>

definition lastRunSummary :: "run option \<Rightarrow> string option" where
  "lastRunSummary r = (case r of None \<Rightarrow> None
     | Some r \<Rightarrow> if run_error r \<noteq> '''' then Some (run_error r)
         else case run_summary r of None \<Rightarrow> None
         | Some s \<Rightarrow> Some (if sm_dataAdded s \<noteq> 0 then fmtBytes (sm_dataAdded s) @ '' added'' else ''nothing changed''))"

definition schedule_on :: "job \<Rightarrow> bool" where
  "schedule_on j = (case job_schedule j of None \<Rightarrow> False | Some sc \<Rightarrow> sch_enabled sc)"

definition scheduleText :: "env \<Rightarrow> job \<Rightarrow> string" where
  "scheduleText e j =
     (if \<not> schedule_on j then ''Manual only''
      else let title = describeScheduleTitle (job_schedule j)
        in if job_scheduleState j = ''overdue'' then ''Overdue '' @ middot @ '' '' @ title
           else if job_nextDueAt j \<noteq> '''' then title @ '' '' @ middot @ '' next '' @ fmtRelative e (job_nextDueAt j)
           else title)"

section \<open>The card's state and handlers\<close>

record job_card =
  jc_job :: job
  jc_runs :: "run list"
  jc_active :: "run list"
  jc_stream :: run_stream
  jc_starting :: bool

datatype card_msg = CardJob job | CardRuns "run list" | CardActive "run list" | CardEvent message
  | CardRun | CardRan response

text \<open>\<open>activeRuns.find((r) => r.jobId === job.id)\<close>, and the id the stream hook is given.\<close>

definition card_activeRun :: "job_card \<Rightarrow> run option" where
  "card_activeRun s = find (\<lambda>r. run_jobId r = job_id (jc_job s)) (jc_active s)"

definition card_runId :: "job_card \<Rightarrow> string" where
  "card_runId s = (case card_activeRun s of None \<Rightarrow> '''' | Some r \<Rightarrow> run_id r)"

text \<open>After a render, the stream effect runs if the run id changed.\<close>

definition card_commit :: "job_card \<Rightarrow> job_card \<Rightarrow> job_card" where
  "card_commit before s = (if card_runId s = card_runId before then s
     else s\<lparr>jc_stream := run_stream_effect (card_runId s) (jc_stream s)\<rparr>)"

definition card_mount :: "job \<Rightarrow> run list \<Rightarrow> run list \<Rightarrow> job_card \<times> (card_msg, unit) cmd list" where
  "card_mount j runs active =
     (let s = \<lparr>jc_job = j, jc_runs = runs, jc_active = active, jc_stream = run_stream_init False, jc_starting = False\<rparr>
      in (s\<lparr>jc_stream := run_stream_effect (card_runId s) (jc_stream s)\<rparr>, []))"

text \<open>An event arrives only on an open stream.\<close>

definition card_event :: "message \<Rightarrow> job_card \<Rightarrow> job_card" where
  "card_event ev s = (if rs_url (jc_stream s) = None then s else s\<lparr>jc_stream := run_onmessage ev (jc_stream s)\<rparr>)"

definition runNow :: "job_card \<Rightarrow> job_card \<times> (card_msg, unit) cmd list" where
  "runNow s = (s\<lparr>jc_starting := True\<rparr>, [Call (Jobs_run (job_id (jc_job s))) CardRan])"

definition card_ran :: "response \<Rightarrow> job_card \<Rightarrow> job_card \<times> (card_msg, unit) cmd list" where
  "card_ran res s = (s\<lparr>jc_starting := False\<rparr>,
     map Do (snd (handleStartResponse res ''Could not start the backup.'' False)) @ [Out ()])"

primrec card_update :: "(job_card, card_msg, unit) update" where
  "card_update (CardJob j) s = (card_commit s (s\<lparr>jc_job := j\<rparr>), [])"
| "card_update (CardRuns rs) s = (s\<lparr>jc_runs := rs\<rparr>, [])"
| "card_update (CardActive rs) s = (card_commit s (s\<lparr>jc_active := rs\<rparr>), [])"
| "card_update (CardEvent ev) s = (card_event ev s, [])"
| "card_update CardRun s = runNow s"
| "card_update (CardRan res) s = card_ran res s"

section \<open>What it renders\<close>

definition card_live :: "job_card \<Rightarrow> run option" where
  "card_live s = (case rs_run (jc_stream s) of None \<Rightarrow> card_activeRun s | Some r \<Rightarrow> Some r)"

definition card_running :: "job_card \<Rightarrow> bool" where
  "card_running s = (case card_live s of None \<Rightarrow> False | Some r \<Rightarrow> isActive (run_status r))"

definition card_pct :: "job_card \<Rightarrow> rat" where
  "card_pct s = (if card_running s then displayPercent (card_live s) else 0)"

definition card_indeterminate :: "job_card \<Rightarrow> bool" where
  "card_indeterminate s \<longleftrightarrow> card_running s \<and> card_pct s = 0 \<and>
     (case Option.bind (card_live s) run_progress of None \<Rightarrow> True | Some p \<Rightarrow> p_totalBytes p = 0)"

definition card_head :: "job_card \<Rightarrow> card_msg ui" where
  "card_head s = (let j = jc_job s in Node ''div'' []
     [IconTile (Some ''Workflow'') ''violet'' ''md'',
      Node ''Link'' [At ''to'' (''/jobs/'' @ job_id j)] [Txt (job_name j)],
      Node ''div'' []
        [if card_running s then StatusBadge (case card_live s of None \<Rightarrow> '''' | Some r \<Rightarrow> run_status r)
         else case job_lastRun j of Some r \<Rightarrow> StatusBadge (run_status r) | None \<Rightarrow> Node ''span'' [] [Txt ''Never run'']],
      Node ''p'' []
        [Node ''span'' [At ''title'' (job_sourceLabel j)]
           [Icon (if job_sourceKind j = ''database'' then ''Database'' else ''FolderOpen''),
            Node ''span'' [] [Txt (str_or (job_folderName j) (str_or (job_databaseName j) (str_or (job_sourceLabel j) em_dash)))]],
         Icon ''ArrowRight'',
         Node ''span'' [] [Icon ''Vault'', Node ''span'' [] [Txt (str_or (job_repoName j) em_dash)]]]])"

definition card_progress :: "job_card \<Rightarrow> card_msg ui list" where
  "card_progress s = shown (card_running s) [Node ''div'' []
     [Node ''div'' []
        [Node ''span'' [] [Txt (opt_str p_currentFile (Option.bind (card_live s) run_progress) (''working'' @ ellipsis))],
         Node ''span'' [] [Txt (if card_indeterminate s then em_dash else show_int (js_round (card_pct s)) @ ''%'')]],
      Progress (card_pct s) (card_indeterminate s) None]]"

definition card_facts :: "env \<Rightarrow> job_card \<Rightarrow> card_msg ui" where
  "card_facts e s = (let j = jc_job s in Node ''div'' []
     (shown (\<not> card_running s) [Node ''p'' [] (case job_lastRun j of
         None \<Rightarrow> [Txt ''No backups yet'']
       | Some r \<Rightarrow> [Txt ''Last run '', Node ''span'' [] [Txt (fmtRelative e (run_startedAt r))]] @
           (case lastRunSummary (Some r) of None \<Rightarrow> []
            | Some t \<Rightarrow> [Txt ('' '' @ middot @ '' ''),
                Node ''span'' (shown (run_error r \<noteq> '''') [At ''class'' ''text-destructive'']) [Txt t]]))] @
      [Node ''p'' [At ''class'' (if job_scheduleState j = ''overdue'' then ''text-warning'' else ''text-muted-foreground'')]
         [Icon ''CalendarClock'', Node ''span'' [] [Txt (scheduleText e j)]]]))"

definition card_actions :: "job_card \<Rightarrow> card_msg ui" where
  "card_actions s = Node ''div'' []
     [(if card_running s
       then Node ''Button'' [] [Node ''Link'' [At ''to'' (''/runs/'' @ (case card_live s of None \<Rightarrow> '''' | Some r \<Rightarrow> run_id r))]
              [Icon ''Eye'', Txt ''View progress'']]
       else Node ''Button'' [On ''click'' CardRun, Flag ''disabled'' (jc_starting s)]
              [Icon ''Play'', Txt (if jc_starting s then ''Starting'' @ ellipsis else ''Run backup'')]),
      Node ''Button'' [] [Node ''Link'' [At ''to'' (''/jobs/'' @ job_id (jc_job s))] [Txt ''View job'', Icon ''ArrowRight'']]]"

definition JobCard :: "env \<Rightarrow> bool \<Rightarrow> job_card \<Rightarrow> card_msg ui" where
  "JobCard e actions s = Node ''Card'' (shown (card_running s) [At ''class'' ''border-running/35 hover:border-running/50''])
     ([card_head s, Node ''div'' [] [RunStrip e (Some (jc_runs s)) STRIP_SLOTS]] @ card_progress s @
      [card_facts e s] @ shown actions [card_actions s])"

lemma card_parts_msgs [simp]: "msgs (card_head s) = {}" "msgs_of (card_progress s) = {}" "msgs (card_facts e s) = {}"
proof -
  show "msgs (card_head s) = {}" by (auto simp: card_head_def Let_def split: option.split)
  show "msgs_of (card_progress s) = {}" by (simp add: card_progress_def)
  show "msgs (card_facts e s) = {}"
    by (cases "job_lastRun (jc_job s)") (auto simp: card_facts_def Let_def split: option.splits)
qed

lemma JobCard_msgs: "msgs (JobCard e actions s) =
    (if actions \<and> \<not> card_running s \<and> \<not> jc_starting s then {CardRun} else {})"
  by (cases "card_running s") (auto simp: JobCard_def card_actions_def)

section \<open>Properties\<close>

lemmas card_defs [handlers] = card_mount_def card_commit_def card_event_def runNow_def card_ran_def

text \<open>
  A job's strip is the newest load's: the hook asks for each job once, in order, and when the answers
  of several loads arrive in any order, the strips shown are those of the last load alone.
\<close>

theorem job_strips_newest:
  assumes "jobIds \<noteq> []" and "join '','' jobIds \<noteq> ''''" and "\<forall>i \<in> set jobIds. CHR '','' \<notin> set i"
    and "strips_effect jobIds prev = (s, reqs)"
    and "ds = as @ (js_gen s, entries) # bs" and "\<forall>d \<in> set as \<union> set bs. fst d \<noteq> js_gen s"
  shows "reqs = map strip_request jobIds
    \<and> js_strips (fold (\<lambda>(n, r). strips_deliver n r) ds s) = map_of (rev entries)
    \<and> js_gen s = Suc (js_gen prev)"
  using assms(1-4) job_strips.newest_wins [OF assms(5,6)]
  by (auto simp: strips_effect_def strips_outcome_def job_strips.deliver_all_def split_on_join Let_def)

theorem job_strips_newest_witness:
  "js_strips (fold (\<lambda>(n, r). strips_deliver n r)
     [(1, [(''j1'', [])]), (2, [(''j1'', [sample_run])]), (1, [])]
     (fst (strips_effect [''j1''] (fst (strips_effect [''j1''] strips_init))))) ''j1'' = Some [sample_run]"
proof -
  let ?prev = "fst (strips_effect [''j1''] strips_init)"
  let ?s = "fst (strips_effect [''j1''] ?prev)"
  have e: "strips_effect [''j1''] ?prev = (?s, snd (strips_effect [''j1''] ?prev))" by simp
  have g: "js_gen ?s = 2" by (simp add: strips_effect_def strips_init_def Let_def)
  have "js_strips (fold (\<lambda>(n, r). strips_deliver n r)
      [(1, [(''j1'', [])]), (2, [(''j1'', [sample_run])]), (1, [])] ?s) = map_of (rev [(''j1'', [sample_run])])"
    by (rule job_strips_newest [where as = "[(1, [(''j1'', [])])]" and bs = "[(1, [])]",
          THEN conjunct2, THEN conjunct1, OF _ _ _ e]) (simp_all add: g)
  then show ?thesis by simp
qed

interpretation card_flight: single_flight card_update "JobCard e actions"
  "range CardJob \<union> range CardRuns \<union> range CardActive \<union> range CardEvent" "card_mount j runs active"
  is_call jc_starting "range CardRan" "{}"
  for e actions j runs active
proof unfold_locales
  fix m s s' and cs :: "(card_msg, unit) cmd list"
  assume "m \<in> msgs (JobCard e actions s) \<union> (range CardJob \<union> range CardRuns \<union> range CardActive \<union> range CardEvent)"
    "card_update m s = (s', cs)"
  then show "if filter is_call cs = [] then jc_starting s' = jc_starting s
      else \<not> jc_starting s \<and> jc_starting s' \<and> length (filter is_call cs) = 1"
    by (auto simp: JobCard_msgs handlers split: if_splits)
next
  fix m s s' c and cs :: "(card_msg, unit) cmd list"
  assume "card_update m s = (s', cs)" "c \<in> set cs"
  then show "replies c \<subseteq> (if is_call c then range CardRan else {})"
    by (cases m) (auto simp: handlers split: if_splits)
next
  fix c :: "(card_msg, unit) cmd"
  assume "is_call c"
  then show "awaits c" by (cases c) auto
qed (auto simp: handlers filter_map comp_def Let_def)

definition card_run_msgs :: "card_msg list \<Rightarrow> job_card \<Rightarrow> job_card" where
  "card_run_msgs ms s = fold (\<lambda>m s. fst (card_update m s)) ms s"

text \<open>Anything the page may still tell a card whose job has no active run.\<close>

definition card_quiet :: "job_card \<Rightarrow> card_msg \<Rightarrow> bool" where
  "card_quiet s m = (case m of
     CardActive rs \<Rightarrow> list_all (\<lambda>r. run_jobId r \<noteq> job_id (jc_job s)) rs
   | CardJob j \<Rightarrow> job_id j = job_id (jc_job s) | _ \<Rightarrow> True)"

lemma card_activeRun_None: "card_activeRun s = None \<longleftrightarrow> list_all (\<lambda>r. run_jobId r \<noteq> job_id (jc_job s)) (jc_active s)"
  by (auto simp: card_activeRun_def find_None_iff list_all_iff)

definition card_stale :: "string \<Rightarrow> run \<Rightarrow> job_card \<Rightarrow> bool" where
  "card_stale i r s \<longleftrightarrow> job_id (jc_job s) = i \<and> rs_run (jc_stream s) = Some r \<and> rs_url (jc_stream s) = None
     \<and> card_activeRun s = None"

lemma card_stale_step:
  assumes "card_stale i r s" and "card_quiet s m"
  shows "card_stale i r (fst (card_update m s))"
proof (cases m)
  case (CardJob j)
  then have "card_activeRun (s\<lparr>jc_job := j\<rparr>) = None" using assms
    by (auto simp: card_stale_def card_quiet_def card_activeRun_None)
  then show ?thesis using assms CardJob by (simp add: card_stale_def card_quiet_def card_commit_def card_runId_def)
next
  case (CardActive rs)
  then have "card_activeRun (s\<lparr>jc_active := rs\<rparr>) = None" using assms
    by (simp add: card_quiet_def card_activeRun_None)
  then show ?thesis using assms CardActive by (simp add: card_stale_def card_commit_def card_runId_def)
qed (use assms in \<open>auto simp: card_stale_def card_event_def runNow_def card_ran_def card_activeRun_def\<close>)

text \<open>
  A card can be left running for ever: when the run of its job leaves the list of active runs before
  the run's own stream has delivered its final record, the stream is closed with the record it had,
  and from then on, whatever the page tells the card as long as no new run of the job starts, it
  shows the finished run as running, with its progress, and offers no button to run a backup.
\<close>

theorem job_card_stays_running:
  assumes "rs_run (jc_stream s) = Some r" and "isActive (run_status r)"
    and "card_runId s \<noteq> ''''"
    and "list_all (\<lambda>x. run_jobId x \<noteq> job_id (jc_job s)) rs"
    and "list_all (card_quiet s) ms"
  shows "card_running (card_run_msgs (CardActive rs # ms) s)
    \<and> CardRun \<notin> msgs (JobCard e True (card_run_msgs (CardActive rs # ms) s))"
proof -
  let ?s1 = "fst (card_update (CardActive rs) s)"
  have none: "card_activeRun (s\<lparr>jc_active := rs\<rparr>) = None"
    using assms(4) by (simp add: card_activeRun_None)
  then have "card_runId (s\<lparr>jc_active := rs\<rparr>) = ''''" by (simp add: card_runId_def)
  then have stale: "card_stale (job_id (jc_job s)) r ?s1"
    using assms(1,3) none
    by (simp add: card_stale_def card_commit_def run_stream_effect_def card_activeRun_def)
  have "card_stale (job_id (jc_job s)) r (fold (\<lambda>m s. fst (card_update m s)) ms t)"
    if "card_stale (job_id (jc_job s)) r t" for t
    using that assms(5)
  proof (induction ms arbitrary: t)
    case (Cons m ms)
    then have "card_quiet t m" by (auto simp: card_quiet_def card_stale_def split: card_msg.splits)
    then show ?case using Cons card_stale_step by simp
  qed simp
  from this [OF stale] have "card_stale (job_id (jc_job s)) r (card_run_msgs (CardActive rs # ms) s)"
    by (simp add: card_run_msgs_def)
  then have "card_running (card_run_msgs (CardActive rs # ms) s)"
    using assms(2) by (simp add: card_stale_def card_running_def card_live_def)
  then show ?thesis by (simp add: JobCard_msgs)
qed

definition running_card :: job_card where
  "running_card = fst (card_update (CardEvent (Some \<lparr>ev_type = ''run'', ev_run = Some sample_run, ev_progress = None, ev_line = None\<rparr>))
     (fst (card_mount sample_job [] [sample_run])))"

theorem job_card_stays_running_witness:
  "card_running (card_run_msgs [CardActive [], CardRuns [sample_run\<lparr>run_status := ''success''\<rparr>]] running_card)"
proof -
  have "rs_run (jc_stream running_card) = Some sample_run" "isActive (run_status sample_run)" "card_runId running_card \<noteq> ''''"
    by (simp_all add: running_card_def handlers sample_defs run_stream_effect_def run_stream_init_def run_onmessage_def
        card_runId_def card_activeRun_def isActive_def ACTIVE_STATUSES_def Let_def)
  from job_card_stays_running [OF this, of "[]" "[CardRuns [sample_run\<lparr>run_status := ''success''\<rparr>]]"]
  show ?thesis by (simp add: card_quiet_def)
qed

end
