(* ===== verification/RunView.thy ===== *)
theory RunView
  imports RunLists LogPanel Hooks
begin

text \<open>
  \<open>src/ui/src/routes/run.jsx\<close>: the screen of one run, with its progress, its summary, the stop
  button and its log. The state holds the route's \<open>id\<close>, the run stream, the initial fetch with the
  number of the effect run it belongs to, and the log panel below.
\<close>

section \<open>Summary and progress\<close>

definition Stat :: "string \<times> string \<times> bool \<Rightarrow> 'm ui" where
  "Stat st = (case st of (label, value, m) \<Rightarrow> Node ''div'' []
     [Node ''div'' [] [Txt label],
      Node ''div'' [At ''class'' (if m then ''font-mono text-sm font-medium''
          else ''display tabular text-lg font-semibold leading-tight'')] [Txt value]])"

definition summary_stats :: "env \<Rightarrow> run \<Rightarrow> summary \<Rightarrow> (string \<times> string \<times> bool) list" where
  "summary_stats e r s =
     (let duration = shown (sm_totalDuration s \<noteq> 0) [(''Duration'', fmtDur (sm_totalDuration s), False)] in
      case (if run_kind r = ''speedtest'' then sm_speed s else None) of
        Some sp \<Rightarrow>
          [(''Score'', show_int (sp_score sp) @ '' '' @ middot @ '' '' @ sp_rating sp, False),
           (''Upload'', fmtSpeed (sp_uploadBytesPerSec sp), False),
           (''Download'', fmtSpeed (sp_downloadBytesPerSec sp), False),
           (''Overhead'', to_fixed 1 (sp_overheadSeconds sp) @ '' s'', False)]
      | None \<Rightarrow>
          if run_kind r = ''restore_db'' then
            [(''Data imported'', fmtBytes (sm_bytesRestored s), False)] @
            (case run_params r ''safetySnapshot'' of None \<Rightarrow> []
             | Some v \<Rightarrow> shown (v \<noteq> '''') [(''Safety snapshot'', shortId v, True)]) @ duration
          else if run_kind r = ''restore'' \<or> run_kind r = ''download'' then
            [(''Files restored'', fmtCount e (sm_filesRestored s), False),
             (''Data restored'', fmtBytes (sm_bytesRestored s), False)] @ duration
          else
            [(''New files'', fmtCount e (sm_filesNew s), False), (''Changed'', fmtCount e (sm_filesChanged s), False),
             (''Unchanged'', fmtCount e (sm_filesUnmodified s), False), (''Data added'', fmtBytes (sm_dataAdded s), False)] @
            shown (sm_snapshotId s \<noteq> '''') [(''Snapshot'', shortId (sm_snapshotId s), True)] @ duration)"

definition SummaryStats :: "env \<Rightarrow> run \<Rightarrow> 'm ui list" where
  "SummaryStats e r = (case run_summary r of None \<Rightarrow> []
     | Some s \<Rightarrow> [Node ''div'' [] (map Stat (summary_stats e r s))])"

definition BAR_FILL :: table where
  "BAR_FILL = [(''success'', ''bg-success''), (''success_warnings'', ''bg-warning''), (''failed'', ''bg-destructive''),
     (''interrupted'', ''bg-destructive''), (''canceled'', ''bg-muted-foreground'')]"

definition no_progress :: progress where
  "no_progress = \<lparr>p_percent = 0, p_filesDone = 0, p_totalFiles = 0, p_bytesDone = 0, p_totalBytes = 0, p_currentFile = ''''\<rparr>"

text \<open>The numbers under the bar: the summary's once there is one, except for a speed test.\<close>

definition hero_progress :: "run \<Rightarrow> progress" where
  "hero_progress r =
     (let restored = (run_kind r = ''restore'' \<or> run_kind r = ''download'');
          base = (case run_progress r of None \<Rightarrow> no_progress | Some p \<Rightarrow> p)
      in case (if run_kind r = ''speedtest'' then None else run_summary r) of
           None \<Rightarrow> base
         | Some s \<Rightarrow> base\<lparr>p_filesDone := (if restored then sm_filesRestored s else sm_totalFilesProcessed s),
             p_totalFiles := sm_totalFilesProcessed s,
             p_bytesDone := (if restored then sm_bytesRestored s else sm_totalBytesProcessed s),
             p_totalBytes := sm_totalBytesProcessed s, p_currentFile := ''''\<rparr>)"

definition hero_indeterminate :: "run \<Rightarrow> bool" where
  "hero_indeterminate r \<longleftrightarrow> isActive (run_status r) \<and> displayPercent (Some r) = 0 \<and> p_totalBytes (hero_progress r) = 0"

definition ProgressHero :: "env \<Rightarrow> run \<Rightarrow> 'm ui" where
  "ProgressHero e r =
     (let active = isActive (run_status r); pct = displayPercent (Some r); p = hero_progress r;
          indeterminate = hero_indeterminate r; tone = class_of (lookup STATUS_TEXT (run_status r)) in
      Node ''div'' []
       ([Node ''div'' []
           [Node ''div'' [] [Node ''p'' [] [Txt ''Progress''],
              Node ''p'' tone [Txt (lookup_or STATUS_PHASE (run_status r) (run_status r))]],
            Node ''span'' tone [Txt (if indeterminate then em_dash else show_int (js_round pct) @ ''%'')]],
         Progress pct indeterminate (lookup BAR_FILL (run_status r)),
         Node ''div'' []
           [Node ''span'' [] [Txt (if run_kind r = ''restore_db'' then ''database import''
               else if run_kind r = ''speedtest'' then ''test data moved''
               else fmtCount e (p_filesDone p) @ '' / '' @ fmtCount e (p_totalFiles p) @ '' files'')],
            Node ''span'' [] [Txt (fmtBytes (p_bytesDone p) @ '' / '' @ fmtBytes (p_totalBytes p))]]] @
        shown active [Node ''p'' [] [Txt (if p_currentFile p \<noteq> '''' then [CHR 0xE2, CHR 0x96, CHR 0xB8, CHR '' ''] @ p_currentFile p else '''')]]))"

lemma Stat_msgs [simp]: "msgs (Stat st) = {}"
  by (cases st) (simp add: Stat_def)

lemma SummaryStats_msgs [simp]: "msgs_of (SummaryStats e r) = {}"
  by (simp add: SummaryStats_def split: option.split)

lemma ProgressHero_msgs [simp]: "msgs (ProgressHero e r) = {}"
  by (auto simp: ProgressHero_def class_of_def Let_def split: option.splits)

section \<open>State and handlers\<close>

record initial_load =
  il_loading :: bool
  il_run :: "run option"
  il_missing :: bool

record run_view =
  rv_id :: string
  rv_stream :: run_stream
  rv_initial :: initial_load
  rv_gen :: nat
  rv_stopping :: bool
  rv_log :: log_panel

datatype run_msg = RunId string | RunLoaded nat response | RunEvent message | RunStop
  | RunStopConfirmed string bool | RunStopped response | RunLog log_msg | RunBack

type_synonym run_cmds = "(run_msg, unit) cmd list"

definition run_loading :: initial_load where
  "run_loading = \<lparr>il_loading = True, il_run = None, il_missing = False\<rparr>"

definition run_current :: "run_view \<Rightarrow> run option" where
  "run_current s = (case rs_run (rv_stream s) of None \<Rightarrow> il_run (rv_initial s) | Some r \<Rightarrow> Some r)"

text \<open>The effects on \<open>[id]\<close>: the stream and the initial fetch.\<close>

definition run_open :: "string \<Rightarrow> run_view \<Rightarrow> run_view \<times> run_cmds" where
  "run_open i s =
     (s\<lparr>rv_id := i, rv_stream := run_stream_effect i (rv_stream s), rv_initial := run_loading, rv_gen := Suc (rv_gen s)\<rparr>,
      [Call (Runs_get i) (RunLoaded (Suc (rv_gen s)))])"

definition run_mount :: "heights \<Rightarrow> int \<Rightarrow> string \<Rightarrow> run_view \<times> run_cmds" where
  "run_mount h client i = run_open i \<lparr>rv_id = i, rv_stream = run_stream_init True, rv_initial = run_loading,
     rv_gen = 0, rv_stopping = False, rv_log = log_mount h client []\<rparr>"

definition run_loaded :: "nat \<Rightarrow> response \<Rightarrow> run_view \<Rightarrow> run_view" where
  "run_loaded mine res s =
     (if mine \<noteq> rv_gen s then s
      else if res_status res = 404 then s\<lparr>rv_initial := \<lparr>il_loading = False, il_run = None, il_missing = True\<rparr>\<rparr>
      else s\<lparr>rv_initial := \<lparr>il_loading = False, il_run = b_run (body_of res), il_missing = False\<rparr>\<rparr>)"

definition run_stop :: "run_view \<Rightarrow> run_cmds" where
  "run_stop s = [Ask (confirm_defaults\<lparr>co_title := ''Stop this operation?'',
     co_description := ''restic is interrupted cleanly: it releases its lock and writes no partial snapshot. '' @
       ''Anything already uploaded stays in the repository.'',
     co_confirmLabel := ''Stop it'', co_destructive := True\<rparr>) (RunStopConfirmed (rv_id s))]"

definition run_stopConfirmed :: "string \<Rightarrow> bool \<Rightarrow> run_view \<Rightarrow> run_view \<times> run_cmds" where
  "run_stopConfirmed i ok s = (if \<not> ok then (s, []) else (s\<lparr>rv_stopping := True\<rparr>, [Call (Runs_stop i) RunStopped]))"

definition run_stopped :: "response \<Rightarrow> run_view \<Rightarrow> run_view \<times> run_cmds" where
  "run_stopped res s = (s\<lparr>rv_stopping := False\<rparr>,
     shown (\<not> res_ok res) [Do (Toast (plain_toast Failure (errorOf res ''Could not stop this run.'')))])"

text \<open>New lines of the stream are new props of the log panel.\<close>

definition run_event_in :: "heights \<Rightarrow> message \<Rightarrow> run_view \<Rightarrow> run_view" where
  "run_event_in h ev s =
     (let stream = run_onmessage ev (rv_stream s)
      in s\<lparr>rv_stream := stream, rv_log := (if rs_lines stream = lp_lines (rv_log s) then rv_log s
             else fst (log_update h (LogLines (rs_lines stream)) (rv_log s)))\<rparr>)"

primrec run_handle :: "heights \<Rightarrow> (run_view, run_msg, unit) update" where
  "run_handle h (RunId i) s = (if i = rv_id s then (s, []) else
     (let (s', cs) = run_open i s in (s'\<lparr>rv_log := fst (log_update h (LogLines []) (rv_log s'))\<rparr>, cs)))"
| "run_handle h (RunLoaded n res) s = (run_loaded n res s, [])"
| "run_handle h (RunEvent ev) s = (run_event_in h ev s, [])"
| "run_handle h RunStop s = (s, run_stop s)"
| "run_handle h (RunStopConfirmed i ok) s = run_stopConfirmed i ok s"
| "run_handle h (RunStopped res) s = run_stopped res s"
| "run_handle h (RunLog m) s = (let (l, cs) = log_update h m (rv_log s) in (s\<lparr>rv_log := l\<rparr>, map (map_cmd RunLog id) cs))"
| "run_handle h RunBack s = (s, [Do GoBack])"

text \<open>The effect on \<open>[current]\<close> sets the title.\<close>

definition run_title :: "run_view \<Rightarrow> run_cmds" where
  "run_title s = (case run_current s of None \<Rightarrow> []
     | Some r \<Rightarrow> [Do (SetTitle (kindLabel (run_kind r) @ '' '' @ middot @ '' restic backup manager''))])"

definition run_update :: "heights \<Rightarrow> (run_view, run_msg, unit) update" where
  "run_update h m s = (let (s', cs) = run_handle h m s
     in (s', cs @ (if run_current s' = run_current s then [] else run_title s')))"

section \<open>What it renders\<close>

definition link_fact :: "string \<Rightarrow> string \<Rightarrow> string \<Rightarrow> 'm fact" where
  "link_fact label to text = \<lparr>fa_label = label, fa_value = [Node ''Link'' [At ''to'' to] [Txt text]], fa_mono = False, fa_wide = False\<rparr>"

definition run_param :: "run \<Rightarrow> string \<Rightarrow> string" where
  "run_param r k = ostr_or (run_params r k) ''''"

text \<open>\<open>Number(params.sizeBytes)\<close> of a decimal text.\<close>

definition decimal :: "string \<Rightarrow> int" where
  "decimal s = int (read_rev (rev s))"

definition run_facts :: "env \<Rightarrow> run \<Rightarrow> 'm fact option list" where
  "run_facts e r =
     [(if run_jobId r \<noteq> '''' then Some (link_fact ''Job'' (''/jobs/'' @ run_jobId r) (str_or (run_jobName r) ''Open job'')) else None),
      (if run_repositoryId r \<noteq> '''' then Some (link_fact ''Repository'' (''/repositories/'' @ run_repositoryId r)
          (str_or (run_repoName r) ''Open repository'')) else None),
      (if run_kind r = ''backup'' \<and> run_folderPath r \<noteq> '''' \<and> run_param r ''databaseId'' = ''''
       then Some (text_fact ''Source'' (run_folderPath r) True) else None),
      (if run_kind r = ''speedtest'' \<and> run_param r ''sizeBytes'' \<noteq> ''''
       then Some (text_fact ''Test size'' (fmtBytes (decimal (run_param r ''sizeBytes'')) @ '' each way'') False) else None),
      Some (text_fact ''Started'' (fmtTime e (run_startedAt r)) False),
      (if run_finishedAt r \<noteq> '''' then Some (text_fact ''Finished'' (fmtTime e (run_finishedAt r)) False) else None),
      (if run_param r ''target'' \<noteq> '''' then Some (text_fact ''Restored into'' (run_param r ''target'') True) else None),
      (if run_kind r = ''restore_db'' \<or> run_param r ''databaseId'' \<noteq> ''''
       then Some (text_fact (if run_kind r = ''restore_db'' then ''Restored into'' else ''Database'') (run_folderPath r) True) else None),
      (case run_exitCode r of None \<Rightarrow> None
       | Some c \<Rightarrow> if c \<noteq> 0 then Some (text_fact ''Exit code'' (show_int c) True) else None)]"

definition run_actions :: "run_view \<Rightarrow> run \<Rightarrow> run_msg ui list" where
  "run_actions s r =
     shown (run_kind r = ''download'' \<and> run_status r = ''success'')
       [Node ''Button'' [] [Node ''a'' [At ''href'' (Runs_downloadURL (run_id r))] [Icon ''ArrowDownToLine'', Txt ''Download .zip'']]] @
     shown (isActive (run_status r))
       [Node ''Button'' [On ''click'' RunStop, Flag ''disabled'' (rv_stopping s)]
          [Icon ''Square'', Txt (if rv_stopping s then ''Stopping'' @ ellipsis else ''Stop'')]]"

definition run_header :: "env \<Rightarrow> run_view \<Rightarrow> run \<Rightarrow> run_msg ui" where
  "run_header e s r =
     (let backTo = (if run_jobId r \<noteq> '''' then ''/jobs/'' @ run_jobId r else ''/activity'');
          backLabel = (if run_jobId r \<noteq> '''' then str_or (run_jobName r) ''Job'' else ''Activity'');
          names = filter (\<lambda>t. t \<noteq> '''') [run_jobName r, run_repoName r]
      in PageHeader
        [Node ''span'' [] [Txt (kindLabel (run_kind r)), StatusBadge (run_status r)]]
        [Node ''span'' [] [Txt (str_or (join ('' '' @ middot @ '' '') names) em_dash), Node ''span'' [] [Txt middot],
           Node ''span'' [] [Txt (runDuration e (Some r))]]]
        (run_actions s r)
        [Breadcrumb backTo backLabel (kindLabel (run_kind r))]
        [IconTile (Some (lookup_or KIND_ICON (run_kind r) ''Play'')) (lookup_or STATUS_TONE (run_status r) ''neutral'') ''lg''])"

definition run_page :: "env \<Rightarrow> run_view \<Rightarrow> run \<Rightarrow> run_msg ui" where
  "run_page e s r = Page
     ([run_header e s r] @
      shown (run_error r \<noteq> '''') [Callout ''destructive'' None ''This run did not finish cleanly'' [Txt (run_error r)]] @
      [Node ''div'' []
         [Node ''Card'' (shown (isActive (run_status r)) [At ''class'' ''border-running/30''])
            [Node ''CardContent'' [] ([ProgressHero e r] @
               shown (run_summary r \<noteq> None) [Node ''div'' [] (SummaryStats e r)])],
          Node ''Card'' [] [Node ''CardHeader'' [] [Node ''CardTitle'' [] [Txt ''Details'']],
            Node ''CardContent'' [] [Facts (run_facts e r)]]],
       Node ''Card'' [] [map_ui RunLog (LogPanel e (rv_log s))]])"

definition RunView :: "env \<Rightarrow> run_view \<Rightarrow> run_msg ui" where
  "RunView e s =
     (if il_missing (rv_initial s) then NotFound RunBack
      else case run_current s of
        None \<Rightarrow> Page [Node ''Skeleton'' [] [], Node ''Skeleton'' [] [],
          Node ''div'' [] [Node ''Skeleton'' [] [], Node ''Skeleton'' [] []]]
      | Some r \<Rightarrow> run_page e s r)"

definition quiet_fact :: "'m fact option \<Rightarrow> bool" where
  "quiet_fact i = (case i of None \<Rightarrow> True | Some f \<Rightarrow> msgs_of (fa_value f) = {})"

lemma quiet_fact_simps [simp]: "quiet_fact None" "quiet_fact (Some (text_fact l v m))" "quiet_fact (Some (link_fact l t x))"
  by (simp_all add: quiet_fact_def text_fact_def link_fact_def)

lemma run_facts_quiet: "list_all quiet_fact (run_facts e r)"
  by (simp add: run_facts_def split: option.split)

lemma run_Facts_quiet: "list_all quiet_fact items \<Longrightarrow> msgs (Facts items) = {}"
  by (force simp: Facts_def list_all_iff fact_shown_def quiet_fact_def split: option.splits)

lemma Facts_run_msgs [simp]: "msgs (Facts (run_facts e r)) = {}"
  by (rule run_Facts_quiet [OF run_facts_quiet])

lemma run_header_msgs [simp]: "msgs (run_header e s r) =
    (if isActive (run_status r) \<and> \<not> rv_stopping s then {RunStop} else {})"
  by (auto simp: run_header_def run_actions_def Let_def)

lemma RunView_msgs: "msgs (RunView e s) =
    (if il_missing (rv_initial s) then {RunBack}
     else case run_current s of None \<Rightarrow> {}
       | Some r \<Rightarrow> (if isActive (run_status r) \<and> \<not> rv_stopping s then {RunStop} else {}) \<union> RunLog ` msgs (LogPanel e (rv_log s)))"
  by (auto simp: RunView_def run_page_def split: option.split)

section \<open>Properties\<close>

lemmas run_view_defs [handlers] = run_open_def run_loaded_def run_stop_def run_stopConfirmed_def run_stopped_def
  run_event_in_def

interpretation run_initial: guarded_load rv_gen run_loaded rv_initial
  "\<lambda>s res. if res_status res = 404 then \<lparr>il_loading = False, il_run = None, il_missing = True\<rparr>
     else \<lparr>il_loading = False, il_run = b_run (body_of res), il_missing = False\<rparr>"
  by unfold_locales (auto simp: run_loaded_def)

lemma run_current_frame [simp]:
  "run_current (s\<lparr>rv_stopping := b\<rparr>) = run_current s" "run_current (s\<lparr>rv_log := l\<rparr>) = run_current s"
  by (simp_all add: run_current_def split: option.split)

text \<open>
  A run that does not exist says so, and an old answer never does: after the id changed any number of
  times, with the answers of the earlier fetches arriving before or after, the screen is "not found"
  exactly when the server answered 404 for the id now in the URL; otherwise what it shows first is
  the record it answered, until the stream brings one.
\<close>

theorem run_view_missing:
  assumes "ds = as @ (rv_gen s, res) # bs" and "\<forall>d \<in> set as \<union> set bs. fst d \<noteq> rv_gen s"
  defines "t \<equiv> fold (\<lambda>(n, r). run_loaded n r) ds s"
  shows "(RunView e t = NotFound RunBack \<longleftrightarrow> res_status res = 404)
    \<and> (res_status res \<noteq> 404 \<longrightarrow> rs_run (rv_stream t) = None \<longrightarrow> run_current t = b_run (body_of res))"
proof -
  have t: "rv_initial t = (if res_status res = 404 then \<lparr>il_loading = False, il_run = None, il_missing = True\<rparr>
     else \<lparr>il_loading = False, il_run = b_run (body_of res), il_missing = False\<rparr>)"
    using run_initial.newest_wins [OF assms(1,2)] by (simp add: t_def run_initial.deliver_all_def)
  have "RunView e t \<noteq> NotFound RunBack" if "res_status res \<noteq> 404"
  proof -
    have "RunBack \<notin> msgs (RunView e t)" using that t by (auto simp: RunView_msgs split: option.split)
    then show ?thesis by (metis NotFound_msgs singletonI)
  qed
  moreover have "RunView e t = NotFound RunBack" if "res_status res = 404"
    using that t by (simp add: RunView_def)
  ultimately show ?thesis using t by (auto simp: run_current_def)
qed

definition reply_status :: "int \<Rightarrow> response" where
  "reply_status n = \<lparr>res_status = n, res_ok = (n = 200), res_body = Some (empty_body\<lparr>b_run := Some sample_run\<rparr>)\<rparr>"

theorem run_view_missing_witness:
  "run_current (fold (\<lambda>(n, r). run_loaded n r) [(2, reply_status 200), (1, reply_status 404)]
     (fst (run_open ''b'' (fst (run_mount ten_px 100 ''a''))))) = Some sample_run"
proof -
  let ?s = "fst (run_open ''b'' (fst (run_mount ten_px 100 ''a'')))"
  have "rv_gen ?s = 2" by (simp add: run_mount_def run_open_def)
  then have "[(2, reply_status 200), (1, reply_status 404)] = [] @ (rv_gen ?s, reply_status 200) # [(1, reply_status 404)]"
    "\<forall>d \<in> set [] \<union> set [(1 :: nat, reply_status 404)]. fst d \<noteq> rv_gen ?s"
    by simp_all
  from run_view_missing [OF this] show ?thesis
    by (simp add: reply_status_def body_of_def run_loaded_def run_mount_def run_open_def run_stream_effect_def run_stream_init_def)
qed


definition viewing :: "run_view" where
  "viewing = fst (run_update ten_px (RunLoaded 1 (reply_status 200)) (fst (run_mount ten_px 100 ''r1'')))"

lemma viewing_current: "run_current viewing = Some sample_run" "\<not> il_missing (rv_initial viewing)" "\<not> rv_stopping viewing"
  "rv_id viewing = ''r1''"
  by (simp_all add: viewing_def run_update_def run_mount_def run_open_def run_loaded_def reply_status_def body_of_def
      run_current_def run_stream_effect_def run_stream_init_def Let_def)


text \<open>
  A change of the URL from one run to another shows the old run under the new id: the stream hook
  keeps the record of the run before, which wins over the freshly fetched one, so until the new
  stream brings a record the screen shows the old run, also after the fetch of the new one has
  answered, and the stop button asks about the old run but stops the new one.
\<close>

theorem run_view_shows_previous_run:
  fixes h :: heights and s :: run_view
  assumes "rs_run (rv_stream s) = Some old" and "i \<noteq> rv_id s" and "res_status res \<noteq> 404"
    and "isActive (run_status old)" and "\<not> rv_stopping s"
  defines "s1 \<equiv> fst (run_update h (RunId i) s)"
  defines "s2 \<equiv> fst (run_update h (RunLoaded (rv_gen s1) res) s1)"
  shows "run_current s1 = Some old \<and> run_current s2 = Some old \<and> rv_id s2 = i
    \<and> RunStop \<in> msgs (RunView e s2)
    \<and> (\<exists>q. snd (run_update h RunStop s2) = [Ask q (RunStopConfirmed i)])"
proof -
  have keep: "rs_run (run_stream_effect i t) = rs_run t" for t
    by (simp add: run_stream_effect_def)
  have c1: "rs_run (rv_stream s1) = Some old" "rv_id s1 = i" "\<not> rv_stopping s1"
    using assms(1,2,5) by (simp_all add: s1_def run_update_def run_open_def keep split_beta)
  then have c2: "rs_run (rv_stream s2) = Some old" "rv_id s2 = i" "\<not> rv_stopping s2" "\<not> il_missing (rv_initial s2)"
    using assms(3) by (simp_all add: s2_def run_update_def run_loaded_def)
  then show ?thesis
    using c1 assms(4) by (simp add: run_current_def RunView_msgs run_update_def run_stop_def)
qed

theorem run_view_shows_previous_run_witness:
  "run_current (fst (run_update ten_px (RunLoaded 2 (reply_status 200)) (fst (run_update ten_px (RunId ''r2'')
     (fst (run_update ten_px (RunEvent (Some \<lparr>ev_type = ''run'', ev_run = Some (sample_run\<lparr>run_jobName := ''Old''\<rparr>),
        ev_progress = None, ev_line = None\<rparr>)) viewing)))))) = Some (sample_run\<lparr>run_jobName := ''Old''\<rparr>)"
proof -
  let ?s = "fst (run_update ten_px (RunEvent (Some \<lparr>ev_type = ''run'', ev_run = Some (sample_run\<lparr>run_jobName := ''Old''\<rparr>),
    ev_progress = None, ev_line = None\<rparr>)) viewing)"
  have "rs_run (rv_stream ?s) = Some (sample_run\<lparr>run_jobName := ''Old''\<rparr>)"
    by (simp add: run_update_def run_event_in_def run_onmessage_def Let_def)
  moreover have "''r2'' \<noteq> rv_id ?s" "\<not> rv_stopping ?s" "rv_gen ?s = 1"
    by (simp_all add: run_update_def run_event_in_def run_onmessage_def viewing_def run_mount_def run_open_def run_loaded_def Let_def)
  moreover have "res_status (reply_status 200) \<noteq> 404" "isActive (run_status (sample_run\<lparr>run_jobName := ''Old''\<rparr>))"
    by (simp_all add: reply_status_def isActive_def ACTIVE_STATUSES_def sample_defs)
  moreover have "rv_gen (fst (run_update ten_px (RunId ''r2'') ?s)) = 2"
    using \<open>''r2'' \<noteq> rv_id ?s\<close> \<open>rv_gen ?s = 1\<close> by (simp add: run_update_def run_open_def split_beta)
  ultimately show ?thesis
    using run_view_shows_previous_run [where h = ten_px and s = ?s and old = "sample_run\<lparr>run_jobName := ''Old''\<rparr>"
        and i = "''r2''" and res = "reply_status 200"] by simp
qed

end
