(* ===== verification/SnapshotBrowser.thy ===== *)
theory SnapshotBrowser
  imports Widgets StartRun Hooks
begin

text \<open>
  \<open>src/ui/src/components/snapshot-browser.jsx\<close>: the dialog that walks a snapshot's files and
  restores or downloads the ones ticked. The panel mounts it anew for each snapshot, so the snapshot
  and the repository are fixed in the state and the code's guards for a missing snapshot are dead; the \<open>open\<close> prop is a message of the environment.
  A \<open>Set\<close> of paths is the list of its elements in insertion order. The outgoing value is the
  argument of \<open>onOpenChange\<close>.
\<close>

section \<open>Paths\<close>

definition within_path :: "string \<Rightarrow> string \<Rightarrow> bool" where
  "within_path p base \<longleftrightarrow> base = ''/'' \<or> p = base \<or> starts_with (base @ ''/'') p"

definition commonRoot :: "snapshot option \<Rightarrow> string list \<Rightarrow> string option" where
  "commonRoot sn paths = find (\<lambda>root. paths \<noteq> [] \<and> list_all (\<lambda>p. within_path p root) paths)
     (case sn of None \<Rightarrow> [] | Some s \<Rightarrow> sn_paths s)"

text \<open>The folders of a path as the breadcrumbs offer them: label and target, from the root down.\<close>

definition path_parts :: "string \<Rightarrow> string list" where
  "path_parts path = filter (\<lambda>w. w \<noteq> '''') (split_on (CHR ''/'') path)"

definition crumbs :: "string \<Rightarrow> (string \<times> string \<times> bool) list" where
  "crumbs path = (let parts = path_parts path in
     map (\<lambda>i. (parts ! i, ''/'' @ join ''/'' (take (Suc i) parts), i = length parts - 1)) [0..<length parts])"

definition Breadcrumbs :: "string \<Rightarrow> (string \<Rightarrow> 'm) \<Rightarrow> 'm ui" where
  "Breadcrumbs path onOpen = Node ''nav'' [At ''aria-label'' ''Folder'']
     (Node ''button'' [At ''type'' ''button'', On ''click'' (onOpen ''/''), At ''aria-label'' ''Root folder''] [Icon ''HardDrive''] #
      concat (map (\<lambda>(part, to, isLast). [Icon ''ChevronRight'',
        Node ''button'' ([At ''type'' ''button'', On ''click'' (onOpen to)] @
          shown isLast [At ''class'' ''font-medium text-foreground'']) [Txt part]]) (crumbs path)))"

text \<open>\<open>toggle\<close>: a \<open>Set\<close> keeps the order of insertion.\<close>

definition toggle_path :: "string \<Rightarrow> string list \<Rightarrow> string list" where
  "toggle_path p xs = (if p \<in> set xs then filter (\<lambda>x. x \<noteq> p) xs else xs @ [p])"

section \<open>State and handlers\<close>

record listing =
  ls_loading :: bool
  ls_entries :: "entry list"
  ls_error :: string

record browser =
  sb_repo :: string
  sb_snapshot :: snapshot
  sb_stay :: bool
  sb_open :: bool
  sb_path :: string
  sb_state :: listing
  sb_gen :: nat
  sb_timer :: bool
  sb_slow :: bool
  sb_selected :: "string list"
  sb_restoring :: bool \<comment> \<open>\<open>step === "restore"\<close>\<close>
  sb_inPlace :: bool
  sb_target :: string
  sb_stopSite :: bool
  sb_busy :: bool
  sb_docker :: bool
  sb_containers :: containers_hook

datatype browse_msg = BrowseOpen bool | BrowsePath string | BrowseListed nat response | BrowseSlow nat
  | BrowseToggle string | BrowseStep bool | BrowseInPlace bool | BrowseTarget string | BrowseStopSite bool
  | BrowseDownload | BrowseDownloaded response | BrowseRestore | BrowseRestored response
  | BrowseContainers nat response | BrowseDocker bool | BrowseDismiss bool

type_synonym browse_cmds = "(browse_msg, bool) cmd list"

definition browse_start :: "browser \<Rightarrow> string" where
  "browse_start s = (case sn_paths (sb_snapshot s) of [p] \<Rightarrow> p | _ \<Rightarrow> ''/'')"

definition browse_reset :: "browser \<Rightarrow> browser" where
  "browse_reset s = (if \<not> sb_open s then s
     else s\<lparr>sb_path := browse_start s, sb_selected := [], sb_restoring := False, sb_inPlace := True,
            sb_target := '''', sb_stopSite := True\<rparr>)"

text \<open>The loading effect on \<open>[open, snapshot, repositoryId, path]\<close>.\<close>

definition browse_load :: "browser \<Rightarrow> browser \<times> browse_cmds" where
  "browse_load prev =
     (let s = prev\<lparr>sb_gen := Suc (sb_gen prev), sb_timer := False\<rparr> in
      if \<not> sb_open s then (s, [])
      else (s\<lparr>sb_state := (sb_state s)\<lparr>ls_loading := True, ls_error := ''''\<rparr>, sb_slow := False, sb_timer := True\<rparr>,
           [After 6000 (BrowseSlow (sb_gen s)),
            Call (Repositories_files (sb_repo s) (sn_id (sb_snapshot s)) (sb_path s)) (BrowseListed (sb_gen s))]))"

definition browse_listed :: "nat \<Rightarrow> response \<Rightarrow> browser \<Rightarrow> browser" where
  "browse_listed mine res s =
     (if mine \<noteq> sb_gen s then s
      else s\<lparr>sb_timer := False, sb_state :=
        (if res_ok res then \<lparr>ls_loading = False,
             ls_entries = (case b_entries (body_of res) of None \<Rightarrow> [] | Some es \<Rightarrow> es), ls_error = ''''\<rparr>
         else \<lparr>ls_loading = False, ls_entries = [], ls_error = errorOf res ''Could not list this folder.''\<rparr>)\<rparr>)"

definition browse_slow :: "nat \<Rightarrow> browser \<Rightarrow> browser" where
  "browse_slow mine s = (if mine = sb_gen s \<and> sb_timer s then s\<lparr>sb_slow := True\<rparr> else s)"

definition browse_root :: "browser \<Rightarrow> string option" where
  "browse_root s = commonRoot (Some (sb_snapshot s)) (sb_selected s)"

definition canInPlace :: "browser \<Rightarrow> bool" where
  "canInPlace s = (case browse_root s of None \<Rightarrow> False | Some r \<Rightarrow> r \<noteq> '''')"

definition destination :: "browser \<Rightarrow> string" where
  "destination s = (if sb_inPlace s \<and> canInPlace s then the (browse_root s) else trim (sb_target s))"

text \<open>The path whose containers are asked for.\<close>

definition watched_path :: "browser \<Rightarrow> string" where
  "watched_path s = (if sb_restoring s \<and> sb_inPlace s \<and> canInPlace s then the (browse_root s) else '''')"

definition stop_containers :: "browser \<Rightarrow> bool" where
  "stop_containers s \<longleftrightarrow> sb_inPlace s \<and> canInPlace s \<and> sb_stopSite s \<and> ch_containers (sb_containers s) \<noteq> []"

definition browse_download :: "browser \<Rightarrow> browser \<times> browse_cmds" where
  "browse_download s = (s\<lparr>sb_busy := True\<rparr>,
     [Call (Repositories_download (sb_repo s) (sn_id (sb_snapshot s)) (Some (sb_selected s))) BrowseDownloaded])"

definition browse_restore :: "browser \<Rightarrow> browser \<times> browse_cmds" where
  "browse_restore s = (if destination s = '''' then (s, [])
     else (s\<lparr>sb_busy := True\<rparr>,
       [Call (Repositories_restore (sb_repo s) (sn_id (sb_snapshot s)) (destination s)
            (Some (sb_selected s)) (Some (stop_containers s))) BrowseRestored]))"

text \<open>What runs once the server answered, also when the dialog is gone by then.\<close>

definition browse_answer :: "bool \<Rightarrow> string \<Rightarrow> response \<Rightarrow> browse_cmds" where
  "browse_answer stay fallback res = (let (ok, es) = handleStartResponse res fallback stay
     in map Do es @ shown ok [Out False])"

definition browse_started :: "string \<Rightarrow> response \<Rightarrow> browser \<Rightarrow> browser \<times> browse_cmds" where
  "browse_started fallback res s = (s\<lparr>sb_busy := False\<rparr>, browse_answer (sb_stay s) fallback res)"

text \<open>
  After a render: a changed path (or \<open>open\<close>) loads the folder, a changed watched path asks for its
  containers. (When the dialog opens on another path than it was left with, the code also starts a
  load of the old path, which the next render supersedes; it is left out.)
\<close>

definition browse_commit :: "browser \<Rightarrow> browser \<Rightarrow> browser \<times> browse_cmds" where
  "browse_commit before s =
     (let (s1, cs1) = (if sb_path s = sb_path before \<and> sb_open s = sb_open before then (s, []) else browse_load s)
      in if watched_path s1 = watched_path before \<and> sb_docker s1 = sb_docker before then (s1, cs1)
         else let (hook, ask) = containers_effect (sb_docker s1) (watched_path s1) (sb_containers s1)
           in (s1\<lparr>sb_containers := hook\<rparr>, cs1 @ (case ask of None \<Rightarrow> []
                | Some p \<Rightarrow> [Call (Docker_containersUsing p) (BrowseContainers (ch_run hook))])))"

primrec browse_handle :: "browse_msg \<Rightarrow> browser \<Rightarrow> browser \<times> browse_cmds" where
  "browse_handle (BrowseOpen b) s = (browse_reset (s\<lparr>sb_open := b\<rparr>), [])"
| "browse_handle (BrowsePath p) s = (s\<lparr>sb_path := p\<rparr>, [])"
| "browse_handle (BrowseListed n res) s = (browse_listed n res s, [])"
| "browse_handle (BrowseSlow n) s = (browse_slow n s, [])"
| "browse_handle (BrowseToggle p) s = (s\<lparr>sb_selected := toggle_path p (sb_selected s)\<rparr>, [])"
| "browse_handle (BrowseStep b) s = (s\<lparr>sb_restoring := b\<rparr>, [])"
| "browse_handle (BrowseInPlace b) s = (s\<lparr>sb_inPlace := b\<rparr>, [])"
| "browse_handle (BrowseTarget t) s = (s\<lparr>sb_target := t\<rparr>, [])"
| "browse_handle (BrowseStopSite b) s = (s\<lparr>sb_stopSite := b\<rparr>, [])"
| "browse_handle BrowseDownload s = browse_download s"
| "browse_handle (BrowseDownloaded res) s = browse_started ''Could not start the download.'' res s"
| "browse_handle BrowseRestore s = browse_restore s"
| "browse_handle (BrowseRestored res) s = browse_started ''Could not start the restore.'' res s"
| "browse_handle (BrowseContainers n res) s = (s\<lparr>sb_containers := containers_reply n res (sb_containers s)\<rparr>, [])"
| "browse_handle (BrowseDocker b) s = (s\<lparr>sb_docker := b\<rparr>, [])"
| "browse_handle (BrowseDismiss b) s = (s, [Out b])"

definition browse_update :: "(browser, browse_msg, bool) update" where
  "browse_update m s = (let (s1, cs1) = browse_handle m s; (s2, cs2) = browse_commit s s1 in (s2, cs1 @ cs2))"

definition browse_mount :: "string \<Rightarrow> snapshot \<Rightarrow> bool \<Rightarrow> bool \<Rightarrow> browser \<times> browse_cmds" where
  "browse_mount repo sn stay docker =
     (let s = \<lparr>sb_repo = repo, sb_snapshot = sn, sb_stay = stay, sb_open = True, sb_path = '''',
          sb_state = \<lparr>ls_loading = True, ls_entries = [], ls_error = ''''\<rparr>, sb_gen = 0, sb_timer = False,
          sb_slow = False, sb_selected = [], sb_restoring = False, sb_inPlace = True, sb_target = '''',
          sb_stopSite = True, sb_busy = False, sb_docker = docker, sb_containers = containers_init\<rparr>
      in browse_load (s\<lparr>sb_path := browse_start s\<rparr>))"

section \<open>What it renders\<close>

definition covered :: "string list \<Rightarrow> string \<Rightarrow> bool" where
  "covered selected p = list_ex (\<lambda>x. x \<noteq> p \<and> within_path p x) selected"

definition entry_row :: "env \<Rightarrow> string list \<Rightarrow> entry \<Rightarrow> browse_msg ui" where
  "entry_row e selected en =
     (let dir = (en_type en = ''dir''); cov = covered selected (en_path en) in
      Node ''li'' []
       [Node ''input'' [At ''type'' ''checkbox'', Flag ''checked'' (en_path en \<in> set selected \<or> cov), Flag ''disabled'' cov,
          On ''change'' (BrowseToggle (en_path en)), At ''aria-label'' (''Select '' @ en_name en)] [],
        Icon (if dir then ''Folder'' else ''File''),
        (if dir then Node ''button'' [At ''type'' ''button'', On ''click'' (BrowsePath (en_path en))] [Txt (en_name en)]
         else Node ''span'' [] [Txt (en_name en)]),
        Node ''span'' [] [Txt (fmtBytes (en_size en))],
        Node ''span'' [] [Txt (if en_mtime en \<noteq> '''' then fmtRelative e (en_mtime en) else '''')]])"

definition listing_view :: "env \<Rightarrow> browser \<Rightarrow> browse_msg ui" where
  "listing_view e s =
     (let st = sb_state s in
      if ls_loading st then Node ''div'' [] ([Node ''Skeleton'' [] [], Node ''Skeleton'' [] [], Node ''Skeleton'' [] []] @
        shown (sb_slow s) [Node ''p'' [] [Txt (''Reading the snapshot's file list. The first time can take a minute on remote '' @
          ''storage; after that, folders open instantly.'')]])
      else if ls_error st \<noteq> '''' then Node ''p'' [] [Txt (ls_error st)]
      else if ls_entries st = [] then Node ''p'' [] [Txt ''This folder is empty.'']
      else Node ''ul'' [] (map (entry_row e (sb_selected s)) (ls_entries st)))"

definition browse_step :: "env \<Rightarrow> browser \<Rightarrow> browse_msg ui list" where
  "browse_step e s =
     (let n = length (sb_selected s) in
      [Node ''DialogHeader'' []
         [Node ''DialogTitle'' [] [Txt (''Files in snapshot '' @ shortId (sn_id (sb_snapshot s)))],
          Node ''DialogDescription'' [] [Txt (''Taken '' @ fmtRelative e (sn_time (sb_snapshot s)) @
            ''. Tick files or folders to restore or download just those.'')]],
       Node ''div'' [] [Breadcrumbs (sb_path s) BrowsePath, Node ''div'' [] [listing_view e s]],
       Node ''DialogFooter'' []
         [Node ''span'' [At ''class'' (if n \<noteq> 0 then ''font-medium text-primary'' else ''text-muted-foreground'')]
            [Txt (if n \<noteq> 0 then show_nat n @ '' selected'' else ''Nothing selected'')],
          Node ''Button'' [At ''type'' ''button'', On ''click'' BrowseDownload, Flag ''disabled'' (sb_busy s \<or> n = 0)]
            [Icon ''ArrowDownToLine'', Txt ''Download''],
          Node ''Button'' [At ''type'' ''button'', On ''click'' (BrowseStep True), Flag ''disabled'' (n = 0)]
            [Icon ''FolderInput'', Txt (''Restore'' @ ellipsis)]]])"

definition restore_step :: "browser \<Rightarrow> browse_msg ui" where
  "restore_step s =
     (let containers = ch_containers (sb_containers s) in
      Node ''form'' [On ''submit'' BrowseRestore]
       [Node ''DialogHeader'' []
          [Node ''DialogTitle'' [] [Txt (''Restore '' @ show_nat (length (sb_selected s)) @ '' selected item(s)'')],
           Node ''DialogDescription'' [] [Txt (''Each selected file or folder is replaced by its copy from the snapshot; files inside a '' @
             ''selected folder that are not in the snapshot are deleted. Nothing else is touched.'')]],
        Node ''div'' []
          ([Node ''ul'' [] (map (\<lambda>p. Node ''li'' [] [Mono [Txt p]]) (sb_selected s))] @
           shown (canInPlace s) [CheckOption (sb_inPlace s) BrowseInPlace False ''Put them back where they were''
             (if sb_inPlace s then ''In '' @ the (browse_root s) else ''Off: restore into the folder below instead'')] @
           shown (\<not> sb_inPlace s \<or> \<not> canInPlace s) [Field ''Restore into (absolute path)'' ''browse-target''
             ''The snapshot's full paths are recreated under this folder.''
             [Node ''Input'' [At ''id'' ''browse-target'', At ''value'' (sb_target s), OnText ''change'' BrowseTarget,
                At ''placeholder'' ''/tmp/restored''] []]] @
           shown (sb_inPlace s \<and> canInPlace s \<and> containers \<noteq> []) [CheckOption (sb_stopSite s) BrowseStopSite False
             ''Stop the site while restoring''
             (join '', '' (map ct_name containers) @ '' stop first and start again afterwards.'')]),
        Node ''DialogFooter'' []
          [Node ''Button'' [At ''type'' ''button'', On ''click'' (BrowseStep False)] [Txt ''Back''],
           Node ''Button'' [At ''type'' ''submit'', Flag ''disabled'' (sb_busy s \<or> destination s = '''')]
             [Txt (if sb_busy s then ''Starting'' @ ellipsis else ''Start restore'')]]])"

definition SnapshotBrowser :: "env \<Rightarrow> browser \<Rightarrow> browse_msg ui" where
  "SnapshotBrowser e s = Node ''Dialog'' [Flag ''open'' (sb_open s), OnBool ''openChange'' BrowseDismiss]
     [Node ''DialogContent'' [] (if \<not> sb_restoring s then browse_step e s else [restore_step s])]"

lemma Breadcrumbs_msgs: "msgs (Breadcrumbs path f) \<subseteq> range f"
proof -
  have "msgs_of (concat (map (\<lambda>(part, to, isLast). [Icon ''ChevronRight'',
      Node ''button'' ([At ''type'' ''button'', On ''click'' (f to)] @
        shown isLast [At ''class'' ''font-medium text-foreground'']) [Txt part]]) cs)) \<subseteq> range f" for cs
    by (induction cs) (auto split: if_splits)
  then show ?thesis by (auto simp: Breadcrumbs_def)
qed

lemma entry_row_msgs: "msgs (entry_row e selected en) \<subseteq> range BrowseToggle \<union> range BrowsePath"
  by (auto simp: entry_row_def Let_def)

lemma listing_view_msgs: "msgs (listing_view e s) \<subseteq> range BrowseToggle \<union> range BrowsePath"
proof -
  have "(\<Union>en \<in> A. msgs (entry_row e sel en)) \<subseteq> range BrowseToggle \<union> range BrowsePath" for A sel
    by (intro UN_least entry_row_msgs)
  then show ?thesis by (simp add: listing_view_def Let_def)
qed

lemma restore_step_msgs: "msgs (restore_step s) \<subseteq> range BrowseInPlace \<union> range BrowseTarget \<union> range BrowseStopSite
    \<union> {BrowseStep False} \<union> (if sb_busy s \<or> destination s = '''' then {} else {BrowseRestore})"
  by (auto simp: restore_step_def Mono_def Let_def)

lemma browse_step_msgs: "msgs_of (browse_step e s) \<subseteq> range BrowsePath \<union> range BrowseToggle \<union> {BrowseStep True}
    \<union> (if sb_busy s \<or> sb_selected s = [] then {} else {BrowseDownload})"
  by (auto simp: browse_step_def Let_def dest!: subsetD [OF Breadcrumbs_msgs] subsetD [OF listing_view_msgs])

lemma SnapshotBrowser_msgs: "msgs (SnapshotBrowser e s) \<subseteq>
    range BrowsePath \<union> range BrowseToggle \<union> range BrowseStep \<union> range BrowseInPlace \<union> range BrowseTarget
    \<union> range BrowseStopSite \<union> range BrowseDismiss
    \<union> (if sb_busy s \<or> sb_restoring s \<or> sb_selected s = [] then {} else {BrowseDownload})
    \<union> (if sb_busy s \<or> \<not> sb_restoring s \<or> destination s = '''' then {} else {BrowseRestore})"
proof (cases "sb_restoring s")
  case True
  then have "msgs (SnapshotBrowser e s) = range BrowseDismiss \<union> msgs (restore_step s)"
    by (auto simp: SnapshotBrowser_def)
  with True show ?thesis using restore_step_msgs [of s] by (auto split: if_splits)
next
  case False
  then have "msgs (SnapshotBrowser e s) = range BrowseDismiss \<union> msgs_of (browse_step e s)"
    by (auto simp: SnapshotBrowser_def)
  with False show ?thesis using browse_step_msgs [of e s] by (auto split: if_splits)
qed

section \<open>Paths again\<close>

lemma within_refl [simp]: "within_path p p"
  by (simp add: within_path_def)

lemma commonRoot_Some:
  assumes "commonRoot sn sel = Some r"
  shows "sel \<noteq> [] \<and> (\<forall>p \<in> set sel. within_path p r) \<and> (\<exists>s. sn = Some s \<and> r \<in> set (sn_paths s))"
  using assms find_Some_mem [of _ _ r] by (fastforce simp: commonRoot_def list_all_iff split: option.splits)

section \<open>What it sends\<close>

text \<open>
  A restore request is safe when it names what was ticked and a target that is not empty: in place,
  a backed-up folder of the snapshot holding every ticked path; only then may containers be stopped.
\<close>

definition restore_ok :: "browser \<Rightarrow> string \<Rightarrow> bool \<Rightarrow> bool" where
  "restore_ok s target stops \<longleftrightarrow> target \<noteq> ''''
     \<and> (if sb_inPlace s \<and> canInPlace s
        then (\<forall>p \<in> set (sb_selected s). within_path p target)
           \<and> target \<in> set (sn_paths (sb_snapshot s))
        else target = trim (sb_target s) \<and> \<not> stops)
     \<and> (stops \<longrightarrow> sb_stopSite s \<and> ch_containers (sb_containers s) \<noteq> [])"

lemmas browse_defs [handlers] = browse_reset_def browse_load_def browse_listed_def browse_slow_def
  browse_download_def browse_restore_def browse_started_def browse_answer_def browse_commit_def

lemma browse_commit_busy: "browse_commit b s = (s2, cs) \<Longrightarrow> sb_busy s2 = sb_busy s"
  by (auto simp: handlers Let_def split: if_splits option.splits prod.splits)

definition is_post :: "(browse_msg, bool) cmd \<Rightarrow> bool" where
  "is_post c = (case c of Call q k \<Rightarrow> q_method q = ''POST'' | _ \<Rightarrow> False)"

lemma is_post_simps [simp]:
  "\<not> is_post (Do ef)" "\<not> is_post (After n m)" "\<not> is_post (Out x)"
  "\<not> is_post (Call (Repositories_files a b c) k)" "\<not> is_post (Call (Docker_containersUsing p) k)"
  "is_post (Call (Repositories_download a b d) k)" "is_post (Call (Repositories_restore a b c d f) k)"
  by (simp_all add: is_post_def Repositories_files_def Docker_containersUsing_def Repositories_download_def
      Repositories_restore_def api_get_def api_post_def)

lemma browse_commit_posts: "browse_commit b s = (s2, cs) \<Longrightarrow> filter is_post cs = []"
  by (auto simp: handlers Let_def split: if_splits option.splits prod.splits)

definition browse_neutral :: "browse_msg set" where
  "browse_neutral = {m. (\<exists>n r. m = BrowseListed n r) \<or> (\<exists>n. m = BrowseSlow n) \<or> (\<exists>n r. m = BrowseContainers n r)}"

lemma browse_commit_replies:
  "browse_commit b s = (s2, cs) \<Longrightarrow> c \<in> set cs \<Longrightarrow> replies c \<subseteq> browse_neutral \<and> \<not> is_post c"
  by (auto simp: handlers browse_neutral_def Let_def split: if_splits option.splits prod.splits)

lemma browse_update_split:
  assumes "browse_update m s = (s', cs)"
  obtains s1 cs1 cs2 where "browse_handle m s = (s1, cs1)" "browse_commit s s1 = (s', cs2)" "cs = cs1 @ cs2"
  using assms by (auto simp: browse_update_def split: prod.splits)

interpretation browse_flight: single_flight browse_update "SnapshotBrowser e" "range BrowseOpen \<union> range BrowseDocker"
  "browse_mount repo sn stay docker" is_post sb_busy
  "range BrowseDownloaded \<union> range BrowseRestored" browse_neutral
  for e repo sn stay docker
proof unfold_locales
  fix m s s' and cs :: browse_cmds
  assume m: "m \<in> msgs (SnapshotBrowser e s) \<union> (range BrowseOpen \<union> range BrowseDocker)" and u: "browse_update m s = (s', cs)"
  from u obtain s1 cs1 cs2 where h: "browse_handle m s = (s1, cs1)" "browse_commit s s1 = (s', cs2)" "cs = cs1 @ cs2"
    by (rule browse_update_split)
  have "if filter is_post cs1 = [] then sb_busy s1 = sb_busy s
      else \<not> sb_busy s \<and> sb_busy s1 \<and> length (filter is_post cs1) = 1"
    using m h(1) SnapshotBrowser_msgs [of e s]
    by (cases m) (auto simp: browse_reset_def browse_download_def browse_restore_def split: if_splits)
  then show "if filter is_post cs = [] then sb_busy s' = sb_busy s
      else \<not> sb_busy s \<and> sb_busy s' \<and> length (filter is_post cs) = 1"
    using browse_commit_busy [OF h(2)] browse_commit_posts [OF h(2)] h(3) by (simp split: if_splits)
next
  fix m s s' c and cs :: browse_cmds
  assume u: "browse_update m s = (s', cs)" and c: "c \<in> set cs"
  from u obtain s1 cs1 cs2 where h: "browse_handle m s = (s1, cs1)" "browse_commit s s1 = (s', cs2)" "cs = cs1 @ cs2"
    by (rule browse_update_split)
  have "replies c \<subseteq> (if is_post c then range BrowseDownloaded \<union> range BrowseRestored else browse_neutral)"
    if "c \<in> set cs1"
    using that h(1)
    by (cases m) (auto simp: browse_download_def browse_restore_def browse_started_def browse_answer_def shown_def split: if_splits prod.splits)
  then show "replies c \<subseteq> (if is_post c then range BrowseDownloaded \<union> range BrowseRestored else browse_neutral)"
    using c h(3) browse_commit_replies [OF h(2), of c] by auto
next
  fix m s s' and cs :: browse_cmds
  assume m: "m \<in> range BrowseDownloaded \<union> range BrowseRestored" and u: "browse_update m s = (s', cs)"
  from u obtain s1 cs1 cs2 where h: "browse_handle m s = (s1, cs1)" "browse_commit s s1 = (s', cs2)" "cs = cs1 @ cs2"
    by (rule browse_update_split)
  have "filter is_post cs1 = [] \<and> \<not> sb_busy s1"
    using m h(1) by (auto simp: browse_started_def browse_answer_def filter_map comp_def shown_def split: prod.splits)
  then show "filter is_post cs = [] \<and> \<not> sb_busy s'"
    using browse_commit_busy [OF h(2)] browse_commit_posts [OF h(2)] h(3) by simp
next
  fix m s s' and cs :: browse_cmds
  assume m: "m \<in> browse_neutral" and u: "browse_update m s = (s', cs)"
  from u obtain s1 cs1 cs2 where h: "browse_handle m s = (s1, cs1)" "browse_commit s s1 = (s', cs2)" "cs = cs1 @ cs2"
    by (rule browse_update_split)
  have "cs1 = [] \<and> sb_busy s1 = sb_busy s"
    using m h(1) by (auto simp: browse_neutral_def browse_listed_def browse_slow_def split: if_splits)
  then show "filter is_post cs = [] \<and> sb_busy s' = sb_busy s"
    using browse_commit_busy [OF h(2)] browse_commit_posts [OF h(2)] h(3) by simp
next
  fix c :: "(browse_msg, bool) cmd"
  assume "is_post c"
  then show "awaits c" by (cases c) (auto simp: is_post_def)
qed (auto simp: browse_mount_def browse_load_def browse_neutral_def Let_def)

definition browse_outcome :: "browser \<Rightarrow> response \<Rightarrow> listing" where
  "browse_outcome s res =
     (if res_ok res then \<lparr>ls_loading = False,
        ls_entries = (case b_entries (body_of res) of None \<Rightarrow> [] | Some es \<Rightarrow> es), ls_error = ''''\<rparr>
      else \<lparr>ls_loading = False, ls_entries = [], ls_error = errorOf res ''Could not list this folder.''\<rparr>)"

interpretation browser_listing: guarded_load sb_gen browse_listed sb_state browse_outcome
  by unfold_locales (auto simp: browse_listed_def browse_outcome_def)

lemma destination_ok: "destination s \<noteq> '''' \<Longrightarrow> restore_ok s (destination s) (stop_containers s)"
  using commonRoot_Some [of "Some (sb_snapshot s)" "sb_selected s"]
  by (auto simp: restore_ok_def destination_def stop_containers_def canInPlace_def browse_root_def split: option.splits)

text \<open>
  C8. The browser starts one operation at a time and only what was ticked: however the user walks,
  ticks and clicks, at most one download or restore is in flight; a click that starts one sends the
  paths ticked, at least one for a download; a restore has a target, in place a folder the snapshot backed up
  that holds every ticked path, otherwise the path typed; and containers are stopped only in place.
\<close>

theorem snapshot_browser_requests:
  assumes "reach browse_update (SnapshotBrowser e) (range BrowseOpen \<union> range BrowseDocker)
      (browse_mount repo sn stay docker) s p"
    and "m \<in> msgs (SnapshotBrowser e s)" and "c \<in> set (snd (browse_update m s))" and "is_post c"
  shows "length (filter is_post p) = 0
    \<and> (m = BrowseDownload \<and> sb_selected s \<noteq> [] \<and>
         c = Call (Repositories_download (sb_repo s) (sn_id (sb_snapshot s)) (Some (sb_selected s))) BrowseDownloaded
       \<or> m = BrowseRestore \<and> restore_ok s (destination s) (stop_containers s) \<and>
         c = Call (Repositories_restore (sb_repo s) (sn_id (sb_snapshot s)) (destination s) (Some (sb_selected s))
               (Some (stop_containers s))) BrowseRestored)"
proof -
  obtain s' cs where u: "browse_update m s = (s', cs)" by (metis surj_pair)
  then obtain s1 cs1 cs2 where h: "browse_handle m s = (s1, cs1)" "browse_commit s s1 = (s', cs2)" "cs = cs1 @ cs2"
    by (rule browse_update_split)
  then have "c \<in> set cs1" using assms(3,4) u browse_commit_posts [OF h(2)] h(3) by (auto simp: filter_empty_conv)
  then have sent: "(m = BrowseDownload \<and> c = Call (Repositories_download (sb_repo s) (sn_id (sb_snapshot s)) (Some (sb_selected s))) BrowseDownloaded
     \<or> m = BrowseRestore \<and> destination s \<noteq> '''' \<and> c = Call (Repositories_restore (sb_repo s) (sn_id (sb_snapshot s))
         (destination s) (Some (sb_selected s)) (Some (stop_containers s))) BrowseRestored)"
    using h(1) assms(2,4) SnapshotBrowser_msgs [of e s]
    by (cases m) (auto simp: browse_download_def browse_restore_def split: if_splits)
  have m: "m \<in> {BrowseDownload, BrowseRestore} \<Longrightarrow> \<not> sb_busy s" "m = BrowseDownload \<Longrightarrow> sb_selected s \<noteq> []"
    using assms(2) SnapshotBrowser_msgs [of e s] by (auto split: if_splits)
  with sent have "\<not> sb_busy s" by auto
  then show ?thesis using sent m destination_ok browse_flight.idle_none [OF assms(1)] by auto
qed

definition site_listing :: response where
  "site_listing = ok_body (empty_body\<lparr>b_entries := Some [\<lparr>en_name = ''a'', en_path = ''/srv/site/a'', en_type = ''file'',
     en_size = 1, en_mtime = ''''\<rparr>]\<rparr>)"

theorem snapshot_browser_requests_witness:
  "\<exists>s p c. reach browse_update (SnapshotBrowser sample_env) (range BrowseOpen \<union> range BrowseDocker)
       (browse_mount ''p1'' sample_snapshot False False) s p
     \<and> c \<in> set (snd (browse_update BrowseDownload s)) \<and> is_post c \<and> length (filter is_post p) = 0"
proof -
  let ?R = "reach browse_update (SnapshotBrowser sample_env) (range BrowseOpen \<union> range BrowseDocker)
       (browse_mount ''p1'' sample_snapshot False False)"
  define s0 where "s0 = fst (browse_mount ''p1'' sample_snapshot False False)"
  define s1 where "s1 = fst (browse_update (BrowseListed 1 site_listing) s0)"
  define s2 where "s2 = fst (browse_update (BrowseToggle ''/srv/site/a'') s1)"
  let ?timer = "After 6000 (BrowseSlow 1)"
  let ?call = "Call (Repositories_files ''p1'' ''abc'' ''/srv/site'') (BrowseListed 1)"
  have mount: "browse_mount ''p1'' sample_snapshot False False = (s0, [?timer, ?call])"
    by (simp add: s0_def browse_mount_def browse_load_def browse_start_def sample_snapshot_def Let_def)
  have "?R s0 ([?timer] @ ?call # [])"
    using reach.mount [of "browse_mount ''p1'' sample_snapshot False False", OF mount, where upd = browse_update] by simp
  then have "?R s1 ([?timer] @ [] @ awaiting [])"
    by (rule reach.reply [where m = "BrowseListed 1 site_listing"])
      (simp_all add: s1_def s0_def browse_update_def browse_commit_def browse_listed_def watched_path_def browse_mount_def
        browse_load_def Let_def)
  then have "?R s2 (([?timer] @ [] @ awaiting []) @ awaiting [])"
    by (rule reach.act [where m = "BrowseToggle ''/srv/site/a''"])
      (simp_all add: s2_def s1_def s0_def browse_update_def browse_commit_def browse_listed_def watched_path_def
        browse_mount_def browse_load_def SnapshotBrowser_def browse_step_def listing_view_def entry_row_def covered_def
        site_listing_def ok_body_def body_of_def Let_def)
  moreover have m: "BrowseDownload \<in> msgs (SnapshotBrowser sample_env s2)"
    by (simp add: s2_def s1_def s0_def browse_update_def browse_commit_def browse_listed_def watched_path_def
        browse_mount_def browse_load_def SnapshotBrowser_def browse_step_def toggle_path_def Let_def)
  moreover have "\<exists>c. c \<in> set (snd (browse_update BrowseDownload s2)) \<and> is_post c"
    by (rule exI [of _ "Call (Repositories_download (sb_repo s2) (sn_id (sb_snapshot s2)) (Some (sb_selected s2))) BrowseDownloaded"])
      (simp add: browse_update_def browse_download_def split_beta)
  ultimately show ?thesis using snapshot_browser_requests [OF _ m] by blast
qed

text \<open>
  The files listed are those of the folder in the breadcrumbs: opening a folder asks for that folder of
  that snapshot, and whatever late answers for folders left earlier come before or after its own,
  what is listed at the end is its answer, or its error.
\<close>

theorem browser_lists_current_folder:
  assumes "browse_load prev = (s, cs)" and "sb_open prev"
    and "ds = as @ (sb_gen s, res) # bs" and "\<forall>d \<in> set as \<union> set bs. fst d \<noteq> sb_gen s"
  defines "t \<equiv> fold (\<lambda>(n, r). browse_listed n r) ds s"
  shows "Call (Repositories_files (sb_repo s) (sn_id (sb_snapshot s)) (sb_path s)) (BrowseListed (sb_gen s)) \<in> set cs
    \<and> ls_loading (sb_state s) \<and> \<not> ls_loading (sb_state t)
    \<and> (res_ok res \<longrightarrow> ls_error (sb_state t) = '''' \<and>
        ls_entries (sb_state t) = (case b_entries (body_of res) of None \<Rightarrow> [] | Some es \<Rightarrow> es))
    \<and> (\<not> res_ok res \<longrightarrow> ls_error (sb_state t) \<noteq> '''' \<and> ls_entries (sb_state t) = [])"
proof -
  have "errorOf res ''Could not list this folder.'' \<noteq> ''''" by (rule errorOf_nonempty) simp
  moreover have "sb_state t = browse_outcome s res"
    using browser_listing.newest_wins [OF assms(3,4)] by (simp add: t_def browser_listing.deliver_all_def)
  ultimately show ?thesis
    using assms(1,2) by (auto simp: browse_load_def browse_outcome_def Let_def)
qed

theorem browser_lists_current_folder_witness:
  "ls_entries (sb_state (fold (\<lambda>(n, r). browse_listed n r) [(2, site_listing), (1, ok_body empty_body)]
     (fst (browse_load (fst (browse_mount ''p1'' sample_snapshot False False)))))) \<noteq> []"
proof -
  let ?prev = "fst (browse_mount ''p1'' sample_snapshot False False)"
  obtain s cs where l: "browse_load ?prev = (s, cs)" by (metis surj_pair)
  then have "sb_gen s = 2" "sb_open ?prev"
    by (auto simp: browse_load_def browse_mount_def Let_def)
  then show ?thesis
    using browser_lists_current_folder [OF l, of "[(2, site_listing), (1, ok_body empty_body)]" "[]" site_listing
        "[(1, ok_body empty_body)]"] l
    by (simp add: site_listing_def ok_body_def body_of_def)
qed

end
