(* ===== verification/DbRestore.thy ===== *)
theory DbRestore
  imports Widgets SnapshotTags StartRun
begin

text \<open>
  \<open>src/ui/src/components/db-restore-dialog.jsx\<close>: the dialog that restores a database dump, over
  the live database after its name was typed, or into a new database next to it. The props the
  effect depends on arrive with \<open>DrProps\<close>; a load of the databases is numbered by the run of the
  effect that asked. The outgoing value is the argument of \<open>onOpenChange\<close>.
\<close>

section \<open>State and handlers\<close>

record db_restore =
  dr_repo :: string
  dr_snapshot :: snapshot
  dr_defaultId :: "string option"
  dr_stay :: bool
  dr_open :: bool
  dr_sources :: "database list option"
  dr_sourceId :: string
  dr_mode :: string
  dr_into :: string
  dr_safety :: bool
  dr_typed :: string
  dr_busy :: bool
  dr_gen :: nat

datatype db_msg = DrProps bool snapshot "string option" | DrListed nat response | DrSource string | DrMode string
  | DrInto string | DrSafety bool | DrTyped string | DrSubmit | DrStarted response | DrDismiss bool

type_synonym db_cmds = "(db_msg, bool) cmd list"

definition dr_engine :: "db_restore \<Rightarrow> string" where
  "dr_engine s = snapshotEngine (Some (dr_snapshot s))"

definition dr_dumped :: "db_restore \<Rightarrow> string" where
  "dr_dumped s = dumpDatabaseName (Some (dr_snapshot s))"

text \<open>The effect, after the cleanup of its run before (which makes that run's answer count for nothing).\<close>

definition dr_effect :: "db_restore \<Rightarrow> db_restore \<times> db_cmds" where
  "dr_effect s0 =
     (let s = s0\<lparr>dr_gen := Suc (dr_gen s0)\<rparr> in
      if \<not> dr_open s then (s, [])
      else (s\<lparr>dr_mode := ''replace'', dr_into := dr_dumped s @ ''_restored'', dr_safety := True, dr_typed := '''',
              dr_sources := None\<rparr>, [Call Databases_list (DrListed (dr_gen s))]))"

text \<open>A dump only restores into the engine it came from.\<close>

definition dr_candidates :: "db_restore \<Rightarrow> response \<Rightarrow> database list" where
  "dr_candidates s res = filter (\<lambda>d. ds_engine d = dr_engine s)
     (case b_databases (body_of res) of None \<Rightarrow> [] | Some ds \<Rightarrow> ds)"

definition dr_preferred :: "db_restore \<Rightarrow> database list \<Rightarrow> database option" where
  "dr_preferred s ds = (case find (\<lambda>d. Some (ds_id d) = dr_defaultId s) ds of
     Some d \<Rightarrow> Some d
   | None \<Rightarrow> (case find (\<lambda>d. ds_database d = dr_dumped s) ds of
       Some d \<Rightarrow> Some d | None \<Rightarrow> (case ds of [] \<Rightarrow> None | d # _ \<Rightarrow> Some d)))"

definition dr_listed :: "nat \<Rightarrow> response \<Rightarrow> db_restore \<Rightarrow> db_restore" where
  "dr_listed n res s = (if n \<noteq> dr_gen s then s
     else let ds = dr_candidates s res
       in s\<lparr>dr_sources := Some ds, dr_sourceId := opt_str ds_id (dr_preferred s ds) ''''\<rparr>)"

definition dr_source :: "db_restore \<Rightarrow> database option" where
  "dr_source s = find (\<lambda>d. ds_id d = dr_sourceId s) (case dr_sources s of None \<Rightarrow> [] | Some ds \<Rightarrow> ds)"

definition dr_target :: "db_restore \<Rightarrow> string" where
  "dr_target s = (if dr_mode s = ''replace'' then opt_str ds_database (dr_source s) '''' else trim (dr_into s))"

definition dr_ready :: "db_restore \<Rightarrow> bool" where
  "dr_ready s \<longleftrightarrow> (case dr_source s of None \<Rightarrow> False
     | Some d \<Rightarrow> dr_target s \<noteq> '''' \<and> (dr_mode s = ''copy'' \<or> dr_typed s = ds_database d))"

definition restore_db_body :: "string \<Rightarrow> string \<Rightarrow> string \<Rightarrow> bool \<Rightarrow> json" where
  "restore_db_body snapshotId databaseId into safetyBackup =
     JObj [(''snapshotId'', JStr snapshotId), (''databaseId'', JStr databaseId), (''into'', JStr into),
       (''safetyBackup'', JBool safetyBackup)]"

definition dr_start :: "db_restore \<Rightarrow> db_restore \<times> db_cmds" where
  "dr_start s = (if \<not> dr_ready s then (s, [])
     else (s\<lparr>dr_busy := True\<rparr>,
       [Call (Repositories_restoreDb (dr_repo s) (restore_db_body (sn_id (dr_snapshot s)) (opt_str ds_id (dr_source s) '''')
          (if dr_mode s = ''copy'' then dr_target s else '''') (dr_safety s))) DrStarted]))"

text \<open>What runs once the server answered, also when the dialog is gone by then.\<close>

definition dr_answer :: "bool \<Rightarrow> response \<Rightarrow> db_cmds" where
  "dr_answer stay res = (let (started, es) = handleStartResponse res ''Could not start the database restore.'' stay
     in map Do es @ shown started [Out False])"

definition dr_started :: "response \<Rightarrow> db_restore \<Rightarrow> db_restore \<times> db_cmds" where
  "dr_started res s = (s\<lparr>dr_busy := False\<rparr>, dr_answer (dr_stay s) res)"

text \<open>New props: the effect runs when what it depends on changed.\<close>

definition dr_props :: "bool \<Rightarrow> snapshot \<Rightarrow> string option \<Rightarrow> db_restore \<Rightarrow> db_restore \<times> db_cmds" where
  "dr_props isOpen sn d s =
     (let t = s\<lparr>dr_open := isOpen, dr_snapshot := sn, dr_defaultId := d\<rparr>
      in if dr_open t = dr_open s \<and> dr_engine t = dr_engine s \<and> dr_dumped t = dr_dumped s \<and> dr_defaultId t = dr_defaultId s
         then (t, []) else dr_effect t)"

primrec dr_update :: "(db_restore, db_msg, bool) update" where
  "dr_update (DrProps b sn d) s = dr_props b sn d s"
| "dr_update (DrListed n res) s = (dr_listed n res s, [])"
| "dr_update (DrSource i) s = (s\<lparr>dr_sourceId := i\<rparr>, [])"
| "dr_update (DrMode m) s = (s\<lparr>dr_mode := m\<rparr>, [])"
| "dr_update (DrInto t) s = (s\<lparr>dr_into := t\<rparr>, [])"
| "dr_update (DrSafety b) s = (s\<lparr>dr_safety := b\<rparr>, [])"
| "dr_update (DrTyped t) s = (s\<lparr>dr_typed := t\<rparr>, [])"
| "dr_update DrSubmit s = dr_start s"
| "dr_update (DrStarted res) s = dr_started res s"
| "dr_update (DrDismiss b) s = (s, [Out b])"

definition dr_mount :: "string \<Rightarrow> snapshot \<Rightarrow> string option \<Rightarrow> bool \<Rightarrow> bool \<Rightarrow> db_restore \<times> db_cmds" where
  "dr_mount repo sn d stay isOpen = dr_effect
     \<lparr>dr_repo = repo, dr_snapshot = sn, dr_defaultId = d, dr_stay = stay, dr_open = isOpen, dr_sources = None,
      dr_sourceId = '''', dr_mode = ''replace'', dr_into = '''', dr_safety = True, dr_typed = '''', dr_busy = False,
      dr_gen = 0\<rparr>"

section \<open>What it renders\<close>

definition db_label :: "database \<Rightarrow> string" where
  "db_label d = ds_name d @ '' '' @ em_dash @ '' '' @ ds_database d @ '' on '' @ ds_container d"

definition dr_name :: "db_restore \<Rightarrow> string" where
  "dr_name s = (case dr_source s of None \<Rightarrow> '''' | Some d \<Rightarrow> ds_database d)"

definition dr_replace_fields :: "db_restore \<Rightarrow> db_msg ui list" where
  "dr_replace_fields s =
     [Callout ''destructive'' None '''' [Mono [Txt (dr_name s)],
        Txt ('' is replaced by this snapshot: rows and tables added since it was taken are gone, and apps using it '' @
          ''lose their connections for a moment.'' @
          (if dr_engine s = ''postgres'' then '' The backup is imported into a temporary database first, so the live '' @
             ''one stays untouched until the import is complete.'' else ''''))],
      Node ''div'' []
        [Node ''Label'' [At ''htmlFor'' ''db-restore-confirm''] [Txt ''Type '', Mono [Txt (dr_name s)], Txt '' to confirm''],
         Node ''Input'' [At ''id'' ''db-restore-confirm'', At ''value'' (dr_typed s), OnText ''change'' DrTyped] []]]"

definition dr_copy_fields :: "db_restore \<Rightarrow> db_msg ui list" where
  "dr_copy_fields s = [Field ''New database name'' ''db-restore-into''
     (''Created on the same server next to the live database, which is not touched. If a database with this name '' @
      ''exists, it is replaced.'')
     [Node ''Input'' [At ''id'' ''db-restore-into'', At ''value'' (dr_into s), OnText ''change'' DrInto] []]]"

definition dr_fields :: "db_restore \<Rightarrow> db_msg ui" where
  "dr_fields s = Node ''div'' []
     ([Field ''Database server'' ''db-restore-source'' ''''
         [Select (dr_sourceId s) DrSource ''db-restore-source''
            (map (\<lambda>d. (ds_id d, db_label d)) (case dr_sources s of None \<Rightarrow> [] | Some ds \<Rightarrow> ds))],
       Segmented [(''replace'', ''Replace '' @ opt_str ds_database (dr_source s) ''the database'', Some ''RefreshCcw''),
           (''copy'', ''As a new database'', Some ''CopyPlus'')] (dr_mode s) DrMode None ''How to restore''] @
      (if dr_mode s = ''replace'' then dr_replace_fields s else dr_copy_fields s) @
      [CheckOption (dr_safety s) DrSafety False ''Take a safety backup first''
         (''The current database is saved as a snapshot before it is replaced, and put back automatically if the '' @
          ''import fails.'')])"

definition DbRestoreDialog :: "env \<Rightarrow> db_restore \<Rightarrow> db_msg ui" where
  "DbRestoreDialog e s = Dialog (dr_open s) DrDismiss [Node ''form'' [On ''submit'' DrSubmit]
     [Node ''DialogHeader'' []
        [Node ''DialogTitle'' [] [Txt (''Restore database from '' @ shortId (sn_id (dr_snapshot s)))],
         Node ''DialogDescription'' [] [Txt (engineLabel (dr_engine s) @ '' dump of ''), Mono [Txt (dr_dumped s)],
           Txt ('', taken '' @ fmtRelative e (sn_time (dr_snapshot s)) @ ''.'')]],
      (if dr_sources s = Some [] then Callout ''warning'' None (''No '' @ engineLabel (dr_engine s) @ '' database to restore into'')
           [Txt ''Add one from the Coolify/Docker page first.'']
       else dr_fields s),
      Node ''DialogFooter'' []
        [Node ''Button'' [At ''type'' ''button'', On ''click'' (DrDismiss False)] [Txt ''Cancel''],
         Node ''Button'' [At ''type'' ''submit'', At ''variant'' (if dr_mode s = ''replace'' then ''destructive'' else ''default''),
             Flag ''disabled'' (dr_busy s \<or> \<not> dr_ready s)]
           [Txt (if dr_busy s then ''Starting'' @ ellipsis else if dr_mode s = ''replace'' then ''Replace database'' else ''Restore copy'')]]]]"

lemma dr_fields_msgs [simp]: "msgs (dr_fields s) =
    DrSource ` ds_id ` set (case dr_sources s of None \<Rightarrow> [] | Some ds \<Rightarrow> ds) \<union> {DrMode ''replace'', DrMode ''copy''} \<union>
    range DrSafety \<union> (if dr_mode s = ''replace'' then range DrTyped else range DrInto)" "\<not> can_submit (dr_fields s)"
  by (auto simp: dr_fields_def dr_replace_fields_def dr_copy_fields_def Segmented_msgs image_image)

lemma DbRestoreDialog_msgs: "msgs (DbRestoreDialog e s) \<subseteq>
    range DrDismiss \<union> range DrSource \<union> range DrMode \<union> range DrSafety \<union> range DrTyped \<union> range DrInto
    \<union> (if dr_open s \<and> \<not> dr_busy s \<and> dr_ready s then {DrSubmit} else {})"
  by (auto simp: DbRestoreDialog_def split: if_splits)

lemma DbRestoreDialog_act:
  assumes "m \<in> msgs (DbRestoreDialog e s)"
  shows "m = DrSubmit \<Longrightarrow> dr_open s \<and> \<not> dr_busy s \<and> dr_ready s" "m \<noteq> DrStarted res" "m \<noteq> DrListed n res"
  using subsetD [OF DbRestoreDialog_msgs assms] by (auto split: if_splits)

section \<open>What it sends\<close>

lemmas db_defs [handlers] = dr_start_def dr_started_def dr_answer_def

abbreviation db_env :: "db_msg set" where
  "db_env \<equiv> {m. \<exists>b sn d. m = DrProps b sn d}"

definition is_restore :: "(db_msg, bool) cmd \<Rightarrow> bool" where
  "is_restore c = (case c of Call q k \<Rightarrow> q_method q = ''POST'' | _ \<Rightarrow> False)"

lemma is_restore_simps [simp]:
  "\<not> is_restore (Do e)" "\<not> is_restore (Out x)" "\<not> is_restore (Call Databases_list k)"
  "is_restore (Call (Repositories_restoreDb r b) k)"
  by (simp_all add: is_restore_def Databases_list_def Repositories_restoreDb_def api_get_def api_post_def)

text \<open>What the effect changes and sends, and what a new answer leaves alone.\<close>

lemma dr_effect_frame:
  assumes "dr_effect s = (s', cs)"
  shows "dr_busy s' = dr_busy s \<and> filter is_restore cs = [] \<and>
    (\<forall>c \<in> set cs. \<not> is_restore c \<and> replies c \<subseteq> {m. \<exists>n r. m = DrListed n r})"
  using assms by (auto simp: dr_effect_def Let_def split: if_splits)

lemma dr_props_frame:
  assumes "dr_props b sn d s = (s', cs)"
  shows "dr_busy s' = dr_busy s \<and> filter is_restore cs = [] \<and>
    (\<forall>c \<in> set cs. \<not> is_restore c \<and> replies c \<subseteq> {m. \<exists>n r. m = DrListed n r})"
proof -
  let ?t = "s\<lparr>dr_open := b, dr_snapshot := sn, dr_defaultId := d\<rparr>"
  have "(s', cs) = (?t, []) \<or> dr_effect ?t = (s', cs)"
    using assms unfolding dr_props_def Let_def by metis
  then show ?thesis using dr_effect_frame by fastforce
qed

lemma dr_listed_frame [simp]: "dr_busy (dr_listed n res s) = dr_busy s"
  by (simp add: dr_listed_def Let_def)

interpretation db_flight: single_flight dr_update "DbRestoreDialog e" db_env "dr_mount repo sn d stay isOpen"
  is_restore dr_busy "range DrStarted" "{m. \<exists>n r. m = DrListed n r}"
  for e repo sn d stay isOpen
proof unfold_locales
  fix m s s' and cs :: db_cmds
  assume "m \<in> msgs (DbRestoreDialog e s) \<union> db_env" "dr_update m s = (s', cs)"
  then show "if filter is_restore cs = [] then dr_busy s' = dr_busy s
      else \<not> dr_busy s \<and> dr_busy s' \<and> length (filter is_restore cs) = 1"
    by (cases m) (auto simp: handlers dest: DbRestoreDialog_act dest!: dr_props_frame split: if_splits)
next
  fix m s s' c and cs :: db_cmds
  assume "dr_update m s = (s', cs)" "c \<in> set cs"
  then show "replies c \<subseteq> (if is_restore c then range DrStarted else {m. \<exists>n r. m = DrListed n r})"
    by (cases m) (auto simp: handlers dest!: dr_props_frame split: if_splits prod.splits)
next
  fix s and cs :: db_cmds
  assume "dr_mount repo sn d stay isOpen = (s, cs)"
  then show "filter is_restore cs = [] \<and> \<not> dr_busy s \<and> (\<forall>c \<in> set cs. replies c \<subseteq> {m. \<exists>n r. m = DrListed n r})"
    by (auto simp: dr_mount_def dest!: dr_effect_frame)
next
  fix c :: "(db_msg, bool) cmd"
  assume "is_restore c"
  then show "awaits c" by (cases c) (auto simp: is_restore_def)
qed (auto simp: handlers filter_map comp_def shown_def split: prod.splits)

text \<open>The databases offered are of the dump's engine: an answer is used only by the effect run that asked.\<close>

definition dr_inv :: "db_restore \<Rightarrow> db_cmds \<Rightarrow> bool" where
  "dr_inv s p \<longleftrightarrow> (dr_open s \<longrightarrow> pred_option (list_all (\<lambda>d. ds_engine d = dr_engine s)) (dr_sources s))"

lemma dr_effect_inv: "dr_inv (fst (dr_effect s)) p"
  by (simp add: dr_inv_def dr_effect_def Let_def)

lemma dr_update_inv:
  assumes "dr_inv s p" and "dr_update m s = (s', cs)"
  shows "dr_inv s' p'"
proof (cases m)
  case (DrProps b sn d)
  let ?t = "s\<lparr>dr_open := b, dr_snapshot := sn, dr_defaultId := d\<rparr>"
  show ?thesis
  proof (cases "dr_open ?t = dr_open s \<and> dr_engine ?t = dr_engine s \<and> dr_dumped ?t = dr_dumped s \<and> dr_defaultId ?t = dr_defaultId s")
    case True
    then have "dr_props b sn d s = (?t, [])" unfolding dr_props_def Let_def by (rule if_P)
    then have "s' = ?t" using assms(2) DrProps by simp
    moreover have "dr_sources ?t = dr_sources s" by simp
    ultimately show ?thesis using True assms(1) unfolding dr_inv_def by metis
  next
    case False
    then have "s' = fst (dr_effect ?t)" using assms(2) DrProps by (auto simp: dr_props_def Let_def)
    then show ?thesis using dr_effect_inv [of ?t] by (simp add: dr_inv_def)
  qed
next
  case (DrListed n res)
  then show ?thesis
    using assms by (auto simp: dr_inv_def dr_listed_def dr_engine_def dr_candidates_def list_all_iff Let_def)
qed (use assms in \<open>auto simp: dr_inv_def dr_engine_def handlers split: if_splits prod.splits\<close>)

interpretation db_sources: component dr_update "DbRestoreDialog e" db_env "dr_mount repo sn d stay isOpen" dr_inv
  for e repo sn d stay isOpen
proof unfold_locales
  fix s cs
  assume "dr_mount repo sn d stay isOpen = (s, cs)"
  then show "dr_inv s (awaiting cs)" using dr_effect_inv by (metis dr_mount_def fst_conv)
qed (rule dr_update_inv; assumption)+

lemma dr_source_mem: "dr_source s = Some d \<Longrightarrow> ds_id d = dr_sourceId s \<and> (\<exists>ds. dr_sources s = Some ds \<and> d \<in> set ds)"
  by (auto simp: dr_source_def dest: find_Some_mem split: option.splits)


definition shop_dump :: snapshot where
  "shop_dump = sample_snapshot\<lparr>sn_tags := [''resticweb-db:postgres''], sn_paths := [''/shop.sql'']\<rparr>"

definition shop_databases :: response where
  "shop_databases = ok_body (empty_body\<lparr>b_databases := Some
     [\<lparr>ds_id = ''m1'', ds_name = ''Blog'', ds_engine = ''mysql'', ds_container = ''blog'', ds_database = ''shop''\<rparr>,
      \<lparr>ds_id = ''d1'', ds_name = ''Shop'', ds_engine = ''postgres'', ds_container = ''pg'', ds_database = ''shop''\<rparr>]\<rparr>)"

lemma shop_dump_facts:
  "snapshotEngine (Some shop_dump) = ''postgres''" "dumpDatabaseName (Some shop_dump) = ''shop''"
  unfolding shop_dump_def sample_defs by code_simp+


end
