(* ===== verification/RestoreDialog.thy ===== *)
theory RestoreDialog
  imports Widgets Hooks StartRun
begin

text \<open>
  \<open>RestoreDialog\<close> of \<open>src/ui/src/components/snapshots-panel.jsx\<close>: the dialog that restores a
  whole snapshot, into the job's folder or a path that is typed. The outgoing value is the argument
  of \<open>onOpenChange\<close>.
\<close>

section \<open>State and handlers\<close>

record restore_dialog =
  rd_repo :: string
  rd_snapshot :: snapshot
  rd_default :: string
  rd_stay :: bool
  rd_open :: bool
  rd_custom :: bool
  rd_target :: string
  rd_stopSite :: bool
  rd_busy :: bool
  rd_docker :: bool
  rd_containers :: containers_hook

datatype rd_msg = RdOpen bool | RdDocker bool | RdCustom bool | RdStopSite bool | RdTarget string | RdContainers nat response
  | RdSubmit | RdStarted response | RdDismiss bool

type_synonym rd_cmds = "(rd_msg, bool) cmd list"

definition rd_hasDefault :: "restore_dialog \<Rightarrow> bool" where
  "rd_hasDefault s \<longleftrightarrow> trim (rd_default s) \<noteq> ''''"

definition rd_destination :: "restore_dialog \<Rightarrow> string" where
  "rd_destination s = trim (if rd_custom s then rd_target s else rd_default s)"

text \<open>The path whose containers are asked for.\<close>

definition rd_watched :: "restore_dialog \<Rightarrow> string" where
  "rd_watched s = (if rd_open s \<and> rd_hasDefault s \<and> \<not> rd_custom s then rd_destination s else '''')"

text \<open>The effect on \<open>[open, hasDefault, defaultTarget]\<close>.\<close>

definition rd_reset :: "restore_dialog \<Rightarrow> restore_dialog" where
  "rd_reset s = (if \<not> rd_open s then s
     else s\<lparr>rd_custom := \<not> rd_hasDefault s, rd_target := (if rd_hasDefault s then trim (rd_default s) else ''''),
            rd_stopSite := True\<rparr>)"

text \<open>\<open>useContainersUsing\<close> runs its effect for the path now watched.\<close>

definition rd_watch :: "restore_dialog \<Rightarrow> restore_dialog \<times> rd_cmds" where
  "rd_watch s = (let (hook, ask) = containers_effect (rd_docker s) (rd_watched s) (rd_containers s)
     in (s\<lparr>rd_containers := hook\<rparr>,
         case ask of None \<Rightarrow> [] | Some p \<Rightarrow> [Call (Docker_containersUsing p) (RdContainers (ch_run hook))]))"

definition rd_commit :: "restore_dialog \<Rightarrow> restore_dialog \<Rightarrow> restore_dialog \<times> rd_cmds" where
  "rd_commit before s =
     (if rd_watched s = rd_watched before \<and> rd_docker s = rd_docker before then (s, []) else rd_watch s)"

text \<open>Asking for a different path starts from the default one.\<close>

definition rd_setCustom :: "bool \<Rightarrow> restore_dialog \<Rightarrow> restore_dialog" where
  "rd_setCustom on s = s\<lparr>rd_custom := on,
     rd_target := (if on \<and> trim (rd_target s) = '''' then trim (rd_default s) else rd_target s)\<rparr>"

definition rd_stops :: "restore_dialog \<Rightarrow> bool" where
  "rd_stops s \<longleftrightarrow> rd_stopSite s \<and> ch_containers (rd_containers s) \<noteq> []"

definition rd_start :: "restore_dialog \<Rightarrow> restore_dialog \<times> rd_cmds" where
  "rd_start s = (if rd_destination s = '''' then (s, [])
     else (s\<lparr>rd_busy := True\<rparr>, [Call (Repositories_restore (rd_repo s) (sn_id (rd_snapshot s)) (rd_destination s)
        None (Some (rd_stops s))) RdStarted]))"

text \<open>What runs once the server answered, also when the dialog is gone by then.\<close>

definition rd_answer :: "bool \<Rightarrow> response \<Rightarrow> rd_cmds" where
  "rd_answer stay res = (let (started, es) = handleStartResponse res ''Could not start the restore.'' stay
     in map Do es @ shown started [Out False])"

primrec rd_handle :: "rd_msg \<Rightarrow> restore_dialog \<Rightarrow> restore_dialog \<times> rd_cmds" where
  "rd_handle (RdOpen b) s = (if b = rd_open s then s else rd_reset (s\<lparr>rd_open := b\<rparr>), [])"
| "rd_handle (RdDocker b) s = (s\<lparr>rd_docker := b\<rparr>, [])"
| "rd_handle (RdCustom b) s = (rd_setCustom b s, [])"
| "rd_handle (RdStopSite b) s = (s\<lparr>rd_stopSite := b\<rparr>, [])"
| "rd_handle (RdTarget t) s = (s\<lparr>rd_target := t\<rparr>, [])"
| "rd_handle (RdContainers n res) s = (s\<lparr>rd_containers := containers_reply n res (rd_containers s)\<rparr>, [])"
| "rd_handle RdSubmit s = rd_start s"
| "rd_handle (RdStarted res) s = (s\<lparr>rd_busy := False\<rparr>, rd_answer (rd_stay s) res)"
| "rd_handle (RdDismiss b) s = (s, [Out b])"

definition rd_update :: "(restore_dialog, rd_msg, bool) update" where
  "rd_update m s = (let (s1, cs1) = rd_handle m s; (s2, cs2) = rd_commit s s1 in (s2, cs1 @ cs2))"

text \<open>At mount both effects run; the containers are those of the first render, which agrees with the second.\<close>

definition rd_mount :: "string \<Rightarrow> snapshot \<Rightarrow> string \<Rightarrow> bool \<Rightarrow> bool \<Rightarrow> bool \<Rightarrow> restore_dialog \<times> rd_cmds" where
  "rd_mount repo sn def stay isOpen docker =
     (let s = \<lparr>rd_repo = repo, rd_snapshot = sn, rd_default = def, rd_stay = stay, rd_open = isOpen, rd_custom = False,
          rd_target = '''', rd_stopSite = True, rd_busy = False, rd_docker = docker, rd_containers = containers_init\<rparr>
      in rd_watch (rd_reset s))"

section \<open>What it renders\<close>

definition rd_fields :: "restore_dialog \<Rightarrow> rd_msg ui list" where
  "rd_fields s =
     (let containers = ch_containers (rd_containers s) in
      shown (rd_hasDefault s \<and> \<not> rd_custom s) [Field ''Restore into'' '''' '''' [PathValue (trim (rd_default s))]] @
      shown (rd_hasDefault s) [CheckOption (rd_custom s) RdCustom (rd_busy s) ''Restore to a different path''
        (if rd_custom s then ''Snapshot paths are recreated under the path you enter; extra files there are deleted''
         else ''Keep the job folder above (in-place replace)'')] @
      shown (containers \<noteq> []) [CheckOption (rd_stopSite s) RdStopSite (rd_busy s) ''Stop the site while restoring''
        (join '', '' (map ct_name containers) @
          '' stop first and start again afterwards, so nothing writes to the folder mid-restore.'')] @
      shown (\<not> rd_hasDefault s \<or> rd_custom s)
        [Field (if rd_hasDefault s then ''Different path (absolute)'' else ''Restore into (absolute path)'') ''restore-target'' ''''
          [Node ''Input'' [At ''id'' ''restore-target'', At ''value'' (rd_target s), OnText ''change'' RdTarget,
             At ''placeholder'' ''/home/you/restored-files''] []]])"

definition RestoreDialog :: "restore_dialog \<Rightarrow> rd_msg ui" where
  "RestoreDialog s = Dialog (rd_open s) RdDismiss [Node ''form'' [On ''submit'' RdSubmit]
     [Node ''DialogHeader'' []
        [Node ''DialogTitle'' [] [Txt (''Restore snapshot '' @ shortId (sn_id (rd_snapshot s)))],
         Node ''DialogDescription'' [] [Txt
           (if rd_hasDefault s then ''This snapshot replaces the job folder: files from the backup overwrite matching '' @
              ''files, and anything not in the snapshot is deleted.''
            else ''Files are written under this folder using the snapshot's full paths. Matching files are '' @
              ''overwritten, and anything not in the snapshot is deleted.'')]],
      Node ''div'' [] (rd_fields s),
      Node ''DialogFooter'' []
        [Node ''Button'' [At ''type'' ''button'', On ''click'' (RdDismiss False)] [Txt ''Cancel''],
         Node ''Button'' [At ''type'' ''submit'', Flag ''disabled'' (rd_busy s \<or> rd_destination s = '''')]
           [Txt (if rd_busy s then ''Starting'' @ ellipsis else ''Start restore'')]]]]"

lemma rd_fields_simps [simp]: "\<not> submits (rd_fields s)"
  "msgs_of (rd_fields s) \<subseteq> range RdCustom \<union> range RdStopSite \<union> range RdTarget"
  by (auto simp: rd_fields_def Let_def)

lemma RestoreDialog_act:
  assumes "m \<in> msgs (RestoreDialog s)"
  shows "m = RdSubmit \<Longrightarrow> rd_open s \<and> \<not> rd_busy s \<and> rd_destination s \<noteq> ''''" "m \<noteq> RdStarted res" "m \<noteq> RdContainers n res"
  using assms subsetD [OF rd_fields_simps(2), of m s] by (auto simp: RestoreDialog_def split: if_splits)

section \<open>What it sends\<close>

abbreviation rd_env :: "rd_msg set" where
  "rd_env \<equiv> range RdOpen \<union> range RdDocker"

lemmas rd_defs [handlers] = rd_setCustom_def rd_start_def rd_answer_def

definition rd_is_restore :: "(rd_msg, bool) cmd \<Rightarrow> bool" where
  "rd_is_restore c = (case c of Call q k \<Rightarrow> q_method q = ''POST'' | _ \<Rightarrow> False)"

lemma rd_is_restore_simps [simp]:
  "\<not> rd_is_restore (Do e)" "\<not> rd_is_restore (Out x)" "\<not> rd_is_restore (Call (Docker_containersUsing p) k)"
  "rd_is_restore (Call (Repositories_restore a b c d f) k)"
  by (simp_all add: rd_is_restore_def Docker_containersUsing_def Repositories_restore_def api_get_def api_post_def)

definition rd_neutral :: "rd_msg set" where
  "rd_neutral = {m. \<exists>n r. m = RdContainers n r}"

lemma rd_watch_frame:
  assumes "rd_watch s = (s', cs)"
  shows "rd_busy s' = rd_busy s \<and> rd_watched s' = rd_watched s \<and> filter rd_is_restore cs = []
    \<and> (\<forall>c \<in> set cs. \<not> rd_is_restore c \<and> replies c \<subseteq> rd_neutral)"
  using assms by (auto simp: rd_watch_def rd_watched_def rd_destination_def rd_hasDefault_def rd_neutral_def
      split: prod.splits option.splits)

lemma rd_commit_frame:
  assumes "rd_commit b s = (s', cs)"
  shows "rd_busy s' = rd_busy s \<and> rd_watched s' = rd_watched s \<and> filter rd_is_restore cs = []
    \<and> (\<forall>c \<in> set cs. \<not> rd_is_restore c \<and> replies c \<subseteq> rd_neutral)"
  using assms rd_watch_frame by (auto simp: rd_commit_def split: if_splits)

lemma rd_update_split:
  assumes "rd_update m s = (s', cs)"
  obtains s1 cs1 cs2 where "rd_handle m s = (s1, cs1)" "rd_commit s s1 = (s', cs2)" "cs = cs1 @ cs2"
  using assms by (auto simp: rd_update_def split: prod.splits)

lemma rd_reset_busy [simp]: "rd_busy (rd_reset s) = rd_busy s"
  by (simp add: rd_reset_def)

interpretation rd_flight: single_flight rd_update RestoreDialog rd_env "rd_mount repo sn def stay isOpen docker"
  rd_is_restore rd_busy "range RdStarted" rd_neutral
  for repo sn def stay isOpen docker
proof unfold_locales
  fix m s s' and cs :: rd_cmds
  assume m: "m \<in> msgs (RestoreDialog s) \<union> rd_env" and "rd_update m s = (s', cs)"
  then obtain s1 cs1 cs2 where h: "rd_handle m s = (s1, cs1)" "rd_commit s s1 = (s', cs2)" "cs = cs1 @ cs2"
    by (auto elim: rd_update_split)
  have "if filter rd_is_restore cs1 = [] then rd_busy s1 = rd_busy s
      else \<not> rd_busy s \<and> rd_busy s1 \<and> length (filter rd_is_restore cs1) = 1"
    using m h(1) by (cases m) (auto simp: handlers dest: RestoreDialog_act split: if_splits)
  then show "if filter rd_is_restore cs = [] then rd_busy s' = rd_busy s
      else \<not> rd_busy s \<and> rd_busy s' \<and> length (filter rd_is_restore cs) = 1"
    using rd_commit_frame [OF h(2)] h(3) by simp
next
  fix m s s' c and cs :: rd_cmds
  assume "rd_update m s = (s', cs)" and c: "c \<in> set cs"
  then obtain s1 cs1 cs2 where h: "rd_handle m s = (s1, cs1)" "rd_commit s s1 = (s', cs2)" "cs = cs1 @ cs2"
    by (auto elim: rd_update_split)
  have "replies c \<subseteq> (if rd_is_restore c then range RdStarted else rd_neutral)" if "c \<in> set cs1"
    using that h(1) by (cases m) (auto simp: handlers split: if_splits prod.splits)
  then show "replies c \<subseteq> (if rd_is_restore c then range RdStarted else rd_neutral)"
    using c h(3) rd_commit_frame [OF h(2)] by auto
next
  fix m s s' and cs :: rd_cmds
  assume m: "m \<in> range RdStarted" and "rd_update m s = (s', cs)"
  then obtain s1 cs1 cs2 where h: "rd_handle m s = (s1, cs1)" "rd_commit s s1 = (s', cs2)" "cs = cs1 @ cs2"
    by (auto elim: rd_update_split)
  have "filter rd_is_restore cs1 = [] \<and> \<not> rd_busy s1"
    using m h(1) by (auto simp: handlers filter_map comp_def shown_def split: prod.splits)
  then show "filter rd_is_restore cs = [] \<and> \<not> rd_busy s'" using rd_commit_frame [OF h(2)] h(3) by simp
next
  fix m s s' and cs :: rd_cmds
  assume m: "m \<in> rd_neutral" and "rd_update m s = (s', cs)"
  then obtain s1 cs1 cs2 where h: "rd_handle m s = (s1, cs1)" "rd_commit s s1 = (s', cs2)" "cs = cs1 @ cs2"
    by (auto elim: rd_update_split)
  then show "filter rd_is_restore cs = [] \<and> rd_busy s' = rd_busy s"
    using m rd_commit_frame [OF h(2)] by (auto simp: rd_neutral_def)
next
  fix s and cs :: rd_cmds
  assume "rd_mount repo sn def stay isOpen docker = (s, cs)"
  then show "filter rd_is_restore cs = [] \<and> \<not> rd_busy s \<and> (\<forall>c \<in> set cs. replies c \<subseteq> rd_neutral)"
    by (auto simp: rd_mount_def Let_def dest!: rd_watch_frame)
next
  fix c :: "(rd_msg, bool) cmd"
  assume "rd_is_restore c"
  then show "awaits c" by (cases c) (auto simp: rd_is_restore_def)
qed

text \<open>
  Containers are known only while the path they use is the one restored into: a request that is
  still out belongs to an older path or to the one watched now.
\<close>

definition rd_asked :: "restore_dialog \<Rightarrow> (rd_msg, bool) cmd \<Rightarrow> bool" where
  "rd_asked s c \<longleftrightarrow> (\<forall>n r. RdContainers n r \<in> replies c \<longrightarrow>
     n < ch_run (rd_containers s) \<or> n = ch_run (rd_containers s) \<and> rd_watched s \<noteq> '''')"

definition rd_inv :: "restore_dialog \<Rightarrow> rd_cmds \<Rightarrow> bool" where
  "rd_inv s p \<longleftrightarrow> (ch_containers (rd_containers s) \<noteq> [] \<longrightarrow> rd_watched s \<noteq> '''') \<and> (\<forall>c \<in> set p. rd_asked s c)"

lemma rd_watch_inv:
  assumes "rd_watch s = (s', cs)" and "\<forall>c \<in> set p. \<forall>n r. RdContainers n r \<in> replies c \<longrightarrow> n \<le> ch_run (rd_containers s)"
  shows "rd_inv s' (p @ awaiting cs)"
proof -
  have run: "ch_run (rd_containers s') = Suc (ch_run (rd_containers s))" "ch_containers (rd_containers s') = []"
    using assms(1) by (auto simp: rd_watch_def containers_effect_def Let_def split: prod.splits if_splits)
  have "rd_watched s' = rd_watched s" using rd_watch_frame [OF assms(1)] by blast
  moreover have "\<forall>c \<in> set cs. \<exists>p. c = Call (Docker_containersUsing p) (RdContainers (ch_run (rd_containers s'))) \<and> rd_watched s \<noteq> ''''"
    using assms(1) by (auto simp: rd_watch_def containers_effect_def Let_def split: prod.splits if_splits)
  ultimately show ?thesis
    using assms(2) run by (fastforce simp: rd_inv_def rd_asked_def awaiting_def less_Suc_eq_le)
qed

lemma rd_inv_le: "rd_inv s p \<Longrightarrow> c \<in> set p \<Longrightarrow> RdContainers n r \<in> replies c \<Longrightarrow> n \<le> ch_run (rd_containers s)"
proof -
  assume "rd_inv s p" "c \<in> set p" and r: "RdContainers n r \<in> replies c"
  then have "rd_asked s c" by (simp add: rd_inv_def)
  with r have "n < ch_run (rd_containers s) \<or> n = ch_run (rd_containers s)" unfolding rd_asked_def by blast
  then show ?thesis by auto
qed

lemma rd_commit_inv:
  assumes "rd_inv s p" and "rd_commit s t = (s', cs)" and "rd_containers t = rd_containers s"
  shows "rd_inv s' (p @ awaiting cs)"
proof (cases "rd_watched t = rd_watched s \<and> rd_docker t = rd_docker s")
  case True
  then have "s' = t" "cs = []" using assms(2) by (auto simp: rd_commit_def)
  then show ?thesis using assms(1,3) True by (simp add: rd_inv_def rd_asked_def)
next
  case False
  then have "rd_watch t = (s', cs)" using assms(2) by (auto simp: rd_commit_def)
  then show ?thesis
    using assms(1,3) rd_inv_le by (intro rd_watch_inv) auto
qed

lemma rd_handle_containers:
  "rd_handle m s = (t, cs) \<Longrightarrow> (\<And>n r. m \<noteq> RdContainers n r) \<Longrightarrow> rd_containers t = rd_containers s"
  by (cases m) (auto simp: handlers rd_reset_def split: if_splits)

lemma rd_update_inv:
  assumes "rd_inv s p" and "rd_update m s = (s', cs)"
    and "\<And>n r. m = RdContainers n r \<Longrightarrow> n < ch_run (rd_containers s) \<or> n = ch_run (rd_containers s) \<and> rd_watched s \<noteq> ''''"
  shows "rd_inv s' (p @ awaiting cs)"
proof (cases "\<exists>n r. m = RdContainers n r")
  case True
  then obtain n r where m: "m = RdContainers n r" by blast
  let ?t = "s\<lparr>rd_containers := containers_reply n r (rd_containers s)\<rparr>"
  have w: "rd_watched ?t = rd_watched s" by (simp add: rd_watched_def rd_hasDefault_def rd_destination_def)
  then have "s' = ?t" "cs = []" using assms(2) m by (auto simp: rd_update_def rd_commit_def)
  then show ?thesis
    using assms(1) assms(3) [OF m] w by (auto simp: rd_inv_def rd_asked_def containers_reply_def)
next
  case False
  obtain s1 cs1 cs2 where h: "rd_handle m s = (s1, cs1)" "rd_commit s s1 = (s', cs2)" "cs = cs1 @ cs2"
    using assms(2) by (rule rd_update_split)
  have "rd_inv s' (p @ awaiting cs2)"
    using rd_commit_inv [OF assms(1) h(2)] rd_handle_containers [OF h(1)] False by blast
  moreover have "\<forall>c \<in> set cs1. rd_asked s' c"
    using h(1) by (cases m) (auto simp: handlers rd_asked_def split: if_splits prod.splits)
  ultimately show ?thesis by (auto simp: rd_inv_def h(3) awaiting_def)
qed

interpretation rd_paths: component rd_update RestoreDialog rd_env "rd_mount repo sn def stay isOpen docker" rd_inv
  for repo sn def stay isOpen docker
proof unfold_locales
  fix s cs
  assume "rd_mount repo sn def stay isOpen docker = (s, cs)"
  then show "rd_inv s (awaiting cs)" using rd_watch_inv [where p = "[]"] by (simp add: rd_mount_def Let_def)
next
  fix s p m s' cs
  assume "rd_inv s p" "m \<in> msgs (RestoreDialog s) \<union> rd_env" "rd_update m s = (s', cs)"
  then show "rd_inv s' (p @ awaiting cs)" by (intro rd_update_inv) (auto dest: RestoreDialog_act)
next
  fix s p c q m s' cs
  assume inv: "rd_inv s (p @ c # q)" and m: "m \<in> replies c" and "rd_update m s = (s', cs)"
  then have "rd_inv s' ((p @ q) @ awaiting cs)"
    by (intro rd_update_inv) (auto simp: rd_inv_def rd_asked_def)
  then show "rd_inv s' (p @ q @ awaiting cs)" by simp
qed

text \<open>
  C10. A restore goes where the dialog says, once: in every execution a click that starts a restore
  finds none in flight, the target is the job's folder or the path that was typed, trimmed and not
  empty, and containers are stopped only when the job's own folder is restored into, with "stop the
  site" ticked.
\<close>

theorem restore_dialog_requests:
  assumes "reach rd_update RestoreDialog rd_env (rd_mount repo sn def stay isOpen docker) s p"
    and "m \<in> msgs (RestoreDialog s)" and "c \<in> set (snd (rd_update m s))" and "rd_is_restore c"
  shows "filter rd_is_restore p = []
    \<and> (\<exists>target stops. c = Call (Repositories_restore (rd_repo s) (sn_id (rd_snapshot s)) target None (Some stops)) RdStarted
        \<and> target \<noteq> '''' \<and> target = trim (if rd_custom s then rd_target s else rd_default s)
        \<and> (stops \<longrightarrow> \<not> rd_custom s \<and> rd_stopSite s))"
proof -
  obtain s' cs where u: "rd_update m s = (s', cs)" by (metis surj_pair)
  then obtain s1 cs1 cs2 where h: "rd_handle m s = (s1, cs1)" "rd_commit s s1 = (s', cs2)" "cs = cs1 @ cs2"
    by (rule rd_update_split)
  have "c \<in> set cs1" using assms(3,4) u h(3) rd_commit_frame [OF h(2)] by auto
  then have m: "m = RdSubmit \<and> c = Call (Repositories_restore (rd_repo s) (sn_id (rd_snapshot s)) (rd_destination s)
      None (Some (rd_stops s))) RdStarted"
    using h(1) assms(4) by (cases m) (auto simp: handlers shown_def split: if_splits prod.splits)
  then have "rd_open s" "\<not> rd_busy s" "rd_destination s \<noteq> ''''" using RestoreDialog_act(1) [OF assms(2)] by auto
  moreover have "rd_stops s \<longrightarrow> \<not> rd_custom s \<and> rd_stopSite s"
    using rd_paths.invariant [OF assms(1)] by (auto simp: rd_inv_def rd_stops_def rd_watched_def split: if_splits)
  ultimately show ?thesis
    using m rd_flight.idle_none [OF assms(1)] by (auto simp: rd_destination_def)
qed

theorem restore_dialog_requests_witness:
  "\<exists>s p. reach rd_update RestoreDialog rd_env (rd_mount ''p1'' sample_snapshot ''/srv/site'' False True False) s p
     \<and> (\<exists>stops. Call (Repositories_restore ''p1'' ''abc'' ''/srv/site'' None (Some stops)) RdStarted
          \<in> set (snd (rd_update RdSubmit s)))"
proof -
  let ?R = "reach rd_update RestoreDialog rd_env (rd_mount ''p1'' sample_snapshot ''/srv/site'' False True False)"
  let ?s = "fst (rd_mount ''p1'' sample_snapshot ''/srv/site'' False True False)"
  note eval = rd_mount_def rd_watch_def rd_reset_def rd_watched_def rd_hasDefault_def rd_destination_def trim_def
    is_space_def containers_effect_def containers_init_def starts_with_def Let_def
  have "rd_mount ''p1'' sample_snapshot ''/srv/site'' False True False = (?s, [])"
    by (simp add: eval)
  then have R: "?R ?s (awaiting [])" by (rule reach.mount)
  have dest: "rd_destination ?s = ''/srv/site''" "rd_open ?s" "\<not> rd_busy ?s" "rd_repo ?s = ''p1''"
      "\<not> rd_custom ?s" "rd_default ?s = ''/srv/site''" "rd_snapshot ?s = sample_snapshot"
    by (simp_all add: eval)
  then have m: "RdSubmit \<in> msgs (RestoreDialog ?s)" by (simp add: RestoreDialog_def)
  let ?c = "Call (Repositories_restore ''p1'' (sn_id sample_snapshot) ''/srv/site'' None (Some (rd_stops ?s))) RdStarted"
  have "?c \<in> set (snd (rd_update RdSubmit ?s))"
    using dest by (simp add: rd_update_def rd_start_def split_beta)
  then obtain c where c: "c \<in> set (snd (rd_update RdSubmit ?s))" "rd_is_restore c"
    by (meson rd_is_restore_simps(4))
  have "trim ''/srv/site'' = ''/srv/site''" by (simp add: trim_def is_space_def)
  then obtain stops where "c = Call (Repositories_restore ''p1'' ''abc'' ''/srv/site'' None (Some stops)) RdStarted"
    using restore_dialog_requests [OF R m c] dest by (auto simp: sample_defs)
  with R c(1) show ?thesis by blast
qed

end
