(* ===== verification/SnapshotsPanel.thy ===== *)
theory SnapshotsPanel
  imports RestoreDialog DbRestore SnapshotBrowser "HOL-Library.Multiset"
begin

text \<open>
  \<open>src/ui/src/components/snapshots-panel.jsx\<close>: the list of what is stored in a repository, with
  the dialogs it opens. A dialog is a component inside this one: it is mounted with a number when it
  opens, its messages come wrapped with that number, and what it hands out is the argument of the
  panel's \<open>onOpenChange\<close>. The continuation of a request outlives the dialog that sent it. The
  props \<open>load\<close>, \<open>jobId\<close> and \<open>reloadKey\<close> may change; the others are those of the mount.
\<close>

section \<open>State\<close>

record panel =
  pn_repo :: string
  pn_load :: request
  pn_jobId :: string
  pn_default :: string
  pn_source :: "string option"
  pn_stay :: bool
  pn_docker :: bool
  pn_loading :: bool
  pn_payload :: "body option"
  pn_visible :: nat
  pn_slow :: bool
  pn_timer :: "nat option"
  pn_timers :: nat
  pn_downloadingId :: "string option"
  pn_forgettingId :: "string option"
  pn_forgettingAll :: bool
  pn_restoring :: "(nat \<times> restore_dialog) option"
  pn_restoringDb :: "(nat \<times> db_restore) option"
  pn_browsing :: "(nat \<times> browser) option"
  pn_next :: nat

datatype panel_msg = PnProps request string | PnReloadKey | PnDocker bool | PnRefresh | PnLoaded response | PnSlow nat
  | PnDownload snapshot | PnDownloaded response
  | PnForget snapshot | PnForgetConfirmed string string bool | PnForgot response
  | PnForgetAll | PnForgetAllConfirmed string bool | PnForgotAll response
  | PnRestore snapshot | PnBrowse snapshot | PnMore | PnFewer
  | PnInRestore nat rd_msg | PnInDb nat db_msg | PnInBrowser nat browse_msg

type_synonym panel_cmds = "(panel_msg, unit) cmd list"

definition PAGE :: nat where
  "PAGE = 20"

section \<open>Handlers\<close>

text \<open>\<open>refresh\<close>: nothing marks which call an answer belongs to.\<close>

definition pn_refresh :: "panel \<Rightarrow> panel \<times> panel_cmds" where
  "pn_refresh s = (s\<lparr>pn_loading := True\<rparr>, [Call (pn_load s) PnLoaded])"

definition pn_loaded :: "response \<Rightarrow> panel \<Rightarrow> panel" where
  "pn_loaded res s = s\<lparr>pn_loading := False, pn_payload := res_body res\<rparr>"

text \<open>The effect on \<open>[state.loading]\<close>, run after the render that changed it.\<close>

definition pn_timer_effect :: "panel \<Rightarrow> panel \<times> panel_cmds" where
  "pn_timer_effect s =
     (if \<not> pn_loading s then (s\<lparr>pn_timer := None\<rparr>, [])
      else (s\<lparr>pn_slow := False, pn_timer := Some (pn_timers s), pn_timers := Suc (pn_timers s)\<rparr>,
        [After 8000 (PnSlow (pn_timers s))]))"

definition pn_commit :: "panel \<Rightarrow> panel \<Rightarrow> panel \<times> panel_cmds" where
  "pn_commit before s = (if pn_loading s = pn_loading before then (s, []) else pn_timer_effect s)"

definition startDownload :: "snapshot \<Rightarrow> panel \<Rightarrow> panel \<times> panel_cmds" where
  "startDownload sn s = (s\<lparr>pn_downloadingId := Some (sn_id sn)\<rparr>,
     [Call (Repositories_download (pn_repo s) (sn_id sn) None) PnDownloaded])"

definition startForget :: "snapshot \<Rightarrow> panel \<Rightarrow> panel \<times> panel_cmds" where
  "startForget sn s = (s, [Ask (confirm_defaults\<lparr>co_title := ''Delete snapshot '' @ shortId (sn_id sn) @ ''?'',
     co_description := ''This forgets the snapshot and prunes unused data from the repository. Other jobs sharing the '' @
       ''repository keep their snapshots. This cannot be undone.'',
     co_confirmLabel := ''Delete snapshot'', co_destructive := True\<rparr>) (PnForgetConfirmed (pn_repo s) (sn_id sn))])"

definition forgetConfirmed :: "string \<Rightarrow> string \<Rightarrow> bool \<Rightarrow> panel \<Rightarrow> panel \<times> panel_cmds" where
  "forgetConfirmed repo i ok s = (if \<not> ok then (s, [])
     else (s\<lparr>pn_forgettingId := Some i\<rparr>, [Call (Repositories_forget repo i) PnForgot]))"

definition startForgetAll :: "panel \<Rightarrow> panel \<times> panel_cmds" where
  "startForgetAll s = (s, [Ask (confirm_defaults\<lparr>co_title := ''Delete all snapshots from this job?'',
     co_description := ''This forgets every snapshot tagged for this job and prunes unused data. The job itself is kept. '' @
       ''This cannot be undone.'',
     co_confirmLabel := ''Delete snapshots'', co_destructive := True\<rparr>) (PnForgetAllConfirmed (pn_jobId s))])"

definition forgetAllConfirmed :: "string \<Rightarrow> bool \<Rightarrow> panel \<Rightarrow> panel \<times> panel_cmds" where
  "forgetAllConfirmed i ok s = (if \<not> ok then (s, [])
     else (s\<lparr>pn_forgettingAll := True\<rparr>, [Call (Jobs_forget i False) PnForgotAll]))"

definition pn_answer :: "string \<Rightarrow> response \<Rightarrow> panel \<Rightarrow> panel_cmds" where
  "pn_answer fallback res s = map Do (snd (handleStartResponse res fallback (pn_stay s)))"

text \<open>
  A message of a dialog: for the one on screen it is its own; for one that is gone only what its
  continuation still does counts (\<open>late\<close>). Either way \<open>onOpenChange(false)\<close> closes the dialog on screen.
\<close>

definition in_dialog :: "('m \<Rightarrow> 'd \<Rightarrow> 'd \<times> ('m, bool) cmd list) \<Rightarrow> ('m \<Rightarrow> ('m, bool) cmd list) \<Rightarrow> (nat \<Rightarrow> 'm \<Rightarrow> 'n) \<Rightarrow>
    nat \<Rightarrow> 'm \<Rightarrow> (nat \<times> 'd) option \<Rightarrow> (nat \<times> 'd) option \<times> ('n, 'p) cmd list" where
  "in_dialog upd late wrap i m cur =
     (let (cur1, cs) = (case cur of
            None \<Rightarrow> (None, late m)
          | Some (j, d) \<Rightarrow> if j = i then (let (d', cs) = upd m d in (Some (j, d'), cs)) else (Some (j, d), late m))
      in (if False \<in> set (outs cs) then None else cur1, lift_cmds (wrap i) cs))"

definition rd_late :: "bool \<Rightarrow> rd_msg \<Rightarrow> rd_cmds" where
  "rd_late stay m = (case m of RdStarted res \<Rightarrow> rd_answer stay res | _ \<Rightarrow> [])"

definition dr_late :: "bool \<Rightarrow> db_msg \<Rightarrow> db_cmds" where
  "dr_late stay m = (case m of DrStarted res \<Rightarrow> dr_answer stay res | _ \<Rightarrow> [])"

definition browse_late :: "bool \<Rightarrow> browse_msg \<Rightarrow> browse_cmds" where
  "browse_late stay m = (case m of
     BrowseDownloaded res \<Rightarrow> browse_answer stay ''Could not start the download.'' res
   | BrowseRestored res \<Rightarrow> browse_answer stay ''Could not start the restore.'' res | _ \<Rightarrow> [])"

text \<open>\<open>setRestoring(s)\<close>, \<open>setRestoringDb(s)\<close> and \<open>setBrowsing(s)\<close>: a dialog already there gets the new snapshot.\<close>

definition openRestore :: "snapshot \<Rightarrow> panel \<Rightarrow> panel \<times> panel_cmds" where
  "openRestore sn s = (case pn_restoring s of
     Some (j, d) \<Rightarrow> (s\<lparr>pn_restoring := Some (j, d\<lparr>rd_snapshot := sn\<rparr>)\<rparr>, [])
   | None \<Rightarrow> let (d, cs) = rd_mount (pn_repo s) sn (pn_default s) (pn_stay s) True (pn_docker s)
       in (s\<lparr>pn_restoring := Some (pn_next s, d), pn_next := Suc (pn_next s)\<rparr>, lift_cmds (PnInRestore (pn_next s)) cs))"

definition openRestoreDb :: "snapshot \<Rightarrow> panel \<Rightarrow> panel \<times> panel_cmds" where
  "openRestoreDb sn s = (case pn_restoringDb s of
     Some (j, d) \<Rightarrow> let (d', cs) = dr_props True sn (pn_source s) d
       in (s\<lparr>pn_restoringDb := Some (j, d')\<rparr>, lift_cmds (PnInDb j) cs)
   | None \<Rightarrow> let (d, cs) = dr_mount (pn_repo s) sn (pn_source s) (pn_stay s) True
       in (s\<lparr>pn_restoringDb := Some (pn_next s, d), pn_next := Suc (pn_next s)\<rparr>, lift_cmds (PnInDb (pn_next s)) cs))"

definition openBrowser :: "snapshot \<Rightarrow> panel \<Rightarrow> panel \<times> panel_cmds" where
  "openBrowser sn s = (case pn_browsing s of
     Some (j, d) \<Rightarrow> let (d', cs) = browse_load (browse_reset (d\<lparr>sb_snapshot := sn\<rparr>))
       in (s\<lparr>pn_browsing := Some (j, d')\<rparr>, lift_cmds (PnInBrowser j) cs)
   | None \<Rightarrow> let (d, cs) = browse_mount (pn_repo s) sn (pn_stay s) (pn_docker s)
       in (s\<lparr>pn_browsing := Some (pn_next s, d), pn_next := Suc (pn_next s)\<rparr>, lift_cmds (PnInBrowser (pn_next s)) cs))"

definition onRestore :: "snapshot \<Rightarrow> panel \<Rightarrow> panel \<times> panel_cmds" where
  "onRestore sn s = (if snapshotEngine (Some sn) \<noteq> '''' then openRestoreDb sn s else openRestore sn s)"

definition pn_inRestore :: "nat \<Rightarrow> rd_msg \<Rightarrow> panel \<Rightarrow> panel \<times> panel_cmds" where
  "pn_inRestore i m s = (let (d, cs) = in_dialog rd_update (rd_late (pn_stay s)) PnInRestore i m (pn_restoring s)
     in (s\<lparr>pn_restoring := d\<rparr>, cs))"

definition pn_inDb :: "nat \<Rightarrow> db_msg \<Rightarrow> panel \<Rightarrow> panel \<times> panel_cmds" where
  "pn_inDb i m s = (let (d, cs) = in_dialog dr_update (dr_late (pn_stay s)) PnInDb i m (pn_restoringDb s)
     in (s\<lparr>pn_restoringDb := d\<rparr>, cs))"

definition pn_inBrowser :: "nat \<Rightarrow> browse_msg \<Rightarrow> panel \<Rightarrow> panel \<times> panel_cmds" where
  "pn_inBrowser i m s = (let (d, cs) = in_dialog browse_update (browse_late (pn_stay s)) PnInBrowser i m (pn_browsing s)
     in (s\<lparr>pn_browsing := d\<rparr>, cs))"

text \<open>The Docker status is shared: a change reaches the panel's dialogs.\<close>

definition pn_setDocker :: "bool \<Rightarrow> panel \<Rightarrow> panel \<times> panel_cmds" where
  "pn_setDocker b s0 =
     (let s = s0\<lparr>pn_docker := b\<rparr>;
          (s1, cs1) = (case pn_restoring s of None \<Rightarrow> (s, []) | Some (i, d) \<Rightarrow> pn_inRestore i (RdDocker b) s);
          (s2, cs2) = (case pn_browsing s1 of None \<Rightarrow> (s1, []) | Some (i, d) \<Rightarrow> pn_inBrowser i (BrowseDocker b) s1)
      in (s2, cs1 @ cs2))"

text \<open>New props: the list is read again when \<open>load\<close> is another function.\<close>

definition pn_props :: "request \<Rightarrow> string \<Rightarrow> panel \<Rightarrow> panel \<times> panel_cmds" where
  "pn_props load i s = (let t = s\<lparr>pn_load := load, pn_jobId := i\<rparr>
     in if load = pn_load s then (t, []) else pn_refresh t)"

primrec pn_handle :: "panel_msg \<Rightarrow> panel \<Rightarrow> panel \<times> panel_cmds" where
  "pn_handle (PnProps load i) s = pn_props load i s"
| "pn_handle PnReloadKey s = pn_refresh s"
| "pn_handle (PnDocker b) s = pn_setDocker b s"
| "pn_handle PnRefresh s = pn_refresh s"
| "pn_handle (PnLoaded res) s = (pn_loaded res s, [])"
| "pn_handle (PnSlow n) s = (if pn_timer s = Some n then s\<lparr>pn_slow := True\<rparr> else s, [])"
| "pn_handle (PnDownload sn) s = startDownload sn s"
| "pn_handle (PnDownloaded res) s = (s\<lparr>pn_downloadingId := None\<rparr>, pn_answer ''Could not start the download.'' res s)"
| "pn_handle (PnForget sn) s = startForget sn s"
| "pn_handle (PnForgetConfirmed repo i ok) s = forgetConfirmed repo i ok s"
| "pn_handle (PnForgot res) s = (s\<lparr>pn_forgettingId := None\<rparr>, pn_answer ''Could not delete the snapshot.'' res s)"
| "pn_handle PnForgetAll s = startForgetAll s"
| "pn_handle (PnForgetAllConfirmed i ok) s = forgetAllConfirmed i ok s"
| "pn_handle (PnForgotAll res) s = (s\<lparr>pn_forgettingAll := False\<rparr>, pn_answer ''Could not delete this job's snapshots.'' res s)"
| "pn_handle (PnRestore sn) s = onRestore sn s"
| "pn_handle (PnBrowse sn) s = openBrowser sn s"
| "pn_handle PnMore s = (s\<lparr>pn_visible := pn_visible s + PAGE\<rparr>, [])"
| "pn_handle PnFewer s = (s\<lparr>pn_visible := PAGE\<rparr>, [])"
| "pn_handle (PnInRestore i m) s = pn_inRestore i m s"
| "pn_handle (PnInDb i m) s = pn_inDb i m s"
| "pn_handle (PnInBrowser i m) s = pn_inBrowser i m s"

definition panel_update :: "(panel, panel_msg, unit) update" where
  "panel_update m s = (let (s1, cs1) = pn_handle m s; (s2, cs2) = pn_commit s s1 in (s2, cs1 @ cs2))"

definition panel_mount :: "string \<Rightarrow> request \<Rightarrow> string \<Rightarrow> string \<Rightarrow> string option \<Rightarrow> bool \<Rightarrow> bool \<Rightarrow> panel \<times> panel_cmds" where
  "panel_mount repo load jobId def src stay docker =
     (let s = \<lparr>pn_repo = repo, pn_load = load, pn_jobId = jobId, pn_default = def, pn_source = src, pn_stay = stay,
          pn_docker = docker, pn_loading = True, pn_payload = None, pn_visible = PAGE, pn_slow = False, pn_timer = None,
          pn_timers = 0, pn_downloadingId = None, pn_forgettingId = None, pn_forgettingAll = False,
          pn_restoring = None, pn_restoringDb = None, pn_browsing = None, pn_next = 0\<rparr>;
          (s1, cs1) = pn_refresh s; (s2, cs2) = pn_timer_effect s1
      in (s2, cs1 @ cs2))"

section \<open>What it renders\<close>

text \<open>
  Newest first; dates the browser cannot read count as the oldest possible here (the code's
  comparison has no defined order for them).
\<close>

definition sort_snapshots :: "env \<Rightarrow> snapshot list \<Rightarrow> snapshot list" where
  "sort_snapshots e sns = sort_key (\<lambda>s. - (case env_parse e (sn_time s) of None \<Rightarrow> 0 | Some t \<Rightarrow> t)) sns"

definition panel_snapshots :: "env \<Rightarrow> panel \<Rightarrow> snapshot list" where
  "panel_snapshots e s = sort_snapshots e (case pn_payload s of None \<Rightarrow> []
     | Some b \<Rightarrow> if b_ok b then (case b_snapshots b of None \<Rightarrow> [] | Some sns \<Rightarrow> sns) else [])"

definition panel_shown :: "env \<Rightarrow> panel \<Rightarrow> snapshot list" where
  "panel_shown e s = take (pn_visible s) (panel_snapshots e s)"

definition snapshotLook :: "snapshot \<Rightarrow> string \<times> string" where
  "snapshotLook s = (if isSafetySnapshot (Some s) then (''DatabaseBackup'', ''warning'')
     else if snapshotEngine (Some s) \<noteq> '''' then (''Database'', ''fuchsia'') else (''FolderOpen'', ''fuchsia''))"

definition snapshot_facts :: "env \<Rightarrow> snapshot \<Rightarrow> string list" where
  "snapshot_facts e s = filter (\<lambda>t. t \<noteq> '''')
     ((case sn_sizeBytes s of None \<Rightarrow> [] | Some n \<Rightarrow> [fmtBytes n]) @
      (case sn_fileCount s of None \<Rightarrow> []
       | Some n \<Rightarrow> [fmtCount e n @ '' file'' @ (if n = 1 then '''' else ''s'')]))"

definition dot :: string where
  "dot = '' '' @ middot @ '' ''"

text \<open>The menu of a row opens from its trigger, so its items are out of reach while that is disabled.\<close>

definition snapshot_menu :: "snapshot \<Rightarrow> bool \<Rightarrow> bool \<Rightarrow> panel_msg ui" where
  "snapshot_menu s downloading forgetting = Node ''DropdownMenu'' []
     ([Node ''Button'' [At ''aria-label'' (''More actions for snapshot '' @ str_or (sn_shortId s) (shortId (sn_id s))),
         Flag ''disabled'' (downloading \<or> forgetting)] [Icon ''Ellipsis'']] @
      shown (\<not> (downloading \<or> forgetting)) [Node ''DropdownMenuContent'' []
        [Node ''DropdownMenuItem'' [On ''select'' (PnDownload s)]
           [Icon ''ArrowDownToLine'', Txt (if downloading then ''Starting'' @ ellipsis else ''Download as .zip'')],
         Node ''DropdownMenuSeparator'' [] [],
         Node ''DropdownMenuItem'' [On ''select'' (PnForget s)]
           [Icon ''Trash2'', Txt (if forgetting then ''Starting'' @ ellipsis else ''Delete snapshot'')]]])"

definition SnapshotRow :: "env \<Rightarrow> snapshot \<Rightarrow> bool \<Rightarrow> bool \<Rightarrow> panel_msg ui" where
  "SnapshotRow e s downloading forgetting =
     (let engine = snapshotEngine (Some s); facts = snapshot_facts e s in
      Node ''li'' []
       [IconTile (Some (fst (snapshotLook s))) (snd (snapshotLook s)) ''md'',
        Node ''div'' []
         [Node ''div'' []
           ([Node ''Tooltip'' [] [Node ''span'' [] [Txt (fmtRelative e (sn_time s))],
               Node ''TooltipContent'' [] [Txt (fmtTime e (sn_time s))]],
             Node ''span'' [] [Txt (str_or (sn_shortId s) (shortId (sn_id s)))]] @
            shown (engine \<noteq> '''') [Node ''Badge'' [At ''title'' (engineLabel engine)]
              [Icon ''Database'', Txt (dumpDatabaseName (Some s))]] @
            shown (isSafetySnapshot (Some s)) [Node ''Tooltip'' [] [Node ''Badge'' [] [Txt ''safety copy''],
              Node ''TooltipContent'' [] [Txt ''Taken right before a database restore replaced the data'']]]),
          Node ''p'' []
           ([Txt (join dot (shown (engine \<noteq> '''') [engineLabel engine @ '' dump''] @ facts))] @
            shown (engine = '''' \<and> sn_paths s \<noteq> []) [Node ''span'' [At ''title'' (join '', '' (sn_paths s))]
              [Txt ((if facts \<noteq> [] then dot else '''') @ join '', '' (sn_paths s))]])],
        Node ''div'' []
         ([Node ''Button'' [On ''click'' (PnRestore s)] [Icon ''FolderInput'', Txt ''Restore'']] @
          shown (engine = '''') [Node ''Button'' [On ''click'' (PnBrowse s)] [Icon ''FolderSearch'', Txt ''Browse'']] @
          [snapshot_menu s downloading forgetting])])"

text \<open>The description is a node without handlers: its texts.\<close>

definition panel_header :: "env \<Rightarrow> string \<Rightarrow> string list \<Rightarrow> panel \<Rightarrow> panel_msg ui" where
  "panel_header e title description s =
     (let sns = panel_snapshots e s in
      Node ''CardHeader'' []
       [Node ''div'' []
          ([Node ''CardTitle'' [] ([Txt title] @ shown (sns \<noteq> []) [Node ''span'' [] [Txt (show_nat (length sns))]])] @
           shown (description \<noteq> []) [Node ''CardDescription'' [] (map Txt description)]),
        Node ''div'' []
          (shown (pn_jobId s \<noteq> '''' \<and> sns \<noteq> [])
             [Node ''Button'' [On ''click'' PnForgetAll, Flag ''disabled'' (pn_loading s \<or> pn_forgettingAll s)]
                [Icon ''Trash2'', Txt (if pn_forgettingAll s then ''Starting'' @ ellipsis else ''Delete all'')]] @
           [Node ''Button'' [On ''click'' PnRefresh, Flag ''disabled'' (pn_loading s)]
              [Node ''RefreshCw'' (shown (pn_loading s) [At ''class'' ''animate-spin'']) [], Txt ''Refresh'']])])"

definition panel_problem :: "body option \<Rightarrow> panel_msg ui" where
  "panel_problem payload =
     (let code = opt_str b_code payload '''' in
      EmptyState (Some ''Camera'') (if code = ''not_initialized'' then ''cyan'' else ''warning'')
       (if code = ''not_initialized'' then ''This repository is not set up yet''
        else if code = ''timeout'' then ''The repository is slow to answer'' else ''Could not list snapshots'')
       (if code = ''not_initialized'' then ''Run a backup and the repository will be initialized automatically, or '' @
          ''initialize it now from the repository page.''
        else opt_str b_error payload ''The repository could not be reached.'')
       [] False)"

definition panel_rows :: "env \<Rightarrow> panel \<Rightarrow> panel_msg ui list" where
  "panel_rows e s = map (\<lambda>sn. SnapshotRow e sn (pn_downloadingId s = Some (sn_id sn)) (pn_forgettingId s = Some (sn_id sn)))
     (panel_shown e s)"

definition panel_more :: "env \<Rightarrow> panel \<Rightarrow> nat" where
  "panel_more e s = min PAGE (length (panel_snapshots e s) - length (panel_shown e s))"

definition panel_paging :: "env \<Rightarrow> panel \<Rightarrow> panel_msg ui list" where
  "panel_paging e s =
     (let total_n = length (panel_snapshots e s); shown_n = length (panel_shown e s) in
      shown (total_n > PAGE) [Node ''div'' []
        [Node ''p'' [] [Txt ''Showing '', Node ''span'' [] [Txt (show_nat shown_n)], Txt '' of '',
           Node ''span'' [] [Txt (show_nat total_n)]],
         Node ''div'' []
          (shown (pn_visible s > PAGE) [Node ''Button'' [On ''click'' PnFewer] [Txt ''Show fewer'']] @
           shown (shown_n < total_n) [Node ''Button'' [On ''click'' PnMore]
             [Txt (''Show '' @ show_nat (panel_more e s) @ '' more'')]])]])"

definition panel_content :: "env \<Rightarrow> panel \<Rightarrow> panel_msg ui list" where
  "panel_content e s =
     (if pn_loading s \<and> pn_payload s = None then [Node ''div'' []
        (replicate 3 (Node ''Skeleton'' [] []) @ shown (pn_slow s) [Node ''p'' [] [Txt (''Still waiting for the repository. '' @
          ''On slow storage, listing snapshots can take a few minutes.'')]])]
      else if (case pn_payload s of None \<Rightarrow> True | Some b \<Rightarrow> \<not> b_ok b) then [Node ''div'' [] [panel_problem (pn_payload s)]]
      else if panel_snapshots e s = [] then [Node ''div'' [] [EmptyState (Some ''Camera'') ''cyan'' ''No snapshots yet''
        ''A snapshot appears here after the first successful backup.'' [] False]]
      else [Node ''ul'' [] (panel_rows e s)] @ panel_paging e s)"

definition panel_dialogs :: "env \<Rightarrow> panel \<Rightarrow> panel_msg ui list" where
  "panel_dialogs e s =
     (case pn_restoring s of None \<Rightarrow> [] | Some (i, d) \<Rightarrow> [map_ui (PnInRestore i) (RestoreDialog d)]) @
     (case pn_restoringDb s of None \<Rightarrow> [] | Some (i, d) \<Rightarrow> [map_ui (PnInDb i) (DbRestoreDialog e d)]) @
     (case pn_browsing s of None \<Rightarrow> [] | Some (i, d) \<Rightarrow> [map_ui (PnInBrowser i) (SnapshotBrowser e d)])"

definition SnapshotsPanel :: "env \<Rightarrow> string \<Rightarrow> string list \<Rightarrow> panel \<Rightarrow> panel_msg ui" where
  "SnapshotsPanel e title description s = Node ''Card'' []
     ([panel_header e title description s] @ panel_content e s @ panel_dialogs e s)"

section \<open>What the user can do\<close>

lemma SnapshotRow_msgs: "msgs (SnapshotRow e s a b) \<subseteq> {PnRestore s, PnBrowse s, PnDownload s, PnForget s}"
  by (auto simp: SnapshotRow_def snapshot_menu_def Let_def)

lemma panel_content_msgs: "msgs_of (panel_content e s) \<subseteq>
    range PnRestore \<union> range PnBrowse \<union> range PnDownload \<union> range PnForget \<union> {PnMore, PnFewer}"
proof -
  have "msgs_of (panel_rows e s) \<subseteq> range PnRestore \<union> range PnBrowse \<union> range PnDownload \<union> range PnForget"
    using SnapshotRow_msgs by (fastforce simp: panel_rows_def)
  then show ?thesis by (auto simp: panel_content_def panel_paging_def panel_problem_def EmptyState_msgs Let_def)
qed

lemma panel_header_msgs: "msgs (panel_header e title description s) \<subseteq> {PnForgetAll, PnRefresh}"
  by (auto simp: panel_header_def Let_def)

abbreviation dialog_msgs :: "panel_msg set" where
  "dialog_msgs \<equiv> {m. \<exists>i n. m = PnInRestore i n} \<union> {m. \<exists>i n. m = PnInDb i n} \<union> {m. \<exists>i n. m = PnInBrowser i n}"

lemma panel_dialogs_msgs: "msgs_of (panel_dialogs e s) \<subseteq> dialog_msgs"
  by (cases "pn_restoring s"; cases "pn_restoringDb s"; cases "pn_browsing s") (auto simp: panel_dialogs_def)

lemma SnapshotsPanel_msgs: "msgs (SnapshotsPanel e title description s) \<subseteq>
    range PnRestore \<union> range PnBrowse \<union> range PnDownload \<union> range PnForget \<union> {PnMore, PnFewer, PnForgetAll, PnRefresh}
    \<union> dialog_msgs"
proof -
  have eq: "msgs (SnapshotsPanel e title description s) =
      msgs (panel_header e title description s) \<union> msgs_of (panel_content e s) \<union> msgs_of (panel_dialogs e s)"
    by (simp add: SnapshotsPanel_def Un_assoc)
  show ?thesis unfolding eq
    by (intro Un_least order.trans [OF panel_header_msgs] order.trans [OF panel_content_msgs]
        order.trans [OF panel_dialogs_msgs]) auto
qed

section \<open>Forgetting takes a yes\<close>

text \<open>A request that forgets snapshots, and a question.\<close>

definition forgets :: "('m, 'o) cmd \<Rightarrow> bool" where
  "forgets c = (case c of Call q k \<Rightarrow> q_method q = ''POST'' \<and> ends_with ''/forget'' (q_url q) | _ \<Rightarrow> False)"

definition asks :: "('m, 'o) cmd \<Rightarrow> bool" where
  "asks c = (case c of Ask q k \<Rightarrow> True | _ \<Rightarrow> False)"

definition harmless :: "('m, 'o) cmd \<Rightarrow> bool" where
  "harmless c \<longleftrightarrow> \<not> forgets c \<and> \<not> asks c"

lemma forgets_get: "q_method q = ''GET'' \<Longrightarrow> \<not> forgets (Call q k)"
  by (simp add: forgets_def)

lemma harmless_simps [simp]:
  "harmless (Do e)" "harmless (Out x)" "harmless (After n m)" "\<not> harmless (Ask q k')"
  "harmless (Call Databases_list k)" "harmless (Call (Docker_containersUsing p) k)"
  "harmless (Call (Repositories_files a b d) k)" "harmless (Call (Repositories_restore a b d f g) k)"
  "harmless (Call (Repositories_restoreDb a j) k)" "harmless (Call (Repositories_download a b h) k)"
  by (simp_all add: harmless_def forgets_def asks_def Databases_list_def Docker_containersUsing_def Repositories_files_def
      Repositories_restore_def Repositories_restoreDb_def Repositories_download_def api_get_def api_post_def repo_url_def
      ends_with_def starts_with_def)

lemma harmless_lift [simp]: "list_all harmless (lift_cmds f cs :: ('n, 'p) cmd list) = list_all harmless cs"
proof (induction cs)
  case (Cons c cs)
  have "list_all harmless (lift_cmd f c :: ('n, 'p) cmd list) = harmless c"
    by (cases c) (simp_all add: harmless_def forgets_def asks_def)
  with Cons show ?case by simp
qed simp

lemma harmless_Do [simp]: "list_all harmless (map Do es)"
  by (induction es) simp_all

text \<open>No dialog forgets anything, or asks.\<close>

lemma rd_watch_harmless: "rd_watch t = (d', cs) \<Longrightarrow> list_all harmless cs"
  by (auto simp: rd_watch_def split: prod.splits option.splits)

lemma rd_late_harmless: "list_all harmless (rd_late stay m)"
  by (cases m) (auto simp: rd_late_def handlers shown_def split: prod.splits)

lemma rd_harmless: "rd_update m d = (d', cs) \<Longrightarrow> list_all harmless cs"
  by (cases m) (auto simp: rd_update_def rd_commit_def handlers shown_def dest: rd_watch_harmless
    split: prod.splits if_splits)

lemma dr_props_harmless: "dr_props b sn i d = (d', cs) \<Longrightarrow> list_all harmless cs"
  by (auto simp: dr_props_def dr_effect_def Let_def split: if_splits)

lemma dr_late_harmless: "list_all harmless (dr_late stay m)"
  by (cases m) (auto simp: dr_late_def handlers shown_def split: prod.splits)

lemma dr_harmless: "dr_update m d = (d', cs) \<Longrightarrow> list_all harmless cs"
  by (cases m) (auto simp: handlers shown_def dest: dr_props_harmless split: prod.splits if_splits)

lemma browse_load_harmless: "browse_load d = (d', cs) \<Longrightarrow> list_all harmless cs"
  by (auto simp: browse_load_def Let_def split: if_splits)

lemma browse_commit_harmless: "browse_commit b t = (d', cs) \<Longrightarrow> list_all harmless cs"
  using browse_load_harmless [of t] by (auto simp: browse_commit_def split: prod.splits option.splits if_splits)

lemma browse_handle_harmless: "browse_handle m d = (d', cs) \<Longrightarrow> list_all harmless cs"
  by (cases m) (auto simp: browse_download_def browse_restore_def browse_started_def browse_answer_def shown_def
      split: prod.splits if_splits)

lemma browse_late_harmless: "list_all harmless (browse_late stay m)"
  by (cases m) (auto simp: browse_late_def browse_answer_def shown_def split: prod.splits)

lemma browse_harmless: "browse_update m d = (d', cs) \<Longrightarrow> list_all harmless cs"
  by (auto dest: browse_handle_harmless browse_commit_harmless elim!: browse_update_split)

lemma in_dialog_harmless:
  assumes "\<And>m d d' cs. upd m d = (d', cs) \<Longrightarrow> list_all harmless cs" and "\<And>m. list_all harmless (late m)"
    and "in_dialog upd late wrap i m cur = (cur', ds)"
  shows "list_all harmless ds"
proof (cases "\<exists>d. cur = Some (i, d)")
  case True
  then obtain d d' cs where "upd m d = (d', cs)" "ds = lift_cmds (wrap i) cs"
    using assms(3) by (auto simp: in_dialog_def Let_def split: prod.splits if_splits)
  then show ?thesis using assms(1) by auto
next
  case False
  then have "ds = lift_cmds (wrap i) (late m)"
    using assms(3) by (auto simp: in_dialog_def Let_def split: option.splits if_splits)
  then show ?thesis using assms(2) by simp
qed

lemma pn_dialogs_harmless:
  "pn_inRestore i n s = (s', cs) \<Longrightarrow> list_all harmless cs"
  "pn_inDb i n' s = (s', cs) \<Longrightarrow> list_all harmless cs"
  "pn_inBrowser i n'' s = (s', cs) \<Longrightarrow> list_all harmless cs"
proof -
  show "list_all harmless cs" if "pn_inRestore i n s = (s', cs)"
    using that in_dialog_harmless [OF rd_harmless rd_late_harmless] by (auto simp: pn_inRestore_def split: prod.splits)
  show "list_all harmless cs" if "pn_inDb i n' s = (s', cs)"
    using that in_dialog_harmless [OF dr_harmless dr_late_harmless] by (auto simp: pn_inDb_def split: prod.splits)
  show "list_all harmless cs" if "pn_inBrowser i n'' s = (s', cs)"
    using that in_dialog_harmless [OF browse_harmless browse_late_harmless] by (auto simp: pn_inBrowser_def split: prod.splits)
qed

lemma pn_commit_frame:
  assumes "pn_commit b s = (s', cs)"
  shows "list_all harmless cs" "calls cs = []" "pn_payload s' = pn_payload s" "pn_load s' = pn_load s"
    "pn_loading s' = pn_loading s" "pn_restoring s' = pn_restoring s"
  using assms by (auto simp: pn_commit_def pn_timer_effect_def split: if_splits)

lemma panel_update_split:
  assumes "panel_update m s = (s', cs)"
  obtains s1 cs1 cs2 where "pn_handle m s = (s1, cs1)" "pn_commit s s1 = (s', cs2)" "cs = cs1 @ cs2"
  using assms by (auto simp: panel_update_def split: prod.splits)

lemma open_harmless: "onRestore sn s = (s', cs) \<Longrightarrow> list_all harmless cs" "openBrowser sn s = (s', cs) \<Longrightarrow> list_all harmless cs"
proof -
  show "list_all harmless cs" if "onRestore sn s = (s', cs)"
    using that by (auto simp: onRestore_def openRestore_def openRestoreDb_def rd_mount_def dr_mount_def dr_effect_def Let_def
        dest: rd_watch_harmless dr_props_harmless split: if_splits option.splits prod.splits)
  show "list_all harmless cs" if "openBrowser sn s = (s', cs)"
    using that by (auto simp: openBrowser_def browse_mount_def Let_def dest: browse_load_harmless
        split: if_splits option.splits prod.splits)
qed


abbreviation panel_env :: "panel_msg set" where
  "panel_env \<equiv> {m. \<exists>q i. m = PnProps q i} \<union> {PnReloadKey} \<union> range PnDocker"

text \<open>
  A late answer takes the list over: when the panel is told to show another list while the first is
  still being read, an answer to the first that arrives last is what it shows, as the finished
  list, under the new job.
\<close>

theorem snapshots_show_older_answer:
  fixes old :: response
  assumes "load \<noteq> load'"
  shows "\<exists>s p. reach panel_update (SnapshotsPanel e title description) panel_env
       (panel_mount repo load jobId def src stay docker) s p
     \<and> pn_load s = load' \<and> pn_jobId s = jobId' \<and> \<not> pn_loading s \<and> pn_payload s = res_body old \<and> calls p = []"
proof -
  let ?R = "reach panel_update (SnapshotsPanel e title description) panel_env (panel_mount repo load jobId def src stay docker)"
  let ?u = "\<lambda>m s. fst (panel_update m s)"
  define s0 where "s0 = fst (panel_mount repo load jobId def src stay docker)"
  define s1 where "s1 = ?u (PnProps load' jobId') s0"
  define s2 where "s2 = ?u (PnLoaded (ok_body empty_body)) s1"
  define s3 where "s3 = ?u (PnLoaded old) s2"
  note eval = s3_def s2_def s1_def s0_def panel_mount_def panel_update_def pn_props_def pn_refresh_def pn_loaded_def
    pn_commit_def pn_timer_effect_def Let_def
  have "panel_mount repo load jobId def src stay docker = (s0, [Call load PnLoaded, After 8000 (PnSlow 0)])"
    by (simp add: eval)
  then have "?R s0 [Call load PnLoaded, After 8000 (PnSlow 0)]"
    using reach.mount [of "panel_mount repo load jobId def src stay docker", where upd = panel_update] by fastforce
  then have "?R s1 ([Call load PnLoaded, After 8000 (PnSlow 0)] @ awaiting [Call load' PnLoaded])"
    by (rule reach.act [where m = "PnProps load' jobId'"]) (use assms in \<open>simp_all add: eval\<close>)
  then have "?R s1 ([Call load PnLoaded, After 8000 (PnSlow 0)] @ Call load' PnLoaded # [])" by simp
  then have "?R s2 ([Call load PnLoaded, After 8000 (PnSlow 0)] @ [] @ awaiting [])"
    by (rule reach.reply [where m = "PnLoaded (ok_body empty_body)"]) (use assms in \<open>simp_all add: eval\<close>)
  then have "?R s2 ([] @ Call load PnLoaded # [After 8000 (PnSlow 0)])" by simp
  then have "?R s3 ([] @ [After 8000 (PnSlow 0)] @ awaiting [])"
    by (rule reach.reply [where m = "PnLoaded old"]) (use assms in \<open>simp_all add: eval\<close>)
  moreover have "pn_load s3 = load' \<and> pn_jobId s3 = jobId' \<and> \<not> pn_loading s3 \<and> pn_payload s3 = res_body old"
    using assms by (simp add: eval)
  ultimately show ?thesis by (intro exI [of _ s3] exI [of _ "[] @ [After 8000 (PnSlow 0)] @ awaiting []"]) simp
qed

theorem snapshots_show_older_answer_witness:
  "\<exists>s p. reach panel_update (SnapshotsPanel sample_env ''Snapshots'' []) panel_env
       (panel_mount ''p1'' (Jobs_snapshots ''a'') ''a'' '''' None True False) s p
     \<and> pn_load s = Jobs_snapshots ''b'' \<and> pn_jobId s = ''b'' \<and> \<not> pn_loading s
     \<and> pn_payload s = Some (empty_body\<lparr>b_ok := True, b_snapshots := Some [sample_snapshot]\<rparr>) \<and> calls p = []"
  using snapshots_show_older_answer [of "Jobs_snapshots ''a''" "Jobs_snapshots ''b''" sample_env "''Snapshots''" "[]" "''p1''"
      "''a''" "''''" None True False "''b''" "ok_body (empty_body\<lparr>b_ok := True, b_snapshots := Some [sample_snapshot]\<rparr>)"]
  by (simp add: Jobs_snapshots_def api_get_def ok_body_def)

definition listed_panel :: panel where
  "listed_panel = fst (panel_update (PnLoaded (ok_body (empty_body\<lparr>b_ok := True, b_snapshots := Some [sample_snapshot]\<rparr>)))
     (fst (panel_mount ''p1'' (Jobs_snapshots ''a'') ''a'' ''/srv/site'' None True False)))"

lemma listed_panel_facts:
  "pn_payload listed_panel = Some (empty_body\<lparr>b_ok := True, b_snapshots := Some [sample_snapshot]\<rparr>)"
  "pn_visible listed_panel = PAGE" "pn_load listed_panel = Jobs_snapshots ''a''" "pn_repo listed_panel = ''p1''"
  "\<not> pn_loading listed_panel" "pn_forgettingId listed_panel = None" "pn_downloadingId listed_panel = None"
  "pn_restoring listed_panel = None" "pn_stay listed_panel" "pn_default listed_panel = ''/srv/site''"
  "pn_next listed_panel = 0" "pn_docker listed_panel = False"
  by (simp_all add: listed_panel_def panel_update_def panel_mount_def pn_refresh_def pn_loaded_def pn_commit_def
      pn_timer_effect_def ok_body_def Let_def)


text \<open>
  A late answer closes the wrong dialog: when a restore is answered after its dialog was dismissed and another
  one opened, the panel closes the dialog on screen, whatever was filled in there.
\<close>

theorem restore_reply_closes_other_dialog:
  assumes "pn_restoring s = Some (j, d)" and "i \<noteq> j"
    and "fst (handleStartResponse res ''Could not start the restore.'' (pn_stay s))"
  shows "pn_restoring (fst (panel_update (PnInRestore i (RdStarted res)) s)) = None"
  using assms
  by (auto simp: panel_update_def pn_inRestore_def in_dialog_def rd_late_def rd_answer_def pn_commit_frame(6)
      split: prod.splits)

definition panel_run :: "panel_msg list \<Rightarrow> panel \<Rightarrow> panel" where
  "panel_run ms s = fold (\<lambda>m s. fst (panel_update m s)) ms s"

theorem restore_reply_closes_other_dialog_witness:
  "pn_restoring (panel_run [PnRestore sample_snapshot, PnInRestore 0 RdSubmit, PnInRestore 0 (RdDismiss False),
       PnRestore (sample_snapshot\<lparr>sn_id := ''def''\<rparr>)] listed_panel) \<noteq> None
   \<and> pn_restoring (panel_run [PnRestore sample_snapshot, PnInRestore 0 RdSubmit, PnInRestore 0 (RdDismiss False),
       PnRestore (sample_snapshot\<lparr>sn_id := ''def''\<rparr>),
       PnInRestore 0 (RdStarted \<lparr>res_status = 202, res_ok = True, res_body = Some (empty_body\<lparr>b_runId := ''r7''\<rparr>)\<rparr>)]
       listed_panel) = None"
proof -
  let ?other = "sample_snapshot\<lparr>sn_id := ''def''\<rparr>"
  let ?res = "\<lparr>res_status = 202, res_ok = True, res_body = Some (empty_body\<lparr>b_runId := ''r7''\<rparr>)\<rparr> :: response"
  let ?s1 = "fst (panel_update (PnRestore sample_snapshot) listed_panel)"
  let ?s2 = "fst (panel_update (PnInRestore 0 RdSubmit) ?s1)"
  let ?s3 = "fst (panel_update (PnInRestore 0 (RdDismiss False)) ?s2)"
  let ?s4 = "fst (panel_update (PnRestore ?other) ?s3)"
  have files: "snapshotEngine (Some sample_snapshot) = ''''" "snapshotEngine (Some ?other) = ''''"
    by (simp_all add: sample_defs snapshotEngine_def tags_of_def)
  have keep: "pn_restoring (fst (panel_update m s)) = pn_restoring (fst (pn_handle m s))"
    "pn_stay (fst (panel_update m s)) = pn_stay (fst (pn_handle m s))"
    "pn_next (fst (panel_update m s)) = pn_next (fst (pn_handle m s))" for m s
    by (auto simp: panel_update_def pn_commit_def pn_timer_effect_def split: prod.splits)
  have one: "\<exists>d. pn_restoring ?s1 = Some (0, d)" "pn_stay ?s1" "pn_next ?s1 = 1"
    by (simp_all add: keep onRestore_def openRestore_def files listed_panel_facts split_beta)
  then have two: "pn_stay ?s2" "pn_next ?s2 = 1" "\<exists>d. pn_restoring ?s2 = Some (0, d) \<or> pn_restoring ?s2 = None"
    by (auto simp: keep pn_inRestore_def in_dialog_def split_beta Let_def)
  then have three: "pn_restoring ?s3 = None" "pn_stay ?s3" "pn_next ?s3 = 1"
    by (auto simp: keep pn_inRestore_def in_dialog_def rd_update_def rd_commit_def split_beta rd_late_def)
  then obtain d where four: "pn_restoring ?s4 = Some (1, d)" "pn_stay ?s4"
    by (simp add: keep onRestore_def openRestore_def files split_beta)
  have "pn_restoring (fst (panel_update (PnInRestore 0 (RdStarted ?res)) ?s4)) = None"
    by (rule restore_reply_closes_other_dialog [OF four(1)])
      (simp_all add: four(2) handleStartResponse_def body_of_def)
  with four(1) show ?thesis by (simp add: panel_run_def)
qed

text \<open>
  The list is the answer, newest first, a page at a time: the rows are the first of the snapshots sorted by
  time, none lost or repeated; "show more" adds exactly as many rows as its label says, and "show
  fewer" leaves the first page.
\<close>

theorem snapshots_paging:
  "prefix (panel_shown e s) (panel_snapshots e s)
   \<and> sorted_wrt (\<lambda>a b. (case env_parse e (sn_time b) of None \<Rightarrow> 0 | Some t \<Rightarrow> t) \<le>
                       (case env_parse e (sn_time a) of None \<Rightarrow> 0 | Some t \<Rightarrow> t)) (panel_snapshots e s)
   \<and> mset (panel_snapshots e s) = mset (case pn_payload s of None \<Rightarrow> []
        | Some b \<Rightarrow> if b_ok b then (case b_snapshots b of None \<Rightarrow> [] | Some sns \<Rightarrow> sns) else [])
   \<and> length (panel_shown e (fst (panel_update PnMore s))) = length (panel_shown e s) + panel_more e s
   \<and> panel_shown e (fst (panel_update PnFewer s)) = take PAGE (panel_snapshots e s)"
proof -
  have "prefix (panel_shown e s) (panel_snapshots e s)" by (simp add: panel_shown_def take_is_prefix)
  moreover have "sorted_wrt (\<lambda>a b. (case env_parse e (sn_time b) of None \<Rightarrow> 0 | Some t \<Rightarrow> t) \<le>
      (case env_parse e (sn_time a) of None \<Rightarrow> 0 | Some t \<Rightarrow> t)) (panel_snapshots e s)"
    using sorted_sort_key [of "\<lambda>s. - (case env_parse e (sn_time s) of None \<Rightarrow> 0 | Some t \<Rightarrow> t)"]
    by (simp add: panel_snapshots_def sort_snapshots_def sorted_map)
  moreover have "length (panel_shown e (fst (panel_update PnMore s))) = length (panel_shown e s) + panel_more e s"
    by (auto simp: panel_shown_def panel_more_def panel_snapshots_def panel_update_def pn_commit_def min_def)
  moreover have "panel_shown e (fst (panel_update PnFewer s)) = take PAGE (panel_snapshots e s)"
    by (simp add: panel_shown_def panel_snapshots_def panel_update_def pn_commit_def)
  ultimately show ?thesis by (simp add: panel_snapshots_def sort_snapshots_def)
qed

end
