(* ===== verification/Loads.thy ===== *)
theory Loads
  imports React Hooks
begin

text \<open>
  A screen that loads its data with \<open>useFetch\<close>: the hook is part of its state, a run of the
  hook's effect sends the requests of the loader, and their answers come back with the number of that
  run. The contract of such a screen: while it is loading, the requests for what it shows now are in
  flight, and an answer that still counts is an answer to those.
\<close>

section \<open>The effect and the reply\<close>

lemma fetch_effect_fields [simp]:
  "fh_generation (fetch_effect h) = Suc (fh_generation h)" "fh_loading (fetch_effect h)"
  "fh_data (fetch_effect h) = fh_data h" "fh_error (fetch_effect h) = fh_error h"
  by (simp_all add: fetch_effect_def fetch_cleanup_def Let_def)

lemma fetch_reload_fields [simp]:
  "fh_generation (fetch_reload h) = Suc (fh_generation h)" "fh_loading (fetch_reload h)"
  "fh_data (fetch_reload h) = fh_data h" "fh_error (fetch_reload h) = fh_error h"
  by (simp_all add: fetch_reload_def)

lemma fetch_reload_wf [simp]: "fetch_wf h \<Longrightarrow> fetch_wf (fetch_reload h)"
  by (auto simp: fetch_reload_def fetch_wf_def fetch_effect_def fetch_cleanup_def Let_def)

lemma fetch_init_fields [simp]:
  "fh_generation (fetch_init i) = 0" "fh_loading (fetch_init i)" "fh_data (fetch_init i) = i"
  "fh_error (fetch_init i) = None" "fetch_wf (fetch_init i)"
  by (simp_all add: fetch_init_def fetch_wf_def)

lemma fetch_settle_loading:
  "fetch_wf h \<Longrightarrow> fh_loading (fetch_settle n r h) \<longleftrightarrow> fh_loading h \<and> n \<noteq> fh_generation h"
  by (cases "n = fh_generation h")
    (auto simp: fetch_settle_def fetch_finally_def fetch_then_def fetch_catch_def fetch_ignored_def fetch_wf_def
      split: sum.splits)

lemma fetch_settle_data:
  "fetch_wf h \<Longrightarrow> fh_data (fetch_settle n r h) =
     (if n = fh_generation h then case r of Inl e \<Rightarrow> fh_data h | Inr v \<Rightarrow> Some v else fh_data h)"
  "fetch_wf h \<Longrightarrow> fh_error (fetch_settle n r h) =
     (if n = fh_generation h then case r of Inl e \<Rightarrow> Some e | Inr v \<Rightarrow> None else fh_error h)"
  by (auto simp: fetch_settle_def fetch_finally_def fetch_then_def fetch_catch_def fetch_ignored_def fetch_wf_def
      split: sum.splits)

lemmas fetch_facts = fetch_effect_wf fetch_settle_wf fetch_settle_frame fetch_settle_loading

section \<open>The contract\<close>

text \<open>Every run of the effect that a step makes has a later number than the ones before, and the last is for the state it leaves.\<close>

definition fresh_loads :: "(nat \<Rightarrow> response list \<Rightarrow> 'm) \<Rightarrow> nat \<Rightarrow> nat \<Rightarrow> request list \<Rightarrow> ('m, 'o) cmd list \<Rightarrow> bool" where
  "fresh_loads loaded old new now cs \<longleftrightarrow> CallAll now (loaded new) \<in> set cs \<and>
     (\<forall>n qs. CallAll qs (loaded n) \<in> set cs \<longrightarrow> old < n \<and> n \<le> new \<and> (n = new \<longrightarrow> qs = now))"

locale fetching =
  fixes upd :: "('s, 'm, 'o) update"
    and view :: "'s \<Rightarrow> 'm ui"
    and env :: "'m set"
    and start :: "'s \<times> ('m, 'o) cmd list"
    and hook :: "'s \<Rightarrow> ('a, 'e) fetch_hook"
    and query :: "'s \<Rightarrow> request list"
    and loaded :: "nat \<Rightarrow> response list \<Rightarrow> 'm"
  assumes mount_loads: "start = (s, cs) \<Longrightarrow> fetch_wf (hook s)
      \<and> fresh_loads loaded 0 (fh_generation (hook s)) (query s) cs"
    and step_loads: "fetch_wf (hook s) \<Longrightarrow> upd m s = (s', cs) \<Longrightarrow> fetch_wf (hook s') \<and>
      (if fh_generation (hook s') = fh_generation (hook s)
       then query s' = query s \<and> (\<forall>n qs. CallAll qs (loaded n) \<notin> set cs)
         \<and> (fh_loading (hook s') \<longrightarrow> fh_loading (hook s) \<and> (\<forall>rs. m \<noteq> loaded (fh_generation (hook s)) rs))
       else fh_generation (hook s) < fh_generation (hook s')
         \<and> fresh_loads loaded (fh_generation (hook s)) (fh_generation (hook s')) (query s') cs)"
begin

definition loads_ok :: "'s \<Rightarrow> ('m, 'o) cmd list \<Rightarrow> bool" where
  "loads_ok s p \<longleftrightarrow> fetch_wf (hook s)
     \<and> (fh_loading (hook s) \<longrightarrow> CallAll (query s) (loaded (fh_generation (hook s))) \<in> set p)
     \<and> (\<forall>n qs. CallAll qs (loaded n) \<in> set p \<longrightarrow>
          n \<le> fh_generation (hook s) \<and> (n = fh_generation (hook s) \<longrightarrow> qs = query s))"

lemma in_awaiting: "CallAll qs g \<in> set (awaiting cs) \<longleftrightarrow> CallAll qs g \<in> set cs"
  by (simp add: awaiting_def)

lemma loads_ok_mount: "start = (s, cs) \<Longrightarrow> loads_ok s (awaiting cs)"
  using mount_loads [of s cs] by (auto simp: loads_ok_def fresh_loads_def in_awaiting)

text \<open>A step keeps the contract when the requests it takes out of flight cannot be the current ones.\<close>

lemma loads_ok_step:
  assumes "fetch_wf (hook s)" and "upd m s = (s', cs)"
    and older: "\<And>n qs. CallAll qs (loaded n) \<in> set p \<Longrightarrow> n \<le> fh_generation (hook s) \<and> (n = fh_generation (hook s) \<longrightarrow> qs = query s)"
    and now: "fh_loading (hook s) \<Longrightarrow> (\<And>rs. m \<noteq> loaded (fh_generation (hook s)) rs) \<Longrightarrow>
      CallAll (query s) (loaded (fh_generation (hook s))) \<in> set p"
  shows "loads_ok s' (p @ awaiting cs)"
proof (cases "fh_generation (hook s') = fh_generation (hook s)")
  case True
  then have "fetch_wf (hook s')" "query s' = query s" "\<forall>n qs. CallAll qs (loaded n) \<notin> set cs"
    "fh_loading (hook s') \<longrightarrow> fh_loading (hook s) \<and> (\<forall>rs. m \<noteq> loaded (fh_generation (hook s)) rs)"
    using step_loads [OF assms(1,2)] by auto
  then show ?thesis using True older now by (auto simp: loads_ok_def in_awaiting)
next
  case False
  then have wf: "fetch_wf (hook s')" and lt: "fh_generation (hook s) < fh_generation (hook s')"
    and fresh: "fresh_loads loaded (fh_generation (hook s)) (fh_generation (hook s')) (query s') cs"
    using step_loads [OF assms(1,2)] by auto
  have "n \<le> fh_generation (hook s') \<and> (n = fh_generation (hook s') \<longrightarrow> qs = query s')"
    if "CallAll qs (loaded n) \<in> set (p @ awaiting cs)" for n qs
  proof (cases "CallAll qs (loaded n) \<in> set cs")
    case True
    then show ?thesis using fresh by (simp add: fresh_loads_def)
  next
    case False
    then have "CallAll qs (loaded n) \<in> set p" using that by (simp add: in_awaiting)
    then show ?thesis using older lt by fastforce
  qed
  with wf fresh show ?thesis by (simp add: loads_ok_def fresh_loads_def in_awaiting)
qed

lemma reply_of_load: "m \<in> replies c \<Longrightarrow> c = CallAll qs (loaded n) \<Longrightarrow> \<exists>rs. m = loaded n rs"
  by auto

end

sublocale fetching \<subseteq> loading: component upd view env start loads_ok
proof unfold_locales
  fix s cs assume "start = (s, cs)"
  then show "loads_ok s (awaiting cs)" by (rule loads_ok_mount)
next
  fix s p m s' cs
  assume ok: "loads_ok s p" and u: "upd m s = (s', cs)"
  show "loads_ok s' (p @ awaiting cs)"
    by (rule loads_ok_step [OF _ u]) (use ok in \<open>simp_all add: loads_ok_def\<close>)
next
  fix s p c q m s' cs
  assume ok: "loads_ok s (p @ c # q)" and m: "m \<in> replies c" and u: "upd m s = (s', cs)"
  have "loads_ok s' ((p @ q) @ awaiting cs)"
  proof (rule loads_ok_step [OF _ u])
    show "fetch_wf (hook s)" using ok by (simp add: loads_ok_def)
  next
    fix n qs assume "CallAll qs (loaded n) \<in> set (p @ q)"
    then show "n \<le> fh_generation (hook s) \<and> (n = fh_generation (hook s) \<longrightarrow> qs = query s)"
      using ok by (auto simp: loads_ok_def)
  next
    assume "fh_loading (hook s)" and other: "\<And>rs. m \<noteq> loaded (fh_generation (hook s)) rs"
    moreover have "c \<noteq> CallAll (query s) (loaded (fh_generation (hook s)))"
      using reply_of_load [OF m] other by blast
    ultimately show "CallAll (query s) (loaded (fh_generation (hook s))) \<in> set (p @ q)"
      using ok by (auto simp: loads_ok_def)
  qed
  then show "loads_ok s' (p @ q @ awaiting cs)" by simp
qed

context fetching
begin

lemma loading_in_flight: "reach upd view env start s p \<Longrightarrow> fh_loading (hook s) \<Longrightarrow>
    CallAll (query s) (loaded (fh_generation (hook s))) \<in> set p"
  using loading.invariant by (auto simp: loads_ok_def)

lemma answers_query: "reach upd view env start s p \<Longrightarrow> CallAll qs (loaded n) \<in> set p \<Longrightarrow>
    n \<le> fh_generation (hook s) \<and> (n = fh_generation (hook s) \<longrightarrow> qs = query s)"
  using loading.invariant by (auto simp: loads_ok_def)

lemma hook_wf: "reach upd view env start s p \<Longrightarrow> fetch_wf (hook s)"
  using loading.invariant by (auto simp: loads_ok_def)

end

section \<open>Screens whose effects set state\<close>

text \<open>
  The effects of a render run in order and see the values of that render; the state they set makes
  another render, whose effects run in turn. \<open>eff before s\<close> is one such round, for the render of
  \<open>s\<close> after that of \<open>before\<close>. The screens below come to rest after two rounds.
\<close>

type_synonym ('s, 'm, 'o) effects = "'s \<Rightarrow> 's \<Rightarrow> 's \<times> ('m, 'o) cmd list"

definition commit :: "('s, 'm, 'o) effects \<Rightarrow> ('s, 'm, 'o) effects" where
  "commit eff before s = (let (s1, cs1) = eff before s; (s2, cs2) = eff s s1 in (s2, cs1 @ cs2))"

definition page_update :: "('s, 'm, 'o) update \<Rightarrow> ('s, 'm, 'o) effects \<Rightarrow> ('s, 'm, 'o) update" where
  "page_update handle eff m s = (let (t, cs) = handle m s; (s', cs') = commit eff s t in (s', cs @ cs'))"

definition at_rest :: "('s, 'm, 'o) effects \<Rightarrow> 's \<Rightarrow> 's \<Rightarrow> bool" where
  "at_rest eff before s \<longleftrightarrow>
     (let (s1, cs1) = eff before s; (s2, cs2) = eff s s1 in eff s1 s2 = (s2, []))"

text \<open>One run of the effect of \<open>useFetch\<close>.\<close>

definition run_load :: "('s \<Rightarrow> ('a, 'e) fetch_hook) \<Rightarrow> (('a, 'e) fetch_hook \<Rightarrow> 's \<Rightarrow> 's) \<Rightarrow> ('s \<Rightarrow> request list) \<Rightarrow>
    (nat \<Rightarrow> response list \<Rightarrow> 'm) \<Rightarrow> 's \<Rightarrow> 's \<times> ('m, 'o) cmd list" where
  "run_load hook set_hook query loaded s =
     (let h = fetch_effect (hook s) in (set_hook h s, [CallAll (query s) (loaded (fh_generation h))]))"

text \<open>\<open>reload()\<close> sets the nonce; the effect runs after the render.\<close>

definition fetch_bump :: "('a, 'e) fetch_hook \<Rightarrow> ('a, 'e) fetch_hook" where
  "fetch_bump h = h\<lparr>fh_nonce := Suc (fh_nonce h)\<rparr>"

lemma fetch_bump_fields [simp]:
  "fh_generation (fetch_bump h) = fh_generation h" "fh_loading (fetch_bump h) = fh_loading h"
  "fh_data (fetch_bump h) = fh_data h" "fh_error (fetch_bump h) = fh_error h" "fetch_wf (fetch_bump h) = fetch_wf h"
  "fh_nonce (fetch_bump h) = Suc (fh_nonce h)"
  by (simp_all add: fetch_bump_def fetch_wf_def)

lemma fetch_nonce [simp]:
  "fh_nonce (fetch_effect h) = fh_nonce h" "fh_nonce (fetch_settle n r h) = fh_nonce h"
  by (auto simp: fetch_effect_def fetch_cleanup_def Let_def fetch_settle_def fetch_finally_def fetch_then_def
      fetch_catch_def split: sum.splits)

text \<open>
  The screen's handlers leave the runs of the effect to the effects; a round of effects runs it
  exactly when its dependencies (\<open>key\<close>) changed; the second round changes none of them.
\<close>

locale fetch_page =
  fixes handle :: "('s, 'm, 'o) update"
    and eff :: "('s, 'm, 'o) effects"
    and view :: "'s \<Rightarrow> 'm ui"
    and env :: "'m set"
    and start :: "'s \<times> ('m, 'o) cmd list"
    and hook :: "'s \<Rightarrow> ('a, 'e) fetch_hook"
    and key :: "'s \<Rightarrow> 'k"
    and query :: "'s \<Rightarrow> request list"
    and loaded :: "nat \<Rightarrow> response list \<Rightarrow> 'm"
  assumes page_mount: "start = (s, cs) \<Longrightarrow> fetch_wf (hook s)
      \<and> fresh_loads loaded 0 (fh_generation (hook s)) (query s) cs"
    and page_handle: "fetch_wf (hook s) \<Longrightarrow> handle m s = (t, cs) \<Longrightarrow> fetch_wf (hook t)
      \<and> fh_generation (hook t) = fh_generation (hook s) \<and> (\<forall>n qs. CallAll qs (loaded n) \<notin> set cs)
      \<and> (fh_loading (hook t) \<longrightarrow> fh_loading (hook s) \<and> (\<forall>rs. m \<noteq> loaded (fh_generation (hook s)) rs))"
    and page_eff: "fetch_wf (hook s) \<Longrightarrow> eff before s = (s', cs) \<Longrightarrow> fetch_wf (hook s') \<and>
      (if key s = key before
       then fh_generation (hook s') = fh_generation (hook s) \<and> fh_loading (hook s') = fh_loading (hook s)
         \<and> (\<forall>n qs. CallAll qs (loaded n) \<notin> set cs)
       else fh_generation (hook s') = Suc (fh_generation (hook s))
         \<and> fresh_loads loaded (fh_generation (hook s)) (fh_generation (hook s')) (query s) cs)"
    and page_rest: "eff before s = (s1, cs1) \<Longrightarrow> eff s s1 = (s2, cs2) \<Longrightarrow> key s2 = key s1"
    and page_key: "key s = key s' \<Longrightarrow> query s = query s'"

lemma fresh_loads_skip:
  "fresh_loads loaded g g' q cs \<Longrightarrow> (\<forall>n qs. CallAll qs (loaded n) \<notin> set ds) \<Longrightarrow> fresh_loads loaded g g' q (ds @ cs)"
  "fresh_loads loaded g g' q cs \<Longrightarrow> (\<forall>n qs. CallAll qs (loaded n) \<notin> set ds) \<Longrightarrow> fresh_loads loaded g g' q (cs @ ds)"
  by (auto simp: fresh_loads_def)

lemma fresh_loads_later:
  "fresh_loads loaded g g' q cs \<Longrightarrow> fresh_loads loaded g' g'' q' ds \<Longrightarrow> g < g' \<Longrightarrow> g' < g'' \<Longrightarrow>
     fresh_loads loaded g g'' q' (cs @ ds)"
proof -
  assume a: "fresh_loads loaded g g' q cs" "fresh_loads loaded g' g'' q' ds" "g < g'" "g' < g''"
  have "g < n \<and> n \<le> g'' \<and> (n = g'' \<longrightarrow> qs = q')" if "CallAll qs (loaded n) \<in> set (cs @ ds)" for n qs
  proof (cases "CallAll qs (loaded n) \<in> set ds")
    case True
    then have "g' < n \<and> n \<le> g'' \<and> (n = g'' \<longrightarrow> qs = q')" using a(2) by (simp add: fresh_loads_def)
    then show ?thesis using a(3) by linarith
  next
    case False
    then have "CallAll qs (loaded n) \<in> set cs" using that by simp
    then have "g < n \<and> n \<le> g'" using a(1) by (simp add: fresh_loads_def)
    then show ?thesis using a(4) by linarith
  qed
  then show ?thesis using a(2) by (simp add: fresh_loads_def)
qed

sublocale fetch_page \<subseteq> fetching "page_update handle eff" view env start hook query loaded
proof unfold_locales
  fix s cs assume "start = (s, cs)"
  then show "fetch_wf (hook s) \<and> fresh_loads loaded 0 (fh_generation (hook s)) (query s) cs" by (rule page_mount)
next
  fix s m s' cs
  assume wf: "fetch_wf (hook s)" and "page_update handle eff m s = (s', cs)"
  then obtain t s1 c0 c1 c2 where h: "handle m s = (t, c0)" "eff s t = (s1, c1)" "eff t s1 = (s', c2)" "cs = c0 @ c1 @ c2"
    by (auto simp: page_update_def commit_def split: prod.splits)
  note t = page_handle [OF wf h(1)]
  then have e1: "fetch_wf (hook s1) \<and> (if key t = key s
       then fh_generation (hook s1) = fh_generation (hook t) \<and> fh_loading (hook s1) = fh_loading (hook t)
         \<and> (\<forall>n qs. CallAll qs (loaded n) \<notin> set c1)
       else fh_generation (hook s1) = Suc (fh_generation (hook t))
         \<and> fresh_loads loaded (fh_generation (hook t)) (fh_generation (hook s1)) (query t) c1)"
    using page_eff [OF _ h(2)] by blast
  then have e2: "fetch_wf (hook s') \<and> (if key s1 = key t
       then fh_generation (hook s') = fh_generation (hook s1) \<and> fh_loading (hook s') = fh_loading (hook s1)
         \<and> (\<forall>n qs. CallAll qs (loaded n) \<notin> set c2)
       else fh_generation (hook s') = Suc (fh_generation (hook s1))
         \<and> fresh_loads loaded (fh_generation (hook s1)) (fh_generation (hook s')) (query s1) c2)"
    using page_eff [OF _ h(3)] by blast
  have rest: "query s' = query s1" using page_rest [OF h(2,3)] page_key by blast
  have q: "key t = key s \<Longrightarrow> query t = query s" "key s1 = key t \<Longrightarrow> query s1 = query t"
    using page_key by blast+
  let ?g = "fh_generation (hook s)" and ?g' = "fh_generation (hook s')"
  show "fetch_wf (hook s') \<and> (if ?g' = ?g
       then query s' = query s \<and> (\<forall>n qs. CallAll qs (loaded n) \<notin> set cs)
         \<and> (fh_loading (hook s') \<longrightarrow> fh_loading (hook s) \<and> (\<forall>rs. m \<noteq> loaded ?g rs))
       else ?g < ?g' \<and> fresh_loads loaded ?g ?g' (query s') cs)"
  proof (cases "key t = key s"; cases "key s1 = key t")
    assume "key t = key s" "key s1 = key t"
    then show ?thesis using t e1 e2 q rest by (auto simp: h(4))
  next
    assume k: "key t = key s" "key s1 \<noteq> key t"
    then have g1: "fh_generation (hook s1) = ?g" using t e1 by simp
    have "fresh_loads loaded ?g ?g' (query s1) c2" using e2 unfolding if_not_P [OF k(2)] g1 by blast
    moreover have "?g' = Suc ?g" using k e2 g1 by simp
    ultimately have "fresh_loads loaded ?g ?g' (query s1) c2" "?g' = Suc ?g" by blast+
    then have "fresh_loads loaded ?g ?g' (query s1) cs"
      using t e1 k unfolding h(4) append_assoc [symmetric] by (intro fresh_loads_skip(1)) auto
    then show ?thesis using rest e2 \<open>?g' = Suc ?g\<close> by simp
  next
    assume k: "key t \<noteq> key s" "key s1 = key t"
    then have g': "?g' = fh_generation (hook s1)" "fh_generation (hook t) = ?g" using t e2 by simp_all
    have "fresh_loads loaded ?g ?g' (query t) c1" using e1 unfolding if_not_P [OF k(1)] g' by blast
    moreover have "?g' = Suc ?g" using k e1 g' by simp
    ultimately have "fresh_loads loaded ?g ?g' (query t) c1" "?g' = Suc ?g" by blast+
    then have "fresh_loads loaded ?g ?g' (query t) cs"
      using t e2 k unfolding h(4) by (intro fresh_loads_skip) auto
    then show ?thesis using rest e2 q(2) [OF k(2)] \<open>?g' = Suc ?g\<close> by simp
  next
    assume k: "key t \<noteq> key s" "key s1 \<noteq> key t"
    then have "fresh_loads loaded ?g ?g' (query s1) (c1 @ c2)"
      using t e1 e2 by (intro fresh_loads_later [where g' = "fh_generation (hook s1)" and q = "query t"]) auto
    then have "fresh_loads loaded ?g ?g' (query s1) cs"
      unfolding h(4) by (rule fresh_loads_skip(1)) (use t in simp)
    moreover have "?g < ?g'" using k t e1 e2 by simp
    ultimately show ?thesis using rest e2 by simp
  qed
qed

section \<open>The usual round of effects\<close>

text \<open>
  What most screens do: the load runs when its dependencies changed, and the nonce is bumped when
  something else asks for a reload. What the round sends besides (\<open>ds\<close>) is no load.
\<close>

definition no_load :: "(nat \<Rightarrow> response list \<Rightarrow> 'm) \<Rightarrow> ('m, 'o) cmd list \<Rightarrow> bool" where
  "no_load loaded cs \<longleftrightarrow> (\<forall>n qs. CallAll qs (loaded n) \<notin> set cs)"

lemma no_load_simps [simp]:
  "no_load loaded []" "no_load loaded (Do e # cs) = no_load loaded cs" "no_load loaded (Call q k # cs) = no_load loaded cs"
  "no_load loaded (Ask c g # cs) = no_load loaded cs" "no_load loaded (Out x # cs) = no_load loaded cs"
  "no_load loaded (cs @ ds) = (no_load loaded cs \<and> no_load loaded ds)" "no_load loaded (map Do es)"
  by (auto simp: no_load_def)

lemma usual_round:
  assumes "h' = (if again then fetch_bump else id) (if same then h else fetch_effect h)"
    and "cs = (if same then [] else [CallAll q (loaded (Suc (fh_generation h)))]) @ ds" and "no_load loaded ds"
    and "\<And>n n'. loaded n = loaded n' \<longleftrightarrow> n = n'" and "fetch_wf h"
  shows "fetch_wf h' \<and> (if same
     then fh_generation h' = fh_generation h \<and> fh_loading h' = fh_loading h \<and> (\<forall>n qs. CallAll qs (loaded n) \<notin> set cs)
     else fh_generation h' = Suc (fh_generation h) \<and> fresh_loads loaded (fh_generation h) (fh_generation h') q cs)"
  using assms by (auto simp: no_load_def fresh_loads_def fetch_effect_wf)

lemma usual_mount:
  assumes "h = fetch_effect (fetch_init i)" and "cs = CallAll q (loaded 1) # ds" and "no_load loaded ds"
    and "\<And>n n'. loaded n = loaded n' \<longleftrightarrow> n = n'"
  shows "fetch_wf h \<and> fresh_loads loaded 0 (fh_generation h) q cs"
  using assms by (auto simp: no_load_def fresh_loads_def fetch_effect_wf)

lemma usual_handle:
  assumes "fetch_wf h" and "h' = h \<or> h' = fetch_bump h \<or> (\<exists>n r. h' = fetch_settle n r h)"
    and "\<forall>rs. m = loaded (fh_generation h) rs \<longrightarrow> (\<exists>r. h' = fetch_settle (fh_generation h) r h)" and "no_load loaded cs"
  shows "fetch_wf h' \<and> fh_generation h' = fh_generation h \<and> (\<forall>n qs. CallAll qs (loaded n) \<notin> set cs)
    \<and> (fh_loading h' \<longrightarrow> fh_loading h \<and> (\<forall>rs. m \<noteq> loaded (fh_generation h) rs))"
proof -
  have "fh_loading h' \<longrightarrow> fh_loading h" "fetch_wf h'" "fh_generation h' = fh_generation h"
    using assms(1,2) by (auto simp: fetch_facts)
  moreover have "\<not> fh_loading h'" if m: "m = loaded (fh_generation h) rs" for rs
  proof -
    obtain r where "h' = fetch_settle (fh_generation h) r h" using assms(3) m by blast
    then show ?thesis using assms(1) fetch_settle_loading by metis
  qed
  ultimately show ?thesis using assms(4) unfolding no_load_def by blast
qed

text \<open>A request on its own, as the buttons send it; a screen's loads are \<open>CallAll\<close>s.\<close>

primrec is_single :: "('m, 'o) cmd \<Rightarrow> bool" where
  "is_single (Do e) = False"
| "is_single (Call q k) = True"
| "is_single (CallAll qs g) = False"
| "is_single (Ask c k) = False"
| "is_single (Copy s k) = False"
| "is_single (After n m) = False"
| "is_single (Out x) = False"

lemma is_single_awaits [simp]: "is_single c \<Longrightarrow> awaits c"
  by (cases c) auto

lemma filter_single_Do [simp]: "filter is_single (map Do es) = []"
  by (induction es) auto

end
