(* ===== verification/Activity.thy ===== *)
theory Activity
  imports Loads RunLists
begin

text \<open>
  \<open>src/ui/src/routes/activity.jsx\<close>: the runs in progress, and the history of finished runs, filtered
  and paged by the server. The state holds what the page reads of the live provider. Changing a
  filter, the page, the nonce of \<open>useFetch\<close> or the version of the runs makes the effects run.
\<close>

section \<open>State\<close>

definition KIND_FILTERS :: "(string \<times> string \<times> string) list" where
  "KIND_FILTERS = [(''all'', ''All operations'', ''Layers''), (''backup'', ''Backups'', lookup_or KIND_ICON ''backup'' ''''),
     (''retention'', ''Retention'', lookup_or KIND_ICON ''retention'' ''''), (''forget'', ''Forget'', lookup_or KIND_ICON ''forget'' ''''),
     (''restore'', ''Restores'', lookup_or KIND_ICON ''restore'' ''''), (''download'', ''Downloads'', lookup_or KIND_ICON ''download'' ''''),
     (''init'', ''Initializations'', lookup_or KIND_ICON ''init'' ''''), (''check'', ''Checks'', lookup_or KIND_ICON ''check'' ''''),
     (''speedtest'', ''Speed tests'', lookup_or KIND_ICON ''speedtest'' '''')]"

definition STATUS_FILTERS :: "(string \<times> string) list" where
  "STATUS_FILTERS = [(''all'', ''Any outcome''), (''success'', ''Succeeded''), (''success_warnings'', ''With warnings''),
     (''failed'', ''Failed''), (''canceled'', ''Stopped''), (''interrupted'', ''Interrupted'')]"

record history =
  hi_runs :: "run list"
  hi_total :: int

record activity =
  av_active :: "run list"
  av_version :: nat
  av_kind :: string
  av_status :: string
  av_page :: int
  av_fetch :: "(history, string) fetch_hook"

datatype activity_msg = AvLive "run list" nat | AvKind string | AvStatus string | AvPage int | AvClear | AvReload
  | AvLoaded nat "response list"

type_synonym activity_cmds = "(activity_msg, unit) cmd list"

section \<open>The loader\<close>

definition history_query :: "string \<Rightarrow> string \<Rightarrow> int \<Rightarrow> request" where
  "history_query kind status page = Runs_list
     [(''status'', Some (if status = ''all'' then ''finished'' else status)), (''kind'', Some (if kind = ''all'' then '''' else kind)),
      (''limit'', Some (show_int PAGE_SIZE)), (''offset'', Some (show_int ((page - 1) * PAGE_SIZE)))]"

definition av_query :: "activity \<Rightarrow> request list" where
  "av_query s = [history_query (av_kind s) (av_status s) (av_page s)]"

definition history_of :: "response \<Rightarrow> history" where
  "history_of res = \<lparr>hi_runs = (case b_runs (body_of res) of None \<Rightarrow> [] | Some rs \<Rightarrow> rs), hi_total = b_total (body_of res)\<rparr>"

definition av_result :: "response list \<Rightarrow> string + history" where
  "av_result rs = (let res = rs ! 0 in
     if \<not> res_ok res then Inl (str_or (b_error (body_of res)) ''Could not load the history.'') else Inr (history_of res))"

definition av_load :: "activity \<Rightarrow> activity \<times> activity_cmds" where
  "av_load s = run_load av_fetch (\<lambda>h s. s\<lparr>av_fetch := h\<rparr>) av_query AvLoaded s"

definition av_reload :: "activity \<Rightarrow> activity" where
  "av_reload s = s\<lparr>av_fetch := fetch_bump (av_fetch s)\<rparr>"

section \<open>Effects\<close>

text \<open>\<open>Math.max(1, Math.ceil(total / PAGE_SIZE))\<close>\<close>

definition last_page :: "int \<Rightarrow> int" where
  "last_page tot = max 1 (ceil_div tot PAGE_SIZE)"

definition av_clamp :: "activity \<Rightarrow> activity \<Rightarrow> activity" where
  "av_clamp s t = (case fh_data (av_fetch s) of None \<Rightarrow> t
     | Some d \<Rightarrow> if last_page (hi_total d) < av_page s then t\<lparr>av_page := last_page (hi_total d)\<rparr> else t)"

definition av_key :: "activity \<Rightarrow> string \<times> string \<times> int \<times> nat" where
  "av_key s = (av_kind s, av_status s, av_page s, fh_nonce (av_fetch s))"

definition av_effects :: "(activity, activity_msg, unit) effects" where
  "av_effects before s =
     (let (s1, cs) = (if av_key s = av_key before then (s, []) else av_load s);
          s2 = (if av_version s \<noteq> av_version before \<and> 0 < av_version s then av_reload s1 else s1);
          s3 = (if av_kind s \<noteq> av_kind before \<or> av_status s \<noteq> av_status before then s2\<lparr>av_page := 1\<rparr> else s2);
          s4 = (if fh_data (av_fetch s) \<noteq> fh_data (av_fetch before) \<or> av_page s \<noteq> av_page before then av_clamp s s3 else s3)
      in (s4, cs))"

section \<open>Messages\<close>

primrec av_handle :: "(activity, activity_msg, unit) update" where
  "av_handle (AvLive rs n) s = (s\<lparr>av_active := rs, av_version := n\<rparr>, [])"
| "av_handle (AvKind k) s = (s\<lparr>av_kind := k\<rparr>, [])"
| "av_handle (AvStatus k) s = (s\<lparr>av_status := k\<rparr>, [])"
| "av_handle (AvPage p) s = (s\<lparr>av_page := p\<rparr>, [])"
| "av_handle AvClear s = (s\<lparr>av_kind := ''all'', av_status := ''all''\<rparr>, [])"
| "av_handle AvReload s = (av_reload s, [])"
| "av_handle (AvLoaded n rs) s = (s\<lparr>av_fetch := fetch_settle n (av_result rs) (av_fetch s)\<rparr>, [])"

definition activity_update :: "(activity, activity_msg, unit) update" where
  "activity_update = page_update av_handle av_effects"

text \<open>The effects of the first render all run; those of a page without data leave the page number alone.\<close>

definition activity_first :: "run list \<Rightarrow> nat \<Rightarrow> activity" where
  "activity_first active version = \<lparr>av_active = active, av_version = version, av_kind = ''all'', av_status = ''all'',
     av_page = 1, av_fetch = fetch_init None\<rparr>"

definition activity_mount :: "run list \<Rightarrow> nat \<Rightarrow> activity \<times> activity_cmds" where
  "activity_mount active version =
     (let s0 = activity_first active version;
          (s1, cs1) = av_load s0;
          s2 = (if 0 < version then av_reload s1 else s1);
          (s3, cs3) = av_effects s0 s2
      in (s3, Do (SetTitle (''Activity '' @ middot @ '' restic backup manager'')) # cs1 @ cs3))"

section \<open>What it renders\<close>

definition av_history :: "activity \<Rightarrow> run list" where
  "av_history s = (case fh_data (av_fetch s) of None \<Rightarrow> [] | Some d \<Rightarrow> hi_runs d)"

definition av_total :: "activity \<Rightarrow> int" where
  "av_total s = (case fh_data (av_fetch s) of None \<Rightarrow> 0 | Some d \<Rightarrow> hi_total d)"

definition unfiltered :: "activity \<Rightarrow> bool" where
  "unfiltered s \<longleftrightarrow> av_kind s = ''all'' \<and> av_status s = ''all''"

definition filter_selects :: "activity \<Rightarrow> activity_msg ui" where
  "filter_selects s = Node ''div'' []
     [SelectOf (av_kind s) AvKind ''Operation''
        (map (\<lambda>(v, label, icon). (v, [Node ''span'' [] [Icon icon, Txt label]])) KIND_FILTERS),
      SelectOf (av_status s) AvStatus ''Outcome''
        (map (\<lambda>(v, label). (v, [Node ''span'' [] [if v = ''all'' then Node ''span'' [] [] else StatusDot v, Txt label]]))
           STATUS_FILTERS)]"

definition history_header :: "activity \<Rightarrow> activity_msg ui" where
  "history_header s = Node ''CardHeader'' []
     [Node ''div'' []
        [Node ''CardTitle'' [] ([Txt ''History''] @
           (case fh_data (av_fetch s) of None \<Rightarrow> [] | Some d \<Rightarrow> [Node ''span'' [] [Txt (show_int (av_total s))]])),
         Node ''CardDescription'' []
           [Txt (if int (length (av_history s)) < av_total s
             then ''Page '' @ show_int (av_page s) @ '' '' @ middot @ '' '' @ show_int (av_total s) @
               '' finished operations matching these filters.''
             else ''Every finished operation, newest first.'')]],
      filter_selects s]"

definition history_content :: "env \<Rightarrow> activity \<Rightarrow> activity_msg ui" where
  "history_content e s =
     (case (fh_error (av_fetch s), fh_data (av_fetch s)) of
        (Some err, None) \<Rightarrow> Node ''div'' [] [ErrorState (Some ''Could not load the history'')
          (err @ '' Check that the server is running, then retry.'') (Some AvReload)]
      | _ \<Rightarrow>
        if fh_loading (av_fetch s) \<and> fh_data (av_fetch s) = None then Node ''div'' [] (replicate 4 (Node ''Skeleton'' [] []))
        else if av_history s = [] then
          EmptyState (Some ''History'') ''neutral'' (if unfiltered s then ''Nothing here yet'' else ''No matches'')
            (if unfiltered s then ''Finished backups, restores and downloads are listed here.''
             else ''No finished operations match these filters.'')
            (shown (\<not> unfiltered s) [Node ''Button'' [On ''click'' AvClear] [Txt ''Clear filters'']]) False
        else RunHistory e (av_history s) True True None)"

definition ActivityRoute :: "env \<Rightarrow> (run \<Rightarrow> run_stream) \<Rightarrow> activity \<Rightarrow> activity_msg ui" where
  "ActivityRoute e streams s = Page
     [PageHeader [Txt ''Activity''] [Txt (''Everything this app has run. Live state comes from the server, so a '' @
         ''refresh, a second tab or coming back tomorrow all show the same thing.'')]
        [Node ''Button'' [On ''click'' AvReload, Flag ''disabled'' (fh_loading (av_fetch s))]
           [Node ''RefreshCw'' (shown (fh_loading (av_fetch s)) [At ''class'' ''animate-spin'']) [], Txt ''Refresh'']] [] [],
      Node ''div'' []
       [ActiveRunsCard e streams (av_active s) active_card_defaults,
        Node ''Card'' [] ([history_header s, Node ''div'' [] [history_content e s]] @
          shown (PAGE_SIZE < av_total s) [Node ''div'' [] (ListPagination (av_page s) PAGE_SIZE (av_total s) AvPage)])]]"

section \<open>Every load is for what is on screen\<close>

lemma last_page_pos [simp]: "1 \<le> last_page tot" "\<not> last_page tot < 1"
  by (auto simp: last_page_def)

lemma av_reload_fields [simp]:
  "av_fetch (av_reload s) = fetch_bump (av_fetch s)" "av_kind (av_reload s) = av_kind s" "av_status (av_reload s) = av_status s"
  "av_page (av_reload s) = av_page s" "av_version (av_reload s) = av_version s" "av_query (av_reload s) = av_query s"
  by (simp_all add: av_reload_def av_query_def)

lemma av_clamp_fields [simp]:
  "av_fetch (av_clamp s t) = av_fetch t" "av_kind (av_clamp s t) = av_kind t" "av_status (av_clamp s t) = av_status t"
  "av_version (av_clamp s t) = av_version t"
  by (auto simp: av_clamp_def split: option.split)

lemma av_load_eq: "av_load s = (s\<lparr>av_fetch := fetch_effect (av_fetch s)\<rparr>,
    [CallAll (av_query s) (AvLoaded (Suc (fh_generation (av_fetch s))))])"
  by (simp add: av_load_def run_load_def Let_def)

lemma av_loaded_eq [simp]: "AvLoaded n = AvLoaded n' \<longleftrightarrow> n = n'"
  by (auto simp: fun_eq_iff)

lemma av_effects_fetch:
  "av_effects b s = (s', cs) \<Longrightarrow>
     av_fetch s' = (if av_version s \<noteq> av_version b \<and> 0 < av_version s then fetch_bump else id)
       (if av_key s = av_key b then av_fetch s else fetch_effect (av_fetch s))
     \<and> cs = (if av_key s = av_key b then [] else [CallAll (av_query s) (AvLoaded (Suc (fh_generation (av_fetch s))))])"
  by (auto simp: av_effects_def av_load_eq Let_def split: prod.splits)

lemma av_effects_load:
  assumes "fetch_wf (av_fetch s)" and "av_effects b s = (s', cs)"
  shows "fetch_wf (av_fetch s') \<and> (if av_key s = av_key b
     then fh_generation (av_fetch s') = fh_generation (av_fetch s) \<and> fh_loading (av_fetch s') = fh_loading (av_fetch s)
       \<and> (\<forall>n qs. CallAll qs (AvLoaded n) \<notin> set cs)
     else fh_generation (av_fetch s') = Suc (fh_generation (av_fetch s))
       \<and> fresh_loads AvLoaded (fh_generation (av_fetch s)) (fh_generation (av_fetch s')) (av_query s) cs)"
  using assms(1) av_effects_fetch [OF assms(2)] by (auto simp: fresh_loads_def fetch_effect_wf)

text \<open>A round of effects leaves the page within the data it saw, unless it neither saw new data nor a new page.\<close>

definition page_fits :: "activity \<Rightarrow> bool" where
  "page_fits s \<longleftrightarrow> (case fh_data (av_fetch s) of None \<Rightarrow> True | Some d \<Rightarrow> av_page s \<le> last_page (hi_total d))"

lemma av_effects_data: "av_effects b s = (s', cs) \<Longrightarrow> fh_data (av_fetch s') = fh_data (av_fetch s)
    \<and> av_kind s' = av_kind s \<and> av_status s' = av_status s \<and> av_version s' = av_version s"
  by (auto simp: av_effects_def av_load_eq Let_def split: if_splits)

lemma av_effects_page:
  "av_effects b s = (s', cs) \<Longrightarrow>
     av_page s' = (if (fh_data (av_fetch s) \<noteq> fh_data (av_fetch b) \<or> av_page s \<noteq> av_page b) \<and> \<not> page_fits s
       then (case fh_data (av_fetch s) of None \<Rightarrow> av_page s | Some d \<Rightarrow> last_page (hi_total d))
       else if av_kind s \<noteq> av_kind b \<or> av_status s \<noteq> av_status b then 1 else av_page s)"
  by (auto simp: av_effects_def av_load_eq av_clamp_def page_fits_def Let_def split: if_splits option.splits)

lemma av_effects_rest:
  assumes "av_effects b s = (s1, cs1)" and "av_effects s s1 = (s2, cs2)"
  shows "av_key s2 = av_key s1"
proof -
  note d = av_effects_data [OF assms(1)] av_effects_data [OF assms(2)]
  have nonce: "fh_nonce (av_fetch s2) = fh_nonce (av_fetch s1)"
    using assms(2) d by (auto simp: av_effects_def av_load_eq Let_def split: if_splits)
  have "av_page s2 = av_page s1"
  proof (cases "av_page s1 = av_page s")
    case True
    then show ?thesis using av_effects_page [OF assms(2)] d by simp
  next
    case False
    then have "page_fits s1"
      using av_effects_page [OF assms(1)] d by (auto simp: page_fits_def split: if_splits option.splits)
    then show ?thesis using av_effects_page [OF assms(2)] d by simp
  qed
  with nonce d show ?thesis by (simp add: av_key_def)
qed

lemma av_handle_load:
  assumes "fetch_wf (av_fetch s)" and "av_handle m s = (t, cs)"
  shows "fetch_wf (av_fetch t) \<and> fh_generation (av_fetch t) = fh_generation (av_fetch s) \<and> cs = []
    \<and> (fh_loading (av_fetch t) \<longrightarrow> fh_loading (av_fetch s) \<and> (\<forall>rs. m \<noteq> AvLoaded (fh_generation (av_fetch s)) rs))"
  using assms by (cases m) (auto simp: fetch_facts)

interpretation av_page: fetch_page av_handle av_effects "ActivityRoute e streams" "{m. \<exists>rs n. m = AvLive rs n}"
  "activity_mount active version" av_fetch av_key av_query AvLoaded
  for e streams active version
proof unfold_locales
  fix s cs
  assume "activity_mount active version = (s, cs)"
  then show "fetch_wf (av_fetch s) \<and> fresh_loads AvLoaded 0 (fh_generation (av_fetch s)) (av_query s) cs"
    
    by (auto simp: activity_mount_def activity_first_def av_load_eq av_effects_def av_key_def fresh_loads_def av_query_def
        fetch_effect_wf Let_def split: if_splits)
next
  fix s m t cs
  assume "fetch_wf (av_fetch s)" "av_handle m s = (t, cs)"
  then show "fetch_wf (av_fetch t) \<and> fh_generation (av_fetch t) = fh_generation (av_fetch s)
      \<and> (\<forall>n qs. CallAll qs (AvLoaded n) \<notin> set cs)
      \<and> (fh_loading (av_fetch t) \<longrightarrow> fh_loading (av_fetch s) \<and> (\<forall>rs. m \<noteq> AvLoaded (fh_generation (av_fetch s)) rs))"
    by (auto dest: av_handle_load)
next
  fix s b s' cs
  assume "fetch_wf (av_fetch s)" "av_effects b s = (s', cs)"
  then show "fetch_wf (av_fetch s') \<and> (if av_key s = av_key b
     then fh_generation (av_fetch s') = fh_generation (av_fetch s) \<and> fh_loading (av_fetch s') = fh_loading (av_fetch s)
       \<and> (\<forall>n qs. CallAll qs (AvLoaded n) \<notin> set cs)
     else fh_generation (av_fetch s') = Suc (fh_generation (av_fetch s))
       \<and> fresh_loads AvLoaded (fh_generation (av_fetch s)) (fh_generation (av_fetch s')) (av_query s) cs)"
    by (rule av_effects_load)
next
  fix b s s1 cs1 s2 cs2
  assume "av_effects b s = (s1, cs1)" "av_effects s s1 = (s2, cs2)"
  then show "av_key s2 = av_key s1" by (rule av_effects_rest)
next
  fix s s' :: activity
  assume "av_key s = av_key s'"
  then show "av_query s = av_query s'" by (simp add: av_key_def av_query_def)
qed

text \<open>The page number is always one of the data shown; nothing but loads is ever in flight.\<close>

definition av_loads :: "activity_cmds \<Rightarrow> bool" where
  "av_loads cs \<longleftrightarrow> (\<forall>c \<in> set cs. \<forall>m \<in> replies c. \<exists>n rs. m = AvLoaded n rs)"

definition av_inv :: "activity \<Rightarrow> activity_cmds \<Rightarrow> bool" where
  "av_inv s p \<longleftrightarrow> 1 \<le> av_page s \<and> page_fits s \<and> av_loads p"

lemma av_loads_simps [simp]:
  "av_loads []" "av_loads (cs @ ds) = (av_loads cs \<and> av_loads ds)" "av_loads cs \<Longrightarrow> av_loads (awaiting cs)"
  "av_loads (Do e # cs) = av_loads cs" "av_loads (CallAll qs (AvLoaded n) # cs) = av_loads cs"
  by (auto simp: av_loads_def awaiting_def)

lemma av_effects_inv:
  assumes "av_effects b s = (s', cs)" and "1 \<le> av_page s"
    and "fh_data (av_fetch s) = fh_data (av_fetch b) \<Longrightarrow> av_page s = av_page b \<Longrightarrow> page_fits s"
  shows "av_inv s' cs"
proof -
  have "1 \<le> av_page s' \<and> page_fits s'"
  proof (cases "(fh_data (av_fetch s) \<noteq> fh_data (av_fetch b) \<or> av_page s \<noteq> av_page b) \<and> \<not> page_fits s")
    case True
    then show ?thesis using av_effects_page [OF assms(1)] av_effects_data [OF assms(1)]
      by (cases "fh_data (av_fetch s)") (auto simp: page_fits_def)
  next
    case False
    then have "page_fits s" using assms(3) by blast
    moreover have "av_page s' = 1 \<or> av_page s' = av_page s" using av_effects_page [OF assms(1)] False by auto
    ultimately show ?thesis using av_effects_data [OF assms(1)] assms(2)
      by (cases "fh_data (av_fetch s)") (auto simp: page_fits_def)
  qed
  moreover have "av_loads cs" using av_effects_fetch [OF assms(1)] by simp
  ultimately show ?thesis by (simp add: av_inv_def)
qed

lemma av_commit_inv:
  assumes "commit av_effects b s = (s', cs)" and "1 \<le> av_page s"
    and "fh_data (av_fetch s) = fh_data (av_fetch b) \<Longrightarrow> av_page s = av_page b \<Longrightarrow> page_fits s"
  shows "av_inv s' cs"
proof -
  obtain s1 c1 c2 where e: "av_effects b s = (s1, c1)" "av_effects s s1 = (s', c2)" "cs = c1 @ c2"
    using assms(1) by (auto simp: commit_def split: prod.splits)
  have "av_inv s1 c1" by (rule av_effects_inv [OF e(1) assms(2,3)])
  then show ?thesis using av_effects_inv [OF e(2)] by (simp add: av_inv_def e(3))
qed

lemma filter_selects_msgs: "msgs (filter_selects s) \<subseteq> range AvKind \<union> range AvStatus"
  by (auto simp: filter_selects_def SelectOf_msgs split: if_splits)

lemma history_header_msgs: "msgs (history_header s) \<subseteq> range AvKind \<union> range AvStatus"
  using filter_selects_msgs [of s] by (auto simp: history_header_def split: option.split)

lemma history_content_msgs: "msgs (history_content e s) \<subseteq> {AvReload, AvClear}"
  by (auto simp: history_content_def ErrorState_msgs EmptyState_msgs split: option.split)

lemma ActivityRoute_msgs: "AvPage p \<in> msgs (ActivityRoute e streams s) \<Longrightarrow> 1 \<le> p"
  using history_header_msgs [of s] history_content_msgs [of e s]
  by (auto simp: ActivityRoute_def active_card_defaults_def dest!: ListPagination_pages split: if_splits)

lemma activity_mounted:
  assumes "activity_mount active version = (s, cs)"
  obtains s2 c1 c2 where "av_effects (activity_first active version) s2 = (s, c2)" "av_page s2 = 1"
    "fh_data (av_fetch s2) = None" "cs = c1 @ c2" "av_loads c1"
proof -
  let ?title = "Do (SetTitle (''Activity '' @ middot @ '' restic backup manager'')) :: (activity_msg, unit) cmd"
  obtain s1 c1 where l: "av_load (activity_first active version) = (s1, c1)" by (metis surj_pair)
  define s2 where "s2 = (if 0 < version then av_reload s1 else s1)"
  obtain c2 where e: "av_effects (activity_first active version) s2 = (s, c2)" and cs: "cs = ?title # c1 @ c2"
    using assms by (auto simp: activity_mount_def Let_def l s2_def split: prod.splits)
  have "av_page s2 = 1" "fh_data (av_fetch s2) = None" "av_loads (?title # c1)"
    using l by (auto simp: s2_def av_load_eq activity_first_def)
  then show ?thesis using that [OF e] cs by auto
qed

lemma av_handle_inv:
  assumes "av_handle m s = (t, cs)" and "1 \<le> av_page s" and "page_fits s" and "\<And>p. m = AvPage p \<Longrightarrow> 1 \<le> p"
  shows "1 \<le> av_page t \<and> (fh_data (av_fetch t) = fh_data (av_fetch s) \<longrightarrow> av_page t = av_page s \<longrightarrow> page_fits t) \<and> cs = []"
  using assms by (cases m) (auto simp: page_fits_def split: option.splits)

lemma av_update_inv:
  assumes "av_inv s p" and "activity_update m s = (s', cs)" and "\<And>q. m = AvPage q \<Longrightarrow> 1 \<le> q"
  shows "av_inv s' (p @ awaiting cs)"
proof -
  obtain t c0 c1 where h: "av_handle m s = (t, c0)" "commit av_effects s t = (s', c1)" "cs = c0 @ c1"
    using assms(2) by (auto simp: activity_update_def page_update_def split: prod.splits)
  note t = av_handle_inv [OF h(1) _ _ assms(3)]
  have "av_inv s' c1" using assms(1) t by (intro av_commit_inv [OF h(2)]) (auto simp: av_inv_def)
  then show ?thesis using assms(1) t by (simp add: av_inv_def h(3))
qed

interpretation av_pages: component activity_update "ActivityRoute e streams" "{m. \<exists>rs n. m = AvLive rs n}"
  "activity_mount active version" av_inv
  for e streams active version
proof unfold_locales
  fix s cs
  assume "activity_mount active version = (s, cs)"
  then obtain s2 c1 c2 where s: "av_effects (activity_first active version) s2 = (s, c2)" "av_page s2 = 1"
      "fh_data (av_fetch s2) = None" "cs = c1 @ c2" "av_loads c1"
    by (rule activity_mounted)
  have "av_inv s c2" using s(2,3) by (intro av_effects_inv [OF s(1)]) (auto simp: page_fits_def)
  then show "av_inv s (awaiting cs)" using s(4,5) by (simp add: av_inv_def del: append_Cons)
next
  fix s p m s' cs
  assume "av_inv s p" "m \<in> msgs (ActivityRoute e streams s) \<union> {m. \<exists>rs n. m = AvLive rs n}" "activity_update m s = (s', cs)"
  then show "av_inv s' (p @ awaiting cs)" by (intro av_update_inv) (auto dest: ActivityRoute_msgs)
next
  fix s p c q m s' cs
  assume inv: "av_inv s (p @ c # q)" and m: "m \<in> replies c" and u: "activity_update m s = (s', cs)"
  have "\<exists>n rs. m = AvLoaded n rs" using inv m by (auto simp: av_inv_def av_loads_def)
  moreover have "av_inv s (p @ q)" using inv by (auto simp: av_inv_def av_loads_def)
  ultimately have "av_inv s' ((p @ q) @ awaiting cs)" by (intro av_update_inv [OF _ u]) auto
  then show "av_inv s' (p @ q @ awaiting cs)" by simp
qed

section \<open>Properties\<close>

text \<open>
  The effects of the Activity page come to rest: whatever changed before a render, the second round of
  effects is the last, so filters, page and reloads never chase each other.
\<close>

theorem activity_effects_settle: "at_rest av_effects before s"
proof -
  obtain s1 c1 where e1: "av_effects before s = (s1, c1)" by (metis surj_pair)
  obtain s2 c2 where e2: "av_effects s s1 = (s2, c2)" by (metis surj_pair)
  have key: "av_key s2 = av_key s1" by (rule av_effects_rest [OF e1 e2])
  have "av_version s2 = av_version s1" "fh_data (av_fetch s2) = fh_data (av_fetch s1)"
    using av_effects_data [OF e2] by auto
  then have "av_effects s1 s2 = (s2, [])" using key by (simp add: av_effects_def av_key_def)
  then show ?thesis by (simp add: at_rest_def e1 e2)
qed

lemma stale_page_reply:
  assumes "n \<noteq> fh_generation (av_fetch s)" and "activity_update (AvLoaded n rs) s = (s', cs)"
  shows "s' = s \<and> cs = []"
proof -
  have same: "av_effects t t = (t, [])" for t by (simp add: av_effects_def)
  have "s\<lparr>av_fetch := fetch_settle n (av_result rs) (av_fetch s)\<rparr> = s" using assms(1) by (simp add: fetch_settle_stale)
  then show ?thesis using assms(2) by (simp add: activity_update_def page_update_def commit_def same)
qed

text \<open>
  C19. The history shown is the one asked for: in every execution, while the page loads, the request for
  the filters and page on screen is in flight; an answer that changes anything answers exactly that
  request; and the page number is always one of the data shown.
\<close>

theorem activity_shows_what_is_asked:
  assumes "reach activity_update (ActivityRoute e streams) {m. \<exists>rs n. m = AvLive rs n} (activity_mount active version) s p"
  shows "(fh_loading (av_fetch s) \<longrightarrow> CallAll [history_query (av_kind s) (av_status s) (av_page s)]
        (AvLoaded (fh_generation (av_fetch s))) \<in> set p)
    \<and> (\<forall>n qs rs. CallAll qs (AvLoaded n) \<in> set p \<longrightarrow> fst (activity_update (AvLoaded n rs) s) \<noteq> s \<longrightarrow>
        qs = [history_query (av_kind s) (av_status s) (av_page s)])
    \<and> 1 \<le> av_page s \<and> (\<forall>d. fh_data (av_fetch s) = Some d \<longrightarrow> av_page s \<le> last_page (hi_total d))"
proof -
  have r: "reach (page_update av_handle av_effects) (ActivityRoute e streams) {m. \<exists>rs n. m = AvLive rs n}
      (activity_mount active version) s p"
    using assms by (simp add: activity_update_def)
  have "n = fh_generation (av_fetch s)" if "fst (activity_update (AvLoaded n rs) s) \<noteq> s" for n rs
    using stale_page_reply [of n s rs] that by (metis prod.collapse)
  then show ?thesis
    using av_page.loading_in_flight [OF r] av_page.answers_query [OF r] av_pages.invariant [OF assms]
    by (auto simp: av_query_def av_inv_def page_fits_def)
qed

theorem activity_shows_what_is_asked_witness:
  "\<exists>s p. reach activity_update (ActivityRoute sample_env (\<lambda>r. run_stream_init False)) {m. \<exists>rs n. m = AvLive rs n}
       (activity_mount [] 0) s p \<and> CallAll [history_query ''all'' ''all'' 1] (AvLoaded 1) \<in> set p"
proof -
  let ?R = "reach activity_update (ActivityRoute sample_env (\<lambda>r. run_stream_init False)) {m. \<exists>rs n. m = AvLive rs n}
       (activity_mount [] 0)"
  obtain s cs where m: "activity_mount [] 0 = (s, cs)" by (metis surj_pair)
  then have r: "?R s (awaiting cs)" by (rule reach.mount)
  have "fh_loading (av_fetch s) \<and> fh_generation (av_fetch s) = 1 \<and> av_kind s = ''all'' \<and> av_status s = ''all'' \<and> av_page s = 1"
    using m by (auto simp: activity_mount_def activity_first_def av_load_eq av_effects_def av_key_def av_clamp_def Let_def
        split: if_splits)
  then show ?thesis using activity_shows_what_is_asked [OF r] r by auto
qed

end
