(* ===== verification/Numbers.thy ===== *)
theory Numbers
  imports Prelude
begin

text \<open>
  \<open>Number(s)\<close> of a text, and \<open>String(n / 100)\<close>: the conversions of ECMAScript the forms with
  decimal fields use. A literal is the rational it denotes, and infinite from where a double is.
\<close>

section \<open>Reading a number\<close>

datatype js_num = NaN | Infinite bool | Finite rat

definition digits_value :: "string \<Rightarrow> nat" where
  "digits_value s = read_rev (rev s)"

definition all_digits :: "string \<Rightarrow> bool" where
  "all_digits s \<longleftrightarrow> s \<noteq> [] \<and> list_all is_digit s"

text \<open>The sign in front of a literal or an exponent.\<close>

definition split_sign :: "string \<Rightarrow> bool \<times> string" where
  "split_sign s = (case s of [] \<Rightarrow> (False, []) | c # cs \<Rightarrow>
     if c = CHR ''-'' then (True, cs) else if c = CHR ''+'' then (False, cs) else (False, s))"

text \<open>The exponent part: absent, or \<open>e\<close> with a sign and digits.\<close>

definition exponent :: "string \<Rightarrow> int option" where
  "exponent s = (case s of [] \<Rightarrow> Some 0 | c # cs \<Rightarrow>
     if c \<noteq> CHR ''e'' \<and> c \<noteq> CHR ''E'' then None
     else let (neg, ds) = split_sign cs
       in if all_digits ds then Some ((if neg then - 1 else 1) * int (digits_value ds)) else None)"

definition scaled :: "nat \<Rightarrow> int \<Rightarrow> rat" where
  "scaled n e = (if 0 \<le> e then of_nat n * 10 ^ nat e else of_nat n / 10 ^ nat (- e))"

text \<open>Digits, a point and digits, one of them present, and an exponent.\<close>

definition unsigned_decimal :: "string \<Rightarrow> rat option" where
  "unsigned_decimal s =
     (let ip = takeWhile is_digit s; r = dropWhile is_digit s;
          (fp, x) = (case r of [] \<Rightarrow> ([], []) | c # cs \<Rightarrow>
             if c = CHR ''.'' then (takeWhile is_digit cs, dropWhile is_digit cs) else ([], r))
      in if ip @ fp = [] then None
         else map_option (\<lambda>e. scaled (digits_value (ip @ fp)) (e - int (length fp))) (exponent x))"

definition radix_digit :: "char \<Rightarrow> nat option" where
  "radix_digit c = (let n = of_char (lower_char c) in
     if 48 \<le> n \<and> n < 58 then Some (n - 48) else if 97 \<le> n \<and> n < 103 then Some (n - 87) else None)"

definition radix_value :: "nat \<Rightarrow> string \<Rightarrow> nat option" where
  "radix_value b s = (if s = [] then None
     else fold (\<lambda>c acc. case (acc, radix_digit c) of (Some a, Some d) \<Rightarrow> if d < b then Some (b * a + d) else None | _ \<Rightarrow> None)
       s (Some 0))"

definition radix_of :: "string \<Rightarrow> nat option" where
  "radix_of s = (case s of z # c # _ \<Rightarrow> if z \<noteq> CHR ''0'' then None
       else if lower_char c = CHR ''x'' then Some 16 else if lower_char c = CHR ''o'' then Some 8
       else if lower_char c = CHR ''b'' then Some 2 else None
     | _ \<Rightarrow> None)"

text \<open>A literal from \<open>2\<^sup>1\<^sup>0\<^sup>2\<^sup>4 - 2\<^sup>9\<^sup>7\<^sup>0\<close> on rounds to infinity.\<close>

definition double :: "bool \<Rightarrow> rat \<Rightarrow> js_num" where
  "double neg r = (if 2 ^ 1024 - 2 ^ 970 \<le> r then Infinite neg else Finite (if neg then - r else r))"

definition Number :: "string \<Rightarrow> js_num" where
  "Number text =
     (let s = trim text in
      if s = [] then Finite 0
      else case radix_of s of
        Some b \<Rightarrow> (case radix_value b (drop 2 s) of None \<Rightarrow> NaN | Some n \<Rightarrow> double False (of_nat n))
      | None \<Rightarrow>
          let (neg, u) = split_sign s
          in if u = ''Infinity'' then Infinite neg
             else case unsigned_decimal u of None \<Rightarrow> NaN | Some r \<Rightarrow> double neg r)"

section \<open>Writing a number of hundredths\<close>

definition show_hundredths :: "nat \<Rightarrow> string" where
  "show_hundredths h =
     (let q = h div 100; r = h mod 100 in
      if r = 0 then show_nat q
      else if r mod 10 = 0 then show_nat q @ ''.'' @ show_nat (r div 10)
      else show_nat q @ ''.'' @ show_nat (r div 10) @ show_nat (r mod 10))"

section \<open>Reading it back\<close>

lemma read_rev_append: "read_rev (xs @ ys) = read_rev xs + 10 ^ length xs * read_rev ys"
  by (induction xs) (auto simp: algebra_simps)

lemma digits_value_append: "digits_value (xs @ ys) = digits_value xs * 10 ^ length ys + digits_value ys"
  by (simp add: digits_value_def read_rev_append)

lemma digits_value_show [simp]: "digits_value (show_nat n) = n"
  by (simp add: digits_value_def show_nat_def read_rev_digits)

lemma show_nat_digits_all [simp]: "takeWhile is_digit (show_nat n @ c # cs) = show_nat n @ takeWhile is_digit (c # cs)"
  "dropWhile is_digit (show_nat n @ c # cs) = dropWhile is_digit (c # cs)"
  "takeWhile is_digit (show_nat n) = show_nat n" "dropWhile is_digit (show_nat n) = []"
  using show_nat_is_digit [of _ n] by (auto simp: takeWhile_append dropWhile_append)

lemma is_digit_chars [simp]: "\<not> is_digit (CHR ''.'')" "\<not> is_digit (CHR ''-'')" "\<not> is_digit (CHR ''+'')"
  by (simp_all add: is_digit_def)

lemma is_digit_char_of [simp]: "d < 10 \<Longrightarrow> is_digit (char_of (48 + d :: nat))"
  by (simp add: is_digit_def)

lemma show_digit: "d < 10 \<Longrightarrow> show_nat d = [char_of (48 + d)]"
  by (simp add: show_nat_def)

lemma show_hundredths_shape:
  obtains q f where "show_hundredths h = (if f = [] then show_nat q else show_nat q @ ''.'' @ f)"
    "list_all is_digit f" "(of_nat h :: rat) / 100 = scaled (digits_value (show_nat q @ f)) (- int (length f))"
proof -
  define q r where "q = h div 100" and "r = h mod 100"
  have h: "h = 100 * q + r" "r < 100" by (simp_all add: q_def r_def)
  have eq: "show_hundredths h = (if r = 0 then show_nat q else if r mod 10 = 0 then show_nat q @ ''.'' @ show_nat (r div 10)
      else show_nat q @ ''.'' @ show_nat (r div 10) @ show_nat (r mod 10))"
    by (simp add: show_hundredths_def q_def r_def Let_def)
  have d: "r div 10 < 10" "r mod 10 < 10" using h(2) by simp_all
  have r: "r = 10 * (r div 10) + r mod 10" by simp
  consider "r = 0" | "r \<noteq> 0" "r mod 10 = 0" | "r mod 10 \<noteq> 0" by fastforce
  then show ?thesis
  proof cases
    case 1
    have "(of_nat h :: rat) / 100 = of_nat q" using h(1) 1 by simp
    then have "(of_nat h :: rat) / 100 = scaled (digits_value (show_nat q @ [])) (- int (length []))"
      by (simp add: scaled_def)
    then show ?thesis using 1 eq that [of "[]" q] by simp
  next
    case 2
    then have "r = 10 * (r div 10)" using r by linarith
    then obtain t where t: "r = 10 * t" by blast
    then have "(of_nat h :: rat) = 10 * of_nat (10 * q + r div 10)" using h(1) by simp
    then have "(of_nat h :: rat) / 100 = of_nat (10 * q + r div 10) / 10" by simp
    moreover have "digits_value (show_nat q @ show_nat (r div 10)) = 10 * q + r div 10"
      unfolding digits_value_append digits_value_show using d by (simp add: show_digit)
    ultimately have "(of_nat h :: rat) / 100 = scaled (digits_value (show_nat q @ show_nat (r div 10))) (- int (length (show_nat (r div 10))))"
      using d by (simp add: scaled_def show_digit)
    then show ?thesis using 2 eq d that [of "show_nat (r div 10)" q] by (simp add: show_digit)
  next
    case 3
    let ?f = "show_nat (r div 10) @ show_nat (r mod 10)"
    have len: "length ?f = 2" using d by (simp add: show_digit del: digits_rev_code)
    have "digits_value (show_nat q @ ?f) = (q * 10 + r div 10) * 10 + r mod 10"
      unfolding append_assoc [symmetric] digits_value_append digits_value_show using d by (simp add: show_digit)
    also have "\<dots> = h" using h(1) r by presburger
    finally have "(of_nat h :: rat) / 100 = scaled (digits_value (show_nat q @ ?f)) (- int (length ?f))"
      using len by (simp add: scaled_def)
    then show ?thesis using 3 eq d that [of ?f q] by (auto simp: show_digit)
  qed
qed

lemma scaled_pos: "0 \<le> scaled n e"
  by (simp add: scaled_def)

lemma exponent_Nil [simp]: "exponent [] = Some 0"
  by (simp add: exponent_def)

lemma list_all_takeWhile [simp]: "list_all P xs \<Longrightarrow> takeWhile P xs = xs" "list_all P xs \<Longrightarrow> dropWhile P xs = []"
  by (auto simp: list_all_iff takeWhile_eq_all_conv)

lemma unsigned_decimal_show:
  assumes "list_all is_digit f"
  shows "unsigned_decimal (if f = [] then show_nat q else show_nat q @ ''.'' @ f) =
    Some (scaled (digits_value (show_nat q @ f)) (- int (length f)))"
  using assms by (auto simp: unsigned_decimal_def)

lemma show_nat_hd:
  obtains c cs where "show_nat n = c # cs" "is_digit c" "\<forall>x \<in> set cs. is_digit x"
  using show_nat_is_digit [of _ n] by (cases "show_nat n") (auto simp: show_nat_def)

lemma digit_not: "is_digit c \<Longrightarrow> c \<noteq> CHR ''-'' \<and> c \<noteq> CHR ''+'' \<and> c \<noteq> CHR ''I'' \<and> \<not> is_space c \<and> lower_char c \<noteq> CHR ''x''
    \<and> lower_char c \<noteq> CHR ''o'' \<and> lower_char c \<noteq> CHR ''b'' \<and> c \<noteq> CHR ''.''"
  by (auto simp: is_digit_def is_space_def lower_char_def Let_def)

lemma trim_id: "s = [] \<or> \<not> is_space (hd s) \<and> \<not> is_space (last s) \<Longrightarrow> trim s = s"
proof -
  assume a: "s = [] \<or> \<not> is_space (hd s) \<and> \<not> is_space (last s)"
  show ?thesis
  proof (cases s)
    case (Cons c cs)
    then have "dropWhile is_space s = s" using a by auto
    moreover have "dropWhile is_space (rev s) = rev s" using a Cons by (cases "rev s") (auto simp: hd_rev [symmetric] last_rev)
    ultimately show ?thesis by (simp add: trim_def)
  qed (simp add: trim_def)
qed

text \<open>A text of digits and points that starts with a digit is read as a decimal.\<close>

lemma Number_decimal:
  assumes "s = c # cs" and "is_digit c" and "\<forall>x \<in> set cs. is_digit x \<or> x = CHR ''.''" and "unsigned_decimal s = Some v"
    and "v < 2 ^ 1024 - 2 ^ 970"
  shows "trim s = s" "Number s = Finite v" "CHR '','' \<notin> set s"
proof -
  have chars: "is_digit x \<or> x = CHR ''.''" if "x \<in> set s" for x using that assms(1-3) by auto
  have last: "last s \<in> set s" "hd s \<in> set s" using assms(1) by auto
  have nospace: "\<not> is_space (CHR ''.'')" by (simp add: is_space_def)
  show t: "trim s = s" using chars [OF last(1)] chars [OF last(2)] digit_not nospace by (intro trim_id) auto
  show "CHR '','' \<notin> set s" using chars [of "CHR '',''"] by (auto simp: is_digit_def)
  have "radix_of s = None"
  proof (cases cs)
    case Nil
    then show ?thesis by (simp add: radix_of_def assms(1))
  next
    case (Cons d ds)
    then have "d = CHR ''.'' \<or> is_digit d" using assms(3) by auto
    then have "lower_char d \<noteq> CHR ''x'' \<and> lower_char d \<noteq> CHR ''o'' \<and> lower_char d \<noteq> CHR ''b''"
      using digit_not [of d] by (auto simp: lower_char_def)
    then show ?thesis by (simp add: radix_of_def assms(1) Cons)
  qed
  moreover have "split_sign s = (False, s)" using digit_not [OF assms(2)] by (simp add: split_sign_def assms(1))
  moreover have "s \<noteq> ''Infinity''" using digit_not [OF assms(2)] by (auto simp: assms(1))
  ultimately show "Number s = Finite v"
    using t assms(4,5) assms(1) by (simp add: Number_def double_def)
qed

lemma Number_hundredths:
  assumes "of_nat h / 100 < (2 ^ 1024 - 2 ^ 970 :: rat)"
  shows "trim (show_hundredths h) = show_hundredths h" "Number (show_hundredths h) = Finite (of_nat h / 100)"
    "CHR '','' \<notin> set (show_hundredths h)" "show_hundredths h \<noteq> []"
proof -
  obtain q f where f: "show_hundredths h = (if f = [] then show_nat q else show_nat q @ ''.'' @ f)"
    "list_all is_digit f" "(of_nat h :: rat) / 100 = scaled (digits_value (show_nat q @ f)) (- int (length f))"
    by (rule show_hundredths_shape)
  obtain c cs where c: "show_nat q = c # cs" "is_digit c" "\<forall>x \<in> set cs. is_digit x" by (rule show_nat_hd)
  then obtain cs' where s: "show_hundredths h = c # cs'" "\<forall>x \<in> set cs'. is_digit x \<or> x = CHR ''.''"
    using f(1,2) by (cases "f = []") (auto simp: list_all_iff)
  have "unsigned_decimal (show_hundredths h) = Some (of_nat h / 100)"
    unfolding f(1) f(3) by (rule unsigned_decimal_show [OF f(2)])
  from Number_decimal [OF s(1) c(2) s(2) this assms] s(1)
  show "trim (show_hundredths h) = show_hundredths h" "Number (show_hundredths h) = Finite (of_nat h / 100)"
    "CHR '','' \<notin> set (show_hundredths h)" "show_hundredths h \<noteq> []" by simp_all
qed

end
