(* ===== verification/RepoSettings.thy ===== *)
theory RepoSettings
  imports Widgets Numbers
begin

text \<open>
  \<open>src/ui/src/components/repo-settings.jsx\<close>: the cards for a repository's automatic check and its
  speed limits, with the texts of both and the conversion of a limit from KiB/s to the MB/s of the form
  and back. The repository is a prop; a new one is a message of the environment.
\<close>

section \<open>The texts of a check\<close>

definition EVERY_LABEL :: table where
  "EVERY_LABEL = [(''daily'', ''Daily''), (''weekly'', ''Weekly''), (''monthly'', ''Monthly'')]"

definition READ_DATA :: "(string \<times> string) list" where
  "READ_DATA = [(''none'', ''No: structure only (quick)''), (''1%'', ''Yes: 1% of the data''),
     (''5%'', ''Yes: 5% of the data''), (''10%'', ''Yes: 10% of the data'')]"

definition describeCheck :: "check_schedule option \<Rightarrow> string" where
  "describeCheck c = (case c of None \<Rightarrow> ''''
     | Some c \<Rightarrow> if \<not> cks_enabled c then ''''
         else lookup_or EVERY_LABEL (cks_every c) (cks_every c) @ '' at '' @ cks_at c @
           (if cks_readData c \<noteq> '''' then '', reading '' @ cks_readData c @ '' of the data'' else ''''))"

definition checkOutcome :: "last_check option \<Rightarrow> string" where
  "checkOutcome check = (case check of None \<Rightarrow> ''''
     | Some c \<Rightarrow> if lc_status c = ''success'' \<or> lc_status c = ''success_warnings'' then ''No errors''
         else if lc_status c = ''failed'' then ''Found errors'' else ''Did not finish'')"

definition checkForm :: "repository \<Rightarrow> check_schedule" where
  "checkForm repo = (let c = repo_checkSchedule repo in
     \<lparr>cks_enabled = (case c of None \<Rightarrow> False | Some c \<Rightarrow> cks_enabled c), cks_every = opt_str cks_every c ''weekly'',
      cks_at = opt_str cks_at c ''04:00'', cks_readData = opt_str cks_readData c ''none''\<rparr>)"

definition check_payload :: "check_schedule \<Rightarrow> check_schedule" where
  "check_payload form = form\<lparr>cks_readData := (if cks_readData form = ''none'' then '''' else cks_readData form)\<rparr>"

text \<open>The server's side (\<open>RepoCheckSchedule\<close> in \<open>internal/core/model.go\<close>): its text, and what it accepts.\<close>

definition go_describe_check :: "check_schedule \<Rightarrow> string" where
  "go_describe_check c = cks_every c @ '' at '' @ cks_at c @
     (if cks_readData c \<noteq> '''' then '', reading '' @ cks_readData c @ '' of the data'' else '''')"

definition check_period :: "check_schedule \<Rightarrow> nat" where
  "check_period c = (if cks_every c = ''daily'' then 24 else if cks_every c = ''weekly'' then 7 * 24
     else if cks_every c = ''monthly'' then 30 * 24 else 0)"

section \<open>The check card\<close>

record check_card =
  cc_repo :: repository
  cc_form :: check_schedule
  cc_busy :: bool
  cc_error :: string

datatype check_msg = CcRepo repository | CcEnabled bool | CcEvery string | CcAt string | CcReadData string
  | CcSubmit | CcSaved check_schedule response

type_synonym check_cmds = "(check_msg, unit) cmd list"

definition cc_mount :: "repository \<Rightarrow> check_card \<times> check_cmds" where
  "cc_mount repo = (\<lparr>cc_repo = repo, cc_form = checkForm repo, cc_busy = False, cc_error = ''''\<rparr>, [])"

definition cc_newRepo :: "repository \<Rightarrow> check_card \<Rightarrow> check_card" where
  "cc_newRepo repo s = s\<lparr>cc_repo := repo, cc_form := checkForm repo, cc_error := ''''\<rparr>"

definition check_json :: "check_schedule \<Rightarrow> json" where
  "check_json c = JObj [(''enabled'', JBool (cks_enabled c)), (''every'', JStr (cks_every c)), (''at'', JStr (cks_at c)),
     (''readData'', JStr (cks_readData c))]"

definition cc_save :: "check_card \<Rightarrow> check_card \<times> check_cmds" where
  "cc_save s = (let payload = check_payload (cc_form s) in
     (s\<lparr>cc_busy := True, cc_error := ''''\<rparr>,
      [Call (Repositories_setCheckSchedule (repo_id (cc_repo s)) (check_json payload)) (CcSaved payload)]))"

definition cc_saved :: "check_schedule \<Rightarrow> response \<Rightarrow> check_card \<Rightarrow> check_card \<times> check_cmds" where
  "cc_saved payload res s0 = (let s = s0\<lparr>cc_busy := False\<rparr> in
     if res_ok res then (s, [Do (Toast (plain_toast Success
         (if cks_enabled payload then ''Automatic check: '' @ describeCheck (Some payload) @ ''.''
          else ''Automatic check turned off.''))), Out ()])
     else (s\<lparr>cc_error := errorOf res ''Could not save the check schedule.''\<rparr>, []))"

primrec cc_update :: "(check_card, check_msg, unit) update" where
  "cc_update (CcRepo repo) s = (cc_newRepo repo s, [])"
| "cc_update (CcEnabled v) s = (s\<lparr>cc_form := (cc_form s)\<lparr>cks_enabled := v\<rparr>\<rparr>, [])"
| "cc_update (CcEvery v) s = (s\<lparr>cc_form := (cc_form s)\<lparr>cks_every := v\<rparr>\<rparr>, [])"
| "cc_update (CcAt v) s = (s\<lparr>cc_form := (cc_form s)\<lparr>cks_at := v\<rparr>\<rparr>, [])"
| "cc_update (CcReadData v) s = (s\<lparr>cc_form := (cc_form s)\<lparr>cks_readData := v\<rparr>\<rparr>, [])"
| "cc_update CcSubmit s = cc_save s"
| "cc_update (CcSaved payload res) s = cc_saved payload res s"

definition cc_last :: "env \<Rightarrow> last_check option \<Rightarrow> check_msg ui" where
  "cc_last e l = Node ''p'' [] (case l of
       Some c \<Rightarrow> [StatusDot (lc_status c),
         Node ''span'' (shown (lc_status c = ''failed'') [At ''class'' ''text-destructive''])
           [Txt (''Last check: '' @ checkOutcome (Some c) @ '' '' @ middot @ '' '' @
              fmtRelative e (str_or (lc_finishedAt c) (lc_startedAt c)))],
         Node ''Link'' [At ''to'' (''/runs/'' @ lc_runId c)] [Txt ''Log'']]
     | None \<Rightarrow> [Node ''span'' [] [Txt ''Never checked yet.'']])"

definition cc_fields :: "check_schedule \<Rightarrow> check_msg ui list" where
  "cc_fields f =
     [Field ''How often'' ''check-every'' '''' [Select (cks_every f) CcEvery ''check-every''
        [(''daily'', ''Daily''), (''weekly'', ''Weekly''), (''monthly'', ''Monthly'')]],
      Field ''Time'' ''check-at'' '''' [Node ''Input'' [At ''id'' ''check-at'', At ''type'' ''time'', At ''value'' (cks_at f),
        OnText ''change'' CcAt] []],
      Field ''Also read the data'' ''check-read'' (''Reading downloads that share of the stored backups each time (it uses '' @
          ''traffic), and finds damaged data, not only missing pieces.'')
        [Select (cks_readData f) CcReadData ''check-read'' READ_DATA]]"

definition CheckScheduleCard :: "env \<Rightarrow> check_card \<Rightarrow> check_msg ui" where
  "CheckScheduleCard e s =
     (let repo = cc_repo s; f = cc_form s in
      Node ''Card'' []
       [Node ''CardHeader'' [] [Node ''div'' [] [Node ''CardTitle'' [] [Txt ''Automatic check''],
          Node ''CardDescription'' [] [Txt (''Checks on its own that the backups stored here are complete and readable, so '' @
            ''damage is found before you need a restore. Backups to this repository wait while it runs: pick a quiet hour.'')]]],
        Node ''CardContent'' [] [Node ''form'' [On ''submit'' CcSubmit]
         ([cc_last e (repo_lastCheck repo),
           SwitchRow (''check-enabled-'' @ repo_id repo) (cks_enabled f) CcEnabled (cc_busy s) ''Check automatically''
             (if cks_enabled f then describeCheck (Some (check_payload f)) else ''Off: check by hand from Maintenance'')] @
          shown (cks_enabled f) [Node ''div'' [] (cc_fields f)] @
          shown ((case repo_checkSchedule repo of None \<Rightarrow> False | Some c \<Rightarrow> cks_enabled c) \<and> repo_nextCheckAt repo \<noteq> '''')
            [Node ''p'' [] [Icon ''CalendarClock'', Txt (''Next check '' @ fmtRelative e (repo_nextCheckAt repo))]] @
          InlineError (cc_error s) @
          [Node ''div'' [] [Node ''Button'' [At ''type'' ''submit'', Flag ''disabled'' (cc_busy s)]
             [Txt (if cc_busy s then ''Saving'' @ ellipsis else ''Save'')]]])]])"

section \<open>Limits in the units of the form\<close>

text \<open>\<open>kib > 0 ? String(Math.round((kib / 1024) * 100) / 100) : ""\<close>\<close>

definition toMB :: "int \<Rightarrow> string" where
  "toMB kib = (if 0 < kib then show_hundredths (nat (js_round (of_int kib / 1024 * 100))) else '''')"

text \<open>\<open>s.replace(",", ".")\<close>: the first comma alone.\<close>

fun comma_to_point :: "string \<Rightarrow> string" where
  "comma_to_point [] = []"
| "comma_to_point (c # cs) = (if c = CHR '','' then CHR ''.'' # cs else c # comma_to_point cs)"

definition limit_number :: "string \<Rightarrow> js_num" where
  "limit_number v = Number (comma_to_point (trim v))"

definition toKiB :: "string \<Rightarrow> int" where
  "toKiB mb = (case limit_number mb of
     Finite n \<Rightarrow> if mb = '''' \<or> n \<le> 0 then 0 else js_round (n * 1024)
   | _ \<Rightarrow> 0)"

definition fmtLimit :: "int \<Rightarrow> string" where
  "fmtLimit kib = (if 0 < kib then toMB kib @ '' MB/s'' else ''no limit'')"

definition bad_limit :: "string \<Rightarrow> bool" where
  "bad_limit v \<longleftrightarrow> trim v \<noteq> '''' \<and> (case limit_number v of NaN \<Rightarrow> True | Infinite neg \<Rightarrow> neg | Finite n \<Rightarrow> n < 0)"

section \<open>The speed limit card\<close>

record limit_card =
  sl_repo :: repository
  sl_upload :: string
  sl_download :: string
  sl_busy :: bool
  sl_error :: string

datatype limit_msg = SlRepo repository | SlUpload string | SlDownload string | SlSubmit | SlSaved int int response

type_synonym limit_cmds = "(limit_msg, unit) cmd list"

definition sl_mount :: "repository \<Rightarrow> limit_card \<times> limit_cmds" where
  "sl_mount repo = (\<lparr>sl_repo = repo, sl_upload = toMB (repo_uploadLimitKiB repo),
     sl_download = toMB (repo_downloadLimitKiB repo), sl_busy = False, sl_error = ''''\<rparr>, [])"

definition sl_newRepo :: "repository \<Rightarrow> limit_card \<Rightarrow> limit_card" where
  "sl_newRepo repo s = s\<lparr>sl_repo := repo, sl_upload := toMB (repo_uploadLimitKiB repo),
     sl_download := toMB (repo_downloadLimitKiB repo), sl_error := ''''\<rparr>"

definition limit_json :: "int \<Rightarrow> int \<Rightarrow> json" where
  "limit_json up down = JObj [(''uploadLimitKiB'', JInt up), (''downloadLimitKiB'', JInt down)]"

definition sl_save :: "limit_card \<Rightarrow> limit_card \<times> limit_cmds" where
  "sl_save s =
     (if bad_limit (sl_upload s) \<or> bad_limit (sl_download s)
      then (s\<lparr>sl_error := ''Enter a number of MB/s, or leave the field empty for no limit.''\<rparr>, [])
      else let up = toKiB (sl_upload s); down = toKiB (sl_download s)
        in (s\<lparr>sl_busy := True, sl_error := ''''\<rparr>,
            [Call (Repositories_setSpeedLimit (repo_id (sl_repo s)) (limit_json up down)) (SlSaved up down)]))"

definition sl_saved :: "int \<Rightarrow> int \<Rightarrow> response \<Rightarrow> limit_card \<Rightarrow> limit_card \<times> limit_cmds" where
  "sl_saved up down res s0 = (let s = s0\<lparr>sl_busy := False\<rparr> in
     if res_ok res then (s, [Do (Toast (plain_toast Success
         (''Upload: '' @ fmtLimit up @ ''. Download: '' @ fmtLimit down @ ''.''))), Out ()])
     else (s\<lparr>sl_error := errorOf res ''Could not save the speed limit.''\<rparr>, []))"

primrec sl_update :: "(limit_card, limit_msg, unit) update" where
  "sl_update (SlRepo repo) s = (sl_newRepo repo s, [])"
| "sl_update (SlUpload v) s = (s\<lparr>sl_upload := v\<rparr>, [])"
| "sl_update (SlDownload v) s = (s\<lparr>sl_download := v\<rparr>, [])"
| "sl_update SlSubmit s = sl_save s"
| "sl_update (SlSaved up down res) s = sl_saved up down res s"

definition limit_input :: "string \<Rightarrow> string \<Rightarrow> (string \<Rightarrow> limit_msg) \<Rightarrow> limit_msg ui" where
  "limit_input i value onChange = Node ''Input'' [At ''id'' i, At ''inputMode'' ''decimal'', At ''value'' value,
     OnText ''change'' onChange, At ''placeholder'' ''No limit''] []"

definition SpeedLimitCard :: "limit_card \<Rightarrow> limit_msg ui" where
  "SpeedLimitCard s = Node ''Card'' []
     [Node ''CardHeader'' [] [Node ''div'' [] [Node ''CardTitle'' [] [Txt ''Speed limit''],
        Node ''CardDescription'' [] [Txt (''Keeps backups from using all of the server's bandwidth, so the sites on it stay '' @
          ''fast while a backup runs. With a limit, backups take longer. Leave a field empty for no limit.'')]]],
      Node ''CardContent'' [] [Node ''form'' [On ''submit'' SlSubmit]
       ([Node ''div'' []
          [Field ''Upload (MB/s)'' ''limit-up'' ''Backups sending data here.'' [limit_input ''limit-up'' (sl_upload s) SlUpload],
           Field ''Download (MB/s)'' ''limit-down'' ''Restores and checks reading it.''
             [limit_input ''limit-down'' (sl_download s) SlDownload]]] @
        (case repo_lastSpeedTest (sl_repo s) of None \<Rightarrow> []
         | Some t \<Rightarrow> [Node ''p'' [] [Txt (''The last speed test measured up '' @ fmtSpeed (sp_uploadBytesPerSec t) @ '' and down '' @
             fmtSpeed (sp_downloadBytesPerSec t) @ ''. The speed test itself ignores these limits.'')]]) @
        InlineError (sl_error s) @
        [Node ''div'' [] [Node ''Button'' [At ''type'' ''submit'', Flag ''disabled'' (sl_busy s)]
           [Txt (if sl_busy s then ''Saving'' @ ellipsis else ''Save'')]]])]]"

section \<open>What the forms say and send\<close>

lemma capitals [simp]: "upper_char (CHR ''d'') = CHR ''D''" "upper_char (CHR ''w'') = CHR ''W''"
  "upper_char (CHR ''m'') = CHR ''M''"
  by code_simp+

text \<open>
  C29. The check schedule of the form is the server's: its line is the server's own description with
  a capital, and a stored schedule read into the form is sent back unchanged.
\<close>

theorem check_text_and_form:
  assumes "check_period c \<noteq> 0" and "cks_at c \<noteq> ''''" and "cks_readData c \<noteq> ''none''"
  shows "describeCheck (Some c) = (if cks_enabled c then capitalize (go_describe_check c) else '''')
    \<and> check_payload (checkForm (r\<lparr>repo_checkSchedule := Some c\<rparr>)) = c"
proof -
  have every: "cks_every c = ''daily'' \<or> cks_every c = ''weekly'' \<or> cks_every c = ''monthly''"
    using assms(1) by (auto simp: check_period_def split: if_splits)
  then have "lookup_or EVERY_LABEL (cks_every c) (cks_every c) @ x = capitalize (cks_every c @ x)" for x
    by (elim disjE) (simp_all add: lookup_or_def EVERY_LABEL_def capitalize_def)
  then have "describeCheck (Some c) = (if cks_enabled c then capitalize (go_describe_check c) else '''')"
    by (simp add: describeCheck_def go_describe_check_def)
  moreover have "check_payload (checkForm (r\<lparr>repo_checkSchedule := Some c\<rparr>)) = c"
    using assms(2,3) every by (cases c) (auto simp: check_payload_def checkForm_def str_or_def)
  ultimately show ?thesis by blast
qed

theorem check_text_and_form_witness:
  "describeCheck (Some \<lparr>cks_enabled = True, cks_every = ''weekly'', cks_at = ''04:00'', cks_readData = ''5%''\<rparr>) =
     ''Weekly at 04:00, reading 5% of the data''"
proof -
  let ?c = "\<lparr>cks_enabled = True, cks_every = ''weekly'', cks_at = ''04:00'', cks_readData = ''5%''\<rparr>"
  have "describeCheck (Some ?c) = capitalize (go_describe_check ?c)"
    using check_text_and_form [of ?c sample_repository] by (simp add: check_period_def)
  then show ?thesis by (simp add: go_describe_check_def capitalize_def)
qed

lemma comma_to_point_id: "CHR '','' \<notin> set s \<Longrightarrow> comma_to_point s = s"
  by (induction s) auto

lemma js_round_between: "x - 1 / 2 < of_int (js_round x)" "of_int (js_round x) \<le> x + 1 / 2"
  unfolding js_round_def by linarith+

text \<open>Reading back the hundredths a limit is shown as.\<close>

lemma limit_hundredths:
  assumes "h \<le> 2 ^ 40"
  shows "limit_number (show_hundredths h) = Finite (of_nat h / 100)"
    "toKiB (show_hundredths h) = (if h = 0 then 0 else js_round (of_nat h / 100 * 1024))"
    "\<not> bad_limit (show_hundredths h)"
proof -
  have "(of_nat h :: rat) \<le> of_nat (2 ^ 40)" using assms by (rule of_nat_mono)
  then have "of_nat h / 100 < (2 ^ 1024 - 2 ^ 970 :: rat)" by simp
  note n = Number_hundredths [OF this]
  show num: "limit_number (show_hundredths h) = Finite (of_nat h / 100)"
    using n by (simp add: limit_number_def comma_to_point_id)
  then show "toKiB (show_hundredths h) = (if h = 0 then 0 else js_round (of_nat h / 100 * 1024))"
    "\<not> bad_limit (show_hundredths h)"
    using n(4) by (auto simp: toKiB_def bad_limit_def)
qed

lemma limit_read_back:
  assumes "0 < k" and "k \<le> 10 * 2 ^ 20"
  shows "\<bar>toKiB (toMB k) - k\<bar> \<le> 5" "toKiB (toMB k) = 0 \<longleftrightarrow> k \<le> 5" "\<not> bad_limit (toMB k)"
proof -
  define h where "h = js_round (of_int k / 1024 * 100)"
  have "(of_int k :: rat) \<le> of_int (10 * 2 ^ 20)" using assms(2) by (rule of_int_le_iff [THEN iffD2])
  then have kr: "(1 :: rat) \<le> of_int k" "(of_int k :: rat) \<le> 10 * 2 ^ 20" using assms(1) by simp_all
  have h: "of_int k / 1024 * 100 - 1 / 2 < (of_int h :: rat)" "of_int h \<le> of_int k / 1024 * 100 + (1 / 2 :: rat)"
    unfolding h_def by (rule js_round_between)+
  have h0: "0 \<le> h" using h(1) kr(1) by (simp add: h_def js_round_def)
  have "(of_int h :: rat) \<le> of_int (2 ^ 40)" using h(2) kr(2) by simp
  then have hb: "nat h \<le> 2 ^ 40" using of_int_le_iff [where 'a = rat] h0 by (simp add: nat_le_iff)
  note l = limit_hundredths [OF hb]
  have mb: "toMB k = show_hundredths (nat h)" using assms(1) by (simp add: toMB_def h_def)
  show "\<not> bad_limit (toMB k)" using l(3) by (simp add: mb)
  define r where "r = js_round (of_nat (nat h) / 100 * 1024)"
  have r: "of_int h / 100 * 1024 - 1 / 2 < (of_int r :: rat)" "of_int r \<le> of_int h / 100 * 1024 + (1 / 2 :: rat)"
    using js_round_between [of "of_nat (nat h) / 100 * 1024"] h0 by (simp_all add: r_def of_nat_nat)
  have to: "toKiB (toMB k) = (if h = 0 then 0 else r)"
    using l(2) h0 by (simp add: mb r_def)
  have near: "\<bar>(of_int r :: rat) - of_int k\<bar> < 6" using h r by (simp add: abs_less_iff)
  then have "\<bar>r - k\<bar> < 6" by (metis of_int_abs of_int_diff of_int_less_iff of_int_numeral)
  moreover have hz: "h = 0 \<longleftrightarrow> k \<le> 5"
  proof
    assume "h = 0"
    then have "(of_int k :: rat) < 6" using h(1) by simp
    then have "k < 6" by (metis of_int_less_iff of_int_numeral)
    then show "k \<le> 5" by simp
  next
    assume "k \<le> 5"
    then have "(of_int k :: rat) \<le> 5" by simp
    then have "(of_int h :: rat) < 1" using h(2) by simp
    then show "h = 0" using h0 by simp
  qed
  ultimately show "\<bar>toKiB (toMB k) - k\<bar> \<le> 5" using assms(1) by (auto simp: to)
  show "toKiB (toMB k) = 0 \<longleftrightarrow> k \<le> 5"
  proof (cases "h = 0")
    case False
    then have "(1 :: rat) \<le> of_int h" using h0 by simp
    then have "(0 :: rat) < of_int r" using r(1) by simp
    then show ?thesis using False hz to by simp
  qed (use hz to in simp)
qed

text \<open>
  A limit typed with at most two decimals is shown again as it was typed: converting the MB/s of
  the form to the KiB/s the server stores and back gives the same text.
\<close>

theorem limit_text_roundtrip:
  assumes "0 < h" and "h \<le> 2 ^ 40"
  shows "toMB (toKiB (show_hundredths h)) = show_hundredths h"
proof -
  define r where "r = js_round (of_nat h / 100 * 1024)"
  have r: "of_nat h / 100 * 1024 - 1 / 2 < (of_int r :: rat)" "of_int r \<le> of_nat h / 100 * 1024 + (1 / 2 :: rat)"
    unfolding r_def by (rule js_round_between)+
  have h: "(1 :: rat) \<le> of_nat h" using assms(1) by simp
  then have "(0 :: rat) < of_int r" using r(1) by simp
  then have pos: "0 < r" by simp
  have "js_round (of_int r / 1024 * 100) = int h"
    unfolding js_round_def using r by (intro floor_unique) (simp_all add: field_simps)
  moreover have "toKiB (show_hundredths h) = r" using limit_hundredths(2) [OF assms(2)] assms(1) by (simp add: r_def)
  ultimately show ?thesis using pos by (simp add: toMB_def)
qed

theorem limit_text_roundtrip_witness: "toMB (toKiB ''1.5'') = ''1.5''"
proof -
  have "show_hundredths 150 = ''1.5''" by (simp add: show_hundredths_def show_nat_def)
  then show ?thesis using limit_text_roundtrip [of 150] by simp
qed

text \<open>
  C35. Saving the limits untouched can change them: the form shows a limit in hundredths of a MB/s, so
  submitting it as it was opened sends a limit up to 5 KiB/s off, and a limit of 5 KiB/s or less
  is shown as 0 and sent as no limit at all.
\<close>

theorem speed_limit_resave:
  assumes "0 < repo_uploadLimitKiB r" and "repo_uploadLimitKiB r \<le> 10 * 2 ^ 20"
    and "0 \<le> repo_downloadLimitKiB r" and "repo_downloadLimitKiB r \<le> 10 * 2 ^ 20"
  shows "\<exists>up down. snd (sl_update SlSubmit (fst (sl_mount r))) =
      [Call (Repositories_setSpeedLimit (repo_id r) (limit_json up down)) (SlSaved up down)]
    \<and> \<bar>up - repo_uploadLimitKiB r\<bar> \<le> 5 \<and> \<bar>down - repo_downloadLimitKiB r\<bar> \<le> 5
    \<and> (up = 0 \<longleftrightarrow> repo_uploadLimitKiB r \<le> 5) \<and> (down = 0 \<longleftrightarrow> repo_downloadLimitKiB r \<le> 5)"
proof -
  note up = limit_read_back [OF assms(1,2)]
  have empty: "toMB 0 = ''''" "\<not> bad_limit ''''" "toKiB '''' = 0"
    by (auto simp: toMB_def bad_limit_def toKiB_def limit_number_def Number_def split: js_num.splits)
  have down: "\<not> bad_limit (toMB (repo_downloadLimitKiB r))"
    "\<bar>toKiB (toMB (repo_downloadLimitKiB r)) - repo_downloadLimitKiB r\<bar> \<le> 5"
    "toKiB (toMB (repo_downloadLimitKiB r)) = 0 \<longleftrightarrow> repo_downloadLimitKiB r \<le> 5"
    using limit_read_back [of "repo_downloadLimitKiB r"] empty assms(3,4)
    by (cases "repo_downloadLimitKiB r = 0"; simp)+
  have "snd (sl_update SlSubmit (fst (sl_mount r))) = [Call (Repositories_setSpeedLimit (repo_id r)
      (limit_json (toKiB (toMB (repo_uploadLimitKiB r))) (toKiB (toMB (repo_downloadLimitKiB r)))))
      (SlSaved (toKiB (toMB (repo_uploadLimitKiB r))) (toKiB (toMB (repo_downloadLimitKiB r))))]"
    using up(3) down(1) by (simp add: sl_mount_def sl_save_def Let_def)
  with up(1,2) down(2,3) show ?thesis by blast
qed

theorem speed_limit_resave_witness:
  "snd (sl_update SlSubmit (fst (sl_mount (sample_repository\<lparr>repo_uploadLimitKiB := 4\<rparr>)))) =
     [Call (Repositories_setSpeedLimit ''p1'' (limit_json 0 0)) (SlSaved 0 0)]"
proof -
  let ?r = "sample_repository\<lparr>repo_uploadLimitKiB := 4\<rparr>"
  have lim: "repo_uploadLimitKiB ?r = 4" "repo_downloadLimitKiB ?r = 0" "repo_id ?r = ''p1''" by (simp_all add: sample_defs)
  obtain up down where "snd (sl_update SlSubmit (fst (sl_mount ?r))) =
      [Call (Repositories_setSpeedLimit (repo_id ?r) (limit_json up down)) (SlSaved up down)]" "up = 0" "down = 0"
    using speed_limit_resave [of ?r] unfolding lim by auto
  then show ?thesis unfolding lim by simp
qed

section \<open>One request at a time\<close>

lemmas repo_card_defs [handlers] = cc_mount_def cc_newRepo_def cc_save_def cc_saved_def sl_mount_def sl_newRepo_def
  sl_save_def sl_saved_def

lemma cc_last_msgs [simp]: "msgs (cc_last e l) = {}"
  by (cases l) (simp_all add: cc_last_def)

lemma cc_last_submit [simp]: "\<not> can_submit (cc_last e l)"
  by (cases l) (simp_all add: cc_last_def)

lemma cc_fields_simps: "msgs_of (cc_fields f) \<subseteq> range CcEvery \<union> range CcAt \<union> range CcReadData" "\<not> submits (cc_fields f)"
  by (auto simp: cc_fields_def)

lemma CheckScheduleCard_msgs: "msgs (CheckScheduleCard e s) \<subseteq>
    (if cc_busy s then {} else {CcSubmit}) \<union> range CcEnabled \<union> range CcEvery \<union> range CcAt \<union> range CcReadData"
  using cc_fields_simps [of "cc_form s"] by (auto simp: CheckScheduleCard_def Let_def)

lemma CheckScheduleCard_submit: "CcSubmit \<in> msgs (CheckScheduleCard e s) \<Longrightarrow> \<not> cc_busy s"
  "CcSaved p r \<notin> msgs (CheckScheduleCard e s)"
  using CheckScheduleCard_msgs [of e s] by (auto split: if_splits)

lemma limit_input_simps [simp]: "msgs (limit_input i v f) = range f" "\<not> can_submit (limit_input i v f)"
  by (simp_all add: limit_input_def)

lemma SpeedLimitCard_msgs: "msgs (SpeedLimitCard s) = range SlUpload \<union> range SlDownload \<union> (if sl_busy s then {} else {SlSubmit})"
  by (cases "repo_lastSpeedTest (sl_repo s)") (auto simp: SpeedLimitCard_def)

lemma SpeedLimitCard_submit: "SlSubmit \<in> msgs (SpeedLimitCard s) \<longleftrightarrow> \<not> sl_busy s"
  "SlSaved u d r \<notin> msgs (SpeedLimitCard s)"
  by (auto simp: SpeedLimitCard_msgs)

interpretation cc_flight: single_flight cc_update "CheckScheduleCard e" "range CcRepo" "cc_mount repo" is_call cc_busy
  "{m. \<exists>p r. m = CcSaved p r}" "{}"
  for e repo
proof unfold_locales
  fix m s s' and cs :: check_cmds
  assume "m \<in> msgs (CheckScheduleCard e s) \<union> range CcRepo" "cc_update m s = (s', cs)"
  then show "if filter is_call cs = [] then cc_busy s' = cc_busy s
      else \<not> cc_busy s \<and> cc_busy s' \<and> length (filter is_call cs) = 1"
    by (cases m) (auto simp: handlers Let_def CheckScheduleCard_submit(2) dest: CheckScheduleCard_submit(1))
next
  fix m s s' c and cs :: check_cmds
  assume "cc_update m s = (s', cs)" "c \<in> set cs"
  then show "replies c \<subseteq> (if is_call c then {m. \<exists>p r. m = CcSaved p r} else {})"
    by (cases m) (auto simp: handlers Let_def split: if_splits)
next
  fix c :: "(check_msg, unit) cmd"
  show "is_call c \<Longrightarrow> awaits c" by (cases c) auto
qed (auto simp: handlers Let_def split: if_splits)

interpretation sl_flight: single_flight sl_update SpeedLimitCard "range SlRepo" "sl_mount repo" is_call sl_busy
  "{m. \<exists>u d r. m = SlSaved u d r}" "{}"
  for repo
proof unfold_locales
  fix m s s' and cs :: limit_cmds
  assume "m \<in> msgs (SpeedLimitCard s) \<union> range SlRepo" "sl_update m s = (s', cs)"
  then show "if filter is_call cs = [] then sl_busy s' = sl_busy s
      else \<not> sl_busy s \<and> sl_busy s' \<and> length (filter is_call cs) = 1"
    by (cases m) (auto simp: handlers SpeedLimitCard_submit Let_def split: if_splits)
next
  fix m s s' c and cs :: limit_cmds
  assume "sl_update m s = (s', cs)" "c \<in> set cs"
  then show "replies c \<subseteq> (if is_call c then {m. \<exists>u d r. m = SlSaved u d r} else {})"
    by (cases m) (auto simp: handlers Let_def split: if_splits)
next
  fix c :: "(limit_msg, unit) cmd"
  show "is_call c \<Longrightarrow> awaits c" by (cases c) auto
qed (auto simp: handlers Let_def split: if_splits)

end
