(* ===== verification/Settings.thy ===== *)
theory Settings
  imports AuthScreens
begin

text \<open>
  \<open>src/ui/src/routes/settings.jsx\<close>: the theme, the login password, the session, and what the server
  runs. The state holds what the page reads of the session, the theme, the live provider (the
  restic it found) and the Docker status; an outgoing value is a call of \<open>setTheme\<close>.
\<close>

section \<open>State and handlers\<close>

record settings =
  st_auth :: auth
  st_theme :: string
  st_resticInstalled :: bool
  st_resticVersion :: string
  st_docker :: "docker_status option"
  st_current :: string
  st_next :: string
  st_confirm :: string
  st_busy :: bool
  st_error :: string

datatype settings_msg = StTheme string | StServer bool string | StDocker "docker_status option" | StAuth auth
  | StCurrent string | StNext string | StConfirm string | StSubmit | StChanged response
  | StSetTheme string | StLogout | StLoggedOut response

type_synonym settings_cmds = "(settings_msg, string) cmd list"

definition settings_mount :: "auth \<Rightarrow> string \<Rightarrow> bool \<Rightarrow> string \<Rightarrow> docker_status option \<Rightarrow> settings \<times> settings_cmds" where
  "settings_mount a theme installed version docker =
     (\<lparr>st_auth = a, st_theme = theme, st_resticInstalled = installed, st_resticVersion = version, st_docker = docker,
        st_current = '''', st_next = '''', st_confirm = '''', st_busy = False, st_error = ''''\<rparr>,
      [Do (SetTitle (''Settings '' @ middot @ '' restic backup manager''))])"

definition settings_submit :: "settings \<Rightarrow> settings \<times> settings_cmds" where
  "settings_submit s =
     (if length (st_next s) < MIN_LEN then (s\<lparr>st_error := ''Use at least '' @ show_nat MIN_LEN @ '' characters.''\<rparr>, [])
      else if st_next s \<noteq> st_confirm s then (s\<lparr>st_error := ''The two new passwords do not match.''\<rparr>, [])
      else (s\<lparr>st_error := '''', st_busy := True\<rparr>,
        [Call (Auth_changePassword (st_current s) (st_next s)) StChanged]))"

definition settings_changed :: "response \<Rightarrow> settings \<Rightarrow> settings \<times> settings_cmds" where
  "settings_changed res s0 = (let s = s0\<lparr>st_busy := False\<rparr> in
     if res_ok res
     then (s\<lparr>st_current := '''', st_next := '''', st_confirm := ''''\<rparr>, [Do (Toast (plain_toast Success ''Password updated.''))])
     else (s\<lparr>st_error := authError res ''Could not change the password.''\<rparr>, []))"

definition settings_loggedOut :: "response \<Rightarrow> settings \<Rightarrow> settings \<times> settings_cmds" where
  "settings_loggedOut res s = (s\<lparr>st_auth := auth_logout res (st_auth s)\<rparr>, [Do (Navigate ''/login'' True)])"

primrec settings_update :: "(settings, settings_msg, string) update" where
  "settings_update (StTheme t) s = (s\<lparr>st_theme := t\<rparr>, [])"
| "settings_update (StServer b v) s = (s\<lparr>st_resticInstalled := b, st_resticVersion := v\<rparr>, [])"
| "settings_update (StDocker d) s = (s\<lparr>st_docker := d\<rparr>, [])"
| "settings_update (StAuth a) s = (s\<lparr>st_auth := a\<rparr>, [])"
| "settings_update (StCurrent v) s = (s\<lparr>st_current := v\<rparr>, [])"
| "settings_update (StNext v) s = (s\<lparr>st_next := v\<rparr>, [])"
| "settings_update (StConfirm v) s = (s\<lparr>st_confirm := v\<rparr>, [])"
| "settings_update StSubmit s = settings_submit s"
| "settings_update (StChanged res) s = settings_changed res s"
| "settings_update (StSetTheme t) s = (s, [Out t])"
| "settings_update StLogout s = (s, [Call Auth_logout StLoggedOut])"
| "settings_update (StLoggedOut res) s = settings_loggedOut res s"

section \<open>What it renders\<close>

text \<open>The first line of the version, and the match of \<open>/restic\s+([\d.]+)/\<close> in it.\<close>

definition resticFull :: "string \<Rightarrow> string" where
  "resticFull version = takeWhile (\<lambda>c. c \<noteq> CHR 0x0A) version"

fun resticShort :: "string \<Rightarrow> string" where
  "resticShort [] = []"
| "resticShort (c # cs) =
     (let rest = drop 6 (c # cs); n = takeWhile (\<lambda>d. is_digit d \<or> d = CHR ''.'') (dropWhile is_space rest)
      in if starts_with ''restic'' (c # cs) \<and> (case rest of [] \<Rightarrow> False | d # _ \<Rightarrow> is_space d) \<and> n \<noteq> [] then n
         else resticShort cs)"

definition SettingsSection :: "string \<Rightarrow> string \<Rightarrow> string \<Rightarrow> string \<Rightarrow> 'm ui list \<Rightarrow> 'm ui" where
  "SettingsSection icon tone title description children = Node ''Card'' []
     [Node ''div'' [] [IconTile (Some icon) tone ''md'', Node ''div'' [] [Node ''h2'' [] [Txt title], Node ''p'' [] [Txt description]]],
      Node ''div'' [] children]"

definition StatusLine :: "bool \<Rightarrow> string \<Rightarrow> string \<Rightarrow> 'm ui" where
  "StatusLine ok label detail = Node ''div'' []
     [Node ''span'' [At ''class'' (if ok then ''bg-success'' else ''bg-muted-foreground/45'')] [],
      Node ''div'' [] ([Node ''p'' [] [Txt label]] @ para detail)]"

definition password_form :: "settings \<Rightarrow> settings_msg ui" where
  "password_form s = Node ''form'' [On ''submit'' StSubmit]
     ([Field ''Current password'' ''settings-current'' ''''
         [Node ''Input'' [At ''id'' ''settings-current'', At ''type'' ''password'', At ''value'' (st_current s),
            OnText ''change'' StCurrent] []],
       Field ''New password'' ''settings-new'' ''''
         [Node ''Input'' [At ''id'' ''settings-new'', At ''type'' ''password'', At ''value'' (st_next s), OnText ''change'' StNext,
            At ''placeholder'' (''at least '' @ show_nat MIN_LEN @ '' characters'')] []],
       Field ''Confirm new password'' ''settings-confirm'' ''''
         [Node ''Input'' [At ''id'' ''settings-confirm'', At ''type'' ''password'', At ''value'' (st_confirm s),
            OnText ''change'' StConfirm] []]] @
      InlineError (st_error s) @
      [Node ''Button'' [At ''type'' ''submit'',
         Flag ''disabled'' (st_busy s \<or> st_current s = '''' \<or> st_next s = '''' \<or> st_confirm s = '''')]
         [Txt (if st_busy s then ''Saving'' @ ellipsis else ''Update password'')]])"

definition docker_available :: "docker_status option \<Rightarrow> bool" where
  "docker_available d = (case d of None \<Rightarrow> False | Some k \<Rightarrow> dk_available k)"

definition server_lines :: "settings \<Rightarrow> settings_msg ui list" where
  "server_lines s =
     (let full = resticFull (st_resticVersion s) in
      [StatusLine (st_resticInstalled s)
         (if st_resticInstalled s then trim (''restic '' @ resticShort full) else ''restic not found'')
         (if st_resticInstalled s then str_or full ''Installed and ready to run backups.''
          else ''Install the restic binary on the server (see restic.net), then restart the app.''),
       StatusLine (docker_available (st_docker s))
         (case st_docker s of None \<Rightarrow> ''Checking Docker'' @ ellipsis
          | Some k \<Rightarrow> if dk_available k then (if dk_coolify k then ''Docker, managed by Coolify'' else ''Docker'')
              else ''Docker not available'')
         (if docker_available (st_docker s) then ''Sites, volumes and databases on this host can be backed up.''
          else (case st_docker s of None \<Rightarrow> '''' | Some k \<Rightarrow> dk_message k))])"

definition Settings :: "settings \<Rightarrow> settings_msg ui" where
  "Settings s = Page
     [PageHeader [Txt ''Settings''] [Txt (''How the app looks, the login password that protects it, and what the server '' @
         ''is running.'')] [] [] [],
      Node ''div'' []
       [SettingsSection ''Palette'' ''violet'' ''Appearance'' ''Light, dark, or follow this device. Saved in this browser.''
          [Segmented [(''light'', ''Light'', Some ''Sun''), (''dark'', ''Dark'', Some ''Moon''), (''system'', ''System'', Some ''Monitor'')]
             (st_theme s) StSetTheme None ''Theme''],
        SettingsSection ''KeyRound'' ''brand'' ''Login password''
          ''You stay logged in on this browser. Other open sessions are signed out.'' [password_form s],
        SettingsSection ''LogOut'' ''neutral'' ''Session''
          ''Sign out on this browser. You will need the password to return.''
          [Node ''Button'' [On ''click'' StLogout] [Icon ''LogOut'', Txt ''Log out'']],
        SettingsSection ''Terminal'' ''cyan'' ''This server''
          ''What the app found when it started. Backups need restic; site and database backups need Docker.''
          ([Node ''div'' [] (server_lines s)] @
           shown (docker_available (st_docker s)) [Node ''Button'' [] [Node ''a'' [At ''href'' ''#/coolify''] [Icon ''Container'',
             Txt (''Open the '' @ (case st_docker s of None \<Rightarrow> '''' | Some k \<Rightarrow> if dk_coolify k then ''Coolify'' else ''Docker'') @
               '' page'')]]])]]"

lemma section_msgs [simp]: "msgs (SettingsSection i t title d cs) = msgs_of cs" "msgs (StatusLine ok l d) = {}"
  by (simp_all add: SettingsSection_def StatusLine_def)

lemma password_form_msgs: "msgs (password_form s) = range StCurrent \<union> range StNext \<union> range StConfirm \<union>
    (if st_busy s \<or> st_current s = '''' \<or> st_next s = '''' \<or> st_confirm s = '''' then {} else {StSubmit})"
  by (auto simp: password_form_def)

lemma server_lines_msgs [simp]: "msgs_of (server_lines s) = {}"
  by (simp add: server_lines_def Let_def)

lemma Settings_msgs: "msgs (Settings s) = msgs (password_form s) \<union> StSetTheme ` {''light'', ''dark'', ''system''} \<union> {StLogout}"
  by (auto simp: Settings_def Segmented_msgs)

section \<open>What it sends\<close>

abbreviation settings_env :: "settings_msg set" where
  "settings_env \<equiv> range StTheme \<union> {m. \<exists>b v. m = StServer b v} \<union> range StDocker \<union> range StAuth"

lemmas settings_defs [handlers] = settings_mount_def settings_submit_def settings_changed_def settings_loggedOut_def

definition changes_password :: "(settings_msg, string) cmd \<Rightarrow> bool" where
  "changes_password c = (case c of Call q k \<Rightarrow> q_url q = ''/api/auth/password'' | _ \<Rightarrow> False)"

lemma changes_password_simps [simp]:
  "changes_password (Call (Auth_changePassword a b) k)" "\<not> changes_password (Call Auth_logout k)"
  "\<not> changes_password (Do e)" "\<not> changes_password (Out x)"
  by (simp_all add: changes_password_def Auth_changePassword_def Auth_logout_def api_post_def)

interpretation settings_flight: single_flight settings_update Settings settings_env
  "settings_mount a theme installed version docker" changes_password st_busy "range StChanged" "range StLoggedOut"
  for a theme installed version docker
proof unfold_locales
  fix m s s' and cs :: settings_cmds
  assume "m \<in> msgs (Settings s) \<union> settings_env" "settings_update m s = (s', cs)"
  then show "if filter changes_password cs = [] then st_busy s' = st_busy s
      else \<not> st_busy s \<and> st_busy s' \<and> length (filter changes_password cs) = 1"
    by (cases m) (auto simp: handlers Settings_msgs password_form_msgs split: if_splits)
next
  fix m s s' c and cs :: settings_cmds
  assume "settings_update m s = (s', cs)" "c \<in> set cs"
  then show "replies c \<subseteq> (if changes_password c then range StChanged else range StLoggedOut)"
    by (cases m) (auto simp: handlers Let_def split: if_splits)
next
  fix c :: "(settings_msg, string) cmd"
  show "changes_password c \<Longrightarrow> awaits c" by (cases c) (auto simp: changes_password_def)
qed (auto simp: handlers Let_def split: if_splits)

text \<open>
  C31. The password changes to what was typed twice: in every execution at most one change is in flight,
  and a click that sends one sends the current password with a new one of at least twelve
  characters that equals its confirmation.
\<close>

theorem password_change_requests:
  assumes "reach settings_update Settings settings_env (settings_mount a theme installed version docker) s p"
    and "m \<in> msgs (Settings s)" and "c \<in> set (snd (settings_update m s))" and "changes_password c"
  shows "filter changes_password p = [] \<and> c = Call (Auth_changePassword (st_current s) (st_next s)) StChanged
    \<and> st_current s \<noteq> '''' \<and> 12 \<le> length (st_next s) \<and> st_next s = st_confirm s"
proof -
  have m: "m = StSubmit" using assms(2-4) by (cases m) (auto simp: Settings_msgs password_form_msgs split: if_splits)
  then have "\<not> st_busy s" "st_current s \<noteq> ''''" using assms(2) by (auto simp: Settings_msgs password_form_msgs split: if_splits)
  then show ?thesis
    using m assms(3) settings_flight.idle_none [OF assms(1)] by (auto simp: handlers MIN_LEN_def split: if_splits)
qed

theorem password_change_requests_witness:
  "\<exists>s p. reach settings_update Settings settings_env (settings_mount auth_init ''dark'' True '''' None) s p
     \<and> Call (Auth_changePassword ''old'' ''correct horse'') StChanged \<in> set (snd (settings_update StSubmit s))"
proof -
  let ?R = "reach settings_update Settings settings_env (settings_mount auth_init ''dark'' True '''' None)"
  let ?s0 = "fst (settings_mount auth_init ''dark'' True '''' None)"
  let ?s1 = "?s0\<lparr>st_current := ''old''\<rparr>"
  let ?s2 = "?s1\<lparr>st_next := ''correct horse''\<rparr>"
  let ?s3 = "?s2\<lparr>st_confirm := ''correct horse''\<rparr>"
  have "?R ?s0 (awaiting (snd (settings_mount auth_init ''dark'' True '''' None)))" by (rule reach_first)
  then have "?R ?s0 []" by (simp add: settings_mount_def)
  then have "?R ?s1 []" by (rule reach_quiet [where m = "StCurrent ''old''"]) (simp_all add: Settings_msgs password_form_msgs)
  then have "?R ?s2 []" by (rule reach_quiet [where m = "StNext ''correct horse''"]) (simp_all add: Settings_msgs password_form_msgs)
  then have R: "?R ?s3 []" by (rule reach_quiet [where m = "StConfirm ''correct horse''"]) (simp_all add: Settings_msgs password_form_msgs)
  have m: "StSubmit \<in> msgs (Settings ?s3)" by (simp add: Settings_msgs password_form_msgs settings_mount_def)
  have "snd (settings_update StSubmit ?s3) = [Call (Auth_changePassword ''old'' ''correct horse'') StChanged]"
    by (simp add: settings_mount_def settings_submit_def MIN_LEN_def)
  then obtain c where c: "c \<in> set (snd (settings_update StSubmit ?s3))" "changes_password c" by auto
  have "c = Call (Auth_changePassword ''old'' ''correct horse'') StChanged"
    using password_change_requests [OF R m c] by (simp add: settings_mount_def)
  then show ?thesis using R c(1) by blast
qed

end
