(* ===== verification/GoChecks.thy ===== *)
theory GoChecks
  imports Schedule Retention Numbers Endpoints "HOL-Library.Monad_Syntax"
begin

text \<open>
  The server's checks on what the forms send: \<open>JobSchedule.Validate\<close>, \<open>JobRetention.Validate\<close> and
  \<open>Job.Validate\<close> of \<open>src/internal/core/model.go\<close>, with the functions of Go's standard library they
  call. An error is its message; a check that passes gives the value as it is stored.
\<close>

section \<open>Go's numbers and durations\<close>

text \<open>\<open>strconv.Atoi\<close>, without its upper end, which no caller comes near.\<close>

definition go_atoi :: "string \<Rightarrow> int option" where
  "go_atoi s = (let (neg, ds) = split_sign s in
     if all_digits ds then Some ((if neg then - 1 else 1) * int (digits_value ds)) else None)"

definition go_parseIntRange :: "string \<Rightarrow> int \<Rightarrow> int \<Rightarrow> int option" where
  "go_parseIntRange s lo hi = (case go_atoi (trim s) of None \<Rightarrow> None
     | Some n \<Rightarrow> if n < lo \<or> hi < n then None else Some n)"

definition clock_error :: string where
  "clock_error = ''time of day must look like \"HH:MM\" (e.g. \"02:00\")''"

definition go_parseClock :: "string \<Rightarrow> string + int \<times> int" where
  "go_parseClock text =
     (let s = trim text; parts = split_on (CHR '':'') s in
      if s = '''' then Inl ''please set a time of day as \"HH:MM\" (e.g. \"02:00\")''
      else if length parts \<noteq> 2 \<and> length parts \<noteq> 3 then Inl clock_error
      else case (go_parseIntRange (parts ! 0) 0 23, go_parseIntRange (parts ! 1) 0 59) of
        (Some h, Some m) \<Rightarrow> if length parts = 3 \<and> go_parseIntRange (parts ! 2) 0 59 = None then Inl clock_error else Inr (h, m)
      | _ \<Rightarrow> Inl clock_error)"

text \<open>
  \<open>time.ParseDuration\<close>, in nanoseconds: a sign, then terms of digits, a fraction and a unit. The
  fraction is taken exactly, where Go multiplies it as a float.
\<close>

definition go_units :: "(string \<times> nat) list" where
  "go_units = [(''ns'', 1), (''us'', 10 ^ 3), ([CHR 0xC2, CHR 0xB5] @ ''s'', 10 ^ 3), ([CHR 0xCE, CHR 0xBC] @ ''s'', 10 ^ 3),
     (''ms'', 10 ^ 6), (''s'', 10 ^ 9), (''m'', 60 * 10 ^ 9), (''h'', 3600 * 10 ^ 9)]"

definition unit_char :: "char \<Rightarrow> bool" where
  "unit_char c \<longleftrightarrow> c \<noteq> CHR ''.'' \<and> \<not> is_digit c"

definition go_fraction :: "string \<Rightarrow> string \<times> string" where
  "go_fraction s = (case s of [] \<Rightarrow> ([], []) | c # cs \<Rightarrow>
     if c = CHR ''.'' then (takeWhile is_digit cs, dropWhile is_digit cs) else ([], s))"

definition go_term :: "string \<Rightarrow> (nat \<times> string) option" where
  "go_term s =
     (let whole = takeWhile is_digit s; (frac, u) = go_fraction (dropWhile is_digit s) in
      if whole = [] \<and> frac = [] then None
      else case map_of go_units (takeWhile unit_char u) of None \<Rightarrow> None
        | Some n \<Rightarrow> Some (digits_value whole * n + digits_value frac * n div 10 ^ length frac, dropWhile unit_char u))"

lemma go_units_text: "map_of go_units u = Some n \<Longrightarrow> u \<noteq> []"
  by (auto simp: go_units_def)

lemma dropWhile_shorter: "takeWhile P xs \<noteq> [] \<Longrightarrow> length (dropWhile P xs) < length xs"
  by (cases xs) (auto simp: le_imp_less_Suc length_dropWhile_le split: if_splits)

lemma go_fraction_shorter: "length (snd (go_fraction s)) \<le> length s"
  by (auto simp: go_fraction_def le_SucI length_dropWhile_le split: list.split)

lemma go_term_shorter:
  assumes "go_term s = Some (v, r)"
  shows "length r < length s"
proof -
  let ?u = "snd (go_fraction (dropWhile is_digit s))"
  obtain n where u: "map_of go_units (takeWhile unit_char ?u) = Some n" "r = dropWhile unit_char ?u"
    using assms by (auto simp: go_term_def Let_def split: prod.splits if_splits option.splits)
  have "length ?u \<le> length s"
    using go_fraction_shorter [of "dropWhile is_digit s"] length_dropWhile_le [of is_digit s] by linarith
  then show ?thesis using dropWhile_shorter [OF go_units_text [OF u(1)]] u(2) by simp
qed

function go_terms :: "string \<Rightarrow> nat option" where
  "go_terms s = (if s = [] then Some 0 else case go_term s of None \<Rightarrow> None
     | Some (v, r) \<Rightarrow> map_option ((+) v) (go_terms r))"
  by auto

termination go_terms by (relation "measure length") (auto dest: go_term_shorter)

declare go_terms.simps [simp del]

definition go_parseDuration :: "string \<Rightarrow> int option" where
  "go_parseDuration s =
     (let (neg, t) = split_sign s in
      if t = ''0'' then Some 0 else if t = '''' then None
      else case go_terms t of None \<Rightarrow> None
        | Some v \<Rightarrow> if 2 ^ 63 < v \<or> v = 2 ^ 63 \<and> \<not> neg then None else Some ((if neg then - 1 else 1) * int v))"

section \<open>The checks\<close>

definition go_weekdays :: "int list \<Rightarrow> int list" where
  "go_weekdays ds = filter (\<lambda>d. d \<in> set ds) [0, 1, 2, 3, 4, 5, 6]"

definition go_schedule_validate :: "schedule \<Rightarrow> string + schedule" where
  "go_schedule_validate s =
     (let clock = go_parseClock (ostr_or (sch_at s) ''''); days = (case sch_weekdays s of None \<Rightarrow> [] | Some ds \<Rightarrow> ds) in
      if sch_kind s = ''hourly'' then Inr s
      else if sch_kind s = ''every'' then
        (case go_parseDuration (trim (ostr_or (sch_every s) '''')) of
           Some d \<Rightarrow> if d < 3600 * 10 ^ 9 then Inl ''\"every\" schedules need a duration of at least 1h (e.g. \"6h\")'' else Inr s
         | None \<Rightarrow> Inl ''\"every\" schedules need a duration of at least 1h (e.g. \"6h\")'')
      else if sch_kind s = ''daily'' then (case clock of Inl err \<Rightarrow> Inl err | Inr t \<Rightarrow> Inr s)
      else if sch_kind s = ''weekly'' then
        (case clock of Inl err \<Rightarrow> Inl err
         | Inr t \<Rightarrow>
             if days = [] then Inl ''please choose at least one weekday for a weekly schedule''
             else if \<not> list_all (\<lambda>d. 0 \<le> d \<and> d \<le> 6) days then Inl ''weekdays must be between 0 (Sunday) and 6 (Saturday)''
             else Inr (s\<lparr>sch_weekdays := Some (go_weekdays days)\<rparr>))
      else if sch_kind s = '''' then Inl ''a schedule kind is required (hourly, every, daily, or weekly)''
      else Inl ''schedule kind must be \"hourly\", \"every\", \"daily\", or \"weekly\"'')"

definition go_retention_validate :: "retention \<Rightarrow> string + retention" where
  "go_retention_validate r =
     (let n = go_normalize r in
      if \<not> ret_enabled r then Inr r
      else if ret_preset r \<notin> {''light'', ''balanced'', ''long'', ''custom'', ''''}
        then Inl ''retention preset must be \"light\", \"balanced\", \"long\", or \"custom\"''
      else if \<not> has_keep_rule n
        then Inl ''retention needs at least one keep rule (last, hourly, daily, weekly, monthly, or within days)''
      else if 36500 < keepWithinDays n then Inl ''keep within days is too large''
      else if list_ex (\<lambda>k. 100000 < k) [keepLast n, keepHourly n, keepDaily n, keepWeekly n, keepMonthly n]
        then Inl ''a keep count is too large''
      else Inr n)"

text \<open>A job as the server decodes it from a request: an absent text is empty.\<close>

record job_input =
  ji_name :: string
  ji_folderId :: string
  ji_databaseId :: string
  ji_repositoryId :: string
  ji_schedule :: "schedule option"
  ji_retention :: "retention option"

definition go_job_validate :: "job_input \<Rightarrow> string + job_input" where
  "go_job_validate j0 =
     (let j = j0\<lparr>ji_folderId := trim (ji_folderId j0), ji_databaseId := trim (ji_databaseId j0)\<rparr> in
      if trim (ji_name j0) = '''' then Inl ''a job name is required''
      else if ji_folderId j = '''' \<and> ji_databaseId j = '''' then Inl ''please choose a backup folder or database for this job''
      else if ji_folderId j \<noteq> '''' \<and> ji_databaseId j \<noteq> '''' then Inl ''a job backs up either a folder or a database, not both''
      else if trim (ji_repositoryId j) = '''' then Inl ''please choose a storage repository for this job''
      else case map_option go_schedule_validate (ji_schedule j) of
        Some (Inl err) \<Rightarrow> Inl err
      | sched \<Rightarrow> (case map_option go_retention_validate (ji_retention j) of
          Some (Inl err) \<Rightarrow> Inl err
        | ret \<Rightarrow> Inr (j\<lparr>ji_schedule := Option.bind sched (\<lambda>r. case r of Inl e \<Rightarrow> None | Inr s \<Rightarrow> Some s),
                      ji_retention := Option.bind ret (\<lambda>r. case r of Inl e \<Rightarrow> None | Inr p \<Rightarrow> Some p)\<rparr>)))"

section \<open>Reading a request\<close>

text \<open>
  \<open>encoding/json\<close> into the structs above: a field that is absent or \<open>null\<close> keeps its zero value, one
  of another type is an error (\<open>None\<close>).
\<close>

definition go_field :: "'a \<Rightarrow> (json \<Rightarrow> 'a option) \<Rightarrow> json \<Rightarrow> string \<Rightarrow> 'a option" where
  "go_field zero decode j k = (case json_prop j k of None \<Rightarrow> Some zero | Some v \<Rightarrow> if v = JNull then Some zero else decode v)"

definition go_string :: "json \<Rightarrow> string option" where
  "go_string v = (case v of JStr s \<Rightarrow> Some s | _ \<Rightarrow> None)"

definition go_bool :: "json \<Rightarrow> bool option" where
  "go_bool v = (case v of JBool b \<Rightarrow> Some b | _ \<Rightarrow> None)"

definition go_int :: "json \<Rightarrow> int option" where
  "go_int v = (case v of JInt n \<Rightarrow> Some n | _ \<Rightarrow> None)"

definition go_ints :: "json \<Rightarrow> int list option" where
  "go_ints v = (case v of JArr vs \<Rightarrow> those (map go_int vs) | _ \<Rightarrow> None)"

definition go_decode_schedule :: "json \<Rightarrow> schedule option" where
  "go_decode_schedule v = do {
     enabled \<leftarrow> go_field False go_bool v ''enabled'';
     kind \<leftarrow> go_field '''' go_string v ''kind'';
     every \<leftarrow> go_field '''' go_string v ''every'';
     clock \<leftarrow> go_field '''' go_string v ''at'';
     days \<leftarrow> go_field [] go_ints v ''weekdays'';
     Some \<lparr>sch_enabled = enabled, sch_kind = kind, sch_every = Some every, sch_at = Some clock, sch_weekdays = Some days\<rparr>
   }"

definition go_decode_retention :: "json \<Rightarrow> retention option" where
  "go_decode_retention v = do {
     enabled \<leftarrow> go_field False go_bool v ''enabled'';
     preset \<leftarrow> go_field '''' go_string v ''preset'';
     l \<leftarrow> go_field 0 go_int v ''keepLast'';
     h \<leftarrow> go_field 0 go_int v ''keepHourly'';
     d \<leftarrow> go_field 0 go_int v ''keepDaily'';
     w \<leftarrow> go_field 0 go_int v ''keepWeekly'';
     m \<leftarrow> go_field 0 go_int v ''keepMonthly'';
     n \<leftarrow> go_field 0 go_int v ''keepWithinDays'';
     Some (policy enabled preset (mk_counts l h d w m n))
   }"

definition go_decode_job :: "json \<Rightarrow> job_input option" where
  "go_decode_job v = do {
     name \<leftarrow> go_field '''' go_string v ''name'';
     folderId \<leftarrow> go_field '''' go_string v ''folderId'';
     databaseId \<leftarrow> go_field '''' go_string v ''databaseId'';
     repositoryId \<leftarrow> go_field '''' go_string v ''repositoryId'';
     sched \<leftarrow> go_field None (\<lambda>u. map_option Some (go_decode_schedule u)) v ''schedule'';
     ret \<leftarrow> go_field None (\<lambda>u. map_option Some (go_decode_retention u)) v ''retention'';
     Some \<lparr>ji_name = name, ji_folderId = folderId, ji_databaseId = databaseId, ji_repositoryId = repositoryId,
           ji_schedule = sched, ji_retention = ret\<rparr>
   }"

text \<open>\<open>ValidateJobRefs\<close>, with the ids of the stores as sets.\<close>

definition go_validateJobRefs :: "string set \<Rightarrow> string set \<Rightarrow> string set \<Rightarrow> job_input \<Rightarrow> string + job_input" where
  "go_validateJobRefs folders databases repos j0 =
     (case go_job_validate j0 of Inl err \<Rightarrow> Inl err
      | Inr j \<Rightarrow>
          if ji_databaseId j \<noteq> '''' \<and> ji_databaseId j \<notin> databases then Inl ''the chosen database source does not exist''
          else if ji_databaseId j = '''' \<and> ji_folderId j \<notin> folders then Inl ''the chosen backup folder does not exist''
          else if ji_repositoryId j \<notin> repos then Inl ''the chosen storage repository does not exist''
          else Inr j)"

section \<open>What the schedule form sends\<close>

text \<open>The value of a time input: empty, or hours and minutes.\<close>

definition clock_text :: "nat \<Rightarrow> nat \<Rightarrow> string" where
  "clock_text h m = pad_left 2 (CHR ''0'') (show_nat h) @ '':'' @ pad_left 2 (CHR ''0'') (show_nat m)"

definition form_inputs_ok :: "schedule_form \<Rightarrow> bool" where
  "form_inputs_ok f \<longleftrightarrow> sf_kind f \<in> {''hourly'', ''every'', ''daily'', ''weekly''} \<and> sf_every f \<in> {''4h'', ''6h'', ''12h''}
     \<and> (sf_at f = '''' \<or> (\<exists>h < 24. \<exists>m < 60. sf_at f = clock_text h m)) \<and> distinct (sf_weekdays f)"

lemma two_digits: "n < 60 \<Longrightarrow> \<exists>a b. pad_left 2 (CHR ''0'') (show_nat n) = [a, b] \<and> is_digit a \<and> is_digit b
    \<and> digits_value [a, b] = n"
proof -
  assume n: "n < 60"
  show ?thesis
  proof (cases "n < 10")
    case True
    then show ?thesis by (simp add: pad_left_def show_digit digits_value_def digit_val_def is_digit_def)
  next
    case False
    then have d: "show_nat n = [char_of (48 + n div 10), char_of (48 + n mod 10)]"
      using n by (simp add: show_nat_def)
    have "digits_value [char_of (48 + n div 10), char_of (48 + n mod 10)] = n" using d digits_value_show by metis
    moreover have "n div 10 < 10" using n by simp
    ultimately show ?thesis unfolding d by (simp add: pad_left_def)
  qed
qed

lemma clock_text_parses:
  assumes "h < 24" "m < 60"
  shows "go_parseClock (clock_text h m) = Inr (int h, int m)" "trim (clock_text h m) = clock_text h m" "clock_text h m \<noteq> ''''"
proof -
  obtain a b where h: "pad_left 2 (CHR ''0'') (show_nat h) = [a, b]" "is_digit a" "is_digit b" "digits_value [a, b] = h"
    using two_digits [of h] assms by auto
  obtain c d where m: "pad_left 2 (CHR ''0'') (show_nat m) = [c, d]" "is_digit c" "is_digit d" "digits_value [c, d] = m"
    using two_digits [of m] assms by auto
  have t: "clock_text h m = [a, b, CHR '':'', c, d]" by (simp add: clock_text_def h m)
  have sp: "\<not> is_space x" "x \<noteq> CHR '':''" "x \<noteq> CHR ''-''" "x \<noteq> CHR ''+''" if "is_digit x" for x
    using that digit_not [OF that] by (auto simp: is_digit_def)
  show tr: "trim (clock_text h m) = clock_text h m" by (simp add: t trim_def sp h m)
  have two: "trim [x, y] = [x, y]" "go_atoi [x, y] = Some (int (digits_value [x, y]))" if "is_digit x" "is_digit y" for x y
    using that sp [OF that(1)] sp [OF that(2)] by (auto simp: trim_def go_atoi_def split_sign_def all_digits_def)
  have parts: "split_on (CHR '':'') [a, b, CHR '':'', c, d] = [[a, b], [c, d]]" using sp h m by simp
  show "go_parseClock (clock_text h m) = Inr (int h, int m)"
    unfolding go_parseClock_def tr Let_def unfolding t parts
    using assms by (simp add: go_parseIntRange_def two h m)
  show "clock_text h m \<noteq> ''''" by (simp add: t)
qed

lemma intervals_parse:
  "go_parseDuration (trim ''4h'') = Some (4 * 3600 * 10 ^ 9)" "go_parseDuration (trim ''6h'') = Some (6 * 3600 * 10 ^ 9)"
  "go_parseDuration (trim ''12h'') = Some (12 * 3600 * 10 ^ 9)"
  by (simp_all add: trim_def is_space_def go_parseDuration_def split_sign_def go_terms.simps go_term_def go_fraction_def
      is_digit_def unit_char_def go_units_def digits_value_def digit_val_def)

lemma go_weekdays_fixed: "valid_days ds \<Longrightarrow> distinct ds \<Longrightarrow> go_weekdays ds = ds"
proof (rule sorted_distinct_set_unique)
  assume d: "valid_days ds" "distinct ds"
  show "sorted (go_weekdays ds)" "distinct (go_weekdays ds)" "sorted ds" "distinct ds"
    using d by (auto simp: go_weekdays_def valid_days_def)
  have "{0, 1, 2, 3, 4, 5, 6} = {0..6 :: int}" by auto
  then have "set (go_weekdays ds) = {d \<in> {0..6}. d \<in> set ds}" by (simp only: go_weekdays_def set_filter list.set)
  then show "set (go_weekdays ds) = set ds" using d(1) by (auto simp only: valid_days_def atLeastAtMost_iff)
qed

lemma clock_of_form:
  assumes "form_inputs_ok f"
  obtains h m where "go_parseClock (trim (str_or (sf_at f) ''02:00'')) = Inr (h, m)" "trim (str_or (sf_at f) ''02:00'') \<noteq> ''''"
proof -
  have two: "clock_text 2 0 = ''02:00''" by (simp add: clock_text_def pad_left_def show_digit)
  have "sf_at f = '''' \<or> (\<exists>h < 24. \<exists>m < 60. sf_at f = clock_text h m)" using assms by (simp add: form_inputs_ok_def)
  then obtain h m where "h < 24" "m < 60" "str_or (sf_at f) ''02:00'' = clock_text h m"
  proof
    assume "sf_at f = ''''"
    then show ?thesis using that [of 2 0] two by simp
  next
    assume "\<exists>h < 24. \<exists>m < 60. sf_at f = clock_text h m"
    then obtain h m where "h < 24" "m < 60" "sf_at f = clock_text h m" by blast
    then show ?thesis using that [of h m] clock_text_parses(3) [of h m] by simp
  qed
  then show ?thesis using clock_text_parses [of h m] that by metis
qed

text \<open>
  C28. The server takes the schedule of the form as it is sent: for every kind and interval that can be chosen, every
  value of the time input and any days, \<open>JobSchedule.Validate\<close> keeps the payload unchanged, with one exception: a weekly
  schedule without a day is refused, also when automatic backups are off and the editor lets it through.
\<close>

theorem schedule_payload_accepted:
  assumes "form_inputs_ok f" and "schedulePayload (Some f) = Some s"
  shows "go_schedule_validate s =
    (if sf_kind f = ''weekly'' \<and> list_all (\<lambda>d. d < 0 \<or> 6 < d) (sf_weekdays f)
     then Inl ''please choose at least one weekday for a weekly schedule'' else Inr s)"
proof -
  have kind: "sf_kind f \<in> {''hourly'', ''every'', ''daily'', ''weekly''}" and every: "sf_every f \<in> {''4h'', ''6h'', ''12h''}"
    and dist: "distinct (sf_weekdays f)"
    using assms(1) by (auto simp: form_inputs_ok_def)
  obtain h m where clock: "go_parseClock (trim (str_or (sf_at f) ''02:00'')) = Inr (h, m)" "trim (str_or (sf_at f) ''02:00'') \<noteq> ''''"
    by (rule clock_of_form [OF assms(1)])
  from kind show ?thesis
  proof safe
    assume k: "sf_kind f = ''hourly''"
    then show ?thesis using assms(2) by (auto simp: schedulePayload_def go_schedule_validate_def Let_def)
  next
    assume k: "sf_kind f = ''every''"
    then show ?thesis using assms(2) every
      by (auto simp: schedulePayload_def go_schedule_validate_def intervals_parse Let_def)
  next
    assume k: "sf_kind f = ''daily''"
    then show ?thesis using assms(2) clock by (auto simp: schedulePayload_def go_schedule_validate_def Let_def)
  next
    let ?ds = "sort (filter (\<lambda>d. d \<ge> 0 \<and> d \<le> 6) (sf_weekdays f))"
    assume k: "sf_kind f = ''weekly''"
    then have s: "s = \<lparr>sch_enabled = sf_enabled f, sch_kind = ''weekly'', sch_every = None,
        sch_at = Some (trim (str_or (sf_at f) ''02:00'')), sch_weekdays = Some ?ds\<rparr>"
      using assms(2) by (simp add: schedulePayload_def Let_def)
    have e: "?ds = [] \<longleftrightarrow> list_all (\<lambda>d. d < 0 \<or> 6 < d) (sf_weekdays f)"
      by (simp only: set_empty [symmetric] set_sort) (force simp: list_all_iff filter_empty_conv not_le)
    have "list_all (\<lambda>d. 0 \<le> d \<and> d \<le> 6) ?ds" by (auto simp: list_all_iff)
    moreover have "go_weekdays ?ds = ?ds" using dist by (intro go_weekdays_fixed sort_filter_valid) simp
    ultimately show ?thesis using k clock e by (simp add: s go_schedule_validate_def Let_def)
  qed
qed

theorem schedule_payload_accepted_witness:
  "go_schedule_validate \<lparr>sch_enabled = True, sch_kind = ''weekly'', sch_every = None, sch_at = Some ''03:30'', sch_weekdays = Some [1, 5]\<rparr>
    = Inr \<lparr>sch_enabled = True, sch_kind = ''weekly'', sch_every = None, sch_at = Some ''03:30'', sch_weekdays = Some [1, 5]\<rparr>"
proof -
  let ?f = "\<lparr>sf_enabled = True, sf_kind = ''weekly'', sf_every = ''6h'', sf_at = ''03:30'', sf_weekdays = [5, 1]\<rparr>"
  have "clock_text 3 30 = ''03:30''" by (simp add: clock_text_def show_nat_def pad_left_def)
  then have ok: "form_inputs_ok ?f" unfolding form_inputs_ok_def by (intro conjI disjI2 exI [of _ 3] exI [of _ 30]) simp_all
  have p: "schedulePayload (Some ?f) = Some \<lparr>sch_enabled = True, sch_kind = ''weekly'', sch_every = None, sch_at = Some ''03:30'',
      sch_weekdays = Some [1, 5]\<rparr>"
    by (simp add: schedulePayload_def Let_def trim_def is_space_def)
  show ?thesis using schedule_payload_accepted [OF ok p] by simp
qed

end
