(* ===== verification/NewJob.thy ===== *)
theory NewJob
  imports Widgets GoChecks
begin

text \<open>
  \<open>NewJobDialog\<close> of \<open>src/ui/src/routes/jobs.jsx\<close>. The props are part of the state; a render of the
  page is a message with the new ones, \<open>fresh\<close> when the lists are other arrays than before, which
  is what the effect's dependencies compare.
\<close>

section \<open>State and handlers\<close>

record new_job =
  nj_open :: bool
  nj_folders :: "folder list"
  nj_databases :: "database list"
  nj_repositories :: "repository list"
  nj_prefer :: string
  nj_name :: string
  nj_kind :: string
  nj_folderId :: string
  nj_databaseId :: string
  nj_repositoryId :: string
  nj_autoDaily :: bool
  nj_busy :: bool
  nj_error :: string

datatype nj_out = NjClose bool | NjDone

datatype nj_msg = NjProps bool "folder list" "database list" "repository list" string bool
  | NjName string | NjKind string | NjFolder string | NjDatabase string | NjRepository string | NjAuto bool
  | NjSubmit | NjAnswer response | NjDismiss bool

type_synonym nj_cmds = "(nj_msg, nj_out) cmd list"

definition first_id :: "('a \<Rightarrow> string) \<Rightarrow> 'a list \<Rightarrow> string" where
  "first_id f xs = (case xs of [] \<Rightarrow> '''' | x # _ \<Rightarrow> f x)"

text \<open>The effect: an open dialog starts over.\<close>

definition nj_reset :: "new_job \<Rightarrow> new_job" where
  "nj_reset s = (if \<not> nj_open s then s else
     let wantDb = (if nj_prefer s = ''database'' then nj_databases s \<noteq> [] else nj_folders s = []) in
     s\<lparr>nj_name := '''', nj_error := '''', nj_autoDaily := False,
       nj_kind := (if wantDb \<and> nj_databases s \<noteq> [] then ''database'' else ''folder''),
       nj_folderId := first_id fd_id (nj_folders s), nj_databaseId := first_id ds_id (nj_databases s),
       nj_repositoryId := first_id repo_id (nj_repositories s)\<rparr>)"

definition nj_props :: "bool \<Rightarrow> folder list \<Rightarrow> database list \<Rightarrow> repository list \<Rightarrow> string \<Rightarrow> bool \<Rightarrow> new_job \<Rightarrow> new_job" where
  "nj_props b fs ds rs k fresh s =
     (let t = s\<lparr>nj_open := b, nj_folders := fs, nj_databases := ds, nj_repositories := rs, nj_prefer := k\<rparr> in
      if fresh \<or> b \<noteq> nj_open s \<or> k \<noteq> nj_prefer s then nj_reset t else t)"

definition nj_mount :: "bool \<Rightarrow> folder list \<Rightarrow> database list \<Rightarrow> repository list \<Rightarrow> string \<Rightarrow> new_job \<times> nj_cmds" where
  "nj_mount b fs ds rs k =
     (nj_reset \<lparr>nj_open = b, nj_folders = fs, nj_databases = ds, nj_repositories = rs, nj_prefer = k, nj_name = '''',
        nj_kind = ''folder'', nj_folderId = '''', nj_databaseId = '''', nj_repositoryId = '''', nj_autoDaily = False,
        nj_busy = False, nj_error = ''''\<rparr>, [])"

definition nj_sourceId :: "new_job \<Rightarrow> string" where
  "nj_sourceId s = (if nj_kind s = ''database'' then nj_databaseId s else nj_folderId s)"

definition daily_at_two :: schedule where
  "daily_at_two = \<lparr>sch_enabled = True, sch_kind = ''daily'', sch_every = None, sch_at = Some ''02:00'', sch_weekdays = None\<rparr>"

definition nj_body :: "new_job \<Rightarrow> json" where
  "nj_body s = JObj ([(''name'', JStr (trim (nj_name s))), (''repositoryId'', JStr (nj_repositoryId s))] @
     [if nj_kind s = ''database'' then (''databaseId'', JStr (nj_databaseId s)) else (''folderId'', JStr (nj_folderId s))] @
     shown (nj_autoDaily s) [(''schedule'', schedule_json daily_at_two)])"

definition nj_submit :: "new_job \<Rightarrow> new_job \<times> nj_cmds" where
  "nj_submit s = (s\<lparr>nj_busy := True\<rparr>, [Call (Jobs_create (nj_body s)) NjAnswer])"

text \<open>Without a job in a successful answer, reading its name throws, after \<open>busy\<close> is cleared.\<close>

definition nj_answer :: "response \<Rightarrow> new_job \<Rightarrow> new_job \<times> nj_cmds" where
  "nj_answer res s0 = (let s = s0\<lparr>nj_busy := False\<rparr> in
     if \<not> res_ok res then (s\<lparr>nj_error := errorOf res ''Could not create the job.''\<rparr>, [])
     else (s, case b_job (body_of res) of None \<Rightarrow> []
       | Some j \<Rightarrow> [Do (Toast (plain_toast Success (''Job '' @ lquote @ job_name j @ rquote @ '' created.''))),
           Out (NjClose False), Out NjDone]))"

primrec nj_update :: "(new_job, nj_msg, nj_out) update" where
  "nj_update (NjProps b fs ds rs k fresh) s = (nj_props b fs ds rs k fresh s, [])"
| "nj_update (NjName v) s = (s\<lparr>nj_name := v\<rparr>, [])"
| "nj_update (NjKind v) s = (s\<lparr>nj_kind := v\<rparr>, [])"
| "nj_update (NjFolder v) s = (s\<lparr>nj_folderId := v\<rparr>, [])"
| "nj_update (NjDatabase v) s = (s\<lparr>nj_databaseId := v\<rparr>, [])"
| "nj_update (NjRepository v) s = (s\<lparr>nj_repositoryId := v\<rparr>, [])"
| "nj_update (NjAuto v) s = (s\<lparr>nj_autoDaily := v\<rparr>, [])"
| "nj_update NjSubmit s = nj_submit s"
| "nj_update (NjAnswer res) s = nj_answer res s"
| "nj_update (NjDismiss b) s = (s, [Out (NjClose b)])"

section \<open>What it renders\<close>

definition nj_kinds :: "new_job \<Rightarrow> nj_msg ui list" where
  "nj_kinds s = shown (nj_databases s \<noteq> []) [Node ''div'' [] (map (\<lambda>(v, label, icon).
     Node ''button'' [At ''type'' ''button'', On ''click'' (NjKind v),
         At ''class'' (if nj_kind s = v then ''bg-card text-foreground'' else ''text-muted-foreground hover:text-foreground'')]
       [Node icon (shown (nj_kind s = v) [At ''class'' ''text-fuchsia'']) [], Txt label])
     [(''folder'', ''A folder'', ''FolderOpen''), (''database'', ''A database'', ''Database'')])]"

definition nj_source :: "new_job \<Rightarrow> nj_msg ui" where
  "nj_source s =
     (if nj_kind s = ''database''
      then Field ''Back up this database'' ''job-database'' '''' [Select (nj_databaseId s) NjDatabase ''job-database''
        (map (\<lambda>d. (ds_id d, ds_name d @ '' '' @ em_dash @ '' '' @ ds_database d @ '' on '' @ ds_container d)) (nj_databases s))]
      else Field ''Back up this folder'' ''job-folder'' '''' [Select (nj_folderId s) NjFolder ''job-folder''
        (map (\<lambda>f. (fd_id f, fd_name f @ '' '' @ em_dash @ '' '' @ fd_path f)) (nj_folders s))])"

definition nj_fields :: "new_job \<Rightarrow> nj_msg ui list" where
  "nj_fields s =
     [Field ''Name'' ''job-name'' '''' [Node ''Input'' [At ''id'' ''job-name'', At ''value'' (nj_name s),
        OnText ''change'' NjName, At ''placeholder'' (''Documents '' @ right_arrow @ '' offsite'')] []]] @
     nj_kinds s @ [nj_source s] @
     [Field ''Store it in'' ''job-repo'' '''' [Select (nj_repositoryId s) NjRepository ''job-repo''
        (map (\<lambda>r. (repo_id r, repo_name r)) (nj_repositories s))],
      CheckOption (nj_autoDaily s) NjAuto False ''Also run automatically''
        ''Daily at 02:00 while the app is running. You can change this later on the job page.''] @
     InlineError (nj_error s)"

definition nj_ready :: "new_job \<Rightarrow> bool" where
  "nj_ready s \<longleftrightarrow> \<not> nj_busy s \<and> trim (nj_name s) \<noteq> '''' \<and> nj_sourceId s \<noteq> '''' \<and> nj_repositoryId s \<noteq> ''''"

definition NewJobDialog :: "new_job \<Rightarrow> nj_msg ui" where
  "NewJobDialog s = Dialog (nj_open s) NjDismiss [Node ''form'' [On ''submit'' NjSubmit]
     [Node ''DialogHeader'' []
        [Node ''DialogTitle'' [] [Txt ''New backup job''],
         Node ''DialogDescription'' [] [Txt (''A job pairs one folder or database with one repository. Run it, and its whole '' @
           ''history lives on its page.'')]],
      Node ''div'' [] (nj_fields s),
      Node ''DialogFooter'' []
        [Node ''Button'' [At ''type'' ''button'', On ''click'' (NjDismiss False)] [Txt ''Cancel''],
         Node ''Button'' [At ''type'' ''submit'', Flag ''disabled'' (\<not> nj_ready s)]
           [Txt (if nj_busy s then ''Creating'' @ ellipsis else ''Create job'')]]]]"

lemma nj_kinds_simps [simp]: "msgs_of (nj_kinds s) = (if nj_databases s = [] then {} else {NjKind ''folder'', NjKind ''database''})"
  "\<not> submits (nj_kinds s)"
  by (auto simp: nj_kinds_def)

lemma nj_source_simps [simp]:
  "msgs (nj_source s) = (if nj_kind s = ''database'' then NjDatabase ` ds_id ` set (nj_databases s)
     else NjFolder ` fd_id ` set (nj_folders s))"
  "\<not> can_submit (nj_source s)"
  by (simp_all add: nj_source_def image_image)

lemma nj_fields_simps [simp]: "msgs_of (nj_fields s) = range NjName \<union> msgs_of (nj_kinds s) \<union> msgs (nj_source s)
    \<union> NjRepository ` repo_id ` set (nj_repositories s) \<union> range NjAuto"
  "\<not> submits (nj_fields s)"
  by (simp_all add: nj_fields_def image_image Un_assoc)

lemma NewJobDialog_msgs: "msgs (NewJobDialog s) \<subseteq> range NjDismiss \<union> range NjName \<union> range NjKind \<union> NjFolder ` fd_id ` set (nj_folders s)
    \<union> NjDatabase ` ds_id ` set (nj_databases s) \<union> NjRepository ` repo_id ` set (nj_repositories s) \<union> range NjAuto
    \<union> (if nj_open s \<and> nj_ready s then {NjSubmit} else {})"
  by (auto simp: NewJobDialog_def split: if_splits)

lemma NewJobDialog_act:
  assumes "m \<in> msgs (NewJobDialog s)"
  shows "m = NjSubmit \<Longrightarrow> nj_open s \<and> nj_ready s" "m \<noteq> NjAnswer res" "m \<noteq> NjProps b fs ds rs k fresh"
    "m = NjFolder v \<Longrightarrow> v \<in> fd_id ` set (nj_folders s)" "m = NjDatabase v \<Longrightarrow> v \<in> ds_id ` set (nj_databases s)"
    "m = NjRepository v \<Longrightarrow> v \<in> repo_id ` set (nj_repositories s)"
  using subsetD [OF NewJobDialog_msgs assms] by (auto split: if_splits)

section \<open>What it sends\<close>

lemmas nj_defs [handlers] = nj_submit_def nj_answer_def

text \<open>The page passes lists of what the server has; ids are never blank.\<close>

definition nj_lists_ok :: "string set \<Rightarrow> string set \<Rightarrow> string set \<Rightarrow> folder list \<Rightarrow> database list \<Rightarrow> repository list \<Rightarrow> bool" where
  "nj_lists_ok F D R fs ds rs \<longleftrightarrow> fd_id ` set fs \<subseteq> F \<and> ds_id ` set ds \<subseteq> D \<and> repo_id ` set rs \<subseteq> R"

definition nj_env :: "string set \<Rightarrow> string set \<Rightarrow> string set \<Rightarrow> nj_msg set" where
  "nj_env F D R = {m. \<exists>b fs ds rs k fresh. m = NjProps b fs ds rs k fresh \<and> nj_lists_ok F D R fs ds rs}"

definition accepted :: "string set \<Rightarrow> string set \<Rightarrow> string set \<Rightarrow> json \<Rightarrow> bool" where
  "accepted F D R body \<longleftrightarrow> (\<exists>j. go_decode_job body = Some j \<and> go_validateJobRefs F D R j = Inr j)"

definition nj_cmd_ok :: "string set \<Rightarrow> string set \<Rightarrow> string set \<Rightarrow> (nj_msg, nj_out) cmd \<Rightarrow> bool" where
  "nj_cmd_ok F D R c \<longleftrightarrow> (\<exists>body. c = Call (Jobs_create body) NjAnswer \<and> accepted F D R body)"

definition nj_inv :: "string set \<Rightarrow> string set \<Rightarrow> string set \<Rightarrow> new_job \<Rightarrow> nj_cmds \<Rightarrow> bool" where
  "nj_inv F D R s p \<longleftrightarrow> nj_lists_ok F D R (nj_folders s) (nj_databases s) (nj_repositories s)
     \<and> nj_folderId s \<in> insert '''' F \<and> nj_databaseId s \<in> insert '''' D \<and> nj_repositoryId s \<in> insert '''' R
     \<and> (\<forall>c \<in> set p. nj_cmd_ok F D R c)"

lemma first_id_in: "first_id f xs \<in> insert '''' (f ` set xs)"
  by (cases xs) (simp_all add: first_id_def)

lemma nj_reset_simps [simp]:
  "nj_busy (nj_reset s) = nj_busy s" "nj_folders (nj_reset s) = nj_folders s" "nj_databases (nj_reset s) = nj_databases s"
  "nj_repositories (nj_reset s) = nj_repositories s" "nj_open (nj_reset s) = nj_open s"
  by (simp_all add: nj_reset_def Let_def)

lemma nj_props_simps [simp]: "nj_busy (nj_props b fs ds rs k fresh s) = nj_busy s"
  by (simp add: nj_props_def Let_def)

lemma nj_reset_inv: "nj_inv F D R s p \<Longrightarrow> nj_inv F D R (nj_reset s) p"
  using first_id_in [of fd_id "nj_folders s"] first_id_in [of ds_id "nj_databases s"]
    first_id_in [of repo_id "nj_repositories s"]
  by (auto simp: nj_inv_def nj_reset_def nj_lists_ok_def Let_def)

lemma nj_props_inv: "nj_inv F D R s p \<Longrightarrow> nj_lists_ok F D R fs ds rs \<Longrightarrow> nj_inv F D R (nj_props b fs ds rs k fresh s) p"
proof -
  assume a: "nj_inv F D R s p" "nj_lists_ok F D R fs ds rs"
  let ?t = "s\<lparr>nj_open := b, nj_folders := fs, nj_databases := ds, nj_repositories := rs, nj_prefer := k\<rparr>"
  have "nj_inv F D R ?t p" using a by (simp add: nj_inv_def)
  then show ?thesis using nj_reset_inv [of F D R ?t p] unfolding nj_props_def Let_def by presburger
qed

lemma daily_at_two_accepted:
  "go_decode_schedule (schedule_json daily_at_two) =
     Some \<lparr>sch_enabled = True, sch_kind = ''daily'', sch_every = Some '''', sch_at = Some ''02:00'', sch_weekdays = Some []\<rparr>"
  "go_schedule_validate \<lparr>sch_enabled = True, sch_kind = ''daily'', sch_every = Some '''', sch_at = Some ''02:00'', sch_weekdays = Some []\<rparr>
     = Inr \<lparr>sch_enabled = True, sch_kind = ''daily'', sch_every = Some '''', sch_at = Some ''02:00'', sch_weekdays = Some []\<rparr>"
proof -
  show "go_decode_schedule (schedule_json daily_at_two) =
     Some \<lparr>sch_enabled = True, sch_kind = ''daily'', sch_every = Some '''', sch_at = Some ''02:00'', sch_weekdays = Some []\<rparr>"
    by (simp add: daily_at_two_def schedule_json_def json_of_def opt_json_def go_decode_schedule_def go_field_def json_prop_def
        go_bool_def go_string_def)
  have "clock_text 2 0 = ''02:00''" by (simp add: clock_text_def pad_left_def show_digit)
  then have "go_parseClock ''02:00'' = Inr (2, 0)" using clock_text_parses(1) [of 2 0] by simp
  then show "go_schedule_validate \<lparr>sch_enabled = True, sch_kind = ''daily'', sch_every = Some '''', sch_at = Some ''02:00'', sch_weekdays = Some []\<rparr>
     = Inr \<lparr>sch_enabled = True, sch_kind = ''daily'', sch_every = Some '''', sch_at = Some ''02:00'', sch_weekdays = Some []\<rparr>"
    by (simp add: go_schedule_validate_def)
qed

text \<open>Ids are not blank and carry no white space around them.\<close>

definition ids_ok :: "string set \<Rightarrow> bool" where
  "ids_ok A \<longleftrightarrow> '''' \<notin> A \<and> (\<forall>i \<in> A. trim i = i)"

lemma nj_body_accepted:
  assumes "nj_inv F D R s p" and "nj_ready s" and "ids_ok F" "ids_ok D" "ids_ok R"
  shows "accepted F D R (nj_body s)"
proof -
  let ?db = "nj_kind s = ''database''"
  let ?sched = "if nj_autoDaily s then Some \<lparr>sch_enabled = True, sch_kind = ''daily'', sch_every = Some '''', sch_at = Some ''02:00'',
     sch_weekdays = Some []\<rparr> else None"
  let ?j = "\<lparr>ji_name = trim (nj_name s), ji_folderId = (if ?db then '''' else nj_folderId s),
     ji_databaseId = (if ?db then nj_databaseId s else ''''), ji_repositoryId = nj_repositoryId s,
     ji_schedule = ?sched, ji_retention = None\<rparr>"
  have n: "schedule_json daily_at_two \<noteq> JNull" by (simp add: schedule_json_def json_of_def)
  have "go_decode_job (nj_body s) = Some ?j"
    by (simp add: nj_body_def go_decode_job_def go_field_def json_prop_def go_string_def n daily_at_two_accepted shown_def)
  moreover have "go_job_validate ?j = Inr ?j"
    using assms by (auto simp: go_job_validate_def Let_def daily_at_two_accepted nj_ready_def nj_sourceId_def nj_inv_def ids_ok_def)
  moreover have "go_validateJobRefs F D R ?j = Inr ?j"
    using assms calculation(2) by (auto simp: go_validateJobRefs_def nj_ready_def nj_sourceId_def nj_inv_def split: if_splits)
  ultimately show ?thesis unfolding accepted_def by blast
qed

interpretation nj_flight: single_flight nj_update NewJobDialog "nj_env F D R" "nj_mount b fs ds rs k"
  is_call nj_busy "range NjAnswer" "{}"
  for F D R b fs ds rs k
proof unfold_locales
  fix m s s' and cs :: nj_cmds
  assume "m \<in> msgs (NewJobDialog s) \<union> nj_env F D R" "nj_update m s = (s', cs)"
  then show "if filter is_call cs = [] then nj_busy s' = nj_busy s
      else \<not> nj_busy s \<and> nj_busy s' \<and> length (filter is_call cs) = 1"
    by (cases m) (auto simp: handlers nj_env_def nj_ready_def dest: NewJobDialog_act split: if_splits)
next
  fix m s s' c and cs :: nj_cmds
  assume "nj_update m s = (s', cs)" "c \<in> set cs"
  then show "replies c \<subseteq> (if is_call c then range NjAnswer else {})"
    by (cases m) (auto simp: handlers Let_def split: if_splits option.splits)
next
  fix c :: "(nj_msg, nj_out) cmd"
  assume "is_call c"
  then show "awaits c" by (cases c) auto
next
  fix m s s' and cs :: nj_cmds
  assume "m \<in> range NjAnswer" "nj_update m s = (s', cs)"
  then show "filter is_call cs = [] \<and> \<not> nj_busy s'" by (auto simp: handlers Let_def split: if_splits option.splits)
qed (auto simp: nj_mount_def)

lemma nj_update_inv:
  assumes "nj_inv F D R s p" and "ids_ok F" "ids_ok D" "ids_ok R"
    and "m \<in> msgs (NewJobDialog s) \<union> nj_env F D R \<union> range NjAnswer" and "nj_update m s = (s', cs)"
  shows "nj_inv F D R s' (p @ awaiting cs)"
proof (cases m)
  case NjSubmit
  then have "nj_ready s" using assms(5) by (auto simp: nj_env_def dest: NewJobDialog_act)
  then show ?thesis using nj_body_accepted [OF assms(1) _ assms(2-4)] assms(1,6) NjSubmit
    by (auto simp: nj_inv_def nj_cmd_ok_def handlers)
next
  case (NjProps b fs ds rs k fresh)
  then have "nj_lists_ok F D R fs ds rs" using assms(5) NewJobDialog_act(3) [of m s b fs ds rs k fresh] by (auto simp: nj_env_def)
  then show ?thesis using nj_props_inv [OF assms(1)] assms(6) NjProps by auto
next
  case (NjAnswer res)
  then show ?thesis using assms(1,6) by (auto simp: handlers nj_inv_def Let_def split: if_splits option.splits)
next
  case (NjFolder v)
  then have "v \<in> F" using assms(1,5) by (auto simp: nj_env_def nj_inv_def nj_lists_ok_def dest: NewJobDialog_act)
  then show ?thesis using assms(1,6) NjFolder by (auto simp: nj_inv_def)
next
  case (NjDatabase v)
  then have "v \<in> D" using assms(1,5) by (auto simp: nj_env_def nj_inv_def nj_lists_ok_def dest: NewJobDialog_act)
  then show ?thesis using assms(1,6) NjDatabase by (auto simp: nj_inv_def)
next
  case (NjRepository v)
  then have "v \<in> R" using assms(1,5) by (auto simp: nj_env_def nj_inv_def nj_lists_ok_def dest: NewJobDialog_act)
  then show ?thesis using assms(1,6) NjRepository by (auto simp: nj_inv_def)
qed (use assms(1,6) in \<open>auto simp: nj_inv_def\<close>)

interpretation nj_calls: component nj_update NewJobDialog "nj_env F D R" "nj_mount b fs ds rs k"
  "\<lambda>s p. nj_lists_ok F D R fs ds rs \<and> ids_ok F \<and> ids_ok D \<and> ids_ok R \<longrightarrow> nj_inv F D R s p"
  for F D R b fs ds rs k
proof unfold_locales
  fix s and cs :: nj_cmds
  assume m: "nj_mount b fs ds rs k = (s, cs)"
  define s0 where "s0 = \<lparr>nj_open = b, nj_folders = fs, nj_databases = ds, nj_repositories = rs, nj_prefer = k, nj_name = '''',
        nj_kind = ''folder'', nj_folderId = '''', nj_databaseId = '''', nj_repositoryId = '''', nj_autoDaily = False,
        nj_busy = False, nj_error = ''''\<rparr>"
  have s: "s = nj_reset s0" "cs = []" using m by (simp_all add: nj_mount_def s0_def)
  have "nj_lists_ok F D R fs ds rs \<Longrightarrow> nj_inv F D R s0 []" by (simp add: nj_inv_def s0_def)
  then show "nj_lists_ok F D R fs ds rs \<and> ids_ok F \<and> ids_ok D \<and> ids_ok R \<longrightarrow> nj_inv F D R s (awaiting cs)"
    using nj_reset_inv [of F D R s0 "[]"] s by simp
next
  fix s p m s' and cs :: nj_cmds
  assume "nj_lists_ok F D R fs ds rs \<and> ids_ok F \<and> ids_ok D \<and> ids_ok R \<longrightarrow> nj_inv F D R s p"
    "m \<in> msgs (NewJobDialog s) \<union> nj_env F D R" "nj_update m s = (s', cs)"
  then show "nj_lists_ok F D R fs ds rs \<and> ids_ok F \<and> ids_ok D \<and> ids_ok R \<longrightarrow> nj_inv F D R s' (p @ awaiting cs)"
    using nj_update_inv [of F D R s p m s' cs] by blast
next
  fix s p c q m s' and cs :: nj_cmds
  assume inv: "nj_lists_ok F D R fs ds rs \<and> ids_ok F \<and> ids_ok D \<and> ids_ok R \<longrightarrow> nj_inv F D R s (p @ c # q)"
    and m: "m \<in> replies c" and u: "nj_update m s = (s', cs)"
  show "nj_lists_ok F D R fs ds rs \<and> ids_ok F \<and> ids_ok D \<and> ids_ok R \<longrightarrow> nj_inv F D R s' (p @ q @ awaiting cs)"
  proof
    assume ok: "nj_lists_ok F D R fs ds rs \<and> ids_ok F \<and> ids_ok D \<and> ids_ok R"
    then have i: "nj_inv F D R s (p @ q)" "nj_cmd_ok F D R c" using inv by (auto simp: nj_inv_def)
    then have "m \<in> range NjAnswer" using m by (auto simp: nj_cmd_ok_def)
    then have "nj_inv F D R s' ((p @ q) @ awaiting cs)" using i ok u by (intro nj_update_inv) auto
    then show "nj_inv F D R s' (p @ q @ awaiting cs)" by simp
  qed
qed

section \<open>Properties\<close>

text \<open>
  C6. The New job dialog only creates jobs the server accepts: whatever is typed, chosen and refreshed, in every execution
  at most one request is in flight, and its body decodes to a job with a name, exactly one source and a repository, all
  of them among the ones the page lists, and with a schedule that \<open>Job.Validate\<close> and \<open>ValidateJobRefs\<close> take as it is.
\<close>

theorem new_job_requests:
  assumes "reach nj_update NewJobDialog (nj_env F D R) (nj_mount b fs ds rs k) s p"
    and "nj_lists_ok F D R fs ds rs" and "ids_ok F" and "ids_ok D" and "ids_ok R"
  shows "length (filter is_call p) = (if nj_busy s then 1 else 0) \<and> (\<forall>c \<in> set p. nj_cmd_ok F D R c)"
  using nj_flight.in_flight [OF assms(1)] nj_calls.invariant [OF assms(1)] assms(2-5) by (auto simp: nj_inv_def)

definition sample_folder :: folder where
  "sample_folder = \<lparr>fd_id = ''f1'', fd_name = ''srv'', fd_path = ''/srv''\<rparr>"

definition typed_job :: new_job where
  "typed_job = fst (nj_update (NjName ''Site'') (fst (nj_mount True [sample_folder] [] [sample_repository] ''all'')))"

lemma typed_job_ready: "nj_open typed_job" "nj_ready typed_job"
  by (simp_all add: typed_job_def nj_mount_def nj_reset_def sample_folder_def sample_repository_def first_id_def nj_ready_def
      nj_sourceId_def trim_def is_space_def Let_def)

lemma NewJobDialog_submit: "nj_open s \<Longrightarrow> nj_ready s \<Longrightarrow> NjSubmit \<in> msgs (NewJobDialog s)"
  by (simp add: NewJobDialog_def)

lemma NewJobDialog_name: "nj_open s \<Longrightarrow> NjName v \<in> msgs (NewJobDialog s)"
  by (simp add: NewJobDialog_def)

theorem new_job_requests_witness:
  "\<exists>s p. reach nj_update NewJobDialog (nj_env {''f1''} {} {''p1''}) (nj_mount True [sample_folder] [] [sample_repository] ''all'') s p
     \<and> length (filter is_call p) = 1 \<and> (\<forall>c \<in> set p. nj_cmd_ok {''f1''} {} {''p1''} c)"
proof -
  let ?start = "nj_mount True [sample_folder] [] [sample_repository] ''all''"
  let ?R = "reach nj_update NewJobDialog (nj_env {''f1''} {} {''p1''}) ?start"
  have "?R (fst ?start) []" using reach_first [of nj_update NewJobDialog _ ?start] by (simp add: nj_mount_def)
  then have "?R typed_job []" unfolding typed_job_def
    by (rule reach_quiet [where m = "NjName ''Site''"]) (simp_all add: NewJobDialog_name nj_mount_def)
  then have R: "?R (fst (nj_submit typed_job)) ([] @ awaiting (snd (nj_submit typed_job)))"
    by (rule reach.act [where m = NjSubmit]) (simp_all add: NewJobDialog_submit typed_job_ready)
  have ok: "nj_lists_ok {''f1''} {} {''p1''} [sample_folder] [] [sample_repository]" "ids_ok {''f1''}" "ids_ok {}" "ids_ok {''p1''}"
    by (simp_all add: nj_lists_ok_def sample_folder_def sample_repository_def ids_ok_def trim_def is_space_def)
  have "nj_busy (fst (nj_submit typed_job))" by (simp add: nj_submit_def)
  then show ?thesis using new_job_requests [OF R ok] R by auto
qed

end
