(* ===== verification/JobsPage.thy ===== *)
theory JobsPage
  imports Loads JobCard NewJob
begin

text \<open>
  \<open>JobsRoute\<close> of \<open>src/ui/src/routes/jobs.jsx\<close>: the job cards with their filter and pages, and the
  New job dialog as a component inside. The state holds what the page reads of the live provider and
  of the location (the \<open>source\<close> parameter, and \<open>state.create\<close>). The cards are components
  of their own (JobCard): their states are an argument of the tree, what the user does on one is
  handed out with the job's id, and \<open>onRan\<close> comes in as \<open>JpReload\<close>.
\<close>

section \<open>State\<close>

definition SOURCE_FILTERS :: "filter_option list" where
  "SOURCE_FILTERS =
     [\<lparr>fo_value = ''all'', fo_label = ''All jobs'', fo_icon = Some ''Layers'', fo_tone = None, fo_count = None\<rparr>,
      \<lparr>fo_value = ''folder'', fo_label = ''Files'', fo_icon = Some ''FolderOpen'', fo_tone = Some ''fuchsia'', fo_count = None\<rparr>,
      \<lparr>fo_value = ''database'', fo_label = ''Databases'', fo_icon = Some ''Database'', fo_tone = Some ''fuchsia'', fo_count = None\<rparr>]"

record jobs_data =
  jd_jobs :: "job list"
  jd_folders :: "folder list"
  jd_databases :: "database list"
  jd_repositories :: "repository list"

text \<open>\<open>jp_stamp\<close> tells the arrays of one render from those of another: it counts the times they are new objects.\<close>

record jobs_page =
  jp_version :: nat
  jp_search :: "string option"
  jp_create :: bool
  jp_dialogOpen :: bool
  jp_page :: int
  jp_fetch :: "(jobs_data, string) fetch_hook"
  jp_strips :: strips_hook
  jp_stamp :: nat
  jp_new :: new_job

datatype jp_msg = JpLive nat | JpLocation "string option" bool | JpSource string | JpPage int | JpOpen | JpReload
  | JpLoaded nat "response list" | JpStrips nat "string list" "response list" | JpCard string card_msg | JpNew nj_msg

type_synonym jp_cmds = "(jp_msg, string \<times> card_msg) cmd list"

section \<open>Derived values\<close>

definition jp_source :: "jobs_page \<Rightarrow> string" where
  "jp_source s = (case jp_search s of None \<Rightarrow> ''all''
     | Some v \<Rightarrow> if list_ex (\<lambda>f. fo_value f = v) SOURCE_FILTERS then v else ''all'')"

definition jp_list :: "(jobs_data \<Rightarrow> 'a list) \<Rightarrow> jobs_page \<Rightarrow> 'a list" where
  "jp_list f s = (case fh_data (jp_fetch s) of None \<Rightarrow> [] | Some d \<Rightarrow> f d)"

definition jp_canCreate :: "jobs_page \<Rightarrow> bool" where
  "jp_canCreate s \<longleftrightarrow> (jp_list jd_folders s \<noteq> [] \<or> jp_list jd_databases s \<noteq> []) \<and> jp_list jd_repositories s \<noteq> []"

definition of_source :: "string \<Rightarrow> job list \<Rightarrow> job list" where
  "of_source v js = filter (\<lambda>j. job_sourceKind j = v) js"

definition jp_filtered :: "jobs_page \<Rightarrow> job list" where
  "jp_filtered s = (if jp_source s = ''all'' then jp_list jd_jobs s else of_source (jp_source s) (jp_list jd_jobs s))"

definition jp_count :: "jobs_page \<Rightarrow> string \<Rightarrow> int" where
  "jp_count s v = int (length (if v = ''all'' then jp_list jd_jobs s else of_source v (jp_list jd_jobs s)))"

definition jp_paged :: "jobs_page \<Rightarrow> job page_slice" where
  "jp_paged s = pageSlice (Some (jp_filtered s)) (jp_page s) PAGE_SIZE"

definition jp_ids :: "jobs_page \<Rightarrow> string list" where
  "jp_ids s = map job_id (pg_items (jp_paged s))"

section \<open>The loader\<close>

definition jp_query :: "jobs_page \<Rightarrow> request list" where
  "jp_query s = [Jobs_list, Folders_list, Databases_list, Repositories_list]"

definition jp_result :: "response list \<Rightarrow> string + jobs_data" where
  "jp_result rs =
     (if \<not> res_ok (rs ! 0) then Inl (errorOf (rs ! 0) ''Could not load jobs.'')
      else Inr \<lparr>jd_jobs = or_empty (b_jobs (body_of (rs ! 0))), jd_folders = or_empty (b_folders (body_of (rs ! 1))),
        jd_databases = or_empty (b_databases (body_of (rs ! 2))), jd_repositories = or_empty (b_repositories (body_of (rs ! 3)))\<rparr>)"

definition jp_load :: "jobs_page \<Rightarrow> jobs_page \<times> jp_cmds" where
  "jp_load s = run_load jp_fetch (\<lambda>h s. s\<lparr>jp_fetch := h\<rparr>) jp_query JpLoaded s"

definition jp_reload :: "jobs_page \<Rightarrow> jobs_page" where
  "jp_reload s = s\<lparr>jp_fetch := fetch_bump (jp_fetch s)\<rparr>"

section \<open>Effects\<close>

text \<open>\<open>useJobStrips\<close>, on the ids shown and the version of the runs.\<close>

definition jp_load_strips :: "jobs_page \<Rightarrow> jobs_page \<Rightarrow> jobs_page \<times> jp_cmds" where
  "jp_load_strips s t =
     (let (h, reqs) = strips_effect (jp_ids s) (jp_strips t); key = join '','' (jp_ids s)
      in (t\<lparr>jp_strips := h\<rparr>, if reqs = [] then [] else [CallAll reqs (JpStrips (js_gen h) (split_on (CHR '','') key))]))"

definition jp_strips_key :: "jobs_page \<Rightarrow> string \<times> nat" where
  "jp_strips_key s = (join '','' (jp_ids s), jp_version s)"

text \<open>\<open>navigate(location.pathname)\<close> drops the query with the state.\<close>

definition jp_deep_link :: "jobs_page \<Rightarrow> jobs_page" where
  "jp_deep_link s = s\<lparr>jp_dialogOpen := True, jp_create := False, jp_search := None\<rparr>"

definition jp_child :: "jobs_page \<Rightarrow> bool \<Rightarrow> new_job \<Rightarrow> new_job" where
  "jp_child s fresh = nj_props (jp_dialogOpen s) (jp_list jd_folders s) (jp_list jd_databases s) (jp_list jd_repositories s)
     (jp_source s) fresh"

definition jp_key :: "jobs_page \<Rightarrow> nat" where
  "jp_key s = fh_nonce (jp_fetch s)"

definition jp_effects :: "(jobs_page, jp_msg, string \<times> card_msg) effects" where
  "jp_effects before s =
     (let s0 = s\<lparr>jp_new := jp_child s (jp_stamp s \<noteq> jp_stamp before) (jp_new s)\<rparr>;
          (s1, cs1) = (if jp_key s = jp_key before then (s0, []) else jp_load s0);
          s2 = (if jp_version s \<noteq> jp_version before \<and> 0 < jp_version s then jp_reload s1 else s1);
          (s3, cs3) = (if jp_create s \<and> \<not> jp_create before then (jp_deep_link s2, [Do (Navigate ''/jobs'' True)]) else (s2, []));
          (s4, cs4) = (if jp_strips_key s = jp_strips_key before then (s3, []) else jp_load_strips s s3);
          s5 = (if jp_page s \<noteq> pg_page (jp_paged s) \<and>
                   (jp_page s \<noteq> jp_page before \<or> pg_page (jp_paged s) \<noteq> pg_page (jp_paged before))
                then s4\<lparr>jp_page := pg_page (jp_paged s)\<rparr> else s4)
      in (s5, cs1 @ cs3 @ cs4))"

section \<open>Messages\<close>

text \<open>Without data the arrays are new objects on every render of the page.\<close>

definition jp_render :: "jobs_page \<Rightarrow> jobs_page" where
  "jp_render s = (if fh_data (jp_fetch s) = None then s\<lparr>jp_stamp := Suc (jp_stamp s)\<rparr> else s)"

definition jp_loaded :: "nat \<Rightarrow> response list \<Rightarrow> jobs_page \<Rightarrow> jobs_page" where
  "jp_loaded n rs s = (let t = s\<lparr>jp_fetch := fetch_settle n (jp_result rs) (jp_fetch s)\<rparr> in
     if n \<noteq> fh_generation (jp_fetch s) then t
     else case jp_result rs of Inl err \<Rightarrow> jp_render t | Inr d \<Rightarrow> t\<lparr>jp_stamp := Suc (jp_stamp s)\<rparr>)"

definition jp_setSource :: "string \<Rightarrow> jobs_page \<Rightarrow> jobs_page" where
  "jp_setSource v s = s\<lparr>jp_search := (if v = ''all'' then None else Some v), jp_create := False, jp_page := 1\<rparr>"

fun jp_outs :: "nj_out list \<Rightarrow> jobs_page \<Rightarrow> jobs_page" where
  "jp_outs [] s = s"
| "jp_outs (NjClose b # os) s = jp_outs os (jp_render (s\<lparr>jp_dialogOpen := b\<rparr>))"
| "jp_outs (NjDone # os) s = jp_outs os (jp_render (jp_reload s))"

definition jp_newMsg :: "nj_msg \<Rightarrow> jobs_page \<Rightarrow> jobs_page \<times> jp_cmds" where
  "jp_newMsg m s = (let (n, cs) = nj_update m (jp_new s) in (jp_outs (outs cs) (s\<lparr>jp_new := n\<rparr>), lift_cmds JpNew cs))"

primrec jp_handle :: "(jobs_page, jp_msg, string \<times> card_msg) update" where
  "jp_handle (JpLive v) s = (jp_render (s\<lparr>jp_version := v\<rparr>), [])"
| "jp_handle (JpLocation q c) s = (jp_render (s\<lparr>jp_search := q, jp_create := c\<rparr>), [])"
| "jp_handle (JpSource v) s = (jp_render (jp_setSource v s),
     [Do (Navigate (if v = ''all'' then ''/jobs'' else ''/jobs?source='' @ v) True)])"
| "jp_handle (JpPage p) s = (jp_render (s\<lparr>jp_page := p\<rparr>), [])"
| "jp_handle JpOpen s = (jp_render (s\<lparr>jp_dialogOpen := True\<rparr>), [])"
| "jp_handle JpReload s = (jp_render (jp_reload s), [])"
| "jp_handle (JpLoaded n rs) s = (jp_loaded n rs s, [])"
| "jp_handle (JpStrips n ids rs) s = (s\<lparr>jp_strips := strips_deliver n (strips_answers ids rs) (jp_strips s)\<rparr>, [])"
| "jp_handle (JpCard i m) s = (s, [Out (i, m)])"
| "jp_handle (JpNew m) s = jp_newMsg m s"

definition jp_update :: "(jobs_page, jp_msg, string \<times> card_msg) update" where
  "jp_update = page_update jp_handle jp_effects"

definition jp_first :: "nat \<Rightarrow> string option \<Rightarrow> bool \<Rightarrow> jobs_page" where
  "jp_first version search create =
     \<lparr>jp_version = version, jp_search = search, jp_create = create, jp_dialogOpen = False, jp_page = 1,
      jp_fetch = fetch_init None, jp_strips = strips_init, jp_stamp = 0, jp_new = fst (nj_mount False [] [] [] ''all'')\<rparr>"

text \<open>The effects of the first render all run; those of the second see what they changed.\<close>

definition jp_first_effects :: "jobs_page \<Rightarrow> jobs_page \<times> jp_cmds" where
  "jp_first_effects s0 =
     (let s1 = s0\<lparr>jp_new := fst (nj_mount False [] [] [] (jp_source s0))\<rparr>;
          (s2, cs2) = jp_load s1;
          s3 = (if 0 < jp_version s0 then jp_reload s2 else s2);
          (s4, cs4) = (if jp_create s0 then (jp_deep_link s3, [Do (Navigate ''/jobs'' True)]) else (s3, []));
          (s5, cs5) = jp_load_strips s0 s4
      in (s5, cs2 @ cs4 @ [Do (SetTitle (''Jobs '' @ middot @ '' restic backup manager''))] @ cs5))"

definition jp_mount :: "nat \<Rightarrow> string option \<Rightarrow> bool \<Rightarrow> jobs_page \<times> jp_cmds" where
  "jp_mount version search create =
     (let s0 = jp_first version search create; (s1, cs1) = jp_first_effects s0; (s2, cs2) = jp_effects s0 (jp_render s1)
      in (s2, cs1 @ cs2))"

section \<open>What it renders\<close>

definition FilteredEmpty :: "string \<Rightarrow> bool \<Rightarrow> bool \<Rightarrow> jp_msg ui" where
  "FilteredEmpty source hasSource canCreate =
     (let db = (source = ''database'') in
      EmptyState (Some (if db then ''Database'' else ''FolderOpen'')) ''fuchsia''
        (if db then ''No database jobs yet'' else ''No file jobs yet'')
        (if hasSource then
           (if db then ''Create a job and choose '' @ lquote @ ''A database'' @ rquote @ '' to back one up on its own schedule.''
            else ''Create a job and choose a folder to back it up on its own schedule.'')
         else (if db then ''A database job dumps one PostgreSQL, MySQL or MariaDB database. Add the database on the Sources page first.''
            else ''A file job backs up one folder. Add the folder on the Sources page first.''))
        [if hasSource \<and> canCreate then Node ''Button'' [On ''click'' JpOpen] [Icon ''Plus'', Txt ''New job'']
         else Node ''Button'' [] [Node ''Link'' [At ''to'' ''/folders''] [Txt ''Open Sources'']]] True)"

definition jobs_empty :: "jobs_page \<Rightarrow> jp_msg ui" where
  "jobs_empty s = EmptyState (Some ''Workflow'') ''violet'' ''No jobs yet''
     (if jp_canCreate s then ''You have a source and a repository '' @ em_dash @ '' pair them into a job and you can back up in one click.''
      else ''Finish setup on the Dashboard, then come back here to create a job.'')
     [if jp_canCreate s then Node ''Button'' [On ''click'' JpOpen] [Icon ''Plus'', Txt ''Create a job'']
      else Node ''Button'' [] [Node ''Link'' [At ''to'' ''/dashboard''] [Txt ''Finish setup on the Dashboard'']]] True"

definition job_cards :: "env \<Rightarrow> (string \<Rightarrow> job_card) \<Rightarrow> jobs_page \<Rightarrow> jp_msg ui list" where
  "job_cards e cards s = map (\<lambda>j. map_ui (JpCard (job_id j)) (JobCard e True
     ((cards (job_id j))\<lparr>jc_job := j, jc_runs := or_empty (js_strips (jp_strips s) (job_id j))\<rparr>))) (pg_items (jp_paged s))"

definition jobs_list :: "env \<Rightarrow> (string \<Rightarrow> job_card) \<Rightarrow> jobs_page \<Rightarrow> jp_msg ui" where
  "jobs_list e cards s = Node ''div'' []
     ([FilterTabs (map (\<lambda>f. f\<lparr>fo_count := Some (jp_count s (fo_value f))\<rparr>) SOURCE_FILTERS) (jp_source s) JpSource
         ''Filter jobs by source'',
       if jp_filtered s = []
       then FilteredEmpty (jp_source s)
         (if jp_source s = ''database'' then jp_list jd_databases s \<noteq> [] else jp_list jd_folders s \<noteq> []) (jp_canCreate s)
       else Node ''div'' [] (job_cards e cards s)] @
      ListPagination (pg_page (jp_paged s)) PAGE_SIZE (pg_total (jp_paged s)) JpPage)"

definition jobs_content :: "env \<Rightarrow> (string \<Rightarrow> job_card) \<Rightarrow> jobs_page \<Rightarrow> jp_msg ui" where
  "jobs_content e cards s =
     (case (fh_error (jp_fetch s), fh_data (jp_fetch s)) of
        (Some err, None) \<Rightarrow> ErrorState (Some ''Could not load jobs'')
          (err @ '' Check that the server is running, then retry.'') (Some JpReload)
      | _ \<Rightarrow>
        if fh_loading (jp_fetch s) \<and> fh_data (jp_fetch s) = None then Node ''div'' [] (replicate 4 (Node ''Skeleton'' [] []))
        else if jp_list jd_jobs s = [] then jobs_empty s
        else jobs_list e cards s)"

definition JobsRoute :: "env \<Rightarrow> (string \<Rightarrow> job_card) \<Rightarrow> jobs_page \<Rightarrow> jp_msg ui" where
  "JobsRoute e cards s = Page
     [PageHeader [Txt ''Backup jobs''] [Txt (''A job is a saved pairing of a folder or database and a repository '' @ em_dash @
         '' the thing you run, and where its history lives.'')]
        (shown (jp_list jd_jobs s \<noteq> []) [Node ''Button'' [On ''click'' JpOpen, Flag ''disabled'' (\<not> jp_canCreate s)]
           [Icon ''Plus'', Txt ''New job'']]) [] [],
      jobs_content e cards s,
      map_ui JpNew (NewJobDialog (jp_new s))]"

section \<open>Loading\<close>

lemma jp_loaded_eq [simp]: "JpLoaded n = JpLoaded n' \<longleftrightarrow> n = n'" "JpStrips n ids \<noteq> JpLoaded n'" "JpLoaded n' \<noteq> JpStrips n ids"
  by (auto simp: fun_eq_iff)

lemma jp_load_eq: "jp_load s = (s\<lparr>jp_fetch := fetch_effect (jp_fetch s)\<rparr>,
    [CallAll (jp_query s) (JpLoaded (Suc (fh_generation (jp_fetch s))))])"
  by (simp add: jp_load_def run_load_def Let_def)

lemma jp_render_fields [simp]:
  "jp_fetch (jp_render s) = jp_fetch s" "jp_version (jp_render s) = jp_version s" "jp_search (jp_render s) = jp_search s"
  "jp_create (jp_render s) = jp_create s" "jp_dialogOpen (jp_render s) = jp_dialogOpen s" "jp_page (jp_render s) = jp_page s"
  "jp_strips (jp_render s) = jp_strips s" "jp_new (jp_render s) = jp_new s"
  by (simp_all add: jp_render_def)

text \<open>What one round of effects does to each field.\<close>

lemma jp_load_strips_frame:
  assumes "jp_load_strips s t = (t', cs)"
  shows "t' = t\<lparr>jp_strips := jp_strips t'\<rparr> \<and> (\<forall>n qs. CallAll qs (JpLoaded n) \<notin> set cs)"
  using assms by (auto simp: jp_load_strips_def Let_def split: prod.splits if_splits)

lemma jp_effects_fields:
  assumes "jp_effects b s = (s', cs)"
  shows "jp_new s' = jp_child s (jp_stamp s \<noteq> jp_stamp b) (jp_new s)"
    and "jp_fetch s' = (if jp_version s \<noteq> jp_version b \<and> 0 < jp_version s then fetch_bump else id)
       (if jp_key s = jp_key b then jp_fetch s else fetch_effect (jp_fetch s))"
    and "jp_version s' = jp_version s" "jp_stamp s' = jp_stamp s"
    and "(jp_dialogOpen s', jp_create s', jp_search s') =
      (if jp_create s \<and> \<not> jp_create b then (True, False, None) else (jp_dialogOpen s, jp_create s, jp_search s))"
    and "jp_page s' = (if jp_page s \<noteq> jp_page b \<or> pg_page (jp_paged s) \<noteq> pg_page (jp_paged b)
       then pg_page (jp_paged s) else jp_page s)"
    and "jp_key s = jp_key b \<Longrightarrow> \<forall>n qs. CallAll qs (JpLoaded n) \<notin> set cs"
    and "jp_key s \<noteq> jp_key b \<Longrightarrow> fresh_loads JpLoaded (fh_generation (jp_fetch s)) (Suc (fh_generation (jp_fetch s))) (jp_query s) cs"
proof -
  let ?s0 = "s\<lparr>jp_new := jp_child s (jp_stamp s \<noteq> jp_stamp b) (jp_new s)\<rparr>"
  define s1 cs1 where s1: "s1 = fst (if jp_key s = jp_key b then (?s0, []) else jp_load ?s0)"
    and cs1: "cs1 = snd (if jp_key s = jp_key b then (?s0, []) else jp_load ?s0)"
  define s2 where "s2 = (if jp_version s \<noteq> jp_version b \<and> 0 < jp_version s then jp_reload s1 else s1)"
  define s3 where "s3 = (if jp_create s \<and> \<not> jp_create b then jp_deep_link s2 else s2)"
  define cs3 where "cs3 = (if jp_create s \<and> \<not> jp_create b then [Do (Navigate ''/jobs'' True)] else [] :: jp_cmds)"
  define s4 cs4 where s4: "s4 = fst (if jp_strips_key s = jp_strips_key b then (s3, []) else jp_load_strips s s3)"
    and cs4: "cs4 = snd (if jp_strips_key s = jp_strips_key b then (s3, []) else jp_load_strips s s3)"
  have s': "s' = (if jp_page s \<noteq> pg_page (jp_paged s) \<and> (jp_page s \<noteq> jp_page b \<or> pg_page (jp_paged s) \<noteq> pg_page (jp_paged b))
      then s4\<lparr>jp_page := pg_page (jp_paged s)\<rparr> else s4)" and cs: "cs = cs1 @ cs3 @ cs4"
    using assms by (auto simp: jp_effects_def Let_def s1 cs1 s2_def s3_def cs3_def s4 cs4 split: prod.splits if_splits)
  have f4: "s4 = s3\<lparr>jp_strips := jp_strips s4\<rparr> \<and> (\<forall>n qs. CallAll qs (JpLoaded n) \<notin> set cs4)"
    using jp_load_strips_frame [OF surjective_pairing, of s s3] by (simp add: s4 cs4)
  then have f: "jp_new s4 = jp_new s3" "jp_fetch s4 = jp_fetch s3" "jp_version s4 = jp_version s3" "jp_stamp s4 = jp_stamp s3"
    "jp_dialogOpen s4 = jp_dialogOpen s3" "jp_create s4 = jp_create s3" "jp_search s4 = jp_search s3" "jp_page s4 = jp_page s3"
    by (metis jobs_page.ext_inject jobs_page.surjective jobs_page.update_convs(7))+
  have q: "jp_query (s\<lparr>jp_new := n\<rparr>) = jp_query s" for n by (simp add: jp_query_def)
  show "jp_new s' = jp_child s (jp_stamp s \<noteq> jp_stamp b) (jp_new s)"
    by (simp add: s' f s3_def s2_def s1 jp_deep_link_def jp_reload_def jp_load_eq)
  show "jp_fetch s' = (if jp_version s \<noteq> jp_version b \<and> 0 < jp_version s then fetch_bump else id)
       (if jp_key s = jp_key b then jp_fetch s else fetch_effect (jp_fetch s))"
    by (simp add: s' f s3_def s2_def s1 jp_deep_link_def jp_reload_def jp_load_eq)
  show "jp_version s' = jp_version s" "jp_stamp s' = jp_stamp s"
    by (simp_all add: s' f s3_def s2_def s1 jp_deep_link_def jp_reload_def jp_load_eq)
  show "(jp_dialogOpen s', jp_create s', jp_search s') =
      (if jp_create s \<and> \<not> jp_create b then (True, False, None) else (jp_dialogOpen s, jp_create s, jp_search s))"
    by (simp add: s' f s3_def s2_def s1 jp_deep_link_def jp_reload_def jp_load_eq)
  show "jp_page s' = (if jp_page s \<noteq> jp_page b \<or> pg_page (jp_paged s) \<noteq> pg_page (jp_paged b)
       then pg_page (jp_paged s) else jp_page s)"
    by (simp add: s' f s3_def s2_def s1 jp_deep_link_def jp_reload_def jp_load_eq)
  show "jp_key s = jp_key b \<Longrightarrow> \<forall>n qs. CallAll qs (JpLoaded n) \<notin> set cs"
    using f4 by (simp add: cs cs1 cs3_def)
  show "jp_key s \<noteq> jp_key b \<Longrightarrow> fresh_loads JpLoaded (fh_generation (jp_fetch s)) (Suc (fh_generation (jp_fetch s))) (jp_query s) cs"
    using f4 by (auto simp: fresh_loads_def cs cs1 cs3_def jp_load_eq q)
qed

lemma jp_outs_fetch: "jp_outs os s = t \<Longrightarrow> (fetch_wf (jp_fetch t) \<longleftrightarrow> fetch_wf (jp_fetch s)) \<and>
    fh_generation (jp_fetch t) = fh_generation (jp_fetch s) \<and> fh_loading (jp_fetch t) = fh_loading (jp_fetch s)"
proof (induction os arbitrary: s)
  case (Cons x os)
  then show ?case by (cases x) (auto simp: jp_reload_def)
qed simp

lemma jp_new_cmds: "CallAll qs (JpLoaded n) \<notin> set (lift_cmds JpNew cs)"
proof (induction cs)
  case (Cons c cs)
  have "JpLoaded n \<noteq> JpNew \<circ> g" for g by (auto simp: fun_eq_iff)
  then show ?case using Cons by (cases c) (auto simp: comp_def)
qed simp

lemma jp_handle_load:
  assumes "fetch_wf (jp_fetch s)" and "jp_handle m s = (t, cs)"
  shows "fetch_wf (jp_fetch t) \<and> fh_generation (jp_fetch t) = fh_generation (jp_fetch s) \<and> (\<forall>n qs. CallAll qs (JpLoaded n) \<notin> set cs)
    \<and> (fh_loading (jp_fetch t) \<longrightarrow> fh_loading (jp_fetch s) \<and> (\<forall>rs. m \<noteq> JpLoaded (fh_generation (jp_fetch s)) rs))"
proof (cases m)
  case (JpLoaded n rs)
  then show ?thesis using assms
    by (auto simp: jp_loaded_def fetch_facts Let_def split: if_splits sum.splits)
next
  case (JpNew x)
  then obtain k ds where "nj_update x (jp_new s) = (k, ds)" "t = jp_outs (outs ds) (s\<lparr>jp_new := k\<rparr>)" "cs = lift_cmds JpNew ds"
    using assms(2) by (auto simp: jp_newMsg_def split: prod.splits)
  then show ?thesis using assms(1) jp_outs_fetch [of "outs ds" "s\<lparr>jp_new := k\<rparr>" t] JpNew jp_new_cmds by auto
qed (use assms in \<open>auto simp: jp_setSource_def jp_reload_def\<close>)

text \<open>A page number is clamped for any other page number of the same list alike, so clamping settles.\<close>

lemma pageSlice_clamped: "pageSlice (Some xs) (pg_page (pageSlice (Some xs) p n)) n = pageSlice (Some xs) p n"
  by (simp add: pageSlice_def Let_def)

lemma jp_effects_rest_key:
  assumes "jp_effects b s = (s1, cs1)" and "jp_effects s s1 = (s2, cs2)"
  shows "jp_key s2 = jp_key s1"
  using jp_effects_fields(2,3) [OF assms(1)] jp_effects_fields(2) [OF assms(2)] by (simp add: jp_key_def)

lemma jp_first_effects_fetch:
  assumes "jp_first_effects (jp_first version search create) = (s1, cs)"
  shows "jp_fetch s1 = (if 0 < version then fetch_bump else id) (fetch_effect (fetch_init None))
    \<and> fresh_loads JpLoaded 0 1 (jp_query s1) cs \<and> jp_version s1 = version"
proof -
  let ?s0 = "jp_first version search create"
  let ?s2 = "fst (jp_load (?s0\<lparr>jp_new := fst (nj_mount False [] [] [] (jp_source ?s0))\<rparr>))"
  define s3 where "s3 = (if 0 < version then jp_reload ?s2 else ?s2)"
  define s4 where "s4 = (if create then jp_deep_link s3 else s3)"
  obtain cs5 where s1: "jp_load_strips ?s0 s4 = (s1, cs5)" and cs: "cs = snd (jp_load (?s0\<lparr>jp_new := fst (nj_mount False [] [] [] (jp_source ?s0))\<rparr>))
      @ (if create then [Do (Navigate ''/jobs'' True)] else []) @ [Do (SetTitle (''Jobs '' @ middot @ '' restic backup manager''))] @ cs5"
    using assms by (auto simp: jp_first_effects_def Let_def s4_def s3_def jp_first_def split: prod.splits if_splits)
  note f = jp_load_strips_frame [OF s1]
  then have "jp_fetch s1 = jp_fetch s4" "jp_version s1 = jp_version s4"
    by (metis jobs_page.ext_inject jobs_page.surjective jobs_page.update_convs(7))+
  moreover have "jp_fetch s4 = (if 0 < version then fetch_bump else id) (fetch_effect (fetch_init None))" "jp_version s4 = version"
    by (simp_all add: s4_def s3_def jp_load_eq jp_deep_link_def jp_reload_def jp_first_def)
  moreover have "fresh_loads JpLoaded 0 1 (jp_query s1) cs"
    using f by (auto simp: cs jp_load_eq fresh_loads_def jp_first_def jp_query_def)
  ultimately show ?thesis by simp
qed

interpretation jp_loads: fetch_page jp_handle jp_effects "JobsRoute e cards" env "jp_mount version search create"
  jp_fetch jp_key jp_query JpLoaded
  for e cards env version search create
proof unfold_locales
  fix s and cs :: jp_cmds
  assume "jp_mount version search create = (s, cs)"
  then obtain s1 c1 c2 where m: "jp_first_effects (jp_first version search create) = (s1, c1)"
      "jp_effects (jp_first version search create) (jp_render s1) = (s, c2)" "cs = c1 @ c2"
    by (auto simp: jp_mount_def Let_def split: prod.splits)
  note f = jp_first_effects_fetch [OF m(1)] and e = jp_effects_fields(2,7,8) [OF m(2)]
  show "fetch_wf (jp_fetch s) \<and> fresh_loads JpLoaded 0 (fh_generation (jp_fetch s)) (jp_query s) cs"
  proof (cases "version = 0")
    case True
    then have "jp_key (jp_render s1) = jp_key (jp_first version search create)" using f by (simp add: jp_key_def jp_first_def)
    then show ?thesis using e f True unfolding m(3)
      by (intro conjI fresh_loads_skip(2)) (auto simp: fetch_effect_wf jp_first_def jp_query_def)
  next
    case False
    then have "jp_key (jp_render s1) \<noteq> jp_key (jp_first version search create)" using f by (simp add: jp_key_def jp_first_def)
    then show ?thesis using e f False unfolding m(3)
      by (intro conjI fresh_loads_later [where g' = 1 and q = "jp_query s"]) (auto simp: fetch_effect_wf jp_first_def jp_query_def)
  qed
next
  fix s m t and cs :: jp_cmds
  assume "fetch_wf (jp_fetch s)" "jp_handle m s = (t, cs)"
  then show "fetch_wf (jp_fetch t) \<and> fh_generation (jp_fetch t) = fh_generation (jp_fetch s)
      \<and> (\<forall>n qs. CallAll qs (JpLoaded n) \<notin> set cs)
      \<and> (fh_loading (jp_fetch t) \<longrightarrow> fh_loading (jp_fetch s) \<and> (\<forall>rs. m \<noteq> JpLoaded (fh_generation (jp_fetch s)) rs))"
    by (rule jp_handle_load)
next
  fix s b s' and cs :: jp_cmds
  assume "fetch_wf (jp_fetch s)" "jp_effects b s = (s', cs)"
  then show "fetch_wf (jp_fetch s') \<and> (if jp_key s = jp_key b
     then fh_generation (jp_fetch s') = fh_generation (jp_fetch s) \<and> fh_loading (jp_fetch s') = fh_loading (jp_fetch s)
       \<and> (\<forall>n qs. CallAll qs (JpLoaded n) \<notin> set cs)
     else fh_generation (jp_fetch s') = Suc (fh_generation (jp_fetch s))
       \<and> fresh_loads JpLoaded (fh_generation (jp_fetch s)) (fh_generation (jp_fetch s')) (jp_query s) cs)"
    using jp_effects_fields(2,7,8) [of b s s' cs] by (auto simp: fetch_effect_wf)
next
  fix b s s1 s2 and cs1 cs2 :: jp_cmds
  assume "jp_effects b s = (s1, cs1)" "jp_effects s s1 = (s2, cs2)"
  then show "jp_key s2 = jp_key s1" by (rule jp_effects_rest_key)
next
  fix s s' :: jobs_page
  assume "jp_key s = jp_key s'"
  then show "jp_query s = jp_query s'" by (simp add: jp_query_def)
qed

section \<open>The effects come to rest\<close>

lemma jp_paged_cong: "jp_list jd_jobs s = jp_list jd_jobs t \<Longrightarrow> jp_source s = jp_source t \<Longrightarrow> jp_page s = jp_page t \<Longrightarrow> jp_paged s = jp_paged t"
  by (simp add: jp_paged_def jp_filtered_def)

lemma nj_props_again: "nj_props b fs ds rs k False (nj_props b fs ds rs k fresh n) = nj_props b fs ds rs k fresh n"
  by (simp add: nj_props_def nj_reset_def Let_def)

lemma jp_effects_still:
  assumes "jp_key s = jp_key b" "jp_version s = jp_version b" "jp_create s = jp_create b" "jp_stamp s = jp_stamp b"
    and "jp_paged s = jp_paged b" "jp_page s = pg_page (jp_paged s) \<or> jp_page s = jp_page b"
    and "jp_new s = jp_child s fresh n"
  shows "jp_effects b s = (s, [])"
proof -
  have "jp_child s False (jp_new s) = jp_new s" using assms(7) by (simp add: jp_child_def nj_props_again)
  moreover have "jp_strips_key s = jp_strips_key b" using assms(2,5) by (simp add: jp_strips_key_def jp_ids_def)
  ultimately show ?thesis using assms by (auto simp: jp_effects_def Let_def)
qed

text \<open>
  The effects of the jobs page come to rest: whatever changed before a render (the runs, the data, the filter, the page or a
  deep link that opens the dialog and drops the query), the second round of effects is the last.
\<close>

theorem jobs_effects_settle: "at_rest jp_effects before s"
proof -
  obtain s1 c1 where e1: "jp_effects before s = (s1, c1)" by (metis surj_pair)
  obtain s2 c2 where e2: "jp_effects s s1 = (s2, c2)" by (metis surj_pair)
  note f1 = jp_effects_fields [OF e1] and f2 = jp_effects_fields [OF e2]
  have data: "fh_data (jp_fetch s2) = fh_data (jp_fetch s1)" using f2(2) by simp
  have create: "jp_create s1 \<Longrightarrow> jp_create s" using f1(5) by (simp split: if_splits)
  have same: "(jp_dialogOpen s2, jp_create s2, jp_search s2) = (jp_dialogOpen s1, jp_create s1, jp_search s1)"
    using f2(5) create by (simp split: if_splits)
  then have source: "jp_source s2 = jp_source s1" by (simp add: jp_source_def)
  have page: "jp_page s2 = jp_page s1 \<or> jp_page s2 = pg_page (jp_paged s1)" using f2(6) by auto
  have "jp_filtered s2 = jp_filtered s1" using data source by (simp add: jp_filtered_def jp_list_def)
  then have paged: "jp_paged s2 = jp_paged s1" using page by (auto simp only: jp_paged_def pageSlice_clamped)
  have "jp_child s1 fresh n = jp_child s2 fresh n" for fresh n using same source data by (simp add: jp_child_def jp_list_def)
  then have new: "jp_new s2 = jp_child s2 (jp_stamp s1 \<noteq> jp_stamp s) (jp_new s1)" using f2(1) by simp
  have "jp_effects s1 s2 = (s2, [])"
    by (rule jp_effects_still [OF jp_effects_rest_key [OF e1 e2] f2(3) _ f2(4) paged _ new]) (use same page paged in auto)
  then show ?thesis by (simp add: at_rest_def e1 e2)
qed

section \<open>What a run event does to a form that is being filled in\<close>

lemma nj_props_cleared:
  "b \<Longrightarrow> nj_name (nj_props b fs ds rs k True n) = '''' \<and> \<not> nj_autoDaily (nj_props b fs ds rs k True n)"
  "b \<Longrightarrow> nj_name n = '''' \<Longrightarrow> \<not> nj_autoDaily n \<Longrightarrow>
     nj_name (nj_props b fs ds rs k fresh n) = '''' \<and> \<not> nj_autoDaily (nj_props b fs ds rs k fresh n)"
  by (simp_all add: nj_props_def nj_reset_def Let_def)

lemma jp_update_split:
  assumes "jp_update m s = (s', cs)"
  obtains t s1 c0 c1 c2 where "jp_handle m s = (t, c0)" "jp_effects s t = (s1, c1)" "jp_effects t s1 = (s', c2)" "cs = c0 @ c1 @ c2"
  using assms by (auto simp: jp_update_def page_update_def commit_def split: prod.splits)

lemma jp_live_loads:
  assumes "fh_data (jp_fetch s) = Some d" and "v \<noteq> jp_version s" "0 < v" and "jp_update (JpLive v) s = (s', cs)"
  shows "jp_dialogOpen s' = jp_dialogOpen s \<and> fh_generation (jp_fetch s') = Suc (fh_generation (jp_fetch s))
    \<and> (fetch_wf (jp_fetch s) \<longrightarrow> fetch_wf (jp_fetch s')) \<and> CallAll (jp_query s) (JpLoaded (Suc (fh_generation (jp_fetch s)))) \<in> set cs"
proof -
  obtain t s1 c0 c1 c2 where u: "jp_handle (JpLive v) s = (t, c0)" "jp_effects s t = (s1, c1)" "jp_effects t s1 = (s', c2)"
    "cs = c0 @ c1 @ c2" by (rule jp_update_split [OF assms(4)])
  have t: "t = s\<lparr>jp_version := v\<rparr>" using u(1) assms(1) by (auto simp: jp_render_def)
  note f1 = jp_effects_fields [OF u(2)] and f2 = jp_effects_fields [OF u(3)]
  have h1: "jp_fetch s1 = fetch_bump (jp_fetch s)" using f1(2) t assms(2,3) by (simp add: jp_key_def)
  then have key: "jp_key s1 \<noteq> jp_key t" using t by (simp add: jp_key_def)
  have "jp_fetch s' = fetch_effect (fetch_bump (jp_fetch s))" using f2(2) key h1 f1(3) by simp
  moreover have "jp_dialogOpen s' = jp_dialogOpen s" using f1(5) f2(5) t by (simp split: if_splits)
  moreover have "CallAll (jp_query s) (JpLoaded (Suc (fh_generation (jp_fetch s)))) \<in> set cs"
    using f2(8) [OF key] h1 u(4) by (simp add: fresh_loads_def jp_query_def)
  ultimately show ?thesis by (simp add: fetch_effect_wf)
qed

lemma jp_loaded_clears:
  assumes "jp_dialogOpen s" and "res_ok (rs ! 0)" and "jp_update (JpLoaded (fh_generation (jp_fetch s)) rs) s = (s', cs)"
  shows "nj_name (jp_new s') = '''' \<and> \<not> nj_autoDaily (jp_new s')"
proof -
  obtain t s1 c0 c1 c2 where u: "jp_handle (JpLoaded (fh_generation (jp_fetch s)) rs) s = (t, c0)" "jp_effects s t = (s1, c1)"
    "jp_effects t s1 = (s', c2)" by (rule jp_update_split [OF assms(3)])
  have t: "jp_stamp t = Suc (jp_stamp s)" "jp_dialogOpen t"
    using u(1) assms(1,2) by (auto simp: jp_loaded_def jp_result_def Let_def)
  note f1 = jp_effects_fields [OF u(2)] and f2 = jp_effects_fields [OF u(3)]
  have "nj_name (jp_new s1) = '''' \<and> \<not> nj_autoDaily (jp_new s1)"
    using t f1(1) nj_props_cleared(1) [of "jp_dialogOpen t"] by (simp add: jp_child_def)
  moreover have "jp_dialogOpen s1" using f1(5) t by (simp split: if_splits)
  ultimately show ?thesis using f2(1) nj_props_cleared(2) [of "jp_dialogOpen s1"] by (simp add: jp_child_def)
qed

text \<open>
  A run that starts or ends anywhere empties the New job form while it is being filled in: the event makes the page load
  its data again, and when that answer arrives, the name that was typed and the choice to run automatically are gone.
\<close>

theorem new_job_form_lost:
  assumes "jp_dialogOpen s" and "fh_data (jp_fetch s) = Some d" and "v \<noteq> jp_version s" and "0 < v"
    and "jp_update (JpLive v) s = (s1, cs)" and "res_ok (rs ! 0)"
  shows "\<exists>n. CallAll [Jobs_list, Folders_list, Databases_list, Repositories_list] (JpLoaded n) \<in> set cs
    \<and> nj_name (jp_new (fst (jp_update (JpLoaded n rs) s1))) = ''''
    \<and> \<not> nj_autoDaily (jp_new (fst (jp_update (JpLoaded n rs) s1)))"
proof -
  note l = jp_live_loads [OF assms(2-5)]
  obtain s2 cs2 where u: "jp_update (JpLoaded (fh_generation (jp_fetch s1)) rs) s1 = (s2, cs2)" by (metis surj_pair)
  have "nj_name (jp_new s2) = '''' \<and> \<not> nj_autoDaily (jp_new s2)" by (rule jp_loaded_clears [OF _ assms(6) u]) (use l assms(1) in simp)
  then show ?thesis using l u by (intro exI [of _ "fh_generation (jp_fetch s1)"]) (simp add: jp_query_def)
qed

definition filling_in :: jobs_page where
  "filling_in = (jp_first 0 None False)\<lparr>jp_dialogOpen := True, jp_new := typed_job,
     jp_fetch := fetch_init (Some \<lparr>jd_jobs = [sample_job], jd_folders = [sample_folder], jd_databases = [],
       jd_repositories = [sample_repository]\<rparr>)\<rparr>"

theorem new_job_form_lost_witness:
  "nj_name (jp_new filling_in) = ''Site'' \<and> (\<exists>n. nj_name (jp_new (fst (jp_update
     (JpLoaded n [\<lparr>res_status = 200, res_ok = True, res_body = None\<rparr>]) (fst (jp_update (JpLive 1) filling_in))))) = '''')"
proof -
  have "nj_name (jp_new filling_in) = ''Site''" by (simp add: filling_in_def typed_job_def)
  moreover have "\<exists>n. nj_name (jp_new (fst (jp_update
     (JpLoaded n [\<lparr>res_status = 200, res_ok = True, res_body = None\<rparr>]) (fst (jp_update (JpLive 1) filling_in))))) = ''''"
    using new_job_form_lost [where s = filling_in and v = 1, OF _ _ _ _ surjective_pairing,
        where rs = "[\<lparr>res_status = 200, res_ok = True, res_body = None\<rparr>]"]
    by (auto simp: filling_in_def jp_first_def)
  ultimately show ?thesis by simp
qed

end
