(* ===== verification/Overview.thy ===== *)
theory Overview
  imports RunLists JobCard "HOL-Library.Multiset" "HOL-Library.Product_Lexorder"
begin

text \<open>
  The parts of \<open>src/ui/src/routes/dashboard.jsx\<close> that are functions of the data: which jobs need
  attention and in which order, the upcoming backups, the order of the job cards, the recent failures,
  the sentence that says whether the backups are well, and the cards that show them; and
  \<open>components/getting-started.jsx\<close>. A comparison of times that the code leaves undefined, because a
  date cannot be read, counts as the time 0.
\<close>

section \<open>Ordering the jobs\<close>

definition ATTENTION_CAP :: nat where "ATTENTION_CAP = 5"
definition UPCOMING_CAP :: nat where "UPCOMING_CAP = 5"
definition FAILURES_CAP :: nat where "FAILURES_CAP = 5"
definition JOB_CARDS_CAP :: nat where "JOB_CARDS_CAP = 6"
definition LATEST_CAP :: nat where "LATEST_CAP = 6"

definition time_of :: "env \<Rightarrow> string \<Rightarrow> int" where
  "time_of e ts = (case env_parse e ts of None \<Rightarrow> 0 | Some t \<Rightarrow> t)"

record attention =
  at_job :: job
  at_failedLast :: bool
  at_overdue :: bool

definition failed_last :: "job \<Rightarrow> bool" where
  "failed_last j = (case job_lastRun j of None \<Rightarrow> False | Some r \<Rightarrow> run_status r = ''failed'' \<or> run_status r = ''interrupted'')"

definition overdue :: "job \<Rightarrow> bool" where
  "overdue j \<longleftrightarrow> job_scheduleState j = ''overdue''"

definition needs_attention :: "job \<Rightarrow> bool" where
  "needs_attention j \<longleftrightarrow> failed_last j \<or> overdue j"

definition last_started :: "job \<Rightarrow> string" where
  "last_started j = opt_str run_startedAt (job_lastRun j) ''''"

text \<open>The comparator orders by failure, then by the start of the last run, none being \<open>Infinity\<close>.\<close>

definition attention_key :: "env \<Rightarrow> attention \<Rightarrow> nat \<times> bool \<times> int" where
  "attention_key e a = (if at_failedLast a then 0 else 1, last_started (at_job a) = '''',
     if last_started (at_job a) = '''' then 0 else time_of e (last_started (at_job a)))"

definition selectAttention :: "env \<Rightarrow> job list \<Rightarrow> attention list" where
  "selectAttention e jobs = sort_key (attention_key e)
     (map (\<lambda>j. \<lparr>at_job = j, at_failedLast = failed_last j, at_overdue = overdue j\<rparr>) (filter needs_attention jobs))"

definition upcoming_key :: "env \<Rightarrow> job \<Rightarrow> bool \<times> int" where
  "upcoming_key e j = (job_nextDueAt j = '''', if job_nextDueAt j = '''' then 0 else time_of e (job_nextDueAt j))"

definition selectUpcoming :: "env \<Rightarrow> job list \<Rightarrow> job list" where
  "selectUpcoming e jobs = take UPCOMING_CAP (sort_key (upcoming_key e) (filter schedule_on jobs))"

text \<open>A \<open>Map\<close> of ids to positions; a later entry of the same id wins.\<close>

definition attention_rank :: "attention list \<Rightarrow> string \<rightharpoonup> nat" where
  "attention_rank attention = map_of (rev (zip (map (\<lambda>a. job_id (at_job a)) attention) [0..<length attention]))"

definition card_key :: "env \<Rightarrow> attention list \<Rightarrow> job \<Rightarrow> (bool \<times> nat) \<times> int" where
  "card_key e attention j = (case attention_rank attention (job_id j) of None \<Rightarrow> (True, 0) | Some i \<Rightarrow> (False, i),
     - (if last_started j = '''' then 0 else time_of e (last_started j)))"

definition orderJobCards :: "env \<Rightarrow> job list \<Rightarrow> attention list \<Rightarrow> job list" where
  "orderJobCards e jobs attention = sort_key (card_key e attention) jobs"

section \<open>Recent failures\<close>

text \<open>The loop over the merged runs: a run seen before is skipped, and it stops at the cap.\<close>

fun unique_capped :: "string set \<Rightarrow> run list \<Rightarrow> run list \<Rightarrow> run list" where
  "unique_capped seen unique [] = unique"
| "unique_capped seen unique (r # rs) =
     (if run_id r \<in> seen then unique_capped seen unique rs
      else if FAILURES_CAP \<le> length (unique @ [r]) then unique @ [r]
      else unique_capped (insert (run_id r) seen) (unique @ [r]) rs)"

definition merge_failures :: "env \<Rightarrow> run list \<Rightarrow> run list \<Rightarrow> run list" where
  "merge_failures e failed interrupted = unique_capped {} [] (sort_newest e (failed @ interrupted))"

section \<open>Are my backups well?\<close>

definition HEALTH_TONE :: table where
  "HEALTH_TONE = [(''destructive'', ''border-destructive/30 bg-destructive/6''), (''warning'', ''border-warning/35 bg-warning/7''),
     (''success'', ''border-success/30 bg-success/6''), (''neutral'', '''')]"

record verdict =
  vd_tone :: string
  vd_icon :: string
  vd_headline :: string
  vd_detail :: string

definition plural :: "nat \<Rightarrow> string \<Rightarrow> string \<Rightarrow> string" where
  "plural n one many = (if n = 1 then one else many)"

definition count_overdue :: "attention list \<Rightarrow> nat" where
  "count_overdue attention = length (filter at_overdue attention)"

definition count_failed :: "attention list \<Rightarrow> nat" where
  "count_failed attention = length (filter at_failedLast attention)"

definition never_run :: "job list \<Rightarrow> nat" where
  "never_run jobs = length (filter (\<lambda>j. job_lastRun j = None) jobs)"

definition health :: "job list \<Rightarrow> attention list \<Rightarrow> nat \<Rightarrow> verdict" where
  "health jobs attention failedChecks =
     (let failed = count_failed attention; late = count_overdue attention; never = never_run jobs in
      if 0 < failed then \<lparr>vd_tone = ''destructive'', vd_icon = ''ShieldAlert'',
          vd_headline = show_nat failed @ '' job'' @ plural failed '' needs'' ''s need'' @ '' attention'',
          vd_detail = ''The last run '' @ plural failed ''of this job'' ''of these jobs'' @ '' failed or was interrupted.'' @
            (if 0 < late then '' '' @ show_nat late @ '' scheduled backup'' @ plural late '' is'' ''s are'' @ '' overdue as well.'' else '''')\<rparr>
      else if 0 < failedChecks then \<lparr>vd_tone = ''destructive'', vd_icon = ''ShieldAlert'',
          vd_headline = show_nat failedChecks @ '' repositor'' @ plural failedChecks ''y is'' ''ies are'' @ '' damaged'',
          vd_detail = ''The last runs succeeded, but a repository check found errors in stored backups.''\<rparr>
      else if 0 < late then \<lparr>vd_tone = ''warning'', vd_icon = ''Clock'',
          vd_headline = show_nat late @ '' scheduled backup'' @ plural late '' is'' ''s are'' @ '' overdue'',
          vd_detail = ''They missed their last slot. They run as soon as the repository is free.''\<rparr>
      else if never = length jobs then \<lparr>vd_tone = ''neutral'', vd_icon = ''CircleDashed'',
          vd_headline = ''No backups have run yet'', vd_detail = ''Open a job and run it once to take the first snapshot.''\<rparr>
      else \<lparr>vd_tone = ''success'', vd_icon = ''ShieldCheck'', vd_headline = ''All backups are healthy'',
          vd_detail = (if 0 < never then ''Every job that has run succeeded. '' @ show_nat never @ '' job'' @ plural never '' has'' ''s have'' @ '' not run yet.''
            else ''The last run of every job succeeded.'')\<rparr>)"

text \<open>The strips are the object's entries in the order of its keys.\<close>

definition last_backup :: "env \<Rightarrow> (string \<times> run list) list \<Rightarrow> run option" where
  "last_backup e strips = fold (\<lambda>(i, runs) best.
     case find (\<lambda>r. run_status r = ''success'' \<or> run_status r = ''success_warnings'') runs of None \<Rightarrow> best
     | Some r \<Rightarrow> (case best of None \<Rightarrow> Some r
         | Some b \<Rightarrow> if time_of e (run_startedAt b) < time_of e (run_startedAt r) then Some r else best)) strips None"

definition next_backup :: "job list \<Rightarrow> job option" where
  "next_backup upcoming = find (\<lambda>j. job_nextDueAt j \<noteq> '''' \<and> job_scheduleState j \<noteq> ''overdue'') upcoming"

text \<open>The three facts under the headline: label, value, and a line that may be missing.\<close>

definition health_facts :: "env \<Rightarrow> job list \<Rightarrow> attention list \<Rightarrow> (string \<times> run list) list \<Rightarrow> job list \<Rightarrow> nat \<Rightarrow>
    (string \<times> string \<times> string) list" where
  "health_facts e jobs attention strips upcoming running =
     [(''Last backup'', case last_backup e strips of None \<Rightarrow> em_dash | Some r \<Rightarrow> fmtRelative e (run_startedAt r),
       opt_str run_jobName (last_backup e strips) ''''),
      (''Next backup'', case next_backup upcoming of None \<Rightarrow> em_dash | Some j \<Rightarrow> fmtRelative e (job_nextDueAt j),
       case next_backup upcoming of None \<Rightarrow> ''No schedules'' | Some j \<Rightarrow> job_name j),
      (if 0 < running then ''Running now'' else ''Healthy jobs'',
       if 0 < running then show_nat running
       else show_int (int (length jobs) - int (count_failed attention)) @ '' of '' @ show_nat (length jobs),
       if 0 < running then ''live'' else '''')]"

definition HealthHero :: "env \<Rightarrow> job list \<Rightarrow> attention list \<Rightarrow> (string \<times> run list) list \<Rightarrow> job list \<Rightarrow> nat \<Rightarrow> nat \<Rightarrow> 'm ui" where
  "HealthHero e jobs attention strips upcoming running failedChecks =
     (let v = health jobs attention failedChecks in
      Node ''Card'' (class_of (lookup HEALTH_TONE (vd_tone v)))
       [Node ''div'' [] [IconTile (Some (vd_icon v)) (vd_tone v) ''lg'',
          Node ''div'' [] [Node ''h2'' [] [Txt (vd_headline v)], Node ''p'' [] [Txt (vd_detail v)]]],
        Node ''dl'' [] (map (\<lambda>(label, value, sub). Node ''div'' []
           [Node ''dt'' [] [Txt label],
            Node ''dd'' [] ([Node ''span'' [] [Txt value]] @ shown (sub \<noteq> '''') [Node ''span'' [] [Txt sub]])])
          (health_facts e jobs attention strips upcoming running))])"

section \<open>The cards\<close>

definition InventoryStrip :: "int \<Rightarrow> int \<Rightarrow> int \<Rightarrow> int \<Rightarrow> 'm ui" where
  "InventoryStrip repoCount folderCount jobCount scheduledCount = Node ''div'' []
     (map (\<lambda>(label, value, path, icon, tone). Node ''Link'' [At ''to'' path]
        [Node ''Card'' [] [Node ''div'' [] [IconTile (Some icon) tone ''md'', Icon ''ArrowUpRight''],
           Node ''p'' [] [Txt (show_int value)], Node ''p'' [] [Txt label]]])
       [(''Repositories'', repoCount, ''/repositories'', ''Vault'', ''cyan''),
        (''Sources'', folderCount, ''/folders'', ''FolderOpen'', ''fuchsia''),
        (''Jobs'', jobCount, ''/jobs'', ''Workflow'', ''violet''),
        (''Scheduled'', scheduledCount, ''/jobs'', ''CalendarClock'', ''brand'')])"

definition attention_row :: "env \<Rightarrow> attention \<Rightarrow> 'm ui" where
  "attention_row e a =
     (let j = at_job a; last_run = (if at_failedLast a then job_lastRun j else None) in
      Node ''Link'' [At ''to'' (''/jobs/'' @ job_id j)]
       [IconTile (Some (if at_failedLast a then ''ShieldAlert'' else ''Clock''))
          (if at_failedLast a then ''destructive'' else ''warning'') ''sm'',
        Node ''div'' []
         [Node ''div'' [] ([Node ''span'' [] [Txt (job_name j)]] @
            (case last_run of Some r \<Rightarrow> [StatusBadge (run_status r)]
             | None \<Rightarrow> shown (at_overdue a) [Node ''span'' [] [Txt ''Overdue'']])),
          Node ''p'' [] (case last_run of
            Some r \<Rightarrow> [Txt (''Last run '' @ fmtRelative e (run_startedAt r))] @
              shown (run_error r \<noteq> '''') [Txt ('' '' @ middot @ '' ''), Node ''span'' [At ''class'' ''text-destructive''] [Txt (run_error r)]]
          | None \<Rightarrow> shown (at_overdue a) [Txt (describeScheduleTitle (job_schedule j))])]])"

definition AttentionCard :: "env \<Rightarrow> attention list \<Rightarrow> 'm ui" where
  "AttentionCard e attention =
     (let rows = take ATTENTION_CAP attention; more = length attention - length rows in
      Node ''Card'' []
       [Node ''CardHeader'' [] [Node ''CardTitle'' [] [Txt ''Needs attention''],
          Node ''CardDescription'' [] [Txt ''Failed or interrupted last runs, and overdue schedules.'']],
        Node ''div'' [] (map (attention_row e) rows),
        Node ''CardFooter'' [] [SeeAll ''/jobs''
          [Txt (if 0 < more then ''View all jobs ('' @ show_nat more @ '' more)'' else ''View all jobs'')]]])"

definition run_list_card :: "env \<Rightarrow> string \<Rightarrow> string \<Rightarrow> string option \<Rightarrow> string \<Rightarrow> run list \<Rightarrow> 'm ui" where
  "run_list_card e title description emptyMessage all_link runs = Node ''Card'' []
     [Node ''CardHeader'' [] [Node ''CardTitle'' [] [Txt title], Node ''CardDescription'' [] [Txt description]],
      Node ''div'' [] [RunHistory e runs True False emptyMessage],
      Node ''CardFooter'' [] [SeeAll ''/activity'' [Txt all_link]]]"

definition RecentFailuresCard :: "env \<Rightarrow> run list \<Rightarrow> 'm ui" where
  "RecentFailuresCard e runs = run_list_card e ''Recent backup failures''
     ''Failed or interrupted backups, newest first.'' None ''Open Activity'' runs"

definition LatestRunsCard :: "env \<Rightarrow> run list \<Rightarrow> 'm ui" where
  "LatestRunsCard e runs = run_list_card e ''Latest runs''
     ''Every kind of operation, newest first.'' (Some ''Finished operations appear here.'') ''All activity'' runs"

definition UpcomingCard :: "env \<Rightarrow> job list \<Rightarrow> 'm ui" where
  "UpcomingCard e jobs = Node ''Card'' []
     [Node ''CardHeader'' [] [Node ''CardTitle'' [] [Txt ''Upcoming''], Node ''CardDescription'' [] [Txt ''Next automatic backups.'']],
      Node ''div'' [] (map (\<lambda>j. Node ''Link'' [At ''to'' (''/jobs/'' @ job_id j)]
        [IconTile (Some ''CalendarClock'') (if overdue j then ''warning'' else ''brand'') ''sm'',
         Node ''div'' [] [Node ''p'' [] [Txt (job_name j)],
           Node ''p'' [At ''class'' (if overdue j then ''text-warning'' else ''text-muted-foreground'')]
             [Txt (describeScheduleTitle (job_schedule j))]],
         Node ''span'' [At ''class'' (if overdue j then ''text-warning'' else ''text-foreground'')]
           [Txt (if overdue j then ''Overdue'' else if job_nextDueAt j \<noteq> '''' then fmtRelative e (job_nextDueAt j) else em_dash)]]) jobs)]"

definition jobs_in :: "job list \<Rightarrow> repository \<Rightarrow> nat" where
  "jobs_in jobs repo = length (filter (\<lambda>j. job_repositoryId j = repo_id repo) jobs)"

definition RepositoryCards :: "repository list \<Rightarrow> job list \<Rightarrow> 'm ui" where
  "RepositoryCards repositories jobs = Node ''div'' [] (map (\<lambda>repo.
     Node ''Link'' [At ''to'' (''/repositories/'' @ repo_id repo)]
       [Node ''Card'' [] [IconTile (Some (repositoryIcon (Some repo))) ''cyan'' ''md'',
          Node ''div'' [] [Node ''p'' [] [Txt (repo_name repo)], Node ''p'' [] [Txt (str_or (repoLocation (Some repo)) em_dash)]],
          Node ''span'' [] [Txt (show_nat (jobs_in jobs repo) @ '' job'' @ plural (jobs_in jobs repo) '''' ''s'')]]]) repositories)"

definition failed_check :: "repository \<Rightarrow> bool" where
  "failed_check repo = (case repo_lastCheck repo of None \<Rightarrow> False | Some c \<Rightarrow> lc_status c = ''failed'')"

text \<open>A list of elements with commas between them.\<close>

fun with_commas :: "'m ui list \<Rightarrow> 'm ui list" where
  "with_commas [] = []"
| "with_commas [x] = [x]"
| "with_commas (x # xs) = x # Txt '', '' # with_commas xs"

definition FailedChecksCallout :: "repository list \<Rightarrow> 'm ui" where
  "FailedChecksCallout repositories = Callout ''destructive'' (Some ''ShieldAlert'')
     (if length repositories = 1 then ''A repository check found errors''
      else show_nat (length repositories) @ '' repository checks found errors'')
     ([Txt (''Backups stored there may not restore completely. Open the check's log to see what is damaged: '')] @
      with_commas (map (\<lambda>repo. Node ''Link'' [At ''to'' (''/runs/'' @ opt_str lc_runId (repo_lastCheck repo) '''')]
        [Txt (repo_name repo)]) repositories) @ [Txt ''.''])"

definition DashboardSkeleton :: "'m ui" where
  "DashboardSkeleton = Node ''div'' [] [Node ''Skeleton'' [] [], Node ''div'' [] (replicate 4 (Node ''Skeleton'' [] [])),
     Node ''div'' [] (replicate 2 (Node ''Skeleton'' [] []))]"

section \<open>Getting started (getting-started.jsx)\<close>

record setup_step =
  ss_done :: bool
  ss_kind :: string
  ss_title :: string
  ss_body :: string
  ss_to :: string
  ss_cta :: string
  ss_createJob :: bool
  ss_ready :: bool

definition setup_steps :: "bool \<Rightarrow> bool \<Rightarrow> setup_step list" where
  "setup_steps hasFolder hasRepo =
     [\<lparr>ss_done = hasFolder, ss_kind = ''folder'', ss_title = ''Add a folder to back up'',
        ss_body = ''Name the directory you want protected, so you never retype the path.'', ss_to = ''/folders'',
        ss_cta = ''Add a folder'', ss_createJob = False, ss_ready = False\<rparr>,
      \<lparr>ss_done = hasRepo, ss_kind = ''repository'', ss_title = ''Add a storage repository'',
        ss_body = ''Where restic keeps the encrypted backups. A local directory works with no credentials.'',
        ss_to = ''/repositories'', ss_cta = ''Add a repository'', ss_createJob = False, ss_ready = False\<rparr>,
      \<lparr>ss_done = False, ss_kind = ''job'', ss_title = ''Create a job'',
        ss_body = ''Pair the two. The job is the thing you run and come back to.'', ss_to = '''', ss_cta = ''Create a job'',
        ss_createJob = True, ss_ready = hasFolder \<and> hasRepo\<rparr>]"

text \<open>A link that opens the form of its page carries the state \<open>{ create: true }\<close>.\<close>

definition create_link :: "string \<Rightarrow> 'm ui list \<Rightarrow> 'm ui" where
  "create_link path content = Node ''Link'' [At ''to'' path, Flag ''state.create'' True] content"

definition step_action :: "setup_step \<Rightarrow> 'm ui list" where
  "step_action st =
     (if ss_done st then []
      else if ss_createJob st then
        [if ss_ready st then Node ''Button'' [] [create_link ''/jobs'' [Txt (ss_cta st), Icon ''ArrowRight'']]
         else Node ''Button'' [Flag ''disabled'' True] [Txt (ss_cta st)]]
      else [Node ''Button'' [] [create_link (ss_to st) [Txt (ss_cta st), Icon ''ArrowRight'']]])"

definition GettingStarted :: "bool \<Rightarrow> bool \<Rightarrow> 'm ui" where
  "GettingStarted hasFolder hasRepo =
     (let steps = setup_steps hasFolder hasRepo in
      Node ''Card'' []
       [Node ''div'' []
         [Node ''div'' [] [Node ''h2'' [] [Txt ''Get set up''],
            Node ''p'' [] [Txt ''Three steps, once. After that, backing up is one click.'']],
          Node ''span'' [] [Txt (show_nat (length (filter ss_done steps)) @ '' of '' @ show_nat (length steps) @ '' done'')]],
        Node ''ol'' [] (map (\<lambda>(i, st). Node ''li'' []
         ([Node ''div'' [] [KindTile (ss_kind st) None ''md'',
             if ss_done st then Node ''span'' [] [Icon ''Check'', Txt ''Done'']
             else Node ''span'' [] [Txt (''Step '' @ show_nat (Suc i))]],
           Node ''div'' [] [Node ''p'' (shown (ss_done st) [At ''class'' ''text-muted-foreground'']) [Txt (ss_title st)],
             Node ''p'' [] [Txt (ss_body st)]]] @ step_action st)) (zip [0..<length steps] steps))])"

lemma with_commas_msgs [simp]: "msgs_of (with_commas xs) = msgs_of xs"
  by (induction xs rule: with_commas.induct) auto

text \<open>None of these has a handler: their links are the browser's.\<close>

lemma overview_msgs [simp]:
  "msgs (HealthHero e jobs attention strips upcoming running failedChecks) = {}"
  "msgs (InventoryStrip r f j c) = {}" "msgs (AttentionCard e attention) = {}" "msgs (RecentFailuresCard e runs) = {}"
  "msgs (LatestRunsCard e runs) = {}" "msgs (UpcomingCard e jobs) = {}" "msgs (RepositoryCards repositories jobs) = {}"
  "msgs (FailedChecksCallout repositories) = {}" "msgs DashboardSkeleton = {}" "msgs (GettingStarted hasFolder hasRepo) = {}"
proof -
  have attrs: "attr_msgs a = {}" if "a \<in> set (class_of c)" for a :: "'x attr" and c
    using that by (auto simp: class_of_def split: option.splits)
  show "msgs (HealthHero e jobs attention strips upcoming running failedChecks) = {}"
    using attrs by (auto simp: HealthHero_def Let_def split: if_splits)
  show "msgs (InventoryStrip r f j c) = {}" by (simp add: InventoryStrip_def)
  show "msgs (AttentionCard e attention) = {}"
    by (auto simp: AttentionCard_def attention_row_def SeeAll_def Let_def split: option.splits)
  show "msgs (RecentFailuresCard e runs) = {}" "msgs (LatestRunsCard e runs) = {}"
    by (simp_all add: RecentFailuresCard_def LatestRunsCard_def run_list_card_def SeeAll_def)
  show "msgs (UpcomingCard e jobs) = {}" by (auto simp: UpcomingCard_def)
  show "msgs (RepositoryCards repositories jobs) = {}" by (auto simp: RepositoryCards_def)
  show "msgs (FailedChecksCallout repositories) = {}" by (auto simp: FailedChecksCallout_def)
  show "msgs DashboardSkeleton = {}" by (simp add: DashboardSkeleton_def)
  show "msgs (GettingStarted hasFolder hasRepo) = {}"
    by (auto simp: GettingStarted_def step_action_def create_link_def Let_def split: if_splits)
qed

section \<open>Facts about sorted lists\<close>

text \<open>When the keys of the elements with a property are below those of the others, they come first.\<close>

lemma sorted_split:
  assumes "sorted (map k xs)" and "\<And>x y. x \<in> set xs \<Longrightarrow> y \<in> set xs \<Longrightarrow> P x \<Longrightarrow> \<not> P y \<Longrightarrow> k x < k y"
  shows "xs = filter P xs @ filter (\<lambda>x. \<not> P x) xs"
  using assms
proof (induction xs)
  case (Cons x xs)
  then have IH: "xs = filter P xs @ filter (\<lambda>x. \<not> P x) xs" by simp
  show ?case
  proof (cases "P x")
    case True
    then show ?thesis using IH by simp
  next
    case False
    have "\<not> P y" if "y \<in> set xs" for y using Cons.prems that False by (force simp: not_less)
    then have "filter P xs = []" "filter (\<lambda>x. \<not> P x) xs = xs" by (simp_all add: filter_empty_conv filter_id_conv)
    then show ?thesis using False by simp
  qed
qed simp

lemma take_sorted_split:
  assumes "sorted (map k xs)" and "\<And>x y. x \<in> set xs \<Longrightarrow> y \<in> set xs \<Longrightarrow> P x \<Longrightarrow> \<not> P y \<Longrightarrow> k x < k y"
  shows "length (filter P xs) \<le> n \<Longrightarrow> {x \<in> set xs. P x} \<subseteq> set (take n xs)"
    and "n \<le> length (filter P xs) \<Longrightarrow> \<forall>x \<in> set (take n xs). P x"
proof -
  note s = sorted_split [OF assms]
  show "{x \<in> set xs. P x} \<subseteq> set (take n xs)" if "length (filter P xs) \<le> n"
  proof -
    have "take n xs = take n (filter P xs @ filter (\<lambda>x. \<not> P x) xs)" by (rule arg_cong [OF s])
    then show ?thesis using that by auto
  qed
  show "\<forall>x \<in> set (take n xs). P x" if "n \<le> length (filter P xs)"
  proof -
    have "take n xs = take n (filter P xs @ filter (\<lambda>x. \<not> P x) xs)" by (rule arg_cong [OF s])
    then show ?thesis using that by (auto dest: in_set_takeD)
  qed
qed

lemma length_filter_sort_key [simp]: "length (filter P (sort_key k xs)) = length (filter P xs)"
  by (simp add: filter_sort)

lemma zip_positions: "fst ` set (zip (map f xs) [0..<length xs]) = f ` set xs"
proof -
  have "map fst (zip (map f xs) [0..<length xs]) = map f xs" by simp
  then show ?thesis by (metis list.set_map)
qed

lemma filter_all_length: "length (filter P xs) = length xs \<longleftrightarrow> (\<forall>x \<in> set xs. P x)"
proof (induction xs)
  case (Cons x xs)
  show ?case using Cons.IH length_filter_le [of P xs] by (auto simp del: length_filter_le)
qed simp

lemma never_run_all: "never_run jobs = length jobs \<longleftrightarrow> (\<forall>j \<in> set jobs. job_lastRun j = None)"
  by (simp add: never_run_def filter_all_length)

section \<open>Properties\<close>

text \<open>
  C21. The dashboard names the jobs that need attention, each once and no other: those whose last run failed or was interrupted
  and those whose schedule is overdue; failures come first, and among them (as among the overdue) the one
  whose last run is longest ago, a job that never ran last.
\<close>

theorem attention_complete_and_ordered:
  "mset (map at_job (selectAttention e jobs)) = mset (filter (\<lambda>j. failed_last j \<or> overdue j) jobs)
   \<and> (\<forall>a \<in> set (selectAttention e jobs). at_failedLast a = failed_last (at_job a) \<and> at_overdue a = overdue (at_job a))
   \<and> sorted_wrt (\<lambda>a b. (at_failedLast b \<longrightarrow> at_failedLast a) \<and> (at_failedLast a = at_failedLast b \<longrightarrow> last_started (at_job b) \<noteq> '''' \<longrightarrow>
        last_started (at_job a) \<noteq> '''' \<and> time_of e (last_started (at_job a)) \<le> time_of e (last_started (at_job b))))
       (selectAttention e jobs)"
proof -
  let ?f = "\<lambda>j. \<lparr>at_job = j, at_failedLast = failed_last j, at_overdue = overdue j\<rparr>"
  have "mset (map at_job (selectAttention e jobs)) = image_mset at_job (mset (map ?f (filter needs_attention jobs)))"
    by (simp only: selectAttention_def mset_map mset_sort)
  then have 1: "mset (map at_job (selectAttention e jobs)) = mset (filter needs_attention jobs)"
    by (simp add: multiset.map_comp comp_def)
  have 2: "\<forall>a \<in> set (selectAttention e jobs). at_failedLast a = failed_last (at_job a) \<and> at_overdue a = overdue (at_job a)"
    by (auto simp: selectAttention_def)
  have "sorted_wrt (\<lambda>a b. attention_key e a \<le> attention_key e b) (selectAttention e jobs)"
    using sorted_sort_key [of "attention_key e"] by (simp add: selectAttention_def sorted_map)
  then have 3: "sorted_wrt (\<lambda>a b. (at_failedLast b \<longrightarrow> at_failedLast a) \<and> (at_failedLast a = at_failedLast b \<longrightarrow>
      last_started (at_job b) \<noteq> '''' \<longrightarrow> last_started (at_job a) \<noteq> '''' \<and>
      time_of e (last_started (at_job a)) \<le> time_of e (last_started (at_job b)))) (selectAttention e jobs)"
    by (rule sorted_wrt_mono_rel [rotated]) (auto simp: attention_key_def split: if_splits)
  show ?thesis using 1 2 3 by (simp add: needs_attention_def)
qed

definition due_job :: job where
  "due_job = sample_job\<lparr>job_scheduleState := ''overdue''\<rparr>"

theorem attention_complete_and_ordered_witness:
  "mset (map at_job (selectAttention sample_env [due_job])) = {#due_job#}"
proof -
  have "overdue due_job" by (simp add: overdue_def due_job_def)
  then show ?thesis using attention_complete_and_ordered [of sample_env "[due_job]"] by simp
qed

text \<open>
  No job that needs attention is left without a card while there are at most six of them, however the
  other jobs compare.
\<close>

theorem attention_has_cards:
  assumes "j \<in> set jobs" and "failed_last j \<or> overdue j" and "length (selectAttention e jobs) \<le> JOB_CARDS_CAP"
    and "distinct (map job_id jobs)"
  shows "j \<in> set (take JOB_CARDS_CAP (orderJobCards e jobs (selectAttention e jobs)))"
proof -
  let ?A = "selectAttention e jobs"
  let ?P = "\<lambda>j. attention_rank ?A (job_id j) \<noteq> None"
  have mem: "at_job ` set ?A = {j \<in> set jobs. needs_attention j}" by (force simp: selectAttention_def)
  have rank: "?P x \<longleftrightarrow> needs_attention x" if "x \<in> set jobs" for x
  proof -
    have "?P x \<longleftrightarrow> job_id x \<in> job_id ` at_job ` set ?A"
      by (simp add: attention_rank_def map_of_eq_None_iff zip_positions image_image)
    also have "\<dots> \<longleftrightarrow> needs_attention x"
      unfolding mem using assms(4) that by (auto simp: distinct_map inj_on_def)
    finally show ?thesis .
  qed
  have "sorted (map (card_key e ?A) (orderJobCards e jobs ?A))" by (simp add: orderJobCards_def)
  moreover have "card_key e ?A x < card_key e ?A y" if "?P x" "\<not> ?P y" for x y
    using that by (auto simp: card_key_def)
  moreover have "length (filter ?P (orderJobCards e jobs ?A)) \<le> JOB_CARDS_CAP"
  proof -
    have "filter ?P jobs = filter needs_attention jobs" using rank by (intro filter_cong) auto
    then have "length (filter ?P (orderJobCards e jobs ?A)) = length ?A"
      by (simp add: orderJobCards_def selectAttention_def)
    then show ?thesis using assms(3) by simp
  qed
  ultimately have "{x \<in> set (orderJobCards e jobs ?A). ?P x} \<subseteq> set (take JOB_CARDS_CAP (orderJobCards e jobs ?A))"
    by (rule take_sorted_split(1))
  then show ?thesis using assms(1,2) rank [OF assms(1)] by (auto simp: orderJobCards_def needs_attention_def)
qed

text \<open>
  C22. "All backups are healthy" is said exactly when it may be: some job has run, no last run failed or was interrupted,
  no schedule is overdue and no repository check found errors.
\<close>

theorem healthy_iff:
  "vd_headline (health jobs (selectAttention e jobs) failedChecks) = ''All backups are healthy'' \<longleftrightarrow>
     (\<exists>j \<in> set jobs. job_lastRun j \<noteq> None) \<and> failedChecks = 0 \<and> (\<forall>j \<in> set jobs. \<not> failed_last j \<and> \<not> overdue j)"
proof -
  have a: "count_failed (selectAttention e jobs) = length (filter failed_last jobs)"
    "count_overdue (selectAttention e jobs) = length (filter overdue jobs)"
    by (simp_all add: count_failed_def count_overdue_def selectAttention_def filter_map comp_def needs_attention_def conj_commute
        cong: conj_cong)
  show ?thesis by (auto simp: health_def a never_run_all Let_def filter_empty_conv)
qed

theorem healthy_iff_witness:
  "vd_headline (health [due_job\<lparr>job_lastRun := Some sample_run\<rparr>] (selectAttention sample_env [due_job\<lparr>job_lastRun := Some sample_run\<rparr>]) 0)
     \<noteq> ''All backups are healthy''"
proof -
  have "overdue (due_job\<lparr>job_lastRun := Some sample_run\<rparr>)" by (simp add: overdue_def due_job_def)
  then show ?thesis using healthy_iff [of "[due_job\<lparr>job_lastRun := Some sample_run\<rparr>]" sample_env 0] by simp
qed

theorem attention_has_cards_witness:
  "sample_job\<lparr>job_scheduleState := ''overdue''\<rparr> \<in> set (take JOB_CARDS_CAP (orderJobCards sample_env
     [sample_job\<lparr>job_scheduleState := ''overdue''\<rparr>] (selectAttention sample_env [sample_job\<lparr>job_scheduleState := ''overdue''\<rparr>])))"
  by (rule attention_has_cards)
    (simp_all add: overdue_def selectAttention_def needs_attention_def JOB_CARDS_CAP_def)

lemma attention_empty_iff: "selectAttention e jobs = [] \<longleftrightarrow> (\<forall>j \<in> set jobs. \<not> failed_last j \<and> \<not> overdue j)"
  by (auto simp: selectAttention_def filter_empty_conv needs_attention_def simp flip: set_empty)

text \<open>
  The dashboard says that the last run of every job succeeded also when the last run of every job was stopped: a
  stopped run is neither a failure nor counted as a job that has not run.
\<close>

theorem success_said_after_stopped_runs:
  assumes "jobs \<noteq> []" and "\<forall>j \<in> set jobs. \<exists>r. job_lastRun j = Some r \<and> run_status r = ''canceled''"
    and "\<forall>j \<in> set jobs. \<not> overdue j"
  shows "vd_headline (health jobs (selectAttention e jobs) 0) = ''All backups are healthy''
    \<and> vd_detail (health jobs (selectAttention e jobs) 0) = ''The last run of every job succeeded.''"
proof -
  have "selectAttention e jobs = []" using assms(2,3) by (force simp: attention_empty_iff failed_last_def)
  moreover have "never_run jobs = 0" using assms(2) by (auto simp: never_run_def filter_empty_conv)
  ultimately show ?thesis using assms(1) by (simp add: health_def count_failed_def count_overdue_def)
qed

theorem success_said_after_stopped_runs_witness:
  "vd_detail (health [sample_job\<lparr>job_lastRun := Some (sample_run\<lparr>run_status := ''canceled''\<rparr>)\<rparr>]
     (selectAttention sample_env [sample_job\<lparr>job_lastRun := Some (sample_run\<lparr>run_status := ''canceled''\<rparr>)\<rparr>]) 0) =
   ''The last run of every job succeeded.''"
  by (rule success_said_after_stopped_runs [THEN conjunct2]) (simp_all add: overdue_def sample_job_def)

text \<open>
  "No schedules" is said although jobs have schedules that are not overdue: only the five soonest are looked at,
  so five overdue jobs that are due before the others hide every next backup.
\<close>

theorem next_backup_hidden:
  assumes "UPCOMING_CAP \<le> length (filter overdue (filter schedule_on jobs))"
    and "\<forall>x \<in> set jobs. \<forall>y \<in> set jobs. overdue x \<and> \<not> overdue y \<longrightarrow> upcoming_key e x < upcoming_key e y"
  shows "next_backup (selectUpcoming e jobs) = None
    \<and> (''Next backup'', em_dash, ''No schedules'') \<in> set (health_facts e jobs attention strips (selectUpcoming e jobs) running)"
proof -
  let ?s = "sort_key (upcoming_key e) (filter schedule_on jobs)"
  have "\<forall>x \<in> set (take UPCOMING_CAP ?s). overdue x"
    by (rule take_sorted_split(2) [where k = "upcoming_key e"]) (use assms in auto)
  then have "next_backup (selectUpcoming e jobs) = None"
    by (auto simp: next_backup_def selectUpcoming_def find_None_iff overdue_def)
  then show ?thesis by (simp add: health_facts_def)
qed

definition late_jobs :: "job list" where
  "late_jobs = map (\<lambda>i. sample_job\<lparr>job_id := i, job_schedule := Some \<lparr>sch_enabled = True, sch_kind = ''daily'', sch_every = None,
      sch_at = Some ''02:00'', sch_weekdays = None\<rparr>, job_nextDueAt := ''2025-01-01T02:00:00Z'', job_scheduleState := ''overdue''\<rparr>)
     [''a'', ''b'', ''c'', ''d'', ''e'']
     @ [sample_job\<lparr>job_schedule := Some \<lparr>sch_enabled = True, sch_kind = ''daily'', sch_every = None, sch_at = Some ''02:00'', sch_weekdays = None\<rparr>,
          job_nextDueAt := ''2025-06-01T02:00:00Z'', job_scheduleState := ''ok''\<rparr>]"

definition dated_env :: env where
  "dated_env = sample_env\<lparr>env_parse := (\<lambda>s. if s = ''2025-06-01T02:00:00Z'' then Some 1748743200000 else Some 1735696800000)\<rparr>"

theorem next_backup_hidden_witness:
  "next_backup (selectUpcoming dated_env late_jobs) = None \<and> (\<exists>j \<in> set late_jobs. schedule_on j \<and> \<not> overdue j)"
proof
  show "next_backup (selectUpcoming dated_env late_jobs) = None"
    by (rule next_backup_hidden [THEN conjunct1])
      (simp_all add: late_jobs_def dated_env_def overdue_def schedule_on_def UPCOMING_CAP_def upcoming_key_def time_of_def)
qed (simp add: late_jobs_def schedule_on_def overdue_def)

text \<open>The reference for the merge: every run once, the first of each id.\<close>

fun firsts :: "string set \<Rightarrow> run list \<Rightarrow> run list" where
  "firsts seen [] = []"
| "firsts seen (r # rs) = (if run_id r \<in> seen then firsts seen rs else r # firsts (insert (run_id r) seen) rs)"

lemma unique_capped_firsts:
  "length u < FAILURES_CAP \<Longrightarrow> unique_capped seen u rs = u @ take (FAILURES_CAP - length u) (firsts seen rs)"
proof (induction seen u rs rule: unique_capped.induct)
  case (2 seen u r rs)
  show ?case
  proof (cases "run_id r \<in> seen \<or> FAILURES_CAP \<le> length (u @ [r])")
    case True
    then show ?thesis using 2 by (cases "FAILURES_CAP - length u") auto
  next
    case False
    then have "FAILURES_CAP - length u = Suc (FAILURES_CAP - length (u @ [r]))" by (simp add: Suc_diff_Suc)
    then show ?thesis using 2 False by simp
  qed
qed simp

lemma firsts_ids: "distinct (map run_id (firsts seen rs)) \<and> run_id ` set (firsts seen rs) = run_id ` set rs - seen
    \<and> set (firsts seen rs) \<subseteq> set rs"
  by (induction seen rs rule: firsts.induct) auto

lemma firsts_sorted: "sorted_wrt P rs \<Longrightarrow> sorted_wrt P (firsts seen rs)"
proof (induction seen rs rule: firsts.induct)
  case (2 seen r rs)
  then show ?case using firsts_ids [of "insert (run_id r) seen" rs] by auto
qed simp

lemma newest_sorted: "sorted_wrt (\<lambda>a b. time_of e (run_startedAt b) \<le> time_of e (run_startedAt a)) (sort_newest e rs)"
proof -
  have "sorted (map (\<lambda>r. - time_of e (run_startedAt r)) (sort_newest e rs))" by (simp add: sort_newest_def time_of_def)
  then show ?thesis by (simp add: sorted_map)
qed

text \<open>
  The recent backup failures are the five newest of the two lists, newest first and each once; a run that is in neither
  list is never shown, and one that is left out is not newer than any of the five shown.
\<close>

theorem merge_failures_newest:
  "length (merge_failures e failed interrupted) \<le> FAILURES_CAP
   \<and> distinct (map run_id (merge_failures e failed interrupted))
   \<and> set (merge_failures e failed interrupted) \<subseteq> set (failed @ interrupted)
   \<and> sorted_wrt (\<lambda>a b. time_of e (run_startedAt b) \<le> time_of e (run_startedAt a)) (merge_failures e failed interrupted)
   \<and> (\<forall>i \<in> run_id ` set (failed @ interrupted) - run_id ` set (merge_failures e failed interrupted).
        length (merge_failures e failed interrupted) = FAILURES_CAP
        \<and> (\<exists>r \<in> set (failed @ interrupted). run_id r = i
            \<and> (\<forall>x \<in> set (merge_failures e failed interrupted). time_of e (run_startedAt r) \<le> time_of e (run_startedAt x))))"
proof -
  let ?all = "sort_newest e (failed @ interrupted)"
  let ?f = "firsts {} ?all"
  have m: "merge_failures e failed interrupted = take FAILURES_CAP ?f"
    using unique_capped_firsts [of "[]" "{}" ?all] by (simp add: merge_failures_def FAILURES_CAP_def)
  note ids = firsts_ids [of "{}" ?all]
  have s: "sorted_wrt (\<lambda>a b. time_of e (run_startedAt b) \<le> time_of e (run_startedAt a)) ?f"
    by (rule firsts_sorted) (rule newest_sorted)
  then have "sorted_wrt (\<lambda>a b. time_of e (run_startedAt b) \<le> time_of e (run_startedAt a))
      (take FAILURES_CAP ?f @ drop FAILURES_CAP ?f)" by simp
  then have later: "\<forall>x \<in> set (take FAILURES_CAP ?f). \<forall>r \<in> set (drop FAILURES_CAP ?f). time_of e (run_startedAt r) \<le> time_of e (run_startedAt x)"
    unfolding sorted_wrt_append by blast
  have rest: "length (take FAILURES_CAP ?f) = FAILURES_CAP \<and> (\<exists>r \<in> set (failed @ interrupted). run_id r = i
      \<and> (\<forall>x \<in> set (take FAILURES_CAP ?f). time_of e (run_startedAt r) \<le> time_of e (run_startedAt x)))"
    if "i \<in> run_id ` set (failed @ interrupted) - run_id ` set (take FAILURES_CAP ?f)" for i
  proof -
    have "run_id ` set (take FAILURES_CAP ?f) \<union> run_id ` set (drop FAILURES_CAP ?f) = run_id ` set (failed @ interrupted)"
      using ids by (simp flip: image_Un set_append)
    then have "i \<in> run_id ` set (drop FAILURES_CAP ?f)" using that by blast
    then obtain r where r: "r \<in> set (drop FAILURES_CAP ?f)" "run_id r = i" by blast
    then have "FAILURES_CAP < length ?f" by (metis drop_all empty_iff empty_set not_less)
    moreover have "r \<in> set (failed @ interrupted)" using r(1) ids by (metis in_set_dropD sort_newest_set subsetD)
    ultimately show ?thesis using r later by auto
  qed
  have "distinct (map run_id (take FAILURES_CAP ?f))" using ids by (simp add: take_map [symmetric])
  moreover have "set (take FAILURES_CAP ?f) \<subseteq> set (failed @ interrupted)" using ids by (auto dest: in_set_takeD)
  ultimately show ?thesis unfolding m using rest s by (simp add: sorted_wrt_take)
qed

theorem merge_failures_newest_witness:
  "run_id ` set (merge_failures sample_env [sample_run] [sample_run]) = {run_id sample_run}"
proof -
  let ?m = "merge_failures sample_env [sample_run] [sample_run]"
  note m = merge_failures_newest [of sample_env "[sample_run]" "[sample_run]"]
  then have sub: "run_id ` set ?m \<subseteq> {run_id sample_run}" by auto
  have "length (map run_id ?m) \<le> 1"
    using card_mono [OF _ sub] m by (metis card.empty card.insert distinct_card empty_iff finite.intros One_nat_def set_map)
  moreover have "run_id sample_run \<notin> run_id ` set ?m \<Longrightarrow> length ?m = FAILURES_CAP" using m by auto
  ultimately have "run_id sample_run \<in> run_id ` set ?m" by (auto simp: FAILURES_CAP_def)
  then show ?thesis using sub by blast
qed

end
