(* ===== verification/Dashboard.thy ===== *)
theory Dashboard
  imports Loads Overview
begin

text \<open>
  The page of \<open>src/ui/src/routes/dashboard.jsx\<close>: its two loads, the jobs' in two stages (the
  second depends on the jobs that the first brought), the run strips, and the screen. The states of the
  job cards and the streams of the active runs are arguments of the tree, as on the jobs page.
\<close>

section \<open>State\<close>

record dash_data =
  dd_jobs :: "job list"
  dd_folders :: "folder list"
  dd_repositories :: "repository list"
  dd_recentFailures :: "run list"
  dd_latest :: "run list"

text \<open>The strips are kept as entries too, for the order of the object's values.\<close>

record dashboard =
  db_version :: nat
  db_active :: "run list"
  db_status :: "(counted option, string) fetch_hook"
  db_fetch :: "(dash_data, string) fetch_hook"
  db_strips :: strips_hook
  db_entries :: "(string \<times> run list) list"

datatype ds_msg = DsLive nat "run list" | DsRetry | DsStatus nat "response list" | DsJobs nat "response list"
  | DsRest nat "job list" "response list" | DsStrips nat "string list" "response list" | DsCard string card_msg

type_synonym ds_cmds = "(ds_msg, string \<times> card_msg) cmd list"

section \<open>Derived values\<close>

definition db_list :: "(dash_data \<Rightarrow> 'a list) \<Rightarrow> dashboard \<Rightarrow> 'a list" where
  "db_list f s = (case fh_data (db_fetch s) of None \<Rightarrow> [] | Some d \<Rightarrow> f d)"

definition db_attention :: "env \<Rightarrow> dashboard \<Rightarrow> attention list" where
  "db_attention e s = selectAttention e (db_list dd_jobs s)"

definition db_upcoming :: "env \<Rightarrow> dashboard \<Rightarrow> job list" where
  "db_upcoming e s = selectUpcoming e (db_list dd_jobs s)"

definition db_cards :: "env \<Rightarrow> dashboard \<Rightarrow> job list" where
  "db_cards e s = take JOB_CARDS_CAP (orderJobCards e (db_list dd_jobs s) (db_attention e s))"

definition db_empty :: "dashboard \<Rightarrow> bool" where
  "db_empty s \<longleftrightarrow> \<not> fh_loading (db_fetch s) \<and> fh_data (db_fetch s) \<noteq> None \<and> db_list dd_jobs s = []"

definition db_failedChecks :: "dashboard \<Rightarrow> repository list" where
  "db_failedChecks s = filter failed_check (db_list dd_repositories s)"

text \<open>\<open>statusData?.counts?.f ?? 0\<close>\<close>

definition db_count :: "(counted \<Rightarrow> int) \<Rightarrow> dashboard \<Rightarrow> int" where
  "db_count f s = (case fh_data (db_status s) of Some (Some c) \<Rightarrow> f c | _ \<Rightarrow> 0)"

definition db_folderCount :: "dashboard \<Rightarrow> int" where
  "db_folderCount s = db_count cn_folders s + db_count cn_databases s"

definition db_jobCount :: "dashboard \<Rightarrow> int" where
  "db_jobCount s = (if fh_loading (db_fetch s) \<and> fh_data (db_fetch s) = None then db_count cn_jobs s
     else int (length (db_list dd_jobs s)))"

definition db_hasFolder :: "dashboard \<Rightarrow> bool" where
  "db_hasFolder s \<longleftrightarrow> db_list dd_folders s \<noteq> [] \<or> 0 < db_folderCount s"

definition db_hasRepo :: "dashboard \<Rightarrow> bool" where
  "db_hasRepo s \<longleftrightarrow> db_list dd_repositories s \<noteq> [] \<or> 0 < db_count cn_repositories s"

section \<open>The loaders\<close>

definition failure_query :: "string \<Rightarrow> request" where
  "failure_query status = Runs_list [(''status'', Some status), (''kind'', Some ''backup''), (''limit'', Some (show_nat FAILURES_CAP))]"

text \<open>The requests of the second stage, for the jobs of the first.\<close>

definition dash_rest :: "env \<Rightarrow> job list \<Rightarrow> request list" where
  "dash_rest e jobs =
     (if jobs = [] then [Folders_list, Repositories_list]
      else [Repositories_list, Runs_list [(''status'', Some ''finished''), (''limit'', Some (show_nat LATEST_CAP))]] @
        shown (selectAttention e jobs \<noteq> []) [failure_query ''failed'', failure_query ''interrupted''])"

definition dash_result :: "env \<Rightarrow> job list \<Rightarrow> response list \<Rightarrow> dash_data" where
  "dash_result e jobs rs =
     (if jobs = []
      then \<lparr>dd_jobs = [], dd_folders = or_empty (b_folders (body_of (rs ! 0))),
        dd_repositories = or_empty (b_repositories (body_of (rs ! 1))), dd_recentFailures = [], dd_latest = []\<rparr>
      else \<lparr>dd_jobs = jobs, dd_folders = [], dd_repositories = or_empty (b_repositories (body_of (rs ! 0))),
        dd_recentFailures = (if selectAttention e jobs = [] then []
          else merge_failures e (or_empty (b_runs (body_of (rs ! 2)))) (or_empty (b_runs (body_of (rs ! 3))))),
        dd_latest = or_empty (b_runs (body_of (rs ! 1)))\<rparr>)"

text \<open>The loader goes on after its first answer also when the run of the effect is over.\<close>

definition dash_jobs :: "env \<Rightarrow> nat \<Rightarrow> response list \<Rightarrow> dashboard \<Rightarrow> dashboard \<times> ds_cmds" where
  "dash_jobs e n rs s =
     (let r = rs ! 0; jobs = or_empty (b_jobs (body_of r)) in
      if \<not> res_ok r
      then (s\<lparr>db_fetch := fetch_settle n (Inl (str_or (b_error (body_of r)) ''Could not load jobs'')) (db_fetch s)\<rparr>, [])
      else (s, [CallAll (dash_rest e jobs) (DsRest n jobs)]))"

definition dash_load_status :: "dashboard \<Rightarrow> dashboard \<times> ds_cmds" where
  "dash_load_status s = run_load db_status (\<lambda>h s. s\<lparr>db_status := h\<rparr>) (\<lambda>s. [Status_get]) DsStatus s"

definition dash_load :: "dashboard \<Rightarrow> dashboard \<times> ds_cmds" where
  "dash_load s = run_load db_fetch (\<lambda>h s. s\<lparr>db_fetch := h\<rparr>) (\<lambda>s. [Jobs_list]) DsJobs s"

section \<open>Effects\<close>

definition dash_ids :: "env \<Rightarrow> dashboard \<Rightarrow> string list" where
  "dash_ids e s = map job_id (db_cards e s)"

definition dash_strips_key :: "env \<Rightarrow> dashboard \<Rightarrow> string \<times> nat" where
  "dash_strips_key e s = (join '','' (dash_ids e s), db_version s)"

definition dash_load_strips :: "env \<Rightarrow> dashboard \<Rightarrow> dashboard \<Rightarrow> dashboard \<times> ds_cmds" where
  "dash_load_strips e s t =
     (let (h, reqs) = strips_effect (dash_ids e s) (db_strips t); key = join '','' (dash_ids e s)
      in (t\<lparr>db_strips := h, db_entries := (if key = '''' then [] else db_entries t)\<rparr>,
          if reqs = [] then [] else [CallAll reqs (DsStrips (js_gen h) (split_on (CHR '','') key))]))"

definition dash_reload :: "dashboard \<Rightarrow> dashboard" where
  "dash_reload s = s\<lparr>db_fetch := fetch_bump (db_fetch s)\<rparr>"

definition dash_effects :: "env \<Rightarrow> (dashboard, ds_msg, string \<times> card_msg) effects" where
  "dash_effects e before s =
     (let (s1, cs1) = (if fh_nonce (db_status s) = fh_nonce (db_status before) then (s, []) else dash_load_status s);
          (s2, cs2) = (if fh_nonce (db_fetch s) = fh_nonce (db_fetch before) then (s1, []) else dash_load s1);
          s3 = (if db_version s \<noteq> db_version before \<and> 0 < db_version s then dash_reload s2 else s2);
          (s4, cs4) = (if dash_strips_key e s = dash_strips_key e before then (s3, []) else dash_load_strips e s s3)
      in (s4, cs1 @ cs2 @ cs4))"

section \<open>Messages\<close>

definition dash_strips :: "nat \<Rightarrow> string list \<Rightarrow> response list \<Rightarrow> dashboard \<Rightarrow> dashboard" where
  "dash_strips n ids rs s =
     (if n = js_gen (db_strips s)
      then s\<lparr>db_strips := strips_deliver n (strips_answers ids rs) (db_strips s), db_entries := strips_answers ids rs\<rparr>
      else s)"

primrec dash_handle :: "env \<Rightarrow> (dashboard, ds_msg, string \<times> card_msg) update" where
  "dash_handle e (DsLive v active) s = (s\<lparr>db_version := v, db_active := active\<rparr>, [])"
| "dash_handle e DsRetry s = (dash_reload (s\<lparr>db_status := fetch_bump (db_status s)\<rparr>), [])"
| "dash_handle e (DsStatus n rs) s = (s\<lparr>db_status := fetch_settle n (Inr (b_counts (body_of (rs ! 0)))) (db_status s)\<rparr>, [])"
| "dash_handle e (DsJobs n rs) s = dash_jobs e n rs s"
| "dash_handle e (DsRest n jobs rs) s = (s\<lparr>db_fetch := fetch_settle n (Inr (dash_result e jobs rs)) (db_fetch s)\<rparr>, [])"
| "dash_handle e (DsStrips n ids rs) s = (dash_strips n ids rs s, [])"
| "dash_handle e (DsCard i m) s = (s, [Out (i, m)])"

definition dash_update :: "env \<Rightarrow> (dashboard, ds_msg, string \<times> card_msg) update" where
  "dash_update e = page_update (dash_handle e) (dash_effects e)"

definition dash_first :: "nat \<Rightarrow> run list \<Rightarrow> dashboard" where
  "dash_first version active = \<lparr>db_version = version, db_active = active, db_status = fetch_init None, db_fetch = fetch_init None,
     db_strips = strips_init, db_entries = []\<rparr>"

text \<open>The effects of the first render all run; those of the second see what they changed.\<close>

definition dash_mount :: "env \<Rightarrow> nat \<Rightarrow> run list \<Rightarrow> dashboard \<times> ds_cmds" where
  "dash_mount e version active =
     (let s0 = dash_first version active;
          (s1, cs1) = dash_load_status s0;
          (s2, cs2) = dash_load s1;
          s3 = (if 0 < version then dash_reload s2 else s2);
          (s4, cs4) = dash_load_strips e s0 s3;
          (s5, cs5) = dash_effects e s0 s4
      in (s5, cs1 @ cs2 @ [Do (SetTitle (''Dashboard '' @ middot @ '' restic backup manager''))] @ cs4 @ cs5))"

section \<open>What it renders\<close>

definition dash_card :: "env \<Rightarrow> (string \<Rightarrow> job_card) \<Rightarrow> dashboard \<Rightarrow> job \<Rightarrow> ds_msg ui" where
  "dash_card e cards s j = map_ui (DsCard (job_id j)) (JobCard e False
     ((cards (job_id j))\<lparr>jc_job := j, jc_runs := or_empty (js_strips (db_strips s) (job_id j))\<rparr>))"

definition dash_top :: "env \<Rightarrow> dashboard \<Rightarrow> ds_msg ui" where
  "dash_top e s = Node ''div'' []
     ((if db_empty s then [GettingStarted (db_hasFolder s) (db_hasRepo s)]
       else if fh_data (db_fetch s) \<noteq> None
       then [HealthHero e (db_list dd_jobs s) (db_attention e s) (db_entries s) (db_upcoming e s) (length (db_active s))
               (length (db_failedChecks s))]
       else []) @
      [InventoryStrip (db_count cn_repositories s) (db_folderCount s) (db_jobCount s)
         (int (length (filter schedule_on (db_list dd_jobs s))))])"

definition dash_running :: "env \<Rightarrow> (run \<Rightarrow> run_stream) \<Rightarrow> dashboard \<Rightarrow> ds_msg ui" where
  "dash_running e stream s = ActiveRunsCard e stream (db_active s) (active_card_defaults\<lparr>ac_showActivityLink := True,
     ac_emptyDescription := ''Start a backup from a job when you are ready.'',
     ac_emptyAction := [Node ''Button'' [] [Node ''Link'' [At ''to'' ''/jobs''] [Txt ''Open Jobs'']]]\<rparr>)"

definition dash_attention :: "env \<Rightarrow> dashboard \<Rightarrow> ds_msg ui list" where
  "dash_attention e s = shown (\<not> db_empty s \<and> db_attention e s \<noteq> []) [Node ''div'' []
     ([AttentionCard e (db_attention e s)] @
      shown (db_list dd_recentFailures s \<noteq> []) [RecentFailuresCard e (db_list dd_recentFailures s)])]"

definition dash_jobs_section :: "env \<Rightarrow> (string \<Rightarrow> job_card) \<Rightarrow> dashboard \<Rightarrow> ds_msg ui list" where
  "dash_jobs_section e cards s = shown (\<not> db_empty s \<and> db_cards e s \<noteq> [])
     [Section [Txt ''Backup jobs''] (''The last '' @ show_nat STRIP_SLOTS @ '' backups of each job, newest on the right.'')
        [SeeAll ''/jobs'' [Txt ''All jobs'']]
        [Node ''div'' [] (map (dash_card e cards s) (db_cards e s)), RunStripLegend]]"

definition dash_history :: "env \<Rightarrow> dashboard \<Rightarrow> ds_msg ui list" where
  "dash_history e s = shown (\<not> db_empty s \<and> fh_data (db_fetch s) \<noteq> None)
     [Node ''div'' [] ([LatestRunsCard e (db_list dd_latest s)] @ shown (db_upcoming e s \<noteq> []) [UpcomingCard e (db_upcoming e s)])]"

definition dash_repositories :: "dashboard \<Rightarrow> ds_msg ui list" where
  "dash_repositories s = shown (\<not> db_empty s \<and> db_list dd_repositories s \<noteq> [])
     [Section [Txt ''Repositories''] ''Where the snapshots are stored.'' [SeeAll ''/repositories'' [Txt ''All repositories'']]
        [RepositoryCards (db_list dd_repositories s) (db_list dd_jobs s)]]"

definition dash_content :: "env \<Rightarrow> (string \<Rightarrow> job_card) \<Rightarrow> (run \<Rightarrow> run_stream) \<Rightarrow> dashboard \<Rightarrow> ds_msg ui" where
  "dash_content e cards stream s =
     (if fh_loading (db_fetch s) \<and> fh_data (db_fetch s) = None \<and> fh_data (db_status s) = None then DashboardSkeleton
      else Node ''div'' [] ([dash_top e s] @
        shown (db_failedChecks s \<noteq> []) [FailedChecksCallout (db_failedChecks s)] @
        [dash_running e stream s] @ dash_attention e s @ dash_jobs_section e cards s @ dash_history e s @ dash_repositories s))"

definition Dashboard :: "env \<Rightarrow> (string \<Rightarrow> job_card) \<Rightarrow> (run \<Rightarrow> run_stream) \<Rightarrow> dashboard \<Rightarrow> ds_msg ui" where
  "Dashboard e cards stream s = Page
     ([PageHeader [Txt ''Dashboard''] [Txt ''What you have configured, and what is happening.''] [] [] []] @
      shown (fh_error (db_fetch s) \<noteq> None) [ErrorState (Some ''Could not load dashboard data'')
        ''The jobs list did not load, so health and history below may be missing. Check that the server is running, then retry.''
        (Some DsRetry)] @
      [dash_content e cards stream s])"

section \<open>Loading\<close>

lemma ds_answer_eq [simp]:
  "DsJobs n = DsJobs n' \<longleftrightarrow> n = n'" "DsRest n js = DsRest n' js' \<longleftrightarrow> n = n' \<and> js = js'"
  "DsJobs n \<noteq> DsRest n' js'" "DsRest n' js' \<noteq> DsJobs n" "DsStatus i \<noteq> DsJobs n" "DsStatus i \<noteq> DsRest n js"
  "DsStrips i is \<noteq> DsJobs n" "DsStrips i is \<noteq> DsRest n js"
  "DsJobs n \<noteq> DsStatus i" "DsRest n js \<noteq> DsStatus i" "DsJobs n \<noteq> DsStrips i is" "DsRest n js \<noteq> DsStrips i is"
  by (auto simp: fun_eq_iff)

text \<open>
  Everything the page waits for is one of these, for a load with a number of at most \<open>g\<close>; a
  \<open>stage\<close> of load \<open>g\<close> is one of its two.
\<close>

definition stage :: "env \<Rightarrow> nat \<Rightarrow> (ds_msg, string \<times> card_msg) cmd \<Rightarrow> bool" where
  "stage e n c \<longleftrightarrow> c = CallAll [Jobs_list] (DsJobs n) \<or> (\<exists>js. c = CallAll (dash_rest e js) (DsRest n js))"

definition dash_call :: "env \<Rightarrow> nat \<Rightarrow> (ds_msg, string \<times> card_msg) cmd \<Rightarrow> bool" where
  "dash_call e g c \<longleftrightarrow> (\<exists>n \<le> g. stage e n c) \<or> (\<exists>qs n. c = CallAll qs (DsStatus n)) \<or> (\<exists>qs n ids. c = CallAll qs (DsStrips n ids))"

lemma stage_simps [simp]:
  "stage e n (CallAll qs (DsJobs k)) \<longleftrightarrow> qs = [Jobs_list] \<and> n = k"
  "stage e n (CallAll qs (DsRest k js)) \<longleftrightarrow> qs = dash_rest e js \<and> n = k"
  "\<not> stage e n (CallAll qs (DsStatus k))" "\<not> stage e n (CallAll qs (DsStrips k ids))"
  by (auto simp: stage_def)

lemma dash_call_simps [simp]:
  "dash_call e g (CallAll qs (DsJobs k)) \<longleftrightarrow> qs = [Jobs_list] \<and> k \<le> g"
  "dash_call e g (CallAll qs (DsRest k js)) \<longleftrightarrow> qs = dash_rest e js \<and> k \<le> g"
  "dash_call e g (CallAll qs (DsStatus k))" "dash_call e g (CallAll qs (DsStrips k ids))"
  by (auto simp: dash_call_def)

lemma dash_call_mono: "dash_call e g c \<Longrightarrow> g \<le> g' \<Longrightarrow> dash_call e g' c"
  by (auto simp: dash_call_def)

lemma stage_unique: "stage e n c \<Longrightarrow> stage e k c \<Longrightarrow> n = k"
  by (auto simp: stage_def)

text \<open>What one round of effects does to each field, and the loads of the jobs it starts.\<close>

lemma dash_load_strips_frame:
  assumes "dash_load_strips e s t = (t', cs)"
  shows "db_fetch t' = db_fetch t" "db_status t' = db_status t" "db_version t' = db_version t" "db_active t' = db_active t"
    and "\<forall>c \<in> set cs. dash_call e' g c"
  using assms by (auto simp: dash_load_strips_def Let_def split: prod.splits if_splits)

lemma dash_effects_fields:
  assumes "dash_effects e b s = (s', cs)"
  shows "db_fetch s' = (if db_version s \<noteq> db_version b \<and> 0 < db_version s then fetch_bump else id)
       (if fh_nonce (db_fetch s) = fh_nonce (db_fetch b) then db_fetch s else fetch_effect (db_fetch s))"
    and "db_status s' = (if fh_nonce (db_status s) = fh_nonce (db_status b) then db_status s else fetch_effect (db_status s))"
    and "db_version s' = db_version s" "db_active s' = db_active s"
    and "\<forall>c \<in> set cs. dash_call e' (fh_generation (db_fetch s')) c"
    and "fh_nonce (db_fetch s) \<noteq> fh_nonce (db_fetch b) \<Longrightarrow> CallAll [Jobs_list] (DsJobs (fh_generation (db_fetch s'))) \<in> set cs"
proof -
  define s1 where "s1 = (if fh_nonce (db_status s) = fh_nonce (db_status b) then s else s\<lparr>db_status := fetch_effect (db_status s)\<rparr>)"
  define s2 where "s2 = (if fh_nonce (db_fetch s) = fh_nonce (db_fetch b) then s1 else s1\<lparr>db_fetch := fetch_effect (db_fetch s)\<rparr>)"
  define s3 where "s3 = (if db_version s \<noteq> db_version b \<and> 0 < db_version s then dash_reload s2 else s2)"
  define cs1 where "cs1 = (if fh_nonce (db_status s) = fh_nonce (db_status b) then []
    else [CallAll [Status_get] (DsStatus (Suc (fh_generation (db_status s))))] :: ds_cmds)"
  define cs2 where "cs2 = (if fh_nonce (db_fetch s) = fh_nonce (db_fetch b) then []
    else [CallAll [Jobs_list] (DsJobs (Suc (fh_generation (db_fetch s))))] :: ds_cmds)"
  have f1: "db_fetch s1 = db_fetch s" by (simp add: s1_def)
  have e1: "(if fh_nonce (db_status s) = fh_nonce (db_status b) then (s, []) else dash_load_status s) = (s1, cs1)"
    by (simp add: s1_def cs1_def dash_load_status_def run_load_def Let_def)
  have e2: "(if fh_nonce (db_fetch s) = fh_nonce (db_fetch b) then (s1, []) else dash_load s1) = (s2, cs2)"
    by (simp add: s2_def cs2_def dash_load_def run_load_def Let_def f1)
  obtain cs4 where r: "(if dash_strips_key e s = dash_strips_key e b then (s3, []) else dash_load_strips e s s3) = (s', cs4)"
      and cs: "cs = cs1 @ cs2 @ cs4"
    using assms unfolding dash_effects_def e1 prod.case Let_def e2 s3_def [symmetric] by (auto split: prod.splits)
  have frame: "db_fetch s' = db_fetch s3" "db_status s' = db_status s3" "db_version s' = db_version s3" "db_active s' = db_active s3"
    and c4: "\<forall>c \<in> set cs4. dash_call e' (fh_generation (db_fetch s')) c"
    using r dash_load_strips_frame by (auto split: if_splits)
  have f3: "db_fetch s3 = (if db_version s \<noteq> db_version b \<and> 0 < db_version s then fetch_bump else id) (db_fetch s2)"
      "db_status s3 = db_status s1" "db_version s3 = db_version s" "db_active s3 = db_active s"
    by (simp_all add: s3_def s2_def s1_def dash_reload_def)
  show fetch: "db_fetch s' = (if db_version s \<noteq> db_version b \<and> 0 < db_version s then fetch_bump else id)
       (if fh_nonce (db_fetch s) = fh_nonce (db_fetch b) then db_fetch s else fetch_effect (db_fetch s))"
    using frame f3 f1 by (simp add: s2_def)
  show "db_status s' = (if fh_nonce (db_status s) = fh_nonce (db_status b) then db_status s else fetch_effect (db_status s))"
    using frame f3 by (simp add: s1_def)
  show "db_version s' = db_version s" "db_active s' = db_active s" using frame f3 by simp_all
  have g: "fh_nonce (db_fetch s) \<noteq> fh_nonce (db_fetch b) \<Longrightarrow> fh_generation (db_fetch s') = Suc (fh_generation (db_fetch s))"
    using fetch by simp
  show "\<forall>c \<in> set cs. dash_call e' (fh_generation (db_fetch s')) c" using c4 g by (auto simp: cs cs1_def cs2_def)
  show "CallAll [Jobs_list] (DsJobs (fh_generation (db_fetch s'))) \<in> set cs" if "fh_nonce (db_fetch s) \<noteq> fh_nonce (db_fetch b)"
    using that g [OF that] by (simp add: cs cs2_def)
qed

text \<open>The jobs are being loaded only while the request of one of the two stages of the newest load is in flight.\<close>

definition dash_inv :: "env \<Rightarrow> dashboard \<Rightarrow> ds_cmds \<Rightarrow> bool" where
  "dash_inv e s p \<longleftrightarrow> fetch_wf (db_fetch s)
     \<and> list_all (dash_call e (fh_generation (db_fetch s))) p
     \<and> (fh_loading (db_fetch s) \<longrightarrow> list_ex (stage e (fh_generation (db_fetch s))) p)
     \<and> (\<not> fh_loading (db_fetch s) \<longrightarrow> fh_data (db_fetch s) \<noteq> None \<or> fh_error (db_fetch s) \<noteq> None)"

lemma dash_inv_effects:
  assumes "dash_inv e s p" and "dash_effects e b s = (s', cs)"
  shows "dash_inv e s' (p @ awaiting cs)"
proof -
  note f = dash_effects_fields(1,5,6) [OF assms(2)]
  have calls: "list_all (dash_call e (fh_generation (db_fetch s'))) (awaiting cs)" using f(2) by (auto simp: awaiting_def list_all_iff)
  show ?thesis
  proof (cases "fh_nonce (db_fetch s) = fh_nonce (db_fetch b)")
    case True
    then show ?thesis using assms(1) f(1) calls by (auto simp: dash_inv_def)
  next
    case False
    then have h: "db_fetch s' = (if db_version s \<noteq> db_version b \<and> 0 < db_version s then fetch_bump else id) (fetch_effect (db_fetch s))"
      using f(1) by simp
    then have "fetch_wf (db_fetch s')" "fh_loading (db_fetch s')" "fh_generation (db_fetch s) \<le> fh_generation (db_fetch s')"
      using assms(1) by (auto simp: dash_inv_def fetch_effect_wf)
    moreover have "list_all (dash_call e (fh_generation (db_fetch s'))) p"
      using assms(1) calculation(3) dash_call_mono unfolding dash_inv_def list_all_iff by blast
    moreover have "list_ex (stage e (fh_generation (db_fetch s'))) (awaiting cs)"
      using f(3) [OF False] by (auto simp: awaiting_def list_ex_iff intro!: bexI [where x = "CallAll [Jobs_list] (DsJobs (fh_generation (db_fetch s')))"])
    ultimately show ?thesis using calls unfolding dash_inv_def by simp
  qed
qed

lemma dash_inv_commit:
  assumes "dash_handle e m s = (t, c0)" and "dash_inv e t (p @ awaiting c0)" and "dash_update e m s = (s', cs)"
  shows "dash_inv e s' (p @ awaiting cs)"
proof -
  obtain s1 c1 c2 where u: "dash_effects e s t = (s1, c1)" "dash_effects e t s1 = (s', c2)" "cs = c0 @ c1 @ c2"
    using assms(1,3) by (auto simp: dash_update_def page_update_def commit_def split: prod.splits)
  have "dash_inv e s' (((p @ awaiting c0) @ awaiting c1) @ awaiting c2)"
    by (rule dash_inv_effects [OF dash_inv_effects [OF assms(2) u(1)] u(2)])
  then show ?thesis by (simp add: u(3))
qed

lemma Dashboard_msgs: "msgs (Dashboard e cards stream s) = (if fh_error (db_fetch s) = None then {} else {DsRetry})"
proof -
  have "msgs (dash_content e cards stream s) = {}"
    by (auto simp: dash_content_def dash_top_def dash_running_def dash_attention_def dash_jobs_section_def dash_card_def
        dash_history_def dash_repositories_def Section_def SeeAll_def RunStripLegend_def JobCard_msgs split: if_splits)
  then show ?thesis by (auto simp: Dashboard_def ErrorState_msgs)
qed

text \<open>An answer of one of the two stages: its load is over, goes on, or is not the newest.\<close>

lemma dash_inv_settle:
  assumes "dash_inv e s (p @ c # q)" and "stage e n c"
  shows "dash_inv e (s\<lparr>db_fetch := fetch_settle n r (db_fetch s)\<rparr>) (p @ q)"
proof (cases "n = fh_generation (db_fetch s)")
  case True
  have "fetch_wf (db_fetch s)" using assms(1) by (simp add: dash_inv_def)
  then show ?thesis using assms(1) True
    by (auto simp: dash_inv_def fetch_settle_wf fetch_settle_frame fetch_settle_loading fetch_settle_data split: sum.split)
next
  case False
  then have "\<not> stage e (fh_generation (db_fetch s)) c" using assms(2) stage_unique by blast
  then show ?thesis using assms(1) False by (auto simp: dash_inv_def fetch_settle_stale)
qed

lemma dash_inv_reply:
  assumes inv: "dash_inv e s (p @ c # q)" and m: "m \<in> replies c" and h: "dash_handle e m s = (t, c0)"
  shows "dash_inv e t ((p @ q) @ awaiting c0)"
proof -
  have "dash_call e (fh_generation (db_fetch s)) c" using inv by (simp add: dash_inv_def)
  then consider (status) qs n where "c = CallAll qs (DsStatus n)" | (jobs) n where "n \<le> fh_generation (db_fetch s)" "c = CallAll [Jobs_list] (DsJobs n)"
    | (rest) n js where "c = CallAll (dash_rest e js) (DsRest n js)" | (strips) qs n ids where "c = CallAll qs (DsStrips n ids)"
    unfolding dash_call_def stage_def by blast
  then show ?thesis
  proof cases
    case jobs
    then obtain rs where m: "m = DsJobs n rs" using m by auto
    show ?thesis
    proof (cases "res_ok (rs ! 0)")
      case True
      let ?js = "or_empty (b_jobs (body_of (rs ! 0)))"
      have "t = s" "c0 = [CallAll (dash_rest e ?js) (DsRest n ?js)]" using h m True by (simp_all add: dash_jobs_def Let_def)
      then show ?thesis using inv jobs by (auto simp: dash_inv_def)
    next
      case False
      then show ?thesis using h m dash_inv_settle [OF inv, of n] jobs by (auto simp: dash_jobs_def Let_def)
    qed
  next
    case rest
    then show ?thesis using h m dash_inv_settle [OF inv, of n] by auto
  next
    case status
    then show ?thesis using inv h m by (auto simp: dash_inv_def)
  next
    case strips
    then show ?thesis using inv h m by (auto simp: dash_inv_def dash_strips_def split: if_splits)
  qed
qed

lemma dash_inv_mount:
  assumes "dash_mount e version active = (s, cs)"
  shows "dash_inv e s (awaiting cs)"
proof -
  let ?s0 = "dash_first version active"
  let ?s2 = "?s0\<lparr>db_status := fetch_effect (fetch_init None), db_fetch := fetch_effect (fetch_init None)\<rparr>"
  define s3 where "s3 = (if 0 < version then dash_reload ?s2 else ?s2)"
  have s2: "dash_load_status ?s0 = (?s0\<lparr>db_status := fetch_effect (fetch_init None)\<rparr>, [CallAll [Status_get] (DsStatus 1)])"
    "dash_load (?s0\<lparr>db_status := fetch_effect (fetch_init None)\<rparr>) = (?s2, [CallAll [Jobs_list] (DsJobs 1)])"
    by (simp_all add: dash_load_status_def dash_load_def run_load_def dash_first_def Let_def)
  obtain s4 cs4 where r: "dash_load_strips e ?s0 s3 = (s4, cs4)" by (metis surj_pair)
  obtain s5 cs5 where e: "dash_effects e ?s0 s4 = (s5, cs5)" by (metis surj_pair)
  have s: "s = s5" "cs = [CallAll [Status_get] (DsStatus 1), CallAll [Jobs_list] (DsJobs 1)]
      @ [Do (SetTitle (''Dashboard '' @ middot @ '' restic backup manager''))] @ cs4 @ cs5"
    using assms s2 r e by (auto simp: dash_mount_def Let_def s3_def split: prod.splits)
  note f4 = dash_load_strips_frame [OF r]
  have "db_fetch s4 = (if 0 < version then fetch_bump else id) (fetch_effect (fetch_init None))"
    using f4(1) by (simp add: s3_def dash_reload_def)
  moreover have "list_all (dash_call e 1) (awaiting cs4)" using f4(5) by (auto simp: awaiting_def list_all_iff)
  ultimately have "dash_inv e s4 ([CallAll [Status_get] (DsStatus 1), CallAll [Jobs_list] (DsJobs 1)] @ awaiting cs4)"
    by (simp add: dash_inv_def fetch_effect_wf)
  from dash_inv_effects [OF this e] show ?thesis by (simp add: s)
qed

interpretation dash_loading: component "dash_update e" "Dashboard e cards stream" "range (\<lambda>(v, active). DsLive v active)"
  "dash_mount e version active" "dash_inv e"
  for e cards stream version active
proof unfold_locales
  fix s and cs :: ds_cmds
  assume "dash_mount e version active = (s, cs)"
  then show "dash_inv e s (awaiting cs)" by (rule dash_inv_mount)
next
  fix s p m s' and cs :: ds_cmds
  assume inv: "dash_inv e s p" and m: "m \<in> msgs (Dashboard e cards stream s) \<union> range (\<lambda>(v, active). DsLive v active)"
    and u: "dash_update e m s = (s', cs)"
  obtain t c0 where h: "dash_handle e m s = (t, c0)" by (metis surj_pair)
  have "dash_inv e t (p @ awaiting c0)"
    using m h inv by (auto simp: Dashboard_msgs dash_inv_def dash_reload_def split: if_splits)
  then show "dash_inv e s' (p @ awaiting cs)" by (rule dash_inv_commit [OF h _ u])
next
  fix s p c q m s' and cs :: ds_cmds
  assume inv: "dash_inv e s (p @ c # q)" and m: "m \<in> replies c" and u: "dash_update e m s = (s', cs)"
  obtain t c0 where h: "dash_handle e m s = (t, c0)" by (metis surj_pair)
  have "dash_inv e t ((p @ q) @ awaiting c0)" by (rule dash_inv_reply [OF inv m h])
  then have "dash_inv e s' ((p @ q) @ awaiting cs)" by (rule dash_inv_commit [OF h _ u])
  then show "dash_inv e s' (p @ q @ awaiting cs)" by simp
qed

section \<open>Properties\<close>



text \<open>
  The effects of the dashboard come to rest: whatever changed before a render, the second round is the last.
\<close>

theorem dashboard_effects_settle: "at_rest (dash_effects e) before s"
proof -
  obtain s1 c1 where e1: "dash_effects e before s = (s1, c1)" by (metis surj_pair)
  obtain s2 c2 where e2: "dash_effects e s s1 = (s2, c2)" by (metis surj_pair)
  note f1 = dash_effects_fields [OF e1] and f2 = dash_effects_fields [OF e2]
  have "fh_data (db_fetch s2) = fh_data (db_fetch s1)" using f2(1) f1(3) by simp
  then have "db_cards e s2 = db_cards e s1" by (simp add: db_cards_def db_attention_def db_list_def)
  then have "dash_strips_key e s2 = dash_strips_key e s1" using f2(3) by (simp add: dash_strips_key_def dash_ids_def)
  moreover have "fh_nonce (db_fetch s2) = fh_nonce (db_fetch s1)" "fh_nonce (db_status s2) = fh_nonce (db_status s1)"
    using f2(1-3) f1(3) by simp_all
  ultimately have "dash_effects e s1 s2 = (s2, [])" using f2(3) by (simp add: dash_effects_def Let_def)
  then show ?thesis by (simp add: at_rest_def e1 e2)
qed

text \<open>
  Without a job the setup steps are taken off the screen whenever any run starts or ends: the event reloads
  the jobs, and while that load is out the page shows the health card instead, which says to open a job and run it.
\<close>

theorem setup_steps_replaced_while_reloading:
  assumes "fh_data (db_fetch s) = Some d" and "dd_jobs d = []" and "v \<noteq> db_version s" and "0 < v"
    and "dash_update e (DsLive v active) s = (s', cs)"
  shows "\<not> db_empty s' \<and> dash_top e s' = Node ''div'' []
     [HealthHero e [] [] (db_entries s') [] (length active) (length (db_failedChecks s')),
      InventoryStrip (db_count cn_repositories s') (db_folderCount s') 0 0]
    \<and> vd_detail (health [] [] 0) = ''Open a job and run it once to take the first snapshot.''"
proof -
  obtain s1 c1 where e1: "dash_effects e s (s\<lparr>db_version := v, db_active := active\<rparr>) = (s1, c1)" by (metis surj_pair)
  have e2: "\<exists>c2. dash_effects e (s\<lparr>db_version := v, db_active := active\<rparr>) s1 = (s', c2)"
    using assms(5) e1 by (auto simp: dash_update_def page_update_def commit_def split: prod.splits)
  then obtain c2 where e2: "dash_effects e (s\<lparr>db_version := v, db_active := active\<rparr>) s1 = (s', c2)" by blast
  note f1 = dash_effects_fields(1,3,4) [OF e1] and f2 = dash_effects_fields(1,3,4) [OF e2]
  have "db_fetch s1 = fetch_bump (db_fetch s)" using f1 assms(3,4) by simp
  then have "db_fetch s' = fetch_effect (fetch_bump (db_fetch s))" using f2 f1 by simp
  then have "fh_data (db_fetch s') = Some d" "fh_loading (db_fetch s')" using assms(1) by simp_all
  moreover have "db_active s' = active" using f1 f2 by simp
  moreover have "selectAttention e [] = []" "selectUpcoming e [] = []" by (simp_all add: selectAttention_def selectUpcoming_def)
  ultimately show ?thesis using assms(2)
    by (simp add: db_empty_def dash_top_def db_list_def db_attention_def db_upcoming_def db_jobCount_def health_def
        count_failed_def count_overdue_def never_run_def)
qed

definition fresh_dashboard :: dashboard where
  "fresh_dashboard = (dash_first 0 [])\<lparr>db_fetch := fetch_settle 0 (Inr \<lparr>dd_jobs = [], dd_folders = [], dd_repositories = [],
     dd_recentFailures = [], dd_latest = []\<rparr>) (fetch_init None)\<rparr>"

theorem setup_steps_replaced_while_reloading_witness:
  "db_empty fresh_dashboard \<and> \<not> db_empty (fst (dash_update sample_env (DsLive 1 [sample_run]) fresh_dashboard))"
proof
  let ?d = "\<lparr>dd_jobs = [], dd_folders = [], dd_repositories = [], dd_recentFailures = [], dd_latest = []\<rparr>"
  have f: "fh_data (db_fetch fresh_dashboard) = Some ?d" "\<not> fh_loading (db_fetch fresh_dashboard)" "db_version fresh_dashboard = 0"
    using fetch_settle_data(1) [of "fetch_init None" 0 "Inr ?d"] fetch_settle_loading [of "fetch_init None" 0 "Inr ?d"]
    by (simp_all add: fresh_dashboard_def dash_first_def)
  show "db_empty fresh_dashboard" using f by (simp add: db_empty_def db_list_def)
  show "\<not> db_empty (fst (dash_update sample_env (DsLive 1 [sample_run]) fresh_dashboard))"
    using setup_steps_replaced_while_reloading [OF f(1) _ _ _ surjective_pairing, of 1 sample_env "[sample_run]"] f(3) by simp
qed

end
