(* ===== verification/SpeedTest.thy ===== *)
theory SpeedTest
  imports Loads RunLists StartRun
begin

text \<open>
  \<open>src/ui/src/components/speed-test.jsx\<close>: the parts that show a result, and the card that
  measures a repository and keeps the results. The stream of the running test is an argument.
\<close>

section \<open>A result\<close>

abbreviation up_arrow :: string where "up_arrow \<equiv> [CHR 0xE2, CHR 0x86, CHR 0x91]"
abbreviation down_arrow :: string where "down_arrow \<equiv> [CHR 0xE2, CHR 0x86, CHR 0x93]"

definition SIZES :: "(int \<times> string) list" where
  "SIZES = [(16, ''16 MB''), (64, ''64 MB''), (256, ''256 MB'')]"

definition PILL :: table where
  "PILL = [(''success'', ''bg-success/12 text-success''), (''warning'', ''bg-warning/15 text-warning''),
     (''destructive'', ''bg-destructive/12 text-destructive'')]"

definition DOT :: table where
  "DOT = [(''success'', ''bg-success''), (''warning'', ''bg-warning''), (''destructive'', ''bg-destructive'')]"

definition GIB :: int where "GIB = 1024 ^ 3"

definition SpeedScore :: "speed_result option \<Rightarrow> bool \<Rightarrow> 'm ui list" where
  "SpeedScore test rating = (case test of None \<Rightarrow> []
     | Some t \<Rightarrow> [Node ''span'' (class_of (lookup PILL (speedTone (sp_score t))))
         (shown (\<not> rating) [Node ''span'' [] [Txt (show_int (sp_score t))]] @ [Node ''span'' [] [Txt (sp_rating t)]])])"

definition ScoreMeter :: "int \<Rightarrow> 'm ui" where
  "ScoreMeter score = Node ''div'' []
     [Node ''div'' [At ''role'' ''meter'', At ''aria-label'' ''Speed score'', At ''aria-valuemin'' ''0'',
        At ''aria-valuemax'' ''100'', At ''aria-valuenow'' (show_int score)]
        [Node ''div'' [] [Node ''span'' [At ''class'' ''w-[40%] bg-destructive/25''] [],
           Node ''span'' [At ''class'' ''w-[20%] bg-warning/30''] [], Node ''span'' [At ''class'' ''flex-1 bg-success/25''] []],
         Node ''span'' (class_of (lookup DOT (speedTone score)) @
           [At ''style-left-percent'' (show_int (max 2 (min 98 score)))]) []],
      Node ''div'' [] [Node ''span'' [] [Txt ''Slow''], Node ''span'' [] [Txt ''Fair''], Node ''span'' [] [Txt ''Good'']]]"

definition Metric :: "string \<Rightarrow> string \<Rightarrow> string \<Rightarrow> string \<Rightarrow> 'm ui" where
  "Metric icon label value hint = Node ''div'' []
     [Icon icon, Node ''dt'' [] ([Txt label] @ shown (hint \<noteq> '''') [Node ''span'' [] [Txt hint]]), Node ''dd'' [] [Txt value]]"

definition Result :: "env \<Rightarrow> speed_result \<Rightarrow> 'm ui" where
  "Result e t =
     (let backup = estimateSeconds GIB (sp_uploadBytesPerSec t) (sp_overheadSeconds t);
          restore = estimateSeconds GIB (sp_downloadBytesPerSec t) (sp_overheadSeconds t) in
      Node ''div'' []
       [Node ''div'' [] ([Node ''p'' [] [Node ''span'' [] [Txt (show_int (sp_score t))], Node ''span'' [] [Txt ''/ 100'']]] @
          SpeedScore (Some t) True),
        ScoreMeter (sp_score t),
        Node ''dl'' [] [Metric ''ArrowUp'' ''Upload'' (fmtSpeed (sp_uploadBytesPerSec t)) '''',
          Metric ''ArrowDown'' ''Download'' (fmtSpeed (sp_downloadBytesPerSec t)) '''',
          Metric ''Timer'' ''Overhead'' (to_fixed 1 (sp_overheadSeconds t) @ '' s'') ''per backup or restore''],
        Node ''p'' [] [Txt ''Moving '', Node ''span'' [] [Txt ''1 GB''], Txt '' takes '', Node ''span'' [] [Txt (fmtEstimate backup)],
          Txt '' to back up and '', Node ''span'' [] [Txt (fmtEstimate restore)], Txt '' to restore.''],
        Node ''p'' [] [Node ''span'' [At ''tooltip'' (fmtTime e (spr_testedAt t))] [Txt (''Tested '' @ fmtRelative e (spr_testedAt t))],
          Txt ('' with '' @ fmtBytes (sp_sizeBytes t) @ '' '' @ middot @ '' ''),
          Node ''Link'' [At ''to'' (''/runs/'' @ spr_runId t)] [Txt ''View run'']]])"

definition History :: "env \<Rightarrow> speed_result list \<Rightarrow> 'm ui list" where
  "History e tests = shown (tests \<noteq> []) [Node ''div'' []
     [Node ''p'' [] [Txt ''Earlier tests''],
      Node ''ul'' [] (map (\<lambda>t. Node ''li'' [] [Node ''Link'' [At ''to'' (''/runs/'' @ spr_runId t)]
        ([Node ''span'' []
           [Node ''span'' [] [Txt (fmtRelative e (spr_testedAt t))],
            Node ''span'' [] [Txt (up_arrow @ '' '' @ fmtSpeed (sp_uploadBytesPerSec t) @ '' '' @ middot @ '' '' @
              down_arrow @ '' '' @ fmtSpeed (sp_downloadBytesPerSec t))]]] @
         SpeedScore (Some t) False)]) tests)]]"

section \<open>The test in progress\<close>

definition phaseOf :: "rat \<Rightarrow> string" where
  "phaseOf pct =
     (if pct < 10 then ''Timing a tiny backup and restore'' @ ellipsis
      else if pct < 55 then ''Uploading test data'' @ ellipsis
      else if pct < 95 then ''Downloading it back'' @ ellipsis
      else ''Forgetting the test snapshots'' @ ellipsis)"

definition LiveTest :: "run_stream \<Rightarrow> run \<Rightarrow> 'm ui" where
  "LiveTest stream r =
     (let now = (case rs_run stream of None \<Rightarrow> r | Some l \<Rightarrow> l); pct = displayPercent (Some now) in
      Node ''div'' []
       [Node ''div'' [] [Node ''span'' [] [Icon ''LoaderCircle'', Txt (''Testing'' @ ellipsis)],
          Node ''span'' [] [Txt (show_int (js_round pct) @ ''%'')]],
        Progress pct False None,
        Node ''p'' [] [Txt (phaseOf pct @ '' ''), Node ''Link'' [At ''to'' (''/runs/'' @ run_id r)] [Txt ''View log'']]])"

section \<open>The card\<close>

text \<open>\<open>firstVersion\<close> is a ref: it keeps the version of the first render.\<close>

record speed_card =
  st_repositoryId :: string
  st_active :: "run list"
  st_version :: nat
  st_firstVersion :: nat
  st_size :: int
  st_starting :: bool
  st_fetch :: "(speed_result list, string) fetch_hook"

datatype speed_msg = SpRepository string | SpLive "run list" nat | SpSize int | SpStart | SpStarted response | SpReload
  | SpLoaded nat "response list"

type_synonym speed_cmds = "(speed_msg, unit) cmd list"

definition st_running :: "speed_card \<Rightarrow> run option" where
  "st_running s = find (\<lambda>r. run_kind r = ''speedtest'' \<and> run_repositoryId r = st_repositoryId s) (st_active s)"

definition st_busyElsewhere :: "speed_card \<Rightarrow> bool" where
  "st_busyElsewhere s \<longleftrightarrow> st_running s = None \<and> list_ex (\<lambda>r. run_repositoryId r = st_repositoryId s) (st_active s)"

definition st_latest :: "speed_card \<Rightarrow> speed_result option" where
  "st_latest s = (case fh_data (st_fetch s) of Some (t # ts) \<Rightarrow> Some t | _ \<Rightarrow> None)"

text \<open>A call that names no limit asks for six.\<close>

definition st_query :: "speed_card \<Rightarrow> request list" where
  "st_query s = [Repositories_speedTests (st_repositoryId s) 6]"

definition st_result :: "response list \<Rightarrow> string + speed_result list" where
  "st_result rs =
     (if \<not> res_ok (rs ! 0) then Inl ''Could not load speed test results.''
      else Inr (case b_results (body_of (rs ! 0)) of None \<Rightarrow> [] | Some ts \<Rightarrow> ts))"

definition st_load :: "speed_card \<Rightarrow> speed_card \<times> speed_cmds" where
  "st_load s = run_load st_fetch (\<lambda>h s. s\<lparr>st_fetch := h\<rparr>) st_query SpLoaded s"

definition st_reload :: "speed_card \<Rightarrow> speed_card" where
  "st_reload s = s\<lparr>st_fetch := fetch_bump (st_fetch s)\<rparr>"

definition st_key :: "speed_card \<Rightarrow> string \<times> nat" where
  "st_key s = (st_repositoryId s, fh_nonce (st_fetch s))"

definition st_effects :: "(speed_card, speed_msg, unit) effects" where
  "st_effects before s =
     (let (s1, cs) = (if st_key s = st_key before then (s, []) else st_load s)
      in (if st_version s \<noteq> st_version before \<and> st_version s \<noteq> st_firstVersion s then st_reload s1 else s1, cs))"

definition st_start :: "speed_card \<Rightarrow> speed_card \<times> speed_cmds" where
  "st_start s = (s\<lparr>st_starting := True\<rparr>, [Call (Repositories_speedTest (st_repositoryId s) (st_size s)) SpStarted])"

definition st_started :: "response \<Rightarrow> speed_card \<Rightarrow> speed_card \<times> speed_cmds" where
  "st_started res s = (s\<lparr>st_starting := False\<rparr>,
     map Do (snd (handleStartResponse res ''Could not start the speed test.'' True)))"

primrec st_handle :: "(speed_card, speed_msg, unit) update" where
  "st_handle (SpRepository i) s = (s\<lparr>st_repositoryId := i\<rparr>, [])"
| "st_handle (SpLive rs v) s = (s\<lparr>st_active := rs, st_version := v\<rparr>, [])"
| "st_handle (SpSize n) s = (s\<lparr>st_size := n\<rparr>, [])"
| "st_handle SpStart s = st_start s"
| "st_handle (SpStarted res) s = st_started res s"
| "st_handle SpReload s = (st_reload s, [])"
| "st_handle (SpLoaded n rs) s = (s\<lparr>st_fetch := fetch_settle n (st_result rs) (st_fetch s)\<rparr>, [])"

definition st_update :: "(speed_card, speed_msg, unit) update" where
  "st_update = page_update st_handle st_effects"

definition st_mount :: "string \<Rightarrow> run list \<Rightarrow> nat \<Rightarrow> speed_card \<times> speed_cmds" where
  "st_mount i active version = st_load \<lparr>st_repositoryId = i, st_active = active, st_version = version,
     st_firstVersion = version, st_size = 64, st_starting = False, st_fetch = fetch_init None\<rparr>"

section \<open>What it renders\<close>

definition st_results :: "env \<Rightarrow> speed_card \<Rightarrow> speed_msg ui list" where
  "st_results e s =
     (case (fh_loading (st_fetch s), fh_error (st_fetch s), fh_data (st_fetch s)) of
        (True, _, None) \<Rightarrow> [Node ''div'' [] (replicate 3 (Node ''Skeleton'' [] []))]
      | (False, Some err, None) \<Rightarrow> [Node ''p'' [] [Txt (err @ '' ''), Node ''button'' [At ''type'' ''button'', On ''click'' SpReload] [Txt ''Retry'']]]
      | (_, _, Some (t # ts)) \<Rightarrow> [Result e t] @ History e ts
      | _ \<Rightarrow> shown (st_running s = None) [Node ''p'' [] [Txt (''Not tested yet. A test backs up random data, reads it back and '' @
          ''scores the storage from 0 to 100.'')]])"

definition st_form :: "speed_card \<Rightarrow> speed_msg ui" where
  "st_form s = Node ''div'' []
     [Node ''div'' [At ''role'' ''radiogroup'', At ''aria-label'' ''Test size''] (map (\<lambda>(v, label).
        Node ''button'' [At ''type'' ''button'', At ''role'' ''radio'', Flag ''aria-checked'' (v = st_size s), On ''click'' (SpSize v)]
          [Node ''span'' [] [Txt label]]) SIZES),
      Node ''Button'' [On ''click'' SpStart, Flag ''disabled'' (st_starting s \<or> st_busyElsewhere s)]
        [Icon (if st_starting s then ''LoaderCircle'' else ''Gauge''),
         Txt (if st_starting s then ''Starting'' @ ellipsis else if st_latest s \<noteq> None then ''Test again'' else ''Run speed test'')],
      Node ''p'' [] [Txt (if st_busyElsewhere s
        then ''Another operation is using this repository. The test can start once it finishes.''
        else ''Moves about '' @ fmtBytes (st_size s * 2 * 1024 ^ 2) @ '' over the network. The test snapshots are forgotten '' @
          ''afterwards; their space is freed at the next prune.'')]]"

definition SpeedTestCard :: "env \<Rightarrow> (run \<Rightarrow> run_stream) \<Rightarrow> speed_card \<Rightarrow> speed_msg ui" where
  "SpeedTestCard e stream s = Node ''Card'' []
     [Node ''CardHeader'' [] [IconTile (Some ''Gauge'') ''cyan'' ''sm'',
        Node ''div'' [] [Node ''CardTitle'' [] [Txt ''Speed''],
          Node ''CardDescription'' [] [Txt ''How fast backups and restores move data to and from this storage.'']]],
      Node ''CardContent'' []
       ((case st_running s of None \<Rightarrow> [] | Some r \<Rightarrow> [LiveTest (stream r) r]) @ st_results e s @
        shown (st_running s = None) [st_form s])]"

section \<open>Loading\<close>

lemma st_loaded_eq [simp]: "SpLoaded n = SpLoaded n' \<longleftrightarrow> n = n'"
  by (auto simp: fun_eq_iff)

lemma st_effects_eq:
  assumes "st_effects b s = (s', cs)"
  shows "st_fetch s' = (if st_version s \<noteq> st_version b \<and> st_version s \<noteq> st_firstVersion s then fetch_bump else id)
       (if st_key s = st_key b then st_fetch s else fetch_effect (st_fetch s))"
    and "cs = (if st_key s = st_key b then [] else [CallAll (st_query s) (SpLoaded (Suc (fh_generation (st_fetch s))))]) @ []"
    and "s' = s\<lparr>st_fetch := st_fetch s'\<rparr>"
  using assms by (auto simp: st_effects_def st_load_def run_load_def st_reload_def Let_def split: if_splits)

lemma st_effects_keep:
  assumes "st_effects b s = (s', cs)"
  shows "st_repositoryId s' = st_repositoryId s" "st_version s' = st_version s" "st_firstVersion s' = st_firstVersion s"
    "st_size s' = st_size s" "st_starting s' = st_starting s" "st_active s' = st_active s"
  using st_effects_eq(3) [OF assms] by (metis speed_card.select_convs speed_card.surjective speed_card.update_convs(7))+

interpretation st_page: fetch_page st_handle st_effects "SpeedTestCard e stream"
  "range SpRepository \<union> {m. \<exists>rs v. m = SpLive rs v}" "st_mount i active version" st_fetch st_key st_query SpLoaded
  for e stream i active version
proof unfold_locales
  fix s and cs :: speed_cmds
  assume "st_mount i active version = (s, cs)"
  then show "fetch_wf (st_fetch s) \<and> fresh_loads SpLoaded 0 (fh_generation (st_fetch s)) (st_query s) cs"
    by (intro usual_mount [where loaded = SpLoaded and ds = "[]"]) (auto simp: st_mount_def st_load_def run_load_def Let_def st_query_def)
next
  fix s m t and cs :: speed_cmds
  assume "fetch_wf (st_fetch s)" "st_handle m s = (t, cs)"
  then show "fetch_wf (st_fetch t) \<and> fh_generation (st_fetch t) = fh_generation (st_fetch s)
      \<and> (\<forall>n qs. CallAll qs (SpLoaded n) \<notin> set cs)
      \<and> (fh_loading (st_fetch t) \<longrightarrow> fh_loading (st_fetch s) \<and> (\<forall>rs. m \<noteq> SpLoaded (fh_generation (st_fetch s)) rs))"
    by (intro usual_handle [where loaded = SpLoaded]) (cases m; auto simp: st_start_def st_started_def st_reload_def)+
next
  fix s b s' and cs :: speed_cmds
  assume "fetch_wf (st_fetch s)" and e: "st_effects b s = (s', cs)"
  then show "fetch_wf (st_fetch s') \<and> (if st_key s = st_key b
     then fh_generation (st_fetch s') = fh_generation (st_fetch s) \<and> fh_loading (st_fetch s') = fh_loading (st_fetch s)
       \<and> (\<forall>n qs. CallAll qs (SpLoaded n) \<notin> set cs)
     else fh_generation (st_fetch s') = Suc (fh_generation (st_fetch s))
       \<and> fresh_loads SpLoaded (fh_generation (st_fetch s)) (fh_generation (st_fetch s')) (st_query s) cs)"
    by (intro usual_round [where loaded = SpLoaded and ds = "[]", OF st_effects_eq(1,2) [OF e]]) auto
next
  fix b s s1 s2 and cs1 cs2 :: speed_cmds
  assume e: "st_effects b s = (s1, cs1)" "st_effects s s1 = (s2, cs2)"
  show "st_key s2 = st_key s1"
    using st_effects_eq(1) [OF e(2)] st_effects_keep [OF e(1)] st_effects_keep [OF e(2)] by (simp add: st_key_def)
next
  fix s s' :: speed_card
  assume "st_key s = st_key s'"
  then show "st_query s = st_query s'" by (simp add: st_key_def st_query_def)
qed

section \<open>Starting a test\<close>

lemma st_tiles_msgs [simp]: "msgs_of (SpeedScore test rating) = {}" "msgs (ScoreMeter score) = {}" "msgs (Metric i l v h) = {}"
    "msgs (Result e r) = {}" "msgs_of (History e tests) = {}" "msgs (LiveTest stream run) = {}"
proof -
  have attrs: "attr_msgs a = {}" if "a \<in> set (class_of c)" for a :: "'x attr" and c
    using that by (auto simp: class_of_def split: option.splits)
  show sc: "msgs_of (SpeedScore test rating) = {}" for test rating
    using attrs by (auto simp: SpeedScore_def split: option.split)
  show sm: "msgs (ScoreMeter score) = {}" for score using attrs by (auto simp: ScoreMeter_def)
  show me: "msgs (Metric i l v h) = {}" for i l v h by (auto simp: Metric_def)
  show "msgs (Result e r) = {}" by (simp add: Result_def Let_def sc sm me)
  show "msgs_of (History e tests) = {}" by (auto simp: History_def sc)
  show "msgs (LiveTest stream run) = {}" by (simp add: LiveTest_def Let_def)
qed

definition size_msgs :: "speed_msg set" where
  "size_msgs = SpSize ` {16, 64, 256}"

lemma SpeedTestCard_msgs: "msgs (SpeedTestCard e stream s) \<subseteq> {SpReload} \<union>
    (if st_running s \<noteq> None then {} else size_msgs \<union> (if st_starting s \<or> st_busyElsewhere s then {} else {SpStart}))"
  "st_running s = None \<Longrightarrow> \<not> st_starting s \<Longrightarrow> \<not> st_busyElsewhere s \<Longrightarrow> SpStart \<in> msgs (SpeedTestCard e stream s)"
proof -
  have r: "msgs_of (st_results e s) \<subseteq> {SpReload}"
    by (auto simp: st_results_def split: list.splits option.splits bool.splits if_splits)
  have f: "msgs (st_form s) = size_msgs \<union> (if st_starting s \<or> st_busyElsewhere s then {} else {SpStart})"
    by (auto simp: st_form_def SIZES_def size_msgs_def)
  have "msgs (SpeedTestCard e stream s) = msgs_of (st_results e s) \<union> (if st_running s = None then msgs (st_form s) else {})"
    by (auto simp: SpeedTestCard_def split: option.split)
  then show "msgs (SpeedTestCard e stream s) \<subseteq> {SpReload} \<union>
      (if st_running s \<noteq> None then {} else size_msgs \<union> (if st_starting s \<or> st_busyElsewhere s then {} else {SpStart}))"
    "st_running s = None \<Longrightarrow> \<not> st_starting s \<Longrightarrow> \<not> st_busyElsewhere s \<Longrightarrow> SpStart \<in> msgs (SpeedTestCard e stream s)"
    using r f by auto
qed

lemma SpStart_on_screen:
  "SpStart \<in> msgs (SpeedTestCard e stream s) \<longleftrightarrow> st_running s = None \<and> \<not> st_starting s \<and> \<not> st_busyElsewhere s"
  using SpeedTestCard_msgs(1) [of e stream s] SpeedTestCard_msgs(2) by (auto simp: size_msgs_def split: if_splits)

lemma SpeedTestCard_screen: "m \<in> msgs (SpeedTestCard e stream s) \<Longrightarrow> m \<in> {SpReload, SpStart} \<union> size_msgs"
  using SpeedTestCard_msgs(1) [of e stream s] by (auto split: if_splits)

text \<open>The effects send loads only, and keep everything but the hook.\<close>

definition st_loads :: "speed_cmds \<Rightarrow> bool" where
  "st_loads cs \<longleftrightarrow> (\<forall>c \<in> set cs. \<exists>qs n. c = CallAll qs (SpLoaded n))"

lemma st_loads_single: "st_loads cs \<Longrightarrow> filter is_single cs = [] \<and> (\<forall>c \<in> set cs. replies c \<subseteq> {m. \<exists>n rs. m = SpLoaded n rs})"
  by (fastforce simp: st_loads_def filter_empty_conv)

lemma st_update_split:
  assumes "st_update m s = (s', cs)"
  obtains t c0 c1 where "st_handle m s = (t, c0)" "cs = c0 @ c1" "st_loads c1" "st_starting s' = st_starting t"
    "st_size s' = st_size t" "st_repositoryId s' = st_repositoryId t"
proof -
  obtain t s1 c0 c1 c2 where u: "st_handle m s = (t, c0)" "st_effects s t = (s1, c1)" "st_effects t s1 = (s', c2)" "cs = c0 @ c1 @ c2"
    using assms by (auto simp: st_update_def page_update_def commit_def split: prod.splits)
  have "st_loads (c1 @ c2)" using st_effects_eq(2) [OF u(2)] st_effects_eq(2) [OF u(3)] by (auto simp: st_loads_def)
  then show ?thesis
    using that [OF u(1), of "c1 @ c2"] u(4) st_effects_keep [OF u(2)] st_effects_keep [OF u(3)] by simp
qed

definition st_env :: "speed_msg set" where
  "st_env = range SpRepository \<union> {m. \<exists>rs v. m = SpLive rs v}"

interpretation st_flight: single_flight st_update "SpeedTestCard e stream" st_env "st_mount i active version"
  is_single st_starting "range SpStarted" "{m. \<exists>n rs. m = SpLoaded n rs}"
  for e stream i active version
proof unfold_locales
  fix s and cs :: speed_cmds
  assume "st_mount i active version = (s, cs)"
  then show "filter is_single cs = [] \<and> \<not> st_starting s \<and> (\<forall>c \<in> set cs. replies c \<subseteq> {m. \<exists>n rs. m = SpLoaded n rs})"
    by (auto simp: st_mount_def st_load_def run_load_def Let_def)
next
  fix m s s' c and cs :: speed_cmds
  assume u: "st_update m s = (s', cs)" and c: "c \<in> set cs"
  obtain t c0 c1 where h: "st_handle m s = (t, c0)" "cs = c0 @ c1" "st_loads c1" by (rule st_update_split [OF u])
  from c consider "c \<in> set c0" | "c \<in> set c1" using h(2) by auto
  then show "replies c \<subseteq> (if is_single c then range SpStarted else {m. \<exists>n rs. m = SpLoaded n rs})"
  proof cases
    case 1
    then show ?thesis using h(1) by (cases m) (auto simp: st_start_def st_started_def)
  next
    case 2
    then show ?thesis using h(3) by (fastforce simp: st_loads_def)
  qed
next
  fix m s s' and cs :: speed_cmds
  assume m: "m \<in> range SpStarted" and u: "st_update m s = (s', cs)"
  obtain t c0 c1 where h: "st_handle m s = (t, c0)" "cs = c0 @ c1" "st_loads c1" "st_starting s' = st_starting t"
    by (rule st_update_split [OF u])
  then show "filter is_single cs = [] \<and> \<not> st_starting s'" using m st_loads_single [OF h(3)] by (auto simp: st_started_def)
next
  fix m s s' and cs :: speed_cmds
  assume m: "m \<in> {m. \<exists>n rs. m = SpLoaded n rs}" and u: "st_update m s = (s', cs)"
  obtain t c0 c1 where h: "st_handle m s = (t, c0)" "cs = c0 @ c1" "st_loads c1" "st_starting s' = st_starting t"
    by (rule st_update_split [OF u])
  then show "filter is_single cs = [] \<and> st_starting s' = st_starting s" using m st_loads_single [OF h(3)] by auto
next
  fix m s s' and cs :: speed_cmds
  assume m: "m \<in> msgs (SpeedTestCard e stream s) \<union> st_env" and u: "st_update m s = (s', cs)"
  obtain t c0 c1 where h: "st_handle m s = (t, c0)" "cs = c0 @ c1" "st_loads c1" "st_starting s' = st_starting t"
    by (rule st_update_split [OF u])
  show "if filter is_single cs = [] then st_starting s' = st_starting s
      else \<not> st_starting s \<and> st_starting s' \<and> length (filter is_single cs) = 1"
  proof (cases "m = SpStart")
    case True
    then have "\<not> st_starting s" using m SpStart_on_screen by (auto simp: st_env_def)
    then show ?thesis using h st_loads_single [OF h(3)] True by (auto simp: st_start_def)
  next
    case False
    then have "m \<in> {SpReload} \<union> size_msgs \<union> st_env" using m SpeedTestCard_screen by blast
    then have "c0 = []" "st_starting t = st_starting s"
      using h(1) by (auto simp: size_msgs_def st_env_def st_reload_def)
    then show ?thesis using h(2,4) st_loads_single [OF h(3)] by simp
  qed
qed simp

text \<open>A test is started with one of the three sizes.\<close>

definition st_checked :: "(speed_msg, unit) cmd \<Rightarrow> bool" where
  "st_checked c \<longleftrightarrow> (is_single c \<longrightarrow> (\<exists>i. \<exists>n \<in> {16, 64, 256}. c = Call (Repositories_speedTest i n) SpStarted))"

definition st_ok :: "speed_card \<Rightarrow> speed_cmds \<Rightarrow> bool" where
  "st_ok s p \<longleftrightarrow> st_size s \<in> {16, 64, 256} \<and> (\<forall>c \<in> set p. st_checked c)
     \<and> (\<forall>c \<in> set p. \<forall>m \<in> replies c. (\<exists>r. m = SpStarted r) \<or> (\<exists>n rs. m = SpLoaded n rs))"

lemma st_ok_step:
  assumes "st_ok s p" and "m \<in> {SpReload, SpStart} \<union> size_msgs \<union> st_env \<union> range SpStarted \<union> {m. \<exists>n rs. m = SpLoaded n rs}"
    and "st_update m s = (s', cs)"
  shows "st_ok s' (p @ awaiting cs)"
proof -
  obtain t c0 c1 where h: "st_handle m s = (t, c0)" "cs = c0 @ c1" "st_loads c1" "st_size s' = st_size t"
    by (rule st_update_split [OF assms(3)])
  have "st_size t \<in> {16, 64, 256}" using assms(1,2) h(1)
    by (auto simp: st_ok_def size_msgs_def st_env_def st_start_def st_started_def st_reload_def)
  moreover have "st_ok s c0" using assms(1) h(1)
    by (cases m) (auto simp: st_ok_def st_checked_def st_start_def st_started_def)
  moreover have "\<forall>c \<in> set c1. st_checked c" using h(3) by (fastforce simp: st_checked_def st_loads_def)
  moreover have "\<forall>c \<in> set c1. \<forall>m \<in> replies c. (\<exists>r. m = SpStarted r) \<or> (\<exists>n rs. m = SpLoaded n rs)"
    using st_loads_single [OF h(3)] by blast
  ultimately show ?thesis using assms(1) h(2,4) by (auto simp: st_ok_def awaiting_def)
qed

interpretation st_sizes: component st_update "SpeedTestCard e stream" st_env "st_mount i active version" st_ok
  for e stream i active version
proof unfold_locales
  fix s and cs :: speed_cmds
  assume "st_mount i active version = (s, cs)"
  then show "st_ok s (awaiting cs)" by (auto simp: st_mount_def st_load_def run_load_def st_ok_def st_checked_def Let_def)
next
  fix s p m s' and cs :: speed_cmds
  assume "st_ok s p" "m \<in> msgs (SpeedTestCard e stream s) \<union> st_env" "st_update m s = (s', cs)"
  then show "st_ok s' (p @ awaiting cs)"
    using SpeedTestCard_screen [of m e stream s] by (intro st_ok_step) auto
next
  fix s p c q m s' and cs :: speed_cmds
  assume a: "st_ok s (p @ c # q)" "m \<in> replies c" "st_update m s = (s', cs)"
  then have "m \<in> range SpStarted \<union> {m. \<exists>n rs. m = SpLoaded n rs}" by (auto simp: st_ok_def)
  moreover have "st_ok s (p @ q)" using a(1) by (auto simp: st_ok_def)
  ultimately have "st_ok s' ((p @ q) @ awaiting cs)" using a(3) by (intro st_ok_step) auto
  then show "st_ok s' (p @ q @ awaiting cs)" by simp
qed

section \<open>Properties\<close>

text \<open>
  C27. In every execution of the card at most one speed test is being started, with one of the three sizes, and the button
  starts one only for the repository on screen while no operation is using it; as long as results are being loaded, the
  request for that repository is in flight.
\<close>

theorem speed_test_requests:
  assumes "reach st_update (SpeedTestCard e stream) st_env (st_mount i active version) s p"
  shows "length (filter is_single p) \<le> 1
    \<and> (\<forall>c \<in> set p. is_single c \<longrightarrow> (\<exists>k. \<exists>n \<in> {16, 64, 256}. c = Call (Repositories_speedTest k n) SpStarted))
    \<and> (SpStart \<in> msgs (SpeedTestCard e stream s) \<longleftrightarrow> \<not> st_starting s \<and> (\<forall>r \<in> set (st_active s). run_repositoryId r \<noteq> st_repositoryId s))
    \<and> (SpStart \<in> msgs (SpeedTestCard e stream s) \<longrightarrow>
        Call (Repositories_speedTest (st_repositoryId s) (st_size s)) SpStarted \<in> set (snd (st_update SpStart s)))
    \<and> (fh_loading (st_fetch s) \<longrightarrow> CallAll (st_query s) (SpLoaded (fh_generation (st_fetch s))) \<in> set p)"
proof (intro conjI)
  show "length (filter is_single p) \<le> 1" by (rule st_flight.at_most_one [OF assms])
  have "st_ok s p" by (rule st_sizes.invariant [OF assms])
  then show "\<forall>c \<in> set p. is_single c \<longrightarrow> (\<exists>k. \<exists>n \<in> {16, 64, 256}. c = Call (Repositories_speedTest k n) SpStarted)"
    by (auto simp: st_ok_def st_checked_def)
  have "st_running s = None \<and> \<not> st_busyElsewhere s \<longleftrightarrow> (\<forall>r \<in> set (st_active s). run_repositoryId r \<noteq> st_repositoryId s)"
    by (auto simp: st_running_def st_busyElsewhere_def find_None_iff list_ex_iff)
  then show "SpStart \<in> msgs (SpeedTestCard e stream s) \<longleftrightarrow> \<not> st_starting s \<and> (\<forall>r \<in> set (st_active s). run_repositoryId r \<noteq> st_repositoryId s)"
    by (auto simp: SpStart_on_screen)
  obtain t c0 c1 where h: "st_handle SpStart s = (t, c0)" "snd (st_update SpStart s) = c0 @ c1"
    by (rule st_update_split [OF surjective_pairing])
  then show "SpStart \<in> msgs (SpeedTestCard e stream s) \<longrightarrow>
      Call (Repositories_speedTest (st_repositoryId s) (st_size s)) SpStarted \<in> set (snd (st_update SpStart s))"
    by (auto simp: st_start_def)
  show "fh_loading (st_fetch s) \<longrightarrow> CallAll (st_query s) (SpLoaded (fh_generation (st_fetch s))) \<in> set p"
    using st_page.loading_in_flight [OF assms [unfolded st_update_def st_env_def]] by blast
qed

theorem speed_test_requests_witness:
  "SpStart \<in> msgs (SpeedTestCard sample_env (\<lambda>r. run_stream_init False) (fst (st_mount ''p1'' [] 0)))"
  using speed_test_requests [OF reach_first [of st_update "SpeedTestCard sample_env (\<lambda>r. run_stream_init False)" st_env "st_mount ''p1'' [] 0"]]
  by (simp add: st_mount_def st_load_def run_load_def Let_def)

end
