(* ===== verification/RepoDialog.thy ===== *)
theory RepoDialog
  imports Loads Widgets GoChecks
begin

text \<open>
  \<open>RepositoryDialog\<close> of \<open>src/ui/src/routes/repositories.jsx\<close>, and what the server does with an edit
  (\<open>handleRepoUpdate\<close> with \<open>Repository.Validate\<close> and \<open>RepoStore.Update\<close>), so that a form that shows no secrets
  can be proved to keep them. Two equal repositories among the props count as the same object.
\<close>

section \<open>State and handlers\<close>

record repo_form =
  rf_name :: string
  rf_backendType :: string
  rf_localPath :: string
  rf_endpoint :: string
  rf_bucket :: string
  rf_region :: string
  rf_accessKey :: string
  rf_secretKey :: string
  rf_password :: string

definition EMPTY :: repo_form where
  "EMPTY = \<lparr>rf_name = '''', rf_backendType = ''Local'', rf_localPath = '''', rf_endpoint = '''', rf_bucket = '''', rf_region = '''',
     rf_accessKey = '''', rf_secretKey = '''', rf_password = ''''\<rparr>"

text \<open>\<open>{ ...EMPTY, ...repository, password: "", secretKey: "" }\<close>, whose other properties no one reads.\<close>

definition form_of :: "repository option \<Rightarrow> repo_form" where
  "form_of r = (case r of None \<Rightarrow> EMPTY
     | Some r \<Rightarrow> \<lparr>rf_name = repo_name r, rf_backendType = repo_backendType r, rf_localPath = repo_localPath r, rf_endpoint = repo_endpoint r,
         rf_bucket = repo_bucket r, rf_region = repo_region r, rf_accessKey = repo_accessKey r, rf_secretKey = '''', rf_password = ''''\<rparr>)"

record repo_dialog =
  rg_open :: bool
  rg_repository :: "repository option"
  rg_form :: repo_form
  rg_busy :: bool
  rg_error :: string

datatype rg_field = RfName | RfLocalPath | RfEndpoint | RfBucket | RfRegion | RfAccessKey | RfSecretKey | RfPassword

datatype rg_out = RgClose bool | RgDone

datatype rg_msg = RgProps bool "repository option" | RgSet rg_field string | RgBackend string | RgSubmit
  | RgSaved bool string response | RgDismiss bool

type_synonym rg_cmds = "(rg_msg, rg_out) cmd list"

definition rg_reset :: "repo_dialog \<Rightarrow> repo_dialog" where
  "rg_reset s = (if rg_open s then s\<lparr>rg_error := '''', rg_form := form_of (rg_repository s)\<rparr> else s)"

definition rg_props :: "bool \<Rightarrow> repository option \<Rightarrow> repo_dialog \<Rightarrow> repo_dialog" where
  "rg_props b r s = (let t = s\<lparr>rg_open := b, rg_repository := r\<rparr> in
     if b \<noteq> rg_open s \<or> r \<noteq> rg_repository s then rg_reset t else t)"

definition rg_mount :: "bool \<Rightarrow> repository option \<Rightarrow> repo_dialog \<times> rg_cmds" where
  "rg_mount b r = (rg_reset \<lparr>rg_open = b, rg_repository = r, rg_form = EMPTY, rg_busy = False, rg_error = ''''\<rparr>, [])"

primrec rg_set :: "rg_field \<Rightarrow> string \<Rightarrow> repo_form \<Rightarrow> repo_form" where
  "rg_set RfName v f = f\<lparr>rf_name := v\<rparr>"
| "rg_set RfLocalPath v f = f\<lparr>rf_localPath := v\<rparr>"
| "rg_set RfEndpoint v f = f\<lparr>rf_endpoint := v\<rparr>"
| "rg_set RfBucket v f = f\<lparr>rf_bucket := v\<rparr>"
| "rg_set RfRegion v f = f\<lparr>rf_region := v\<rparr>"
| "rg_set RfAccessKey v f = f\<lparr>rf_accessKey := v\<rparr>"
| "rg_set RfSecretKey v f = f\<lparr>rf_secretKey := v\<rparr>"
| "rg_set RfPassword v f = f\<lparr>rf_password := v\<rparr>"

definition rg_body :: "repo_form \<Rightarrow> json" where
  "rg_body f = JObj [(''name'', JStr (trim (rf_name f))), (''backendType'', JStr (rf_backendType f)),
     (''localPath'', JStr (trim (rf_localPath f))), (''endpoint'', JStr (trim (rf_endpoint f))), (''bucket'', JStr (trim (rf_bucket f))),
     (''region'', JStr (trim (rf_region f))), (''accessKey'', JStr (trim (rf_accessKey f))), (''secretKey'', JStr (rf_secretKey f)),
     (''password'', JStr (rf_password f))]"

definition rg_request :: "repository option \<Rightarrow> repo_form \<Rightarrow> request" where
  "rg_request r f = (case r of Some r \<Rightarrow> Repositories_update (repo_id r) (rg_body f) | None \<Rightarrow> Repositories_create (rg_body f))"

text \<open>The reply carries what the closure of its \<open>submit\<close> saw: whether it edits, and the name it sent.\<close>

definition rg_submit :: "repo_dialog \<Rightarrow> repo_dialog \<times> rg_cmds" where
  "rg_submit s = (s\<lparr>rg_busy := True\<rparr>,
     [Call (rg_request (rg_repository s) (rg_form s)) (RgSaved (rg_repository s \<noteq> None) (trim (rf_name (rg_form s))))])"

definition rg_saved :: "bool \<Rightarrow> string \<Rightarrow> response \<Rightarrow> repo_dialog \<Rightarrow> repo_dialog \<times> rg_cmds" where
  "rg_saved editing name res s0 = (let s = s0\<lparr>rg_busy := False\<rparr> in
     if res_ok res
     then (s, [Do (Toast (plain_toast Success (if editing then ''Repository updated.'' else ''Repository '' @ lquote @ name @ rquote @ '' added.''))),
        Out (RgClose False), Out RgDone])
     else (s\<lparr>rg_error := errorOf res ''Could not save the repository.''\<rparr>, []))"

primrec rg_update :: "(repo_dialog, rg_msg, rg_out) update" where
  "rg_update (RgProps b r) s = (rg_props b r s, [])"
| "rg_update (RgSet f v) s = (s\<lparr>rg_form := rg_set f v (rg_form s)\<rparr>, [])"
| "rg_update (RgBackend v) s = (s\<lparr>rg_form := (rg_form s)\<lparr>rf_backendType := v\<rparr>\<rparr>, [])"
| "rg_update RgSubmit s = rg_submit s"
| "rg_update (RgSaved editing name res) s = rg_saved editing name res s"
| "rg_update (RgDismiss b) s = (s, [Out (RgClose b)])"

section \<open>What it renders\<close>

definition rg_input :: "string \<Rightarrow> string \<Rightarrow> rg_field \<Rightarrow> string \<Rightarrow> string \<Rightarrow> rg_msg ui" where
  "rg_input i value f kind placeholder = Node ''Input'' (shown (kind \<noteq> '''') [At ''type'' kind] @
     [At ''id'' i, At ''value'' value, OnText ''change'' (RgSet f), At ''placeholder'' placeholder]) []"

definition rg_location :: "repo_dialog \<Rightarrow> rg_msg ui" where
  "rg_location s = (let f = rg_form s in
     if rf_backendType f = ''S3'' then Node ''div'' []
       [Field ''Endpoint'' ''repo-endpoint'' '''' [rg_input ''repo-endpoint'' (rf_endpoint f) RfEndpoint '''' ''https://s3.amazonaws.com''],
        Field ''Bucket'' ''repo-bucket'' '''' [rg_input ''repo-bucket'' (rf_bucket f) RfBucket '''' ''''],
        Field ''Region (optional)'' ''repo-region'' '''' [rg_input ''repo-region'' (rf_region f) RfRegion '''' ''''],
        Field ''Access key'' ''repo-access'' '''' [rg_input ''repo-access'' (rf_accessKey f) RfAccessKey '''' ''''],
        Field ''Secret key'' ''repo-secret'' '''' [rg_input ''repo-secret'' (rf_secretKey f) RfSecretKey ''password''
          (if (case rg_repository s of None \<Rightarrow> False | Some r \<Rightarrow> repo_hasSecretKey r) then ''leave blank to keep the stored key'' else '''')]]
     else Field ''Repository directory'' ''repo-path'' ''Created and initialized automatically on the first backup.''
       [rg_input ''repo-path'' (rf_localPath f) RfLocalPath '''' ''/home/you/restic-repo''])"

definition rg_fields :: "repo_dialog \<Rightarrow> rg_msg ui list" where
  "rg_fields s = (let f = rg_form s in
     [Field ''Name'' ''repo-name'' '''' [rg_input ''repo-name'' (rf_name f) RfName '''' ''Offsite S3''],
      Field ''Backend'' '''' '''' [Segmented [(''Local'', ''Local directory'', Some ''HardDrive''), (''S3'', ''S3-compatible'', Some ''Cloud'')]
        (rf_backendType f) RgBackend (Some ''cyan'') ''Backend''],
      rg_location s,
      Field ''Repository password'' ''repo-password''
        (''This encrypts everything in the repository. Without it the backups cannot be read '' @ em_dash @ '' not by this app, and '' @
         ''not by anyone else.'')
        [rg_input ''repo-password'' (rf_password f) RfPassword ''password''
          (if (case rg_repository s of None \<Rightarrow> False | Some r \<Rightarrow> repo_hasPassword r) then ''leave blank to keep the stored password''
           else ''encrypts your backups '' @ em_dash @ '' do not lose it'')]] @ InlineError (rg_error s))"

definition rg_ready :: "repo_dialog \<Rightarrow> bool" where
  "rg_ready s \<longleftrightarrow> \<not> rg_busy s \<and> trim (rf_name (rg_form s)) \<noteq> ''''"

definition RepositoryDialog :: "repo_dialog \<Rightarrow> rg_msg ui" where
  "RepositoryDialog s = (let editing = (rg_repository s \<noteq> None) in
     Dialog (rg_open s) RgDismiss [Node ''form'' [On ''submit'' RgSubmit]
     [Node ''DialogHeader'' []
        [Node ''DialogTitle'' [] [Txt (if editing then ''Edit repository'' else ''Add a repository'')],
         Node ''DialogDescription'' [] [Txt (''Where restic keeps your encrypted backups. A local directory needs no credentials and '' @
           ''is the quickest way to try this out.'')]],
      Node ''div'' [] (rg_fields s),
      Node ''DialogFooter'' []
        [Node ''Button'' [At ''type'' ''button'', On ''click'' (RgDismiss False)] [Txt ''Cancel''],
         Node ''Button'' [At ''type'' ''submit'', Flag ''disabled'' (\<not> rg_ready s)]
           [Txt (if rg_busy s then ''Saving'' @ ellipsis else if editing then ''Save changes'' else ''Add repository'')]]]])"

section \<open>The server's side of an edit\<close>

text \<open>A repository as the server stores it, secrets included; the settings with setters of their own are kept by an update.\<close>

record go_repository =
  gr_id :: string
  gr_form :: repo_form
  gr_checkSchedule :: "check_schedule option"
  gr_uploadLimitKiB :: int
  gr_downloadLimitKiB :: int

text \<open>\<open>repoViewOf\<close>, as the browser gets it.\<close>

definition go_repoViewOf :: "go_repository \<Rightarrow> repository" where
  "go_repoViewOf g = (let f = gr_form g in
     \<lparr>repo_id = gr_id g, repo_name = rf_name f, repo_backendType = rf_backendType f, repo_localPath = rf_localPath f,
      repo_endpoint = rf_endpoint f, repo_bucket = rf_bucket f, repo_region = rf_region f, repo_accessKey = rf_accessKey f,
      repo_hasSecretKey = (trim (rf_secretKey f) \<noteq> ''''), repo_hasPassword = (trim (rf_password f) \<noteq> ''''),
      repo_checkSchedule = gr_checkSchedule g, repo_lastCheck = None, repo_nextCheckAt = '''',
      repo_uploadLimitKiB = gr_uploadLimitKiB g, repo_downloadLimitKiB = gr_downloadLimitKiB g, repo_lastSpeedTest = None\<rparr>)"

definition go_decode_repo :: "json \<Rightarrow> repo_form option" where
  "go_decode_repo j = do {
     n \<leftarrow> go_field '''' go_string j ''name''; b \<leftarrow> go_field '''' go_string j ''backendType'';
     l \<leftarrow> go_field '''' go_string j ''localPath''; e \<leftarrow> go_field '''' go_string j ''endpoint'';
     k \<leftarrow> go_field '''' go_string j ''bucket''; r \<leftarrow> go_field '''' go_string j ''region'';
     a \<leftarrow> go_field '''' go_string j ''accessKey''; s \<leftarrow> go_field '''' go_string j ''secretKey'';
     p \<leftarrow> go_field '''' go_string j ''password'';
     Some \<lparr>rf_name = n, rf_backendType = b, rf_localPath = l, rf_endpoint = e, rf_bucket = k, rf_region = r, rf_accessKey = a,
       rf_secretKey = s, rf_password = p\<rparr> }"

text \<open>\<open>Repository.Repo\<close>: the address restic is given.\<close>

definition go_repo_address :: "repo_form \<Rightarrow> string + string" where
  "go_repo_address f =
     (if rf_backendType f = ''S3'' then
        (let ep = trim (rf_endpoint f); bucket = trim (rf_bucket f) in
         if ep = '''' \<or> bucket = '''' then Inl ''S3 endpoint and bucket are both required''
         else Inr (''s3:'' @ (if ends_with ''/'' ep then butlast ep else ep) @ ''/'' @ bucket))
      else if rf_backendType f = ''Local'' then
        (if trim (rf_localPath f) = '''' then Inl ''a local repository directory path is required'' else Inr (trim (rf_localPath f)))
      else Inl ''backend type must be \"S3\" or \"Local\"'')"

definition go_repo_validate :: "repo_form \<Rightarrow> string + repo_form" where
  "go_repo_validate f =
     (if trim (rf_name f) = '''' then Inl ''a repository name is required''
      else if rf_backendType f \<noteq> ''S3'' \<and> rf_backendType f \<noteq> ''Local'' then Inl ''backend type must be \"S3\" or \"Local\"''
      else if trim (rf_password f) = '''' then Inl ''a repository password is required''
      else case go_repo_address f of Inl err \<Rightarrow> Inl err | Inr a \<Rightarrow> Inr f)"

text \<open>\<open>handleRepoUpdate\<close>: blank secrets are the stored ones. The store trims the name, which another repository must not have.\<close>

definition go_merge_secrets :: "repo_form \<Rightarrow> repo_form \<Rightarrow> repo_form" where
  "go_merge_secrets stored f =
     f\<lparr>rf_password := (if trim (rf_password f) = '''' then rf_password stored else rf_password f),
       rf_secretKey := (if trim (rf_secretKey f) = '''' then rf_secretKey stored else rf_secretKey f)\<rparr>"

definition go_handleRepoUpdate :: "string set \<Rightarrow> go_repository \<Rightarrow> json \<Rightarrow> string + go_repository" where
  "go_handleRepoUpdate taken stored j = (case go_decode_repo j of None \<Rightarrow> Inl ''Could not read request''
     | Some f \<Rightarrow> (case go_repo_validate (go_merge_secrets (gr_form stored) f) of Inl err \<Rightarrow> Inl err
         | Inr g \<Rightarrow> if to_lower (trim (rf_name g)) \<in> taken then Inl (''a repository named \"'' @ trim (rf_name g) @ ''\" already exists'')
             else Inr (stored\<lparr>gr_form := g\<lparr>rf_name := trim (rf_name g)\<rparr>\<rparr>)))"

section \<open>What it sends\<close>

lemma rg_input_simps [simp]: "msgs (rg_input i v f k p) = range (RgSet f)" "\<not> can_submit (rg_input i v f k p) \<or> k = ''submit''"
  by (auto simp: rg_input_def)

lemma rg_fields_simps [simp]: "msgs_of (rg_fields s) \<subseteq> {m. \<exists>f v. m = RgSet f v} \<union> range RgBackend" "\<not> submits (rg_fields s)"
  by (auto simp: rg_fields_def rg_location_def Segmented_msgs rg_input_def Let_def split: if_splits)

lemma RepositoryDialog_act:
  assumes "m \<in> msgs (RepositoryDialog s)"
  shows "m = RgSubmit \<and> rg_open s \<and> rg_ready s \<or> (\<exists>f v. m = RgSet f v) \<or> m \<in> range RgBackend \<union> range RgDismiss"
  using assms by (auto simp: RepositoryDialog_def Let_def split: if_splits dest!: subsetD [OF rg_fields_simps(1)])

lemma RepositoryDialog_submit: "rg_open s \<Longrightarrow> rg_ready s \<Longrightarrow> RgSubmit \<in> msgs (RepositoryDialog s)"
  by (simp add: RepositoryDialog_def Let_def)

lemmas rg_defs [handlers] = rg_submit_def rg_saved_def

definition rg_env :: "rg_msg set" where
  "rg_env = {m. \<exists>b r. m = RgProps b r}"

lemma rg_keeps [simp]: "rg_busy (rg_reset s) = rg_busy s" "rg_busy (rg_props b r s) = rg_busy s"
  by (simp_all add: rg_reset_def rg_props_def Let_def)

definition rg_replies :: "rg_msg set" where
  "rg_replies = {m. \<exists>b n res. m = RgSaved b n res}"

interpretation rg_flight: single_flight rg_update RepositoryDialog rg_env "rg_mount b r" is_single rg_busy rg_replies "{}"
  for b r
proof unfold_locales
  fix m s s' and cs :: rg_cmds
  assume "m \<in> msgs (RepositoryDialog s) \<union> rg_env" "rg_update m s = (s', cs)"
  then show "if filter is_single cs = [] then rg_busy s' = rg_busy s
      else \<not> rg_busy s \<and> rg_busy s' \<and> length (filter is_single cs) = 1"
    by (auto simp: handlers rg_env_def rg_ready_def dest!: RepositoryDialog_act)
next
  fix m s s' c and cs :: rg_cmds
  assume "rg_update m s = (s', cs)" "c \<in> set cs"
  then show "replies c \<subseteq> (if is_single c then rg_replies else {})"
    by (cases m) (auto simp: handlers rg_replies_def Let_def split: if_splits)
next
  fix m s s' and cs :: rg_cmds
  assume "m \<in> rg_replies" "rg_update m s = (s', cs)"
  then show "filter is_single cs = [] \<and> \<not> rg_busy s'" by (auto simp: handlers rg_replies_def Let_def split: if_splits)
qed (auto simp: rg_mount_def)

definition rg_checked :: "(rg_msg, rg_out) cmd \<Rightarrow> bool" where
  "rg_checked c \<longleftrightarrow> (\<exists>r f. c = Call (rg_request r f) (RgSaved (r \<noteq> None) (trim (rf_name f))) \<and> trim (rf_name f) \<noteq> '''')"

lemma rg_checked_submit: "rg_ready s \<Longrightarrow>
    rg_checked (Call (rg_request (rg_repository s) (rg_form s)) (RgSaved (rg_repository s \<noteq> None) (trim (rf_name (rg_form s)))))"
  unfolding rg_checked_def rg_ready_def by blast

interpretation rg_sends: component rg_update RepositoryDialog rg_env "rg_mount b r" "\<lambda>s p. \<forall>c \<in> set p. rg_checked c"
  for b r
proof unfold_locales
  fix s p m s' and cs :: rg_cmds
  assume "\<forall>c \<in> set p. rg_checked c" "m \<in> msgs (RepositoryDialog s) \<union> rg_env" "rg_update m s = (s', cs)"
  then show "\<forall>c \<in> set (p @ awaiting cs). rg_checked c"
    using rg_checked_submit [of s] by (auto simp: handlers rg_env_def dest!: RepositoryDialog_act)
next
  fix s p c q m s' and cs :: rg_cmds
  assume "\<forall>c \<in> set (p @ c # q). rg_checked c" "m \<in> replies c" "rg_update m s = (s', cs)"
  then show "\<forall>c \<in> set (p @ q @ awaiting cs). rg_checked c"
    by (auto simp: handlers rg_checked_def Let_def split: if_splits)
qed (auto simp: rg_mount_def)

section \<open>Properties\<close>

text \<open>
  The repository dialog never has two saves in flight, and never saves without a name; a save goes to the repository that
  was being edited, or creates one when none was.
\<close>

theorem repository_dialog_requests:
  assumes "reach rg_update RepositoryDialog rg_env (rg_mount b r) s p"
  shows "length (filter is_single p) = (if rg_busy s then 1 else 0)
    \<and> (\<forall>c \<in> set p. \<exists>r f. c = Call (rg_request r f) (RgSaved (r \<noteq> None) (trim (rf_name f))) \<and> trim (rf_name f) \<noteq> '''')
    \<and> (RgSubmit \<in> msgs (RepositoryDialog s) \<longrightarrow> (\<exists>k. snd (rg_update RgSubmit s) = [Call (rg_request (rg_repository s) (rg_form s)) k]))"
  using rg_flight.in_flight [OF assms] rg_sends.invariant [OF assms] by (auto simp: rg_checked_def handlers)

theorem repository_dialog_requests_witness:
  "\<exists>s p. reach rg_update RepositoryDialog rg_env (rg_mount True (Some sample_repository)) s p \<and> length (filter is_single p) = 1"
proof -
  let ?start = "rg_mount True (Some sample_repository)"
  let ?R = "reach rg_update RepositoryDialog rg_env ?start"
  have first: "?R (fst ?start) []" using reach_first [of rg_update RepositoryDialog rg_env ?start] by (simp add: rg_mount_def)
  have "rg_ready (fst ?start)" "rg_open (fst ?start)"
    by (simp_all add: rg_mount_def rg_reset_def rg_ready_def form_of_def sample_repository_def trim_def is_space_def)
  then have R: "?R (fst (rg_submit (fst ?start))) ([] @ awaiting (snd (rg_submit (fst ?start))))"
    by (intro reach.act [OF first, where m = RgSubmit]) (simp_all add: RepositoryDialog_submit)
  have "rg_busy (fst (rg_submit (fst ?start)))" by (simp add: rg_submit_def)
  then show ?thesis using repository_dialog_requests [OF R] R by auto
qed

text \<open>A form arrives at the server as it was sent.\<close>

definition trimmed :: "repo_form \<Rightarrow> repo_form" where
  "trimmed f = f\<lparr>rf_name := trim (rf_name f), rf_localPath := trim (rf_localPath f), rf_endpoint := trim (rf_endpoint f),
     rf_bucket := trim (rf_bucket f), rf_region := trim (rf_region f), rf_accessKey := trim (rf_accessKey f)\<rparr>"

lemma go_decode_rg_body: "go_decode_repo (rg_body f) = Some (trimmed f)"
  by (cases f) (simp add: go_decode_repo_def rg_body_def trimmed_def go_field_def go_string_def json_prop_def)

lemma go_repo_validate_same: "go_repo_validate h = Inr k \<Longrightarrow> k = h"
  by (auto simp: go_repo_validate_def split: if_splits sum.splits)


definition stored_repository :: go_repository where
  "stored_repository = \<lparr>gr_id = ''p1'', gr_form = EMPTY\<lparr>rf_name := ''Main'', rf_localPath := ''/backup'', rf_password := ''secret''\<rparr>,
     gr_checkSchedule = None, gr_uploadLimitKiB = 100, gr_downloadLimitKiB = 0\<rparr>"


end
