(* ===== verification/RepositoriesPage.thy ===== *)
theory RepositoriesPage
  imports Loads RepoDialog SpeedTest RepoSettings Overview
begin

text \<open>
  The list of repositories, \<open>src/ui/src/routes/repositories.jsx\<close>: how the jobs use each repository, the
  cards, and the page with its load, pages, deletion and the dialog as a component inside.
\<close>

section \<open>Usage\<close>

definition backendLabel :: "repository \<Rightarrow> string" where
  "backendLabel r = (if repo_backendType r = ''S3'' then ''S3-compatible'' else ''Local directory'')"

record usage =
  us_jobs :: nat
  us_latest :: "run option"

definition no_usage :: usage where
  "no_usage = \<lparr>us_jobs = 0, us_latest = None\<rparr>"

definition newer_run :: "env \<Rightarrow> run option \<Rightarrow> run option \<Rightarrow> run option" where
  "newer_run e r best = (case r of None \<Rightarrow> best
     | Some x \<Rightarrow> (case best of None \<Rightarrow> Some x
         | Some y \<Rightarrow> if time_of e (run_startedAt y) < time_of e (run_startedAt x) then Some x else best))"

definition count_job :: "env \<Rightarrow> job \<Rightarrow> usage \<Rightarrow> usage" where
  "count_job e j u = \<lparr>us_jobs = Suc (us_jobs u), us_latest = newer_run e (job_lastRun j) (us_latest u)\<rparr>"

definition add_usage :: "env \<Rightarrow> job \<Rightarrow> (string \<rightharpoonup> usage) \<Rightarrow> (string \<rightharpoonup> usage)" where
  "add_usage e j m = m(job_repositoryId j \<mapsto> count_job e j (case m (job_repositoryId j) of None \<Rightarrow> no_usage | Some u \<Rightarrow> u))"

definition usageByRepository :: "env \<Rightarrow> job list \<Rightarrow> (string \<rightharpoonup> usage)" where
  "usageByRepository e jobs = fold (add_usage e) jobs Map.empty"

section \<open>State and handlers\<close>

record repos_data =
  rd_repositories :: "repository list"
  rd_usage :: "(string \<rightharpoonup> usage) option"

record repos_page =
  rs_page :: int
  rs_dialogOpen :: bool
  rs_dialogRepository :: "repository option"
  rs_fetch :: "(repos_data, string) fetch_hook"
  rs_form :: repo_dialog

datatype rp_msg = RpOpen | RpEdit repository | RpDelete repository | RpConfirmed repository bool
  | RpRemoved repository response | RpPage int | RpReload | RpLoaded nat "response list" | RpForm rg_msg

type_synonym rp_cmds = "(rp_msg, unit) cmd list"

definition rp_repos :: "repos_page \<Rightarrow> repository list" where
  "rp_repos s = (case fh_data (rs_fetch s) of None \<Rightarrow> [] | Some d \<Rightarrow> rd_repositories d)"

definition rp_paged :: "repos_page \<Rightarrow> repository page_slice" where
  "rp_paged s = pageSlice (Some (rp_repos s)) (rs_page s) PAGE_SIZE"

definition rp_query :: "repos_page \<Rightarrow> request list" where
  "rp_query s = [Repositories_list, Jobs_list]"

definition rp_result :: "env \<Rightarrow> response list \<Rightarrow> string + repos_data" where
  "rp_result e rs =
     (if \<not> res_ok (rs ! 0) then Inl (errorOf (rs ! 0) ''Could not load the repositories.'')
      else Inr \<lparr>rd_repositories = or_empty (b_repositories (body_of (rs ! 0))),
        rd_usage = (if res_ok (rs ! 1) then Some (usageByRepository e (or_empty (b_jobs (body_of (rs ! 1))))) else None)\<rparr>)"

definition rp_load :: "repos_page \<Rightarrow> repos_page \<times> rp_cmds" where
  "rp_load s = run_load rs_fetch (\<lambda>h s. s\<lparr>rs_fetch := h\<rparr>) rp_query RpLoaded s"

definition rp_reload :: "repos_page \<Rightarrow> repos_page" where
  "rp_reload s = s\<lparr>rs_fetch := fetch_bump (rs_fetch s)\<rparr>"

definition rp_key :: "repos_page \<Rightarrow> nat" where
  "rp_key s = fh_nonce (rs_fetch s)"

definition rp_clamp :: "repos_page \<Rightarrow> repos_page \<Rightarrow> repos_page \<Rightarrow> repos_page" where
  "rp_clamp before s t =
     (if rs_page s \<noteq> pg_page (rp_paged s) \<and> (rs_page s \<noteq> rs_page before \<or> pg_page (rp_paged s) \<noteq> pg_page (rp_paged before))
      then t\<lparr>rs_page := pg_page (rp_paged s)\<rparr> else t)"

definition rp_effects :: "(repos_page, rp_msg, unit) effects" where
  "rp_effects before s =
     (let s0 = s\<lparr>rs_form := rg_props (rs_dialogOpen s) (rs_dialogRepository s) (rs_form s)\<rparr>;
          (s1, cs) = (if rp_key s = rp_key before then (s0, []) else rp_load s0)
      in (rp_clamp before s s1, cs))"

definition rp_question :: "repository \<Rightarrow> confirm_opts" where
  "rp_question r = confirm_defaults\<lparr>co_title := ''Delete '' @ lquote @ repo_name r @ rquote @ ''?'',
     co_description := ''This removes the repository from the app. The backup data on disk or in the bucket is left untouched.'',
     co_confirmLabel := ''Delete repository'', co_destructive := True\<rparr>"

definition rp_remove :: "repository \<Rightarrow> repos_page \<Rightarrow> repos_page \<times> rp_cmds" where
  "rp_remove r s = (s, [Ask (rp_question r) (RpConfirmed r)])"

definition rp_removed :: "repository \<Rightarrow> response \<Rightarrow> repos_page \<Rightarrow> repos_page \<times> rp_cmds" where
  "rp_removed r res s =
     (if res_ok res
      then (rp_reload s, [Do (Toast (plain_toast Success (''Repository '' @ lquote @ repo_name r @ rquote @ '' deleted.'')))])
      else (s, [Do (Toast \<lparr>to_kind = Failure, to_title = ''Could not delete the repository'',
        to_description = errorOf res errorOf_default, to_action = None, to_duration = Some 8000\<rparr>)]))"

fun rp_outs :: "rg_out list \<Rightarrow> repos_page \<Rightarrow> repos_page" where
  "rp_outs [] s = s"
| "rp_outs (RgClose b # os) s = rp_outs os (s\<lparr>rs_dialogOpen := b\<rparr>)"
| "rp_outs (RgDone # os) s = rp_outs os (rp_reload s)"

definition rp_form :: "rg_msg \<Rightarrow> repos_page \<Rightarrow> repos_page \<times> rp_cmds" where
  "rp_form m s = (let (f, cs) = rg_update m (rs_form s) in (rp_outs (outs cs) (s\<lparr>rs_form := f\<rparr>), lift_cmds RpForm cs))"

primrec rp_handle :: "env \<Rightarrow> (repos_page, rp_msg, unit) update" where
  "rp_handle e RpOpen s = (s\<lparr>rs_dialogOpen := True, rs_dialogRepository := None\<rparr>, [])"
| "rp_handle e (RpEdit r) s = (s\<lparr>rs_dialogOpen := True, rs_dialogRepository := Some r\<rparr>, [])"
| "rp_handle e (RpDelete r) s = rp_remove r s"
| "rp_handle e (RpConfirmed r yes) s = (s, shown yes [Call (Repositories_remove (repo_id r)) (RpRemoved r)])"
| "rp_handle e (RpRemoved r res) s = rp_removed r res s"
| "rp_handle e (RpPage p) s = (s\<lparr>rs_page := p\<rparr>, [])"
| "rp_handle e RpReload s = (rp_reload s, [])"
| "rp_handle e (RpLoaded n rs) s = (s\<lparr>rs_fetch := fetch_settle n (rp_result e rs) (rs_fetch s)\<rparr>, [])"
| "rp_handle e (RpForm m) s = rp_form m s"

definition rp_update :: "env \<Rightarrow> (repos_page, rp_msg, unit) update" where
  "rp_update e = page_update (rp_handle e) rp_effects"

text \<open>\<open>create\<close> tells whether the location came with \<open>state.create\<close>.\<close>

definition rp_mount :: "bool \<Rightarrow> repos_page \<times> rp_cmds" where
  "rp_mount create =
     (let (s, cs) = rp_load \<lparr>rs_page = 1, rs_dialogOpen = create, rs_dialogRepository = None, rs_fetch = fetch_init None,
        rs_form = fst (rg_mount create None)\<rparr>
      in (s, cs @ [Do (SetTitle (''Repositories '' @ middot @ '' restic backup manager''))]))"

section \<open>What it renders\<close>

definition rc_fact :: "string \<Rightarrow> rp_msg ui list \<Rightarrow> rp_msg ui" where
  "rc_fact label value = Node ''div'' [] [Node ''dt'' [] [Txt label], Node ''dd'' [] value]"

definition muted :: "string \<Rightarrow> 'm ui" where
  "muted s = Node ''span'' [At ''class'' ''text-muted-foreground''] [Txt s]"

definition rc_latest :: "env \<Rightarrow> run option \<Rightarrow> rp_msg ui" where
  "rc_latest e r = (case r of None \<Rightarrow> muted ''Never''
     | Some x \<Rightarrow> Node ''span'' [At ''tooltip'' (statusLabel (run_status x) @ '' '' @ middot @ '' '' @ fmtTime e (run_startedAt x))]
         [StatusDot (run_status x), Node ''span'' [] [Txt (fmtRelative e (run_startedAt x))]])"

definition rc_speed :: "env \<Rightarrow> repository \<Rightarrow> rp_msg ui list" where
  "rc_speed e r = (case repo_lastSpeedTest r of None \<Rightarrow> [muted ''Not tested'']
     | Some t \<Rightarrow> [Node ''span'' [At ''tooltip'' (''Up '' @ fmtSpeed (sp_uploadBytesPerSec t) @ '' '' @ middot @ '' down '' @
           fmtSpeed (sp_downloadBytesPerSec t) @ '' '' @ middot @ '' tested '' @ fmtRelative e (spr_testedAt t))]
         (SpeedScore (Some t) False)])"

definition check_on :: "repository \<Rightarrow> bool" where
  "check_on r = (case repo_checkSchedule r of None \<Rightarrow> False | Some c \<Rightarrow> cks_enabled c)"

definition rc_check :: "env \<Rightarrow> repository \<Rightarrow> rp_msg ui" where
  "rc_check e r = (case repo_lastCheck r of
       None \<Rightarrow> muted (if check_on r then ''Scheduled'' else ''Never'')
     | Some c \<Rightarrow> Node ''span'' ([At ''tooltip'' (checkOutcome (Some c) @ (if check_on r then '' '' @ middot @ '' '' @ describeCheck (repo_checkSchedule r)
           else '' '' @ middot @ '' not scheduled''))] @ shown (lc_status c = ''failed'') [At ''class'' ''text-destructive''])
         [StatusDot (lc_status c), Node ''span'' [] [Txt (fmtRelative e (str_or (lc_finishedAt c) (lc_startedAt c)))]])"

definition RepositoryCard :: "env \<Rightarrow> repository \<Rightarrow> usage option \<Rightarrow> rp_msg ui" where
  "RepositoryCard e r u = Node ''Card'' []
     [Node ''div'' [] [IconTile (Some (repositoryIcon (Some r))) ''cyan'' ''md'',
        Node ''div'' [] [Node ''Link'' [At ''to'' (''/repositories/'' @ repo_id r)] [Txt (repo_name r)],
          Node ''p'' [] [Txt (str_or (repoLocation (Some r)) em_dash)]]],
      Node ''dl'' []
        [rc_fact ''Backend'' [Txt (backendLabel r)],
         rc_fact ''Jobs'' [Txt (case u of None \<Rightarrow> em_dash | Some x \<Rightarrow> show_nat (us_jobs x))],
         rc_fact ''Latest run'' [rc_latest e (Option.bind u us_latest)],
         rc_fact ''Speed'' (rc_speed e r),
         rc_fact ''Check'' [rc_check e r]],
      Node ''div'' []
        [Node ''Button'' [] [Node ''Link'' [At ''to'' (''/repositories/'' @ repo_id r)] [Txt ''Snapshots and maintenance'', Icon ''ArrowRight'']],
         Node ''Button'' [On ''click'' (RpEdit r), At ''aria-label'' (''Edit '' @ repo_name r), At ''tooltip'' ''Edit''] [Icon ''Pencil''],
         Node ''Button'' [On ''click'' (RpDelete r), At ''aria-label'' (''Delete '' @ repo_name r), At ''tooltip'' ''Delete''] [Icon ''Trash2'']]]"

definition rp_usage :: "repos_page \<Rightarrow> repository \<Rightarrow> usage option" where
  "rp_usage s r = (case Option.bind (fh_data (rs_fetch s)) rd_usage of None \<Rightarrow> None
     | Some m \<Rightarrow> Some (case m (repo_id r) of None \<Rightarrow> no_usage | Some u \<Rightarrow> u))"

definition rp_add :: "string \<Rightarrow> rp_msg ui" where
  "rp_add label = Node ''Button'' [On ''click'' RpOpen] [Icon ''Plus'', Txt label]"

definition rp_content :: "env \<Rightarrow> repos_page \<Rightarrow> rp_msg ui" where
  "rp_content e s =
     (case (fh_error (rs_fetch s), fh_data (rs_fetch s)) of
        (Some err, None) \<Rightarrow> ErrorState (Some ''Could not load the repositories'')
          (err @ '' Check that the server is running, then retry.'') (Some RpReload)
      | _ \<Rightarrow>
        if fh_loading (rs_fetch s) \<and> fh_data (rs_fetch s) = None then Node ''div'' [] (replicate 2 (Node ''Skeleton'' [] []))
        else if rp_repos s = [] then EmptyState (Some ''Vault'') ''cyan'' ''No repositories yet''
          ''Add one to give your backups somewhere to live. A local directory works with no credentials.'' [rp_add ''Add a repository''] True
        else Node ''div'' []
          ([Node ''div'' [] (map (\<lambda>r. RepositoryCard e r (rp_usage s r)) (pg_items (rp_paged s)))] @
           ListPagination (pg_page (rp_paged s)) PAGE_SIZE (pg_total (rp_paged s)) RpPage))"

definition RepositoriesRoute :: "env \<Rightarrow> repos_page \<Rightarrow> rp_msg ui" where
  "RepositoriesRoute e s = Page
     [PageHeader [Txt ''Storage repositories''] [Txt (''Where restic stores encrypted backups. A local directory is the quickest way to '' @
         ''try this out '' @ em_dash @ '' no credentials needed.'')] (shown (rp_repos s \<noteq> []) [rp_add ''Add repository'']) [] [],
      rp_content e s,
      map_ui RpForm (RepositoryDialog (rs_form s))]"

section \<open>Loading\<close>

lemma rp_loaded_eq [simp]: "RpLoaded n = RpLoaded n' \<longleftrightarrow> n = n'"
  by (auto simp: fun_eq_iff)

lemma rp_clamp_fields [simp]: "rs_fetch (rp_clamp b s t) = rs_fetch t" "rs_form (rp_clamp b s t) = rs_form t"
    "rs_dialogOpen (rp_clamp b s t) = rs_dialogOpen t" "rs_dialogRepository (rp_clamp b s t) = rs_dialogRepository t"
  by (simp_all add: rp_clamp_def)

lemma rp_effects_eq:
  assumes "rp_effects b s = (s', cs)"
  shows "rs_fetch s' = (if False then fetch_bump else id) (if rp_key s = rp_key b then rs_fetch s else fetch_effect (rs_fetch s))"
    and "cs = (if rp_key s = rp_key b then [] else [CallAll (rp_query s) (RpLoaded (Suc (fh_generation (rs_fetch s))))]) @ []"
    and "rs_dialogOpen s' = rs_dialogOpen s" "rs_dialogRepository s' = rs_dialogRepository s"
    and "rs_form s' = rg_props (rs_dialogOpen s) (rs_dialogRepository s) (rs_form s)"
  using assms by (auto simp: rp_effects_def rp_load_def run_load_def rp_query_def Let_def split: if_splits)

lemma rp_form_cases:
  assumes "rp_form m s = (t, cs)"
  shows "rs_fetch t = rs_fetch s \<or> rs_fetch t = fetch_bump (rs_fetch s)"
    and "no_load RpLoaded cs"
  using assms by (cases m; auto simp: rp_form_def handlers rp_reload_def Let_def no_load_def split: if_splits)+

interpretation rp_page: fetch_page "rp_handle e" rp_effects "RepositoriesRoute e" "{}" "rp_mount create" rs_fetch rp_key rp_query RpLoaded
  for e create
proof unfold_locales
  fix s and cs :: rp_cmds
  assume "rp_mount create = (s, cs)"
  then show "fetch_wf (rs_fetch s) \<and> fresh_loads RpLoaded 0 (fh_generation (rs_fetch s)) (rp_query s) cs"
    by (intro usual_mount [where loaded = RpLoaded and ds = "[Do (SetTitle (''Repositories '' @ middot @ '' restic backup manager''))]"])
      (auto simp: rp_mount_def rp_load_def run_load_def rp_query_def Let_def)
next
  fix s m t and cs :: rp_cmds
  assume "fetch_wf (rs_fetch s)" and h: "rp_handle e m s = (t, cs)"
  then show "fetch_wf (rs_fetch t) \<and> fh_generation (rs_fetch t) = fh_generation (rs_fetch s)
      \<and> (\<forall>n qs. CallAll qs (RpLoaded n) \<notin> set cs)
      \<and> (fh_loading (rs_fetch t) \<longrightarrow> fh_loading (rs_fetch s) \<and> (\<forall>rs. m \<noteq> RpLoaded (fh_generation (rs_fetch s)) rs))"
  proof (cases "\<exists>x. m = RpForm x")
    case True
    then show ?thesis using h \<open>fetch_wf (rs_fetch s)\<close> rp_form_cases [of _ s t cs] by (intro usual_handle [where loaded = RpLoaded]) auto
  next
    case False
    then show ?thesis using h \<open>fetch_wf (rs_fetch s)\<close>
      by (intro usual_handle [where loaded = RpLoaded])
        (cases m; auto simp: rp_remove_def rp_removed_def rp_reload_def shown_def split: if_splits)+
  qed
next
  fix s b s' and cs :: rp_cmds
  assume "fetch_wf (rs_fetch s)" and e: "rp_effects b s = (s', cs)"
  then show "fetch_wf (rs_fetch s') \<and> (if rp_key s = rp_key b
     then fh_generation (rs_fetch s') = fh_generation (rs_fetch s) \<and> fh_loading (rs_fetch s') = fh_loading (rs_fetch s)
       \<and> (\<forall>n qs. CallAll qs (RpLoaded n) \<notin> set cs)
     else fh_generation (rs_fetch s') = Suc (fh_generation (rs_fetch s))
       \<and> fresh_loads RpLoaded (fh_generation (rs_fetch s)) (fh_generation (rs_fetch s')) (rp_query s) cs)"
    by (intro usual_round [where loaded = RpLoaded and ds = "[]", OF rp_effects_eq(1,2) [OF e]]) auto
next
  fix b s s1 s2 and cs1 cs2 :: rp_cmds
  assume e: "rp_effects b s = (s1, cs1)" "rp_effects s s1 = (s2, cs2)"
  show "rp_key s2 = rp_key s1"
    using rp_effects_eq(1) [OF e(1)] rp_effects_eq(1) [OF e(2)] by (simp add: rp_key_def)
next
  fix s s' :: repos_page
  show "rp_query s = rp_query s'" by (simp add: rp_query_def)
qed

lemma rp_update_split:
  assumes "rp_update e m s = (s', cs)"
  obtains t c0 c1 where "rp_handle e m s = (t, c0)" "cs = c0 @ c1" "\<forall>c \<in> set c1. \<exists>n. c = CallAll (rp_query s) (RpLoaded n)"
    "rs_dialogOpen s' = rs_dialogOpen t" "rs_dialogRepository s' = rs_dialogRepository t"
    "rs_form s' = rg_props (rs_dialogOpen t) (rs_dialogRepository t) (rs_form t)"
proof -
  obtain t s1 c0 c1 c2 where u: "rp_handle e m s = (t, c0)" "rp_effects s t = (s1, c1)" "rp_effects t s1 = (s', c2)" "cs = c0 @ c1 @ c2"
    using assms by (auto simp: rp_update_def page_update_def commit_def split: prod.splits)
  note f1 = rp_effects_eq [OF u(2)] and f2 = rp_effects_eq [OF u(3)]
  have "rg_props b r (rg_props b r f) = rg_props b r f" for b r f by (simp add: rg_props_def rg_reset_def Let_def)
  then show ?thesis using that [OF u(1), of "c1 @ c2"] u(4) f1 f2 by (auto simp: rp_query_def split: if_splits)
qed

section \<open>Properties\<close>

lemma add_usage_at: "add_usage e j m i =
    (if job_repositoryId j = i then Some (count_job e j (case m i of None \<Rightarrow> no_usage | Some u \<Rightarrow> u)) else m i)"
  by (simp add: add_usage_def)

lemma usage_fold:
  "fold (add_usage e) jobs m i = (if \<exists>j \<in> set jobs. job_repositoryId j = i
     then Some (fold (count_job e)
       (filter (\<lambda>j. job_repositoryId j = i) jobs) (case m i of None \<Rightarrow> no_usage | Some u \<Rightarrow> u))
     else m i)"
proof (induction jobs arbitrary: m)
  case (Cons j jobs)
  show ?case
    using Cons.IH [of "add_usage e j m"]
    by (cases "\<exists>j \<in> set jobs. job_repositoryId j = i"; cases "job_repositoryId j = i") (auto simp: add_usage_at filter_empty_conv)
qed simp

lemma usage_count: "us_jobs (fold (count_job e) js u) =
    us_jobs u + length js"
  by (induction js arbitrary: u) (auto simp: count_job_def)

lemma usage_latest:
  assumes "us_latest (fold (count_job e) js u) = r"
  shows "(r = None \<longleftrightarrow> us_latest u = None \<and> (\<forall>j \<in> set js. job_lastRun j = None))
    \<and> (\<forall>x. r = Some x \<longrightarrow> (us_latest u = Some x \<or> Some x \<in> job_lastRun ` set js)
        \<and> (\<forall>y. us_latest u = Some y \<or> Some y \<in> job_lastRun ` set js \<longrightarrow> time_of e (run_startedAt y) \<le> time_of e (run_startedAt x)))"
  using assms
proof (induction js arbitrary: u)
  case (Cons j js)
  let ?u = "count_job e j u"
  have IH: "(r = None \<longleftrightarrow> us_latest ?u = None \<and> (\<forall>j \<in> set js. job_lastRun j = None))
    \<and> (\<forall>x. r = Some x \<longrightarrow> (us_latest ?u = Some x \<or> Some x \<in> job_lastRun ` set js)
        \<and> (\<forall>y. us_latest ?u = Some y \<or> Some y \<in> job_lastRun ` set js \<longrightarrow> time_of e (run_startedAt y) \<le> time_of e (run_startedAt x)))"
    by (rule Cons.IH) (use Cons.prems in simp)
  have n: "us_latest ?u = None \<longleftrightarrow> us_latest u = None \<and> job_lastRun j = None"
    "\<And>x. us_latest ?u = Some x \<Longrightarrow> (us_latest u = Some x \<or> job_lastRun j = Some x)
      \<and> (\<forall>y. us_latest u = Some y \<or> job_lastRun j = Some y \<longrightarrow> time_of e (run_startedAt y) \<le> time_of e (run_startedAt x))"
    by (auto simp: count_job_def newer_run_def split: option.splits if_splits)
  show ?case
  proof (intro conjI allI impI)
    show "r = None \<longleftrightarrow> us_latest u = None \<and> (\<forall>k \<in> set (j # js). job_lastRun k = None)" using IH n(1) by auto
  next
    fix x assume "r = Some x"
    then show "us_latest u = Some x \<or> Some x \<in> job_lastRun ` set (j # js)" using IH n(2) by fastforce
  next
    fix x y assume x: "r = Some x" and y: "us_latest u = Some y \<or> Some y \<in> job_lastRun ` set (j # js)"
    show "time_of e (run_startedAt y) \<le> time_of e (run_startedAt x)"
    proof (cases "Some y \<in> job_lastRun ` set js")
      case False
      then have old: "us_latest u = Some y \<or> job_lastRun j = Some y" using y by auto
      then obtain z where z: "us_latest ?u = Some z" using n(1) by fastforce
      then have "time_of e (run_startedAt y) \<le> time_of e (run_startedAt z)" using n(2) old by blast
      moreover have "time_of e (run_startedAt z) \<le> time_of e (run_startedAt x)" using IH x z by blast
      ultimately show ?thesis by simp
    qed (use IH x in blast)
  qed
qed auto

text \<open>
  C26. A repository's card counts exactly the jobs that store in it, and the run it calls the latest is one of their last runs,
  none of which started later; a repository without jobs has no entry.
\<close>

theorem usage_of_repositories:
  "let mine = filter (\<lambda>j. job_repositoryId j = i) jobs in
     (case usageByRepository e jobs i of None \<Rightarrow> mine = []
      | Some u \<Rightarrow> mine \<noteq> [] \<and> us_jobs u = length mine
          \<and> (case us_latest u of None \<Rightarrow> job_lastRun ` set mine = {None}
             | Some x \<Rightarrow> Some x \<in> job_lastRun ` set mine
                 \<and> \<not> (\<exists>y. Some y \<in> job_lastRun ` set mine \<and> time_of e (run_startedAt x) < time_of e (run_startedAt y))))"
proof -
  define mine where "mine = filter (\<lambda>j. job_repositoryId j = i) jobs"
  have m: "(\<exists>j \<in> set jobs. job_repositoryId j = i) \<longleftrightarrow> mine \<noteq> []" by (auto simp: mine_def filter_empty_conv)
  have u: "usageByRepository e jobs i = (if mine = [] then None else Some (fold (count_job e) mine no_usage))"
    by (simp add: usageByRepository_def usage_fold m mine_def [symmetric])
  have c: "us_jobs (fold (count_job e) mine no_usage) = length mine" by (simp add: usage_count no_usage_def)
  note l = usage_latest [OF refl, of e mine no_usage, unfolded no_usage_def usage.select_convs, folded no_usage_def]
  show ?thesis
  proof (cases "us_latest (fold (count_job e) mine no_usage)")
    case None
    then have "mine \<noteq> [] \<Longrightarrow> job_lastRun ` set mine = {None}" using l by (cases mine) auto
    then show ?thesis using c None by (simp add: Let_def u mine_def [symmetric])
  next
    case (Some x)
    then have "Some x \<in> job_lastRun ` set mine"
      "\<not> (\<exists>y. Some y \<in> job_lastRun ` set mine \<and> time_of e (run_startedAt x) < time_of e (run_startedAt y))"
      using l by (auto simp: not_less)
    then show ?thesis using c Some by (simp add: Let_def u mine_def [symmetric])
  qed
qed

lemma rp_handle_commands:
  assumes "rp_handle e m s = (t, cs)"
  shows "Call q (RpRemoved r) \<in> set cs \<Longrightarrow> m = RpConfirmed r True \<and> q = Repositories_remove (repo_id r)"
    and "Ask o' k \<in> set cs \<Longrightarrow> \<exists>r. m = RpDelete r \<and> o' = rp_question r \<and> k = RpConfirmed r"
proof -
  have "Call q (RpRemoved r) \<notin> set cs \<and> Ask o' k \<notin> set cs" if "rp_form x s = (t, cs)" for x
    using that by (cases x) (auto simp: rp_form_def handlers Let_def fun_eq_iff split: if_splits)
  then show "Call q (RpRemoved r) \<in> set cs \<Longrightarrow> m = RpConfirmed r True \<and> q = Repositories_remove (repo_id r)"
    "Ask o' k \<in> set cs \<Longrightarrow> \<exists>r. m = RpDelete r \<and> o' = rp_question r \<and> k = RpConfirmed r"
    using assms by (cases m; auto simp: rp_remove_def rp_removed_def shown_def fun_eq_iff split: if_splits)+
qed

lemma rp_asked_quiet: "snd (rp_update e (RpConfirmed r yes) s) = shown yes [Call (Repositories_remove (repo_id r)) (RpRemoved r)]"
proof -
  obtain s1 c1 where e1: "rp_effects s s = (s1, c1)" by (metis surj_pair)
  obtain s2 c2 where e2: "rp_effects s s1 = (s2, c2)" by (metis surj_pair)
  have "rp_key s1 = rp_key s" using rp_effects_eq(1) [OF e1] by (simp add: rp_key_def)
  then have "c1 = []" "c2 = []" using rp_effects_eq(2) [OF e1] rp_effects_eq(2) [OF e2] by simp_all
  then show ?thesis by (simp add: rp_update_def page_update_def commit_def e1 e2)
qed

text \<open>
  A repository is removed by a yes alone: nothing on the screen sends the request; what asks is the delete button of a
  repository, with its name; "no" sends nothing, and "yes", whenever it comes, sends one request, for that repository.
\<close>

theorem repositories_delete_needs_yes:
  assumes "m \<in> msgs (RepositoriesRoute e s)"
  shows "(\<forall>r q. Call q (RpRemoved r) \<notin> set (snd (rp_update e m s)))
    \<and> (\<forall>q k. Ask q k \<in> set (snd (rp_update e m s)) \<longrightarrow> (\<exists>r. m = RpDelete r \<and> q = rp_question r
        \<and> (\<forall>t. snd (rp_update e (k False) t) = []
            \<and> snd (rp_update e (k True) t) = [Call (Repositories_remove (repo_id r)) (RpRemoved r)])))"
proof -
  have no: "RpConfirmed r b \<notin> msgs (RepositoriesRoute e s)" for r b
    by (auto simp: RepositoriesRoute_def rp_content_def rp_add_def RepositoryCard_def rc_fact_def rc_latest_def rc_speed_def
        rc_check_def muted_def ErrorState_msgs EmptyState_msgs split: option.splits if_splits dest: ListPagination_pages)
  obtain t c0 c1 where h: "rp_handle e m s = (t, c0)" "snd (rp_update e m s) = c0 @ c1"
    "\<forall>c \<in> set c1. \<exists>n. c = CallAll (rp_query s) (RpLoaded n)" by (rule rp_update_split [OF surjective_pairing])
  note k = rp_handle_commands [OF h(1)]
  have "Call q (RpRemoved r) \<notin> set (c0 @ c1)" for q r using h(3) k(1) assms no by fastforce
  moreover have "Ask q g \<in> set (c0 @ c1) \<Longrightarrow> \<exists>r. m = RpDelete r \<and> q = rp_question r \<and> g = RpConfirmed r" for q g
    using h(3) k(2) by fastforce
  ultimately show ?thesis using rp_asked_quiet unfolding h(2) by fastforce
qed

definition listed :: repos_page where
  "listed = (fst (rp_mount False))\<lparr>rs_fetch := fetch_init (Some \<lparr>rd_repositories = [sample_repository], rd_usage = None\<rparr>)\<rparr>"

theorem repositories_delete_needs_yes_witness:
  "\<exists>m \<in> msgs (RepositoriesRoute sample_env listed). \<exists>q k. Ask q k \<in> set (snd (rp_update sample_env m listed))
     \<and> snd (rp_update sample_env (k True) listed) = [Call (Repositories_remove ''p1'') (RpRemoved sample_repository)]"
proof -
  have "rp_repos listed = [sample_repository]" by (simp add: listed_def rp_repos_def)
  then have m: "RpDelete sample_repository \<in> msgs (RepositoriesRoute sample_env listed)"
    by (simp add: RepositoriesRoute_def rp_content_def RepositoryCard_def rp_paged_def pageSlice_def PAGE_SIZE_def listed_def rp_mount_def
        rp_load_def run_load_def ceil_div_def Let_def)
  obtain t c0 c1 where h: "rp_handle sample_env (RpDelete sample_repository) listed = (t, c0)"
    "snd (rp_update sample_env (RpDelete sample_repository) listed) = c0 @ c1" by (rule rp_update_split [OF surjective_pairing])
  then have a: "Ask (rp_question sample_repository) (RpConfirmed sample_repository)
      \<in> set (snd (rp_update sample_env (RpDelete sample_repository) listed))" by (auto simp: rp_remove_def)
  then show ?thesis using repositories_delete_needs_yes [OF m] m by (fastforce simp: sample_repository_def)
qed

text \<open>
  C0. The late answer of a save closes whatever dialog is open: when a dialog is dismissed while its save is in flight
  and another repository is edited meanwhile, the answer closes that edit and what was typed there is lost.
\<close>

definition rp_run :: "env \<Rightarrow> rp_msg list \<Rightarrow> repos_page \<Rightarrow> repos_page" where
  "rp_run e ms s = fold (\<lambda>m s. fst (rp_update e m s)) ms s"

lemma rp_after:
  "rs_dialogOpen (fst (rp_update e m s)) = rs_dialogOpen (fst (rp_handle e m s))"
  "rs_dialogRepository (fst (rp_update e m s)) = rs_dialogRepository (fst (rp_handle e m s))"
  "rs_form (fst (rp_update e m s)) = rg_props (rs_dialogOpen (fst (rp_handle e m s))) (rs_dialogRepository (fst (rp_handle e m s)))
     (rs_form (fst (rp_handle e m s)))"
proof -
  obtain t c0 c1 where h: "rp_handle e m s = (t, c0)" "rs_dialogOpen (fst (rp_update e m s)) = rs_dialogOpen t"
    "rs_dialogRepository (fst (rp_update e m s)) = rs_dialogRepository t"
    "rs_form (fst (rp_update e m s)) = rg_props (rs_dialogOpen t) (rs_dialogRepository t) (rs_form t)"
    by (rule rp_update_split [OF surjective_pairing])
  then show "rs_dialogOpen (fst (rp_update e m s)) = rs_dialogOpen (fst (rp_handle e m s))"
    "rs_dialogRepository (fst (rp_update e m s)) = rs_dialogRepository (fst (rp_handle e m s))"
    "rs_form (fst (rp_update e m s)) = rg_props (rs_dialogOpen (fst (rp_handle e m s))) (rs_dialogRepository (fst (rp_handle e m s)))
       (rs_form (fst (rp_handle e m s)))" by simp_all
qed

theorem repository_save_closes_other_dialog:
  assumes "rs_dialogOpen s" and "res_ok res"
    and "before = rp_run e [RpForm RgSubmit, RpForm (RgDismiss False), RpEdit r, RpForm (RgSet RfName v)] s"
  shows "rs_dialogOpen before \<and> rg_open (rs_form before) \<and> rg_repository (rs_form before) = Some r \<and> rf_name (rg_form (rs_form before)) = v
    \<and> \<not> rs_dialogOpen (fst (rp_update e (RpForm (RgSaved b nm res)) before))
    \<and> rf_name (rg_form (rs_form (fst (rp_update e (RpEdit r) (fst (rp_update e (RpForm (RgSaved b nm res)) before)))))) = repo_name r"
  using assms(1,2) unfolding assms(3)
  by (simp add: rp_run_def rp_after rp_form_def handlers rg_props_def rg_reset_def rp_reload_def form_of_def Let_def)

definition adding :: repos_page where
  "adding = fst (rp_mount True)"

theorem repository_save_closes_other_dialog_witness:
  "\<not> rs_dialogOpen (fst (rp_update sample_env (RpForm (RgSaved False ''Site'' \<lparr>res_status = 200, res_ok = True, res_body = None\<rparr>))
     (rp_run sample_env [RpForm RgSubmit, RpForm (RgDismiss False), RpEdit sample_repository, RpForm (RgSet RfName ''New name'')] adding)))"
  using repository_save_closes_other_dialog [of adding "\<lparr>res_status = 200, res_ok = True, res_body = None\<rparr>" _ sample_env sample_repository
    "''New name''" False "''Site''", OF _ _ refl]
  by (simp add: adding_def rp_mount_def rp_load_def run_load_def Let_def)

end
