(* ===== verification/RepositoryDetail.thy ===== *)
theory RepositoryDetail
  imports RepositoriesPage SnapshotsPanel StartRun
begin

text \<open>
  \<open>src/ui/src/routes/repository-detail.jsx\<close>: the page of one repository with its maintenance actions.
  The dialog is a component inside it, there once the repository is. The four panels, which only need the id
  or the repository, are arguments of the tree; what they hand out is \<open>RtSaved\<close>, their \<open>onSaved\<close>. A screen whose
  answer of 200 carries no repository cannot be drawn; its tree is empty.
\<close>

section \<open>The actions\<close>

record op_result =
  or_kind :: string
  or_message :: string
  or_detail :: string

definition RESULT_TONE :: table where
  "RESULT_TONE = [(''good'', ''success''), (''bad'', ''destructive''), (''info'', ''info'')]"

definition OpResult :: "op_result option \<Rightarrow> 'm ui list" where
  "OpResult result = (case result of None \<Rightarrow> []
     | Some r \<Rightarrow> [Callout (case lookup RESULT_TONE (or_kind r) of None \<Rightarrow> ''info'' | Some t \<Rightarrow> t) None ''''
         ([Node ''p'' [] [Txt (or_message r)]] @ shown (or_detail r \<noteq> '''') [Node ''pre'' [] [Txt (or_detail r)]])])"

definition ActionRow :: "string \<Rightarrow> string \<Rightarrow> string \<Rightarrow> string \<Rightarrow> 'm \<Rightarrow> bool \<Rightarrow> bool \<Rightarrow> 'm ui" where
  "ActionRow icon title busyTitle description onClick busy destructive =
     Node ''button'' [At ''type'' ''button'', On ''click'' onClick, Flag ''disabled'' busy]
       [IconTile (Some (if busy then ''LoaderCircle'' else icon)) (if destructive then ''destructive'' else ''cyan'') ''sm'',
        Node ''span'' []
          [Node ''span'' (shown destructive [At ''class'' ''text-destructive'']) [Txt (if busy then str_or busyTitle title else title)],
           Node ''span'' [] [Txt description]]]"

datatype rt_action = TestIt | InitIt | UnlockIt | ResetIt

primrec busy_text :: "rt_action \<Rightarrow> string" where
  "busy_text TestIt = ''test''"
| "busy_text InitIt = ''init''"
| "busy_text UnlockIt = ''unlock''"
| "busy_text ResetIt = ''reset''"

primrec action_request :: "rt_action \<Rightarrow> string \<Rightarrow> request" where
  "action_request TestIt i = Repositories_test i"
| "action_request InitIt i = Repositories_init i"
| "action_request UnlockIt i = Repositories_unlock i"
| "action_request ResetIt i = Repositories_reset i"

section \<open>State and handlers\<close>

datatype rt_data = RtMissing | RtHas "repository option" "job list option"

record repo_page =
  rt_id :: string
  rt_result :: "op_result option"
  rt_busy :: string
  rt_editing :: bool
  rt_fetch :: "(rt_data, string) fetch_hook"
  rt_form :: "repo_dialog option"

datatype rt_msg = RtId string | RtRetry | RtSaved | RtLoaded nat "response list" | RtDo rt_action | RtAnswer rt_action response
  | RtConfirmed string bool | RtEdit | RtForm rg_msg | RtBack
  | RtPanel panel_msg | RtSpeed speed_msg | RtCheck check_msg | RtLimit limit_msg

type_synonym rt_cmds = "(rt_msg, rt_msg) cmd list"

definition rt_repo :: "repo_page \<Rightarrow> repository option" where
  "rt_repo s = (case fh_data (rt_fetch s) of Some (RtHas r js) \<Rightarrow> r | _ \<Rightarrow> None)"

definition rt_query :: "repo_page \<Rightarrow> request list" where
  "rt_query s = [Repositories_get (rt_id s), Jobs_list]"

text \<open>The jobs are those of the id the loader was made for.\<close>

definition rt_loaded :: "string \<Rightarrow> response list \<Rightarrow> string + rt_data" where
  "rt_loaded i rs =
     (if res_status (rs ! 0) = 404 then Inr RtMissing
      else if \<not> res_ok (rs ! 0) then Inl (errorOf (rs ! 0) ''Could not load the repository.'')
      else Inr (RtHas (b_repository (body_of (rs ! 0)))
        (if res_ok (rs ! 1) then Some (filter (\<lambda>j. job_repositoryId j = i) (or_empty (b_jobs (body_of (rs ! 1))))) else None)))"

definition rt_load :: "repo_page \<Rightarrow> repo_page \<times> rt_cmds" where
  "rt_load s = run_load rt_fetch (\<lambda>h s. s\<lparr>rt_fetch := h\<rparr>) rt_query RtLoaded s"

definition rt_reload :: "repo_page \<Rightarrow> repo_page" where
  "rt_reload s = s\<lparr>rt_fetch := fetch_bump (rt_fetch s)\<rparr>"

definition rt_key :: "repo_page \<Rightarrow> string \<times> nat" where
  "rt_key s = (rt_id s, fh_nonce (rt_fetch s))"

definition rt_dialog :: "repo_page \<Rightarrow> repo_dialog option" where
  "rt_dialog s = (case rt_repo s of None \<Rightarrow> None
     | Some r \<Rightarrow> Some (case rt_form s of None \<Rightarrow> fst (rg_mount (rt_editing s) (Some r)) | Some f \<Rightarrow> rg_props (rt_editing s) (Some r) f))"

definition rt_title :: "repo_page \<Rightarrow> repo_page \<Rightarrow> rt_cmds" where
  "rt_title before s = (if fh_data (rt_fetch s) = fh_data (rt_fetch before) then []
     else case rt_repo s of None \<Rightarrow> [] | Some r \<Rightarrow> [Do (SetTitle (repo_name r @ '' '' @ middot @ '' restic backup manager''))])"

definition rt_effects :: "(repo_page, rt_msg, rt_msg) effects" where
  "rt_effects before s =
     (let s0 = s\<lparr>rt_form := rt_dialog s\<rparr>;
          (s1, cs) = (if rt_key s = rt_key before then (s0, []) else rt_load s0)
      in (s1, cs @ rt_title before s))"

definition rt_fallback :: "rt_action \<Rightarrow> string" where
  "rt_fallback a = (if a = InitIt then ''Could not initialize the repository.'' else ''Could not empty the repository.'')"

definition rt_question :: "repository \<Rightarrow> confirm_opts" where
  "rt_question r = confirm_defaults\<lparr>co_title := ''Empty '' @ lquote @ repo_name r @ rquote @ ''?'',
     co_description := ''Forget every snapshot in this repository and prune unused data. Jobs are not deleted. The repository stays '' @
       ''initialized. This cannot be undone.'',
     co_confirmLabel := ''Empty repository'', co_destructive := True\<rparr>"

definition rt_send :: "rt_action \<Rightarrow> string \<Rightarrow> repo_page \<Rightarrow> repo_page \<times> rt_cmds" where
  "rt_send a i s = (s\<lparr>rt_busy := busy_text a\<rparr>, [Call (action_request a i) (RtAnswer a)])"

definition testing :: op_result where
  "testing = \<lparr>or_kind = ''info'', or_message = ''Testing the connection'' @ ellipsis, or_detail = ''''\<rparr>"

text \<open>What a click does; emptying asks first, and its yes goes to the id of the render that asked.\<close>

definition rt_do :: "rt_action \<Rightarrow> repo_page \<Rightarrow> repo_page \<times> rt_cmds" where
  "rt_do a s = (case a of
       TestIt \<Rightarrow> rt_send TestIt (rt_id s) (s\<lparr>rt_result := Some testing\<rparr>)
     | InitIt \<Rightarrow> rt_send InitIt (rt_id s) s
     | UnlockIt \<Rightarrow> rt_send UnlockIt (rt_id s) s
     | ResetIt \<Rightarrow> (case rt_repo s of None \<Rightarrow> (s, []) | Some r \<Rightarrow> (s, [Ask (rt_question r) (RtConfirmed (rt_id s))])))"

definition test_result :: "body \<Rightarrow> op_result" where
  "test_result b = \<lparr>or_kind = (if b_ok b then ''good'' else if b_initialized b = Some False \<and> b_code b \<noteq> ''timeout'' then ''info'' else ''bad''),
     or_message = str_or (b_message b) (str_or (b_error b) ''The test failed.''), or_detail = b_detail b\<rparr>"

definition unlock_result :: "body \<Rightarrow> op_result" where
  "unlock_result b = \<lparr>or_kind = (if b_ok b then ''good'' else ''bad''),
     or_message = str_or (b_message b) (str_or (b_error b) (if b_ok b then ''Stale locks removed.'' else ''Could not unlock.'')),
     or_detail = ''''\<rparr>"

text \<open>A start that fails shows its toast (\<open>handleStartResponse\<close>) and the line under the actions.\<close>

definition rt_started :: "rt_action \<Rightarrow> response \<Rightarrow> repo_page \<Rightarrow> repo_page \<times> rt_cmds" where
  "rt_started a res s = (let (started, es) = handleStartResponse res (rt_fallback a) False in
     (if started then s else s\<lparr>rt_result := Some \<lparr>or_kind = ''bad'', or_message = errorOf res (rt_fallback a), or_detail = ''''\<rparr>\<rparr>, map Do es))"

definition rt_answer :: "rt_action \<Rightarrow> response \<Rightarrow> repo_page \<Rightarrow> repo_page \<times> rt_cmds" where
  "rt_answer a res s0 = (let s = s0\<lparr>rt_busy := ''''\<rparr>; b = body_of res in case a of
       TestIt \<Rightarrow> (s\<lparr>rt_result := Some (test_result b)\<rparr>, [])
     | UnlockIt \<Rightarrow> (s\<lparr>rt_result := Some (unlock_result b)\<rparr>, map Do (shown (b_ok b) [Toast (plain_toast Success ''Stale locks removed.'')]))
     | _ \<Rightarrow> rt_started a res s)"

fun rt_outs :: "rg_out list \<Rightarrow> repo_page \<Rightarrow> repo_page" where
  "rt_outs [] s = s"
| "rt_outs (RgClose b # os) s = rt_outs os (s\<lparr>rt_editing := b\<rparr>)"
| "rt_outs (RgDone # os) s = rt_outs os (rt_reload s)"

definition rt_inForm :: "rg_msg \<Rightarrow> repo_page \<Rightarrow> repo_page \<times> rt_cmds" where
  "rt_inForm m s = (case rt_form s of None \<Rightarrow> (s, [])
     | Some f \<Rightarrow> (let (f', cs) = rg_update m f in (rt_outs (outs cs) (s\<lparr>rt_form := Some f'\<rparr>), lift_cmds RtForm cs)))"

primrec rt_handle :: "(repo_page, rt_msg, rt_msg) update" where
  "rt_handle (RtId i) s = (s\<lparr>rt_id := i\<rparr>, [])"
| "rt_handle RtRetry s = (rt_reload s, [])"
| "rt_handle RtSaved s = (rt_reload s, [])"
| "rt_handle (RtLoaded n rs) s = (s\<lparr>rt_fetch := fetch_settle n (rt_loaded (rt_id s) rs) (rt_fetch s)\<rparr>, [])"
| "rt_handle (RtDo a) s = rt_do a s"
| "rt_handle (RtAnswer a res) s = rt_answer a res s"
| "rt_handle (RtConfirmed i yes) s = (if yes then rt_send ResetIt i s else (s, []))"
| "rt_handle RtEdit s = (s\<lparr>rt_editing := True\<rparr>, [])"
| "rt_handle (RtForm m) s = rt_inForm m s"
| "rt_handle RtBack s = (s, [Do GoBack])"
| "rt_handle (RtPanel m) s = (s, [Out (RtPanel m)])"
| "rt_handle (RtSpeed m) s = (s, [Out (RtSpeed m)])"
| "rt_handle (RtCheck m) s = (s, [Out (RtCheck m)])"
| "rt_handle (RtLimit m) s = (s, [Out (RtLimit m)])"

definition rt_update :: "(repo_page, rt_msg, rt_msg) update" where
  "rt_update = page_update rt_handle rt_effects"

definition rt_mount :: "string \<Rightarrow> repo_page \<times> rt_cmds" where
  "rt_mount i = rt_load \<lparr>rt_id = i, rt_result = None, rt_busy = '''', rt_editing = False, rt_fetch = fetch_init None, rt_form = None\<rparr>"

section \<open>What it renders\<close>

text \<open>The panels' trees.\<close>

record repo_panels =
  rp_panel :: "panel_msg ui"
  rp_speed :: "speed_msg ui"
  rp_check :: "check_msg ui"
  rp_limit :: "limit_msg ui"

definition rt_job :: "env \<Rightarrow> job \<Rightarrow> rt_msg ui" where
  "rt_job e j = Node ''li'' [] [Node ''Link'' [At ''to'' (''/jobs/'' @ job_id j)]
     [KindTile ''job'' None ''sm'', Node ''span'' [] [Txt (job_name j)],
      (case job_lastRun j of None \<Rightarrow> Node ''span'' [] [Txt ''Never run'']
       | Some r \<Rightarrow> Node ''span'' [] [StatusDot (run_status r), Txt (fmtRelative e (run_startedAt r))])]]"

definition rt_jobs :: "env \<Rightarrow> job list option \<Rightarrow> rt_msg ui list" where
  "rt_jobs e jobs = (case jobs of None \<Rightarrow> []
     | Some js \<Rightarrow> [Node ''div'' []
         [Node ''p'' [] [Txt ''Jobs storing here '', Node ''span'' [] [Txt (''('' @ show_nat (length js) @ '')'')]],
          (if js = [] then Node ''p'' [] [Txt ''None yet. '', Node ''Link'' [At ''to'' ''/jobs''] [Txt ''Create a job''],
             Txt '' to back something up here.'']
           else Node ''ul'' [] (map (rt_job e) js))]])"

definition rt_facts :: "repository \<Rightarrow> rt_msg fact option list" where
  "rt_facts r = (let s3 = (repo_backendType r = ''S3'') in
     [Some (text_fact ''Backend'' (backendLabel r) False),
      Some (if s3 then text_fact ''Endpoint'' (repo_endpoint r) True else text_fact ''Directory'' (repo_localPath r) True),
      (if s3 then Some (text_fact ''Bucket'' (repo_bucket r) True) else None),
      (if s3 then Some (text_fact ''Region'' (repo_region r) False) else None),
      Some (text_fact ''Encryption'' (if repo_hasPassword r then ''Password stored'' else ''No password stored'') False)])"

definition rt_row :: "repo_page \<Rightarrow> rt_action \<Rightarrow> rt_msg ui" where
  "rt_row s a = (let busy = (rt_busy s = busy_text a) in case a of
       TestIt \<Rightarrow> ActionRow ''PlugZap'' ''Test connection'' (''Testing'' @ ellipsis)
         ''Checks the credentials and that the repository answers.'' (RtDo a) busy False
     | InitIt \<Rightarrow> ActionRow ''Database'' ''Initialize'' (''Starting'' @ ellipsis)
         ''Creates the repository structure, if it is not there yet.'' (RtDo a) busy False
     | UnlockIt \<Rightarrow> ActionRow ''Unlock'' ''Remove stale locks'' (''Unlocking'' @ ellipsis)
         ''Clears locks left behind by a run that crashed.'' (RtDo a) busy False
     | ResetIt \<Rightarrow> ActionRow ''Trash2'' ''Empty repository'' (''Starting'' @ ellipsis)
         ''Forgets every snapshot and prunes the data. Jobs are kept.'' (RtDo a) busy True)"

definition rt_maintenance :: "repo_page \<Rightarrow> rt_msg ui" where
  "rt_maintenance s = Node ''Card'' []
     [Node ''CardHeader'' [] [Node ''div'' [] [Node ''CardTitle'' [] [Txt ''Maintenance''],
        Node ''CardDescription'' [] [Txt (''A backup sets the repository up on its own. These are for checking or repairing it '' @ ''by hand.'')]]],
      Node ''div'' [] (map (rt_row s) [TestIt, InitIt, UnlockIt, ResetIt] @ [Node ''div'' [] (OpResult (rt_result s))])]"

definition rt_header :: "repository \<Rightarrow> rt_msg ui" where
  "rt_header r = PageHeader [Txt (repo_name r)]
     [Node ''span'' [] [Node ''span'' [] [Txt (backendLabel r)], Node ''span'' [At ''aria-hidden'' ''true''] [Txt middot],
        Node ''span'' [At ''title'' (repoLocation (Some r))] [Txt (repoLocation (Some r))]]]
     [Node ''Button'' [On ''click'' RtEdit] [Icon ''Pencil'', Txt ''Edit'']]
     [Breadcrumb ''/repositories'' ''Repositories'' (repo_name r)] [IconTile (Some (repositoryIcon (Some r))) ''cyan'' ''lg'']"

definition rt_page :: "env \<Rightarrow> repo_panels \<Rightarrow> repo_page \<Rightarrow> repository \<Rightarrow> job list option \<Rightarrow> rt_msg ui" where
  "rt_page e ps s r jobs = Page
     [rt_header r,
      Node ''div'' []
        [map_ui RtPanel (rp_panel ps),
         Node ''div'' []
           [Node ''Card'' [] [Node ''CardHeader'' [] [Node ''CardTitle'' [] [Txt ''Details'']],
              Node ''CardContent'' [] ([Facts (rt_facts r)] @ rt_jobs e jobs)],
            map_ui RtSpeed (rp_speed ps), map_ui RtCheck (rp_check ps), map_ui RtLimit (rp_limit ps),
            rt_maintenance s]],
      (case rt_form s of None \<Rightarrow> Node ''div'' [] [] | Some f \<Rightarrow> map_ui RtForm (RepositoryDialog f))]"

definition RepositoryDetail :: "env \<Rightarrow> repo_panels \<Rightarrow> repo_page \<Rightarrow> rt_msg ui" where
  "RepositoryDetail e ps s =
     (case (fh_data (rt_fetch s), fh_error (rt_fetch s)) of
        (Some RtMissing, _) \<Rightarrow> NotFound RtBack
      | (None, Some err) \<Rightarrow> Page [Breadcrumb ''/repositories'' ''Repositories'' ''Repository'',
          ErrorState (Some ''Could not load this repository'') (err @ '' Check that the server is running, then retry.'') (Some RtRetry)]
      | (None, None) \<Rightarrow> Page [Node ''Skeleton'' [] [], Node ''Skeleton'' [] [],
          Node ''div'' [] [Node ''Skeleton'' [] [], Node ''Skeleton'' [] []]]
      | (Some (RtHas r jobs), _) \<Rightarrow> (case r of None \<Rightarrow> Node ''div'' [] [] | Some r \<Rightarrow> rt_page e ps s r jobs))"

section \<open>Loading\<close>

lemma rt_loaded_eq [simp]: "RtLoaded n = RtLoaded n' \<longleftrightarrow> n = n'"
  by (auto simp: fun_eq_iff)

lemma rt_effects_eq:
  assumes "rt_effects b s = (s', cs)"
  shows "rt_fetch s' = (if False then fetch_bump else id) (if rt_key s = rt_key b then rt_fetch s else fetch_effect (rt_fetch s))"
    and "cs = (if rt_key s = rt_key b then [] else [CallAll (rt_query s) (RtLoaded (Suc (fh_generation (rt_fetch s))))]) @ rt_title b s"
    and "rt_form s' = rt_dialog s"
    and "rt_id s' = rt_id s" "rt_busy s' = rt_busy s" "rt_result s' = rt_result s" "rt_editing s' = rt_editing s"
  using assms by (auto simp: rt_effects_def rt_load_def run_load_def rt_query_def Let_def split: if_splits)

lemma rt_title_no_load [simp]: "no_load f (rt_title b s)"
  by (auto simp: rt_title_def split: option.splits)

lemma rt_do_fetch: "rt_fetch (fst (rt_do a s)) = rt_fetch s" "no_load RtLoaded (snd (rt_do a s))"
  by (auto simp: rt_do_def rt_send_def no_load_def split: rt_action.splits option.splits)

lemma rt_answer_fetch: "rt_fetch (fst (rt_answer a res s)) = rt_fetch s" "no_load f (snd (rt_answer a res s))"
  by (auto simp: rt_answer_def rt_started_def Let_def split: rt_action.splits prod.splits)

lemma rt_inForm_fetch: "rt_fetch (fst (rt_inForm m s)) = rt_fetch s \<or> rt_fetch (fst (rt_inForm m s)) = fetch_bump (rt_fetch s)"
    "no_load RtLoaded (snd (rt_inForm m s))"
  by (cases m; auto simp: rt_inForm_def handlers rt_reload_def Let_def no_load_def split: if_splits option.splits)+

lemma rt_settles: "rt_handle (RtLoaded n rs) s = (t, cs) \<Longrightarrow> \<exists>r. rt_fetch t = fetch_settle n r (rt_fetch s)"
  by (rule exI [where x = "rt_loaded (rt_id s) rs"]) auto

interpretation rt_page: fetch_page rt_handle rt_effects "RepositoryDetail e ps" "range RtId \<union> {RtSaved}" "rt_mount i" rt_fetch rt_key rt_query
    RtLoaded for e ps i
proof unfold_locales
  fix s and cs :: rt_cmds
  assume "rt_mount i = (s, cs)"
  then show "fetch_wf (rt_fetch s) \<and> fresh_loads RtLoaded 0 (fh_generation (rt_fetch s)) (rt_query s) cs"
    by (intro usual_mount [where loaded = RtLoaded and ds = "[]"]) (auto simp: rt_mount_def rt_load_def run_load_def rt_query_def Let_def)
next
  fix s m t and cs :: rt_cmds
  assume wf: "fetch_wf (rt_fetch s)" and h: "rt_handle m s = (t, cs)"
  have "rt_fetch t = rt_fetch s \<or> rt_fetch t = fetch_bump (rt_fetch s) \<or> (\<exists>n r. rt_fetch t = fetch_settle n r (rt_fetch s))"
    using h rt_do_fetch(1) rt_answer_fetch(1) rt_inForm_fetch(1)
    by (cases m; auto simp: rt_reload_def rt_send_def split: if_splits; metis fst_conv)
  moreover have "no_load RtLoaded cs"
    using h rt_do_fetch(2) rt_answer_fetch(2) rt_inForm_fetch(2)
    by (cases m; auto simp: rt_send_def split: if_splits; metis snd_conv)
  moreover have "\<forall>rs. m = RtLoaded (fh_generation (rt_fetch s)) rs \<longrightarrow> (\<exists>r. rt_fetch t = fetch_settle (fh_generation (rt_fetch s)) r (rt_fetch s))"
    using h rt_settles [of "fh_generation (rt_fetch s)"] by auto
  ultimately show "fetch_wf (rt_fetch t) \<and> fh_generation (rt_fetch t) = fh_generation (rt_fetch s)
      \<and> (\<forall>n qs. CallAll qs (RtLoaded n) \<notin> set cs)
      \<and> (fh_loading (rt_fetch t) \<longrightarrow> fh_loading (rt_fetch s) \<and> (\<forall>rs. m \<noteq> RtLoaded (fh_generation (rt_fetch s)) rs))"
    using wf by (intro usual_handle [where loaded = RtLoaded])
next
  fix s b s' and cs :: rt_cmds
  assume "fetch_wf (rt_fetch s)" and e: "rt_effects b s = (s', cs)"
  then show "fetch_wf (rt_fetch s') \<and> (if rt_key s = rt_key b
     then fh_generation (rt_fetch s') = fh_generation (rt_fetch s) \<and> fh_loading (rt_fetch s') = fh_loading (rt_fetch s)
       \<and> (\<forall>n qs. CallAll qs (RtLoaded n) \<notin> set cs)
     else fh_generation (rt_fetch s') = Suc (fh_generation (rt_fetch s))
       \<and> fresh_loads RtLoaded (fh_generation (rt_fetch s)) (fh_generation (rt_fetch s')) (rt_query s) cs)"
    by (intro usual_round [where loaded = RtLoaded and ds = "rt_title b s", OF rt_effects_eq(1,2) [OF e]]) auto
next
  fix b s s1 s2 and cs1 cs2 :: rt_cmds
  assume e: "rt_effects b s = (s1, cs1)" "rt_effects s s1 = (s2, cs2)"
  show "rt_key s2 = rt_key s1"
    using rt_effects_eq(1,4) [OF e(1)] rt_effects_eq(1,4) [OF e(2)] by (simp add: rt_key_def)
next
  fix s s' :: repo_page
  show "rt_key s = rt_key s' \<Longrightarrow> rt_query s = rt_query s'" by (simp add: rt_query_def rt_key_def)
qed

section \<open>Properties\<close>

lemma rt_after:
  "rt_id (fst (rt_update m s)) = rt_id (fst (rt_handle m s))" "rt_busy (fst (rt_update m s)) = rt_busy (fst (rt_handle m s))"
  "rt_repo (fst (rt_update m s)) = rt_repo (fst (rt_handle m s))"
  "\<exists>c1. snd (rt_update m s) = snd (rt_handle m s) @ c1 \<and> (\<forall>c \<in> set c1. (\<exists>q n. c = CallAll q (RtLoaded n)) \<or> (\<exists>x. c = Do (SetTitle x)))"
proof -
  obtain t s1 s2 c0 c1 c2 where u: "rt_handle m s = (t, c0)" "rt_effects s t = (s1, c1)" "rt_effects t s1 = (s2, c2)"
    "rt_update m s = (s2, c0 @ c1 @ c2)"
    by (simp add: rt_update_def page_update_def commit_def split: prod.splits) (metis surj_pair)
  have d: "fh_data ((if a then fetch_bump else id) (if b then h else fetch_effect h)) = fh_data h" for a b and h :: "('x, 'y) fetch_hook"
    by simp
  have t: "c \<in> set (rt_title x y) \<Longrightarrow> \<exists>z. c = Do (SetTitle z)" for c x y by (auto simp: rt_title_def split: if_splits option.splits)
  note f1 = rt_effects_eq [OF u(2)] and f2 = rt_effects_eq [OF u(3)]
  have "\<forall>c \<in> set (c1 @ c2). (\<exists>q n. c = CallAll q (RtLoaded n)) \<or> (\<exists>x. c = Do (SetTitle x))"
    unfolding f1(2) f2(2) by (auto split: if_splits dest: t)
  then show "\<exists>c1. snd (rt_update m s) = snd (rt_handle m s) @ c1 \<and> (\<forall>c \<in> set c1. (\<exists>q n. c = CallAll q (RtLoaded n)) \<or> (\<exists>x. c = Do (SetTitle x)))"
    using u(1,4) by auto
  have "fh_data (rt_fetch s2) = fh_data (rt_fetch t)" unfolding f2(1) d f1(1) ..
  then show "rt_id (fst (rt_update m s)) = rt_id (fst (rt_handle m s))" "rt_busy (fst (rt_update m s)) = rt_busy (fst (rt_handle m s))"
    "rt_repo (fst (rt_update m s)) = rt_repo (fst (rt_handle m s))"
    using u(1,4) f1(4,5) f2(4,5) by (simp_all add: rt_repo_def)
qed

lemma rt_do_fields: "rt_id (fst (rt_do a s)) = rt_id s" "rt_busy (fst (rt_do a s)) = (if a = ResetIt then rt_busy s else busy_text a)"
    "rt_repo (fst (rt_do a s)) = rt_repo s"
  by (cases a; simp add: rt_do_def rt_send_def rt_repo_def split: option.split rt_data.split)+

lemma rt_answer_fields: "rt_busy (fst (rt_answer a res s)) = ''''" "rt_repo (fst (rt_answer a res s)) = rt_repo s"
  by (cases a; simp add: rt_answer_def rt_started_def rt_repo_def Let_def split: prod.split)+

lemma rt_actions_shown:
  assumes "rt_repo s = Some r" and "rt_busy s \<noteq> busy_text a"
  shows "RtDo a \<in> msgs (RepositoryDetail e ps s)"
proof -
  obtain js where d: "fh_data (rt_fetch s) = Some (RtHas (Some r) js)"
    using assms(1) by (auto simp: rt_repo_def split: option.splits rt_data.splits)
  have "RtDo a \<in> msgs (rt_row s a)" using assms(2) by (cases a) (auto simp: rt_row_def ActionRow_def Let_def)
  then have "RtDo a \<in> msgs (rt_maintenance s)" by (cases a) (auto simp: rt_maintenance_def)
  then show ?thesis unfolding RepositoryDetail_def d by (simp add: rt_page_def)
qed

lemma rt_inForm_commands: "Call q (RtAnswer a) \<notin> set (snd (rt_inForm x s))" "Ask c k \<notin> set (snd (rt_inForm x s))"
  by (cases x; auto simp: rt_inForm_def handlers Let_def fun_eq_iff split: if_splits option.splits)+

lemma rt_answer_commands: "Call q k \<notin> set (snd (rt_answer a res s))" "Ask c g \<notin> set (snd (rt_answer a res s))"
  by (auto simp: rt_answer_def rt_started_def Let_def split: rt_action.splits prod.splits)

lemma rt_do_commands:
  "Call q (RtAnswer a) \<in> set (snd (rt_do b s)) \<longleftrightarrow> b = a \<and> a \<noteq> ResetIt \<and> q = action_request a (rt_id s)"
  "Ask c k \<in> set (snd (rt_do b s)) \<longleftrightarrow> b = ResetIt \<and> (\<exists>r. rt_repo s = Some r \<and> c = rt_question r \<and> k = RtConfirmed (rt_id s))"
  by (cases b; cases a; auto simp: rt_do_def rt_send_def fun_eq_iff split: option.splits)
    (cases b; auto simp: rt_do_def rt_send_def split: option.splits)

lemma rt_handle_commands:
  "Call q (RtAnswer a) \<in> set (snd (rt_handle m s)) \<longleftrightarrow> m = RtDo a \<and> a \<noteq> ResetIt \<and> q = action_request a (rt_id s)
      \<or> (\<exists>i. m = RtConfirmed i True \<and> a = ResetIt \<and> q = Repositories_reset i)"
  "Ask c k \<in> set (snd (rt_handle m s)) \<longleftrightarrow> m = RtDo ResetIt \<and> (\<exists>r. rt_repo s = Some r \<and> c = rt_question r \<and> k = RtConfirmed (rt_id s))"
  by (cases m; auto simp: rt_do_commands rt_inForm_commands rt_answer_commands rt_send_def fun_eq_iff)+

lemma rt_sends:
  "Call q (RtAnswer a) \<in> set (snd (rt_update m s)) \<longleftrightarrow> m = RtDo a \<and> a \<noteq> ResetIt \<and> q = action_request a (rt_id s)
      \<or> (\<exists>i. m = RtConfirmed i True \<and> a = ResetIt \<and> q = Repositories_reset i)"
  "Ask c k \<in> set (snd (rt_update m s)) \<longleftrightarrow> m = RtDo ResetIt \<and> (\<exists>r. rt_repo s = Some r \<and> c = rt_question r \<and> k = RtConfirmed (rt_id s))"
proof -
  obtain c1 where u: "snd (rt_update m s) = snd (rt_handle m s) @ c1"
    "\<forall>c \<in> set c1. (\<exists>q n. c = CallAll q (RtLoaded n)) \<or> (\<exists>x. c = Do (SetTitle x))" using rt_after(4) by blast
  have "Call q (RtAnswer a) \<notin> set c1" "Ask c k \<notin> set c1" using u(2) by auto
  then show "Call q (RtAnswer a) \<in> set (snd (rt_update m s)) \<longleftrightarrow> m = RtDo a \<and> a \<noteq> ResetIt \<and> q = action_request a (rt_id s)
      \<or> (\<exists>i. m = RtConfirmed i True \<and> a = ResetIt \<and> q = Repositories_reset i)"
    "Ask c k \<in> set (snd (rt_update m s)) \<longleftrightarrow> m = RtDo ResetIt \<and> (\<exists>r. rt_repo s = Some r \<and> c = rt_question r \<and> k = RtConfirmed (rt_id s))"
    unfolding u(1) set_append Un_iff rt_handle_commands by simp_all
qed

lemma rt_row_msgs: "msgs (rt_row s a) = (if rt_busy s = busy_text a then {} else {RtDo a})"
  by (cases a) (simp_all add: rt_row_def ActionRow_def)

lemma rt_maintenance_msgs: "msgs (rt_maintenance s) \<subseteq> range RtDo"
  by (auto simp: rt_maintenance_def rt_row_msgs OpResult_def split: option.splits if_splits)

lemma text_fact_quiet [simp]: "msgs_of (fa_value (text_fact l v m)) = {}"
  by (simp add: text_fact_def)

lemma rt_facts_msgs [simp]: "msgs (Facts (rt_facts r)) = {}"
  by (rule Facts_quiet) (auto simp: rt_facts_def Let_def split: if_splits)

lemma rt_jobs_msgs [simp]: "msgs_of (rt_jobs e js) = {}"
  by (auto simp: rt_jobs_def rt_job_def split: option.splits)

lemma rt_page_msgs: "msgs (rt_page e ps s r js) \<subseteq> {RtEdit} \<union> range RtDo \<union> range RtForm \<union> range RtPanel \<union> range RtSpeed \<union> range RtCheck \<union> range RtLimit"
  using rt_maintenance_msgs [of s] by (auto simp: rt_page_def rt_header_def split: option.splits)

lemma rt_no_answer: "RtConfirmed i b \<notin> msgs (RepositoryDetail e ps s)"
  by (auto simp: RepositoryDetail_def ErrorState_msgs split: option.splits rt_data.splits dest: subsetD [OF rt_page_msgs])


definition repo_shown :: repo_page where
  "repo_shown = (fst (rt_mount ''p1''))\<lparr>rt_fetch := fetch_init (Some (RtHas (Some sample_repository) None))\<rparr>"

definition no_panels :: repo_panels where
  "no_panels = \<lparr>rp_panel = Txt '''', rp_speed = Txt '''', rp_check = Txt '''', rp_limit = Txt ''''\<rparr>"

lemma repo_shown_simps: "rt_repo repo_shown = Some sample_repository" "rt_id repo_shown = ''p1''" "rt_busy repo_shown = ''''"
  by (simp_all add: repo_shown_def rt_repo_def rt_mount_def rt_load_def run_load_def Let_def)


text \<open>
  The page has one slot for the action in flight: starting a second action frees the row of the first while its
  request is out, so that pressing the rows in turn sends the same request twice; and the answer to the first frees the second.
\<close>

theorem repository_actions_share_one_slot:
  assumes "rt_repo s = Some r" and "rt_busy s = ''''" and "a \<noteq> b" and "a \<noteq> ResetIt" and "b \<noteq> ResetIt"
  shows "let view = (\<lambda>x. msgs (RepositoryDetail e ps x)); s1 = fst (rt_update (RtDo a) s); s2 = fst (rt_update (RtDo b) s1) in
      RtDo a \<in> view s \<and> Call (action_request a (rt_id s)) (RtAnswer a) \<in> set (snd (rt_update (RtDo a) s))
    \<and> RtDo b \<in> view s1 \<and> Call (action_request b (rt_id s)) (RtAnswer b) \<in> set (snd (rt_update (RtDo b) s1))
    \<and> RtDo a \<in> view s2 \<and> Call (action_request a (rt_id s)) (RtAnswer a) \<in> set (snd (rt_update (RtDo a) s2))
    \<and> RtDo b \<in> view (fst (rt_update (RtAnswer a res) s2))"
proof -
  have ab: "busy_text a \<noteq> busy_text b" using assms(3) by (cases a; cases b; simp)
  have ne: "busy_text x \<noteq> ''''" for x by (cases x) simp_all
  show ?thesis
    unfolding Let_def using assms ab ne ab [symmetric] ne [symmetric]
    by (intro conjI) (auto intro!: rt_actions_shown simp: rt_after rt_do_fields rt_answer_fields rt_sends)
qed

theorem repository_actions_share_one_slot_witness:
  "Call (Repositories_test ''p1'') (RtAnswer TestIt)
     \<in> set (snd (rt_update (RtDo TestIt) (fst (rt_update (RtDo UnlockIt) (fst (rt_update (RtDo TestIt) repo_shown))))))"
  using repository_actions_share_one_slot [OF repo_shown_simps(1,3), of TestIt UnlockIt] by (simp add: Let_def repo_shown_simps)

text \<open>
  C40. After the address changes to another repository, and until that one is loaded, the page still shows the first: "Empty"
  asks about the first by name, and the yes empties the other.
\<close>

theorem repository_empties_another:
  assumes "rt_repo s = Some r" and "rt_busy s \<noteq> ''reset''" and "s' = fst (rt_update (RtId i) s)"
  shows "RtDo ResetIt \<in> msgs (RepositoryDetail e ps s')
    \<and> Ask (rt_question r) (RtConfirmed i) \<in> set (snd (rt_update (RtDo ResetIt) s'))
    \<and> Call (Repositories_reset i) (RtAnswer ResetIt) \<in> set (snd (rt_update (RtConfirmed i True) t))"
proof -
  have "rt_id s' = i" "rt_busy s' = rt_busy s" "rt_repo s' = Some r"
    using assms(1) by (simp_all add: assms(3) rt_after) (simp add: rt_repo_def)
  then show ?thesis using assms(2) by (auto intro!: rt_actions_shown simp: rt_sends)
qed

theorem repository_empties_another_witness:
  "Ask (rt_question sample_repository) (RtConfirmed ''p2'') \<in> set (snd (rt_update (RtDo ResetIt) (fst (rt_update (RtId ''p2'') repo_shown))))"
  using repository_empties_another [where i = "''p2''", OF repo_shown_simps(1) _ refl] by (simp add: repo_shown_simps)

end
