(* ===== verification/Folders.thy ===== *)
theory Folders
  imports Loads Widgets SnapshotTags Endpoints Pagination Overview
begin

text \<open>
  \<open>src/ui/src/routes/folders.jsx\<close>: the dialog that names a folder, the cards of the sources, the list of
  databases with a load of its own, and the page around them. The status of Docker is a prop of the list.
  Two equal folders among the props count as the same object.
\<close>

section \<open>The folder dialog\<close>

record folder_dialog =
  fg_open :: bool
  fg_folder :: "folder option"
  fg_name :: string
  fg_path :: string
  fg_busy :: bool
  fg_error :: string

datatype fg_out = FgClose bool | FgDone

datatype fg_msg = FgProps bool "folder option" | FgName string | FgPath string | FgSubmit | FgSaved bool string response | FgDismiss bool

type_synonym fg_cmds = "(fg_msg, fg_out) cmd list"

definition fg_reset :: "folder_dialog \<Rightarrow> folder_dialog" where
  "fg_reset s = (if fg_open s then s\<lparr>fg_error := '''', fg_name := opt_str fd_name (fg_folder s) '''',
     fg_path := opt_str fd_path (fg_folder s) ''''\<rparr> else s)"

definition fg_props :: "bool \<Rightarrow> folder option \<Rightarrow> folder_dialog \<Rightarrow> folder_dialog" where
  "fg_props b f s = (let t = s\<lparr>fg_open := b, fg_folder := f\<rparr> in
     if b \<noteq> fg_open s \<or> f \<noteq> fg_folder s then fg_reset t else t)"

definition fg_mount :: "bool \<Rightarrow> folder option \<Rightarrow> folder_dialog \<times> fg_cmds" where
  "fg_mount b f = (fg_reset \<lparr>fg_open = b, fg_folder = f, fg_name = '''', fg_path = '''', fg_busy = False, fg_error = ''''\<rparr>, [])"

definition fg_body :: "folder_dialog \<Rightarrow> json" where
  "fg_body s = JObj [(''name'', JStr (trim (fg_name s))), (''path'', JStr (trim (fg_path s)))]"

definition fg_request :: "folder_dialog \<Rightarrow> request" where
  "fg_request s = (case fg_folder s of Some f \<Rightarrow> Folders_update (fd_id f) (fg_body s) | None \<Rightarrow> Folders_create (fg_body s))"

definition fg_submit :: "folder_dialog \<Rightarrow> folder_dialog \<times> fg_cmds" where
  "fg_submit s = (s\<lparr>fg_busy := True\<rparr>, [Call (fg_request s) (FgSaved (fg_folder s \<noteq> None) (trim (fg_name s)))])"

definition fg_saved :: "bool \<Rightarrow> string \<Rightarrow> response \<Rightarrow> folder_dialog \<Rightarrow> folder_dialog \<times> fg_cmds" where
  "fg_saved editing name res s0 = (let s = s0\<lparr>fg_busy := False\<rparr> in
     if res_ok res
     then (s, [Do (Toast (plain_toast Success (if editing then ''Folder updated.'' else ''Folder '' @ lquote @ name @ rquote @ '' added.''))),
        Out (FgClose False), Out FgDone])
     else (s\<lparr>fg_error := errorOf res ''Could not save the folder.''\<rparr>, []))"

primrec fg_update :: "(folder_dialog, fg_msg, fg_out) update" where
  "fg_update (FgProps b f) s = (fg_props b f s, [])"
| "fg_update (FgName v) s = (s\<lparr>fg_name := v\<rparr>, [])"
| "fg_update (FgPath v) s = (s\<lparr>fg_path := v\<rparr>, [])"
| "fg_update FgSubmit s = fg_submit s"
| "fg_update (FgSaved editing name res) s = fg_saved editing name res s"
| "fg_update (FgDismiss b) s = (s, [Out (FgClose b)])"

definition fg_ready :: "folder_dialog \<Rightarrow> bool" where
  "fg_ready s \<longleftrightarrow> \<not> fg_busy s \<and> trim (fg_name s) \<noteq> '''' \<and> trim (fg_path s) \<noteq> ''''"

definition FolderDialog :: "folder_dialog \<Rightarrow> fg_msg ui" where
  "FolderDialog s = (let editing = (fg_folder s \<noteq> None) in
     Dialog (fg_open s) FgDismiss [Node ''form'' [On ''submit'' FgSubmit]
     [Node ''DialogHeader'' []
        [Node ''DialogTitle'' [] [Txt (if editing then ''Edit folder'' else ''Add a folder'')],
         Node ''DialogDescription'' [] [Txt (''Naming a folder turns a path into something reusable, so you pick it from a list '' @
           ''instead of retyping it for every job.'')]],
      Node ''div'' []
        ([Field ''Name'' ''folder-name'' ''''
           [Node ''Input'' [At ''id'' ''folder-name'', At ''value'' (fg_name s), OnText ''change'' FgName, At ''placeholder'' ''Documents''] []],
          Field ''Absolute path'' ''folder-path'' ''The directory as this app's server sees it.''
           [Node ''Input'' [At ''id'' ''folder-path'', At ''value'' (fg_path s), OnText ''change'' FgPath,
              At ''placeholder'' ''/home/you/Documents''] []]] @ InlineError (fg_error s)),
      Node ''DialogFooter'' []
        [Node ''Button'' [At ''type'' ''button'', On ''click'' (FgDismiss False)] [Txt ''Cancel''],
         Node ''Button'' [At ''type'' ''submit'', Flag ''disabled'' (\<not> fg_ready s)]
           [Txt (if fg_busy s then ''Saving'' @ ellipsis else if editing then ''Save changes'' else ''Add folder'')]]]])"

section \<open>The cards\<close>

text \<open>The jobs of each source; a job with both ids counts for its database.\<close>

record sources =
  by_folder :: "string \<rightharpoonup> job list"
  by_database :: "string \<rightharpoonup> job list"

definition push :: "'k \<Rightarrow> 'a \<Rightarrow> ('k \<rightharpoonup> 'a list) \<Rightarrow> ('k \<rightharpoonup> 'a list)" where
  "push k x m = m(k \<mapsto> (case m k of None \<Rightarrow> [] | Some xs \<Rightarrow> xs) @ [x])"

definition add_source :: "job \<Rightarrow> sources \<Rightarrow> sources" where
  "add_source j out = (let d = ostr_or (job_databaseId j) ''''; f = ostr_or (job_folderId j) '''' in
     if d \<noteq> '''' then out\<lparr>by_database := push d j (by_database out)\<rparr>
     else if f \<noteq> '''' then out\<lparr>by_folder := push f j (by_folder out)\<rparr> else out)"

definition groupJobsBySource :: "job list \<Rightarrow> sources" where
  "groupJobsBySource jobs = fold add_source jobs \<lparr>by_folder = Map.empty, by_database = Map.empty\<rparr>"

definition jobs_of :: "(sources \<Rightarrow> string \<rightharpoonup> job list) \<Rightarrow> sources option \<Rightarrow> string \<Rightarrow> job list option" where
  "jobs_of f s i = (case s of None \<Rightarrow> None | Some m \<Rightarrow> Some (case f m i of None \<Rightarrow> [] | Some js \<Rightarrow> js))"

fun named_jobs :: "bool \<Rightarrow> job list \<Rightarrow> 'm ui list" where
  "named_jobs later [] = []"
| "named_jobs later (j # js) = [Txt (if later then '', '' else ''''), Node ''Link'' [At ''to'' (''/jobs/'' @ job_id j)] [Txt (job_name j)]] @
     named_jobs True js"

definition UsedBy :: "job list option \<Rightarrow> 'm ui list" where
  "UsedBy jobs = (case jobs of None \<Rightarrow> []
     | Some js \<Rightarrow> if js = []
         then [Node ''p'' [] [Txt ''No job backs this up yet. '', Node ''Link'' [At ''to'' ''/jobs'', At ''state'' ''create''] [Txt ''Create a job'']]]
         else [Node ''p'' [] ([Txt ''Backed up by ''] @ named_jobs False js)])"

definition SourceCard :: "string \<Rightarrow> string \<Rightarrow> 'm ui list \<Rightarrow> string \<Rightarrow> job list option \<Rightarrow> 'm ui list \<Rightarrow> 'm ui" where
  "SourceCard icon title badge loc jobs actions = Node ''Card'' []
     ([Node ''div'' [] [IconTile (Some icon) ''fuchsia'' ''md'',
        Node ''div'' [] [Node ''p'' [] ([Node ''span'' [] [Txt title]] @ badge), Node ''p'' [At ''title'' loc] [Txt loc]],
        Node ''div'' [] actions]] @
      shown (jobs \<noteq> None) [Node ''div'' [] (UsedBy jobs)])"

definition first_word :: "string \<Rightarrow> string" where
  "first_word s = hd (split_on (CHR '' '') s)"

definition IconAction :: "string \<Rightarrow> 'm \<Rightarrow> bool \<Rightarrow> string \<Rightarrow> 'm ui" where
  "IconAction label onClick destructive icon = Node ''Button'' ([On ''click'' onClick] @
     shown destructive [At ''class'' ''text-muted-foreground hover:text-destructive''] @
     [At ''aria-label'' label, At ''tooltip'' (first_word label)]) [Icon icon]"

definition SourceGridSkeleton :: "'m ui" where
  "SourceGridSkeleton = Node ''div'' [] (replicate 2 (Node ''Skeleton'' [] []))"

definition Count :: "nat \<Rightarrow> 'm ui" where
  "Count n = Node ''span'' [] [Txt (show_nat n)]"

definition counted_title :: "string \<Rightarrow> nat \<Rightarrow> 'm ui list" where
  "counted_title label n = [Node ''span'' [] ([Txt label] @ shown (n \<noteq> 0) [Count n])]"

section \<open>The databases\<close>

record db_sources =
  bs_docker :: "docker_status option"
  bs_fetch :: "(database list, string) fetch_hook"

datatype bs_msg = BsDocker "docker_status option" | BsDelete database | BsConfirmed database bool | BsRemoved database response
  | BsReload | BsLoaded nat "response list"

type_synonym bs_cmds = "(bs_msg, unit) cmd list"

definition bs_databases :: "db_sources \<Rightarrow> database list" where
  "bs_databases s = (case fh_data (bs_fetch s) of None \<Rightarrow> [] | Some ds \<Rightarrow> ds)"

definition bs_query :: "db_sources \<Rightarrow> request list" where
  "bs_query s = [Databases_list]"

definition bs_result :: "response list \<Rightarrow> string + database list" where
  "bs_result rs = (if \<not> res_ok (rs ! 0) then Inl (errorOf (rs ! 0) ''Could not load the databases.'')
     else Inr (or_empty (b_databases (body_of (rs ! 0)))))"

definition bs_load :: "db_sources \<Rightarrow> db_sources \<times> bs_cmds" where
  "bs_load s = run_load bs_fetch (\<lambda>h s. s\<lparr>bs_fetch := h\<rparr>) bs_query BsLoaded s"

definition bs_reload :: "db_sources \<Rightarrow> db_sources" where
  "bs_reload s = s\<lparr>bs_fetch := fetch_bump (bs_fetch s)\<rparr>"

definition bs_effects :: "(db_sources, bs_msg, unit) effects" where
  "bs_effects before s = (if fh_nonce (bs_fetch s) = fh_nonce (bs_fetch before) then (s, []) else bs_load s)"

definition bs_question :: "database \<Rightarrow> confirm_opts" where
  "bs_question d = confirm_defaults\<lparr>co_title := ''Delete '' @ lquote @ ds_name d @ rquote @ ''?'',
     co_description := ''This only removes the database from the app's list. The database itself and its backups are not touched.'',
     co_confirmLabel := ''Delete source'', co_destructive := True\<rparr>"

definition failed_delete :: "string \<Rightarrow> response \<Rightarrow> effect" where
  "failed_delete title res = Toast \<lparr>to_kind = Failure, to_title = title, to_description = errorOf res errorOf_default, to_action = None,
     to_duration = Some 8000\<rparr>"

definition bs_removed :: "database \<Rightarrow> response \<Rightarrow> db_sources \<Rightarrow> db_sources \<times> bs_cmds" where
  "bs_removed d res s =
     (if res_ok res
      then (bs_reload s, [Do (Toast (plain_toast Success (''Database source '' @ lquote @ ds_name d @ rquote @ '' deleted.'')))])
      else (s, [Do (failed_delete ''Could not delete the database source'' res)]))"

primrec bs_handle :: "(db_sources, bs_msg, unit) update" where
  "bs_handle (BsDocker d) s = (s\<lparr>bs_docker := d\<rparr>, [])"
| "bs_handle (BsDelete d) s = (s, [Ask (bs_question d) (BsConfirmed d)])"
| "bs_handle (BsConfirmed d yes) s = (s, shown yes [Call (Databases_remove (ds_id d)) (BsRemoved d)])"
| "bs_handle (BsRemoved d res) s = bs_removed d res s"
| "bs_handle BsReload s = (bs_reload s, [])"
| "bs_handle (BsLoaded n rs) s = (s\<lparr>bs_fetch := fetch_settle n (bs_result rs) (bs_fetch s)\<rparr>, [])"

definition bs_update :: "(db_sources, bs_msg, unit) update" where
  "bs_update = page_update bs_handle bs_effects"

definition bs_mount :: "docker_status option \<Rightarrow> db_sources \<times> bs_cmds" where
  "bs_mount d = bs_load \<lparr>bs_docker = d, bs_fetch = fetch_init None\<rparr>"

definition has_docker :: "docker_status option \<Rightarrow> bool" where
  "has_docker d = (case d of None \<Rightarrow> False | Some k \<Rightarrow> dk_available k)"

definition docker_place :: "docker_status option \<Rightarrow> string" where
  "docker_place d = (if (case d of None \<Rightarrow> False | Some k \<Rightarrow> dk_coolify k) then ''Coolify'' else ''Docker'')"

definition add_from :: "db_sources \<Rightarrow> bs_msg ui" where
  "add_from s = Node ''Button'' [] [Node ''Link'' [At ''to'' ''/coolify''] [Icon ''Container'', Txt (''Add from '' @ docker_place (bs_docker s))]]"

definition DatabaseSources :: "sources option \<Rightarrow> db_sources \<Rightarrow> bs_msg ui" where
  "DatabaseSources jobs s =
     (let dbs = bs_databases s; docker = has_docker (bs_docker s) in
      Section (counted_title ''Databases'' (length dbs))
        ''Dumped inside their own container, so the backup is consistent while the site stays up.''
        (shown (docker \<and> dbs \<noteq> []) [add_from s])
        [case (fh_error (bs_fetch s), fh_data (bs_fetch s)) of
           (Some err, None) \<Rightarrow> ErrorState (Some ''Could not load the databases'') err (Some BsReload)
         | _ \<Rightarrow>
           if fh_loading (bs_fetch s) \<and> fh_data (bs_fetch s) = None then SourceGridSkeleton
           else if dbs = [] then EmptyState (Some ''Database'') ''fuchsia'' ''No databases yet''
             (if docker then ''Pick a database on the '' @ docker_place (bs_docker s) @ '' page and it shows up here.''
              else ''Database backups need the Docker socket mounted into this app's container.'')
             (shown docker [add_from s]) True
           else Node ''div'' [] (map (\<lambda>d. SourceCard ''Database'' (ds_name d) [Node ''Badge'' [] [Txt (engineLabel (ds_engine d))]]
             (ds_database d @ '' on '' @ ds_container d) (jobs_of by_database jobs (ds_id d))
             [IconAction (''Delete '' @ ds_name d) (BsDelete d) True ''Trash2'']) dbs)])"

section \<open>The page\<close>

record folders_page =
  fp_page :: int
  fp_dialogOpen :: bool
  fp_dialogFolder :: "folder option"
  fp_fetch :: "(folder list, string) fetch_hook"
  fp_jobs :: "(sources option, string) fetch_hook"
  fp_form :: folder_dialog
  fp_databases :: db_sources

datatype fp_msg = FpOpen | FpEdit folder | FpDelete folder | FpConfirmed folder bool | FpRemoved folder response | FpPage int
  | FpReload | FpLoaded nat "response list" | FpJobs nat "response list" | FpForm fg_msg | FpDatabases bs_msg

type_synonym fp_cmds = "(fp_msg, unit) cmd list"

definition fp_folders :: "folders_page \<Rightarrow> folder list" where
  "fp_folders s = (case fh_data (fp_fetch s) of None \<Rightarrow> [] | Some fs \<Rightarrow> fs)"

definition fp_paged :: "folders_page \<Rightarrow> folder page_slice" where
  "fp_paged s = pageSlice (Some (fp_folders s)) (fp_page s) PAGE_SIZE"

definition fp_query :: "folders_page \<Rightarrow> request list" where
  "fp_query s = [Folders_list]"

definition fp_result :: "response list \<Rightarrow> string + folder list" where
  "fp_result rs = (if \<not> res_ok (rs ! 0) then Inl (errorOf (rs ! 0) ''Could not load the folders.'')
     else Inr (or_empty (b_folders (body_of (rs ! 0)))))"

definition fp_jobs_result :: "response list \<Rightarrow> string + sources option" where
  "fp_jobs_result rs = Inr (if res_ok (rs ! 0) then Some (groupJobsBySource (or_empty (b_jobs (body_of (rs ! 0))))) else None)"

definition fp_load :: "folders_page \<Rightarrow> folders_page \<times> fp_cmds" where
  "fp_load s = run_load fp_fetch (\<lambda>h s. s\<lparr>fp_fetch := h\<rparr>) fp_query FpLoaded s"

definition fp_load_jobs :: "folders_page \<Rightarrow> folders_page \<times> fp_cmds" where
  "fp_load_jobs s = run_load fp_jobs (\<lambda>h s. s\<lparr>fp_jobs := h\<rparr>) (\<lambda>s. [Jobs_list]) FpJobs s"

definition fp_reload :: "folders_page \<Rightarrow> folders_page" where
  "fp_reload s = s\<lparr>fp_fetch := fetch_bump (fp_fetch s)\<rparr>"

definition fp_key :: "folders_page \<Rightarrow> nat" where
  "fp_key s = fh_nonce (fp_fetch s)"

definition fp_clamp :: "folders_page \<Rightarrow> folders_page \<Rightarrow> folders_page \<Rightarrow> folders_page" where
  "fp_clamp before s t =
     (if fp_page s \<noteq> pg_page (fp_paged s) \<and> (fp_page s \<noteq> fp_page before \<or> pg_page (fp_paged s) \<noteq> pg_page (fp_paged before))
      then t\<lparr>fp_page := pg_page (fp_paged s)\<rparr> else t)"

definition fp_effects :: "(folders_page, fp_msg, unit) effects" where
  "fp_effects before s =
     (let s0 = s\<lparr>fp_form := fg_props (fp_dialogOpen s) (fp_dialogFolder s) (fp_form s)\<rparr>;
          (s1, cs) = (if fp_key s = fp_key before then (s0, []) else fp_load s0)
      in (fp_clamp before s s1, cs))"

definition fp_question :: "folder \<Rightarrow> confirm_opts" where
  "fp_question f = confirm_defaults\<lparr>co_title := ''Delete '' @ lquote @ fd_name f @ rquote @ ''?'',
     co_description := ''This only removes the folder from the app's list. Nothing on disk is touched.'',
     co_confirmLabel := ''Delete folder'', co_destructive := True\<rparr>"

definition fp_removed :: "folder \<Rightarrow> response \<Rightarrow> folders_page \<Rightarrow> folders_page \<times> fp_cmds" where
  "fp_removed f res s =
     (if res_ok res then (fp_reload s, [Do (Toast (plain_toast Success (''Folder '' @ lquote @ fd_name f @ rquote @ '' deleted.'')))])
      else (s, [Do (failed_delete ''Could not delete the folder'' res)]))"

fun fp_outs :: "fg_out list \<Rightarrow> folders_page \<Rightarrow> folders_page" where
  "fp_outs [] s = s"
| "fp_outs (FgClose b # os) s = fp_outs os (s\<lparr>fp_dialogOpen := b\<rparr>)"
| "fp_outs (FgDone # os) s = fp_outs os (fp_reload s)"

definition fp_inForm :: "fg_msg \<Rightarrow> folders_page \<Rightarrow> folders_page \<times> fp_cmds" where
  "fp_inForm m s = (let (f, cs) = fg_update m (fp_form s) in (fp_outs (outs cs) (s\<lparr>fp_form := f\<rparr>), lift_cmds FpForm cs))"

definition fp_inDatabases :: "bs_msg \<Rightarrow> folders_page \<Rightarrow> folders_page \<times> fp_cmds" where
  "fp_inDatabases m s = (let (d, cs) = bs_update m (fp_databases s) in (s\<lparr>fp_databases := d\<rparr>, lift_cmds FpDatabases cs))"

primrec fp_handle :: "(folders_page, fp_msg, unit) update" where
  "fp_handle FpOpen s = (s\<lparr>fp_dialogOpen := True, fp_dialogFolder := None\<rparr>, [])"
| "fp_handle (FpEdit f) s = (s\<lparr>fp_dialogOpen := True, fp_dialogFolder := Some f\<rparr>, [])"
| "fp_handle (FpDelete f) s = (s, [Ask (fp_question f) (FpConfirmed f)])"
| "fp_handle (FpConfirmed f yes) s = (s, shown yes [Call (Folders_remove (fd_id f)) (FpRemoved f)])"
| "fp_handle (FpRemoved f res) s = fp_removed f res s"
| "fp_handle (FpPage p) s = (s\<lparr>fp_page := p\<rparr>, [])"
| "fp_handle FpReload s = (fp_reload s, [])"
| "fp_handle (FpLoaded n rs) s = (s\<lparr>fp_fetch := fetch_settle n (fp_result rs) (fp_fetch s)\<rparr>, [])"
| "fp_handle (FpJobs n rs) s = (s\<lparr>fp_jobs := fetch_settle n (fp_jobs_result rs) (fp_jobs s)\<rparr>, [])"
| "fp_handle (FpForm m) s = fp_inForm m s"
| "fp_handle (FpDatabases m) s = fp_inDatabases m s"

definition fp_update :: "(folders_page, fp_msg, unit) update" where
  "fp_update = page_update fp_handle fp_effects"

text \<open>The effects of the child run before those of the page.\<close>

definition fp_mount :: "bool \<Rightarrow> docker_status option \<Rightarrow> folders_page \<times> fp_cmds" where
  "fp_mount create docker =
     (let (d, cs0) = bs_mount docker;
          (s1, cs1) = fp_load \<lparr>fp_page = 1, fp_dialogOpen = create, fp_dialogFolder = None, fp_fetch = fetch_init None,
            fp_jobs = fetch_init None, fp_form = fst (fg_mount create None), fp_databases = d\<rparr>;
          (s2, cs2) = fp_load_jobs s1
      in (s2, lift_cmds FpDatabases cs0 @ cs1 @ cs2 @ [Do (SetTitle (''Sources '' @ middot @ '' restic backup manager''))]))"

definition fp_add :: "string \<Rightarrow> fp_msg ui" where
  "fp_add label = Node ''Button'' [On ''click'' FpOpen] [Icon ''Plus'', Txt label]"

definition fp_sources :: "folders_page \<Rightarrow> sources option" where
  "fp_sources s = Option.bind (fh_data (fp_jobs s)) id"

definition fp_card :: "sources option \<Rightarrow> folder \<Rightarrow> fp_msg ui" where
  "fp_card jobs f = SourceCard ''FolderOpen'' (fd_name f) [] (fd_path f) (jobs_of by_folder jobs (fd_id f))
     [IconAction (''Edit '' @ fd_name f) (FpEdit f) False ''Pencil'', IconAction (''Delete '' @ fd_name f) (FpDelete f) True ''Trash2'']"

definition fp_content :: "folders_page \<Rightarrow> fp_msg ui" where
  "fp_content s =
     (case (fh_error (fp_fetch s), fh_data (fp_fetch s)) of
        (Some err, None) \<Rightarrow> ErrorState (Some ''Could not load the folders'') err (Some FpReload)
      | _ \<Rightarrow>
        if fh_loading (fp_fetch s) \<and> fh_data (fp_fetch s) = None then SourceGridSkeleton
        else if fp_folders s = [] then EmptyState (Some ''FolderOpen'') ''fuchsia'' ''No folders yet''
          (''Add the directory you want backed up '' @ em_dash @ '' give it a name so you never have to retype the path.'')
          [fp_add ''Add a folder''] True
        else Node ''div'' []
          ([Node ''div'' [] (map (fp_card (fp_sources s)) (pg_items (fp_paged s)))] @
           ListPagination (pg_page (fp_paged s)) PAGE_SIZE (pg_total (fp_paged s)) FpPage))"

definition FoldersRoute :: "folders_page \<Rightarrow> fp_msg ui" where
  "FoldersRoute s = Page
     [PageHeader [Txt ''Backup sources''] [Txt (''What jobs back up: folders, named once and reused by any job, and databases, '' @
         ''dumped with their own tools.'')] [] [] [],
      Node ''div'' []
        [Section (counted_title ''Folders'' (length (fp_folders s)))
           ''Directories on this server, each named once so any job can pick it from a list.''
           (shown (fp_folders s \<noteq> []) [fp_add ''Add folder'']) [fp_content s],
         map_ui FpDatabases (DatabaseSources (fp_sources s) (fp_databases s))],
      map_ui FpForm (FolderDialog (fp_form s))]"

section \<open>Loading\<close>

lemma bs_loaded_eq [simp]: "BsLoaded n = BsLoaded n' \<longleftrightarrow> n = n'" "FpLoaded n = FpLoaded n' \<longleftrightarrow> n = n'"
  by (auto simp: fun_eq_iff)

lemma fp_loads_apart [simp]: "FpDatabases \<circ> f \<noteq> FpLoaded n" "FpForm \<circ> g \<noteq> FpLoaded n" "FpJobs k \<noteq> FpLoaded n"
    "FpLoaded n \<noteq> FpDatabases \<circ> f" "FpLoaded n \<noteq> FpForm \<circ> g" "FpLoaded n \<noteq> FpJobs k"
  by (auto simp: fun_eq_iff)

lemma fp_lifted_cmd: "CallAll qs (FpLoaded n) \<notin> set (lift_cmd FpDatabases c)" "CallAll qs (FpLoaded n) \<notin> set (lift_cmd FpForm d)"
  by (cases c; simp) (cases d; simp)

lemma fp_lifted_quiet [simp]: "no_load FpLoaded (lift_cmds FpDatabases cs)" "no_load FpLoaded (lift_cmds FpForm ds)"
  by (induction cs) (simp_all add: no_load_def fp_lifted_cmd, induction ds, simp_all add: fp_lifted_cmd)

lemma bs_effects_eq:
  assumes "bs_effects b s = (s', cs)"
  shows "bs_fetch s' = (if False then fetch_bump else id) (if fh_nonce (bs_fetch s) = fh_nonce (bs_fetch b) then bs_fetch s else fetch_effect (bs_fetch s))"
    and "cs = (if fh_nonce (bs_fetch s) = fh_nonce (bs_fetch b) then [] else [CallAll (bs_query s) (BsLoaded (Suc (fh_generation (bs_fetch s))))]) @ []"
  using assms by (auto simp: bs_effects_def bs_load_def run_load_def bs_query_def Let_def split: if_splits)

interpretation bs_page: fetch_page bs_handle bs_effects "DatabaseSources jobs" "range BsDocker" "bs_mount d" bs_fetch "\<lambda>s. fh_nonce (bs_fetch s)"
    bs_query BsLoaded for jobs d
proof unfold_locales
  fix s and cs :: bs_cmds
  assume "bs_mount d = (s, cs)"
  then show "fetch_wf (bs_fetch s) \<and> fresh_loads BsLoaded 0 (fh_generation (bs_fetch s)) (bs_query s) cs"
    by (intro usual_mount [where loaded = BsLoaded and ds = "[]"]) (auto simp: bs_mount_def bs_load_def run_load_def bs_query_def Let_def)
next
  fix s m t and cs :: bs_cmds
  assume "fetch_wf (bs_fetch s)" and h: "bs_handle m s = (t, cs)"
  then show "fetch_wf (bs_fetch t) \<and> fh_generation (bs_fetch t) = fh_generation (bs_fetch s)
      \<and> (\<forall>n qs. CallAll qs (BsLoaded n) \<notin> set cs)
      \<and> (fh_loading (bs_fetch t) \<longrightarrow> fh_loading (bs_fetch s) \<and> (\<forall>rs. m \<noteq> BsLoaded (fh_generation (bs_fetch s)) rs))"
    by (intro usual_handle [where loaded = BsLoaded]) (cases m; auto simp: bs_removed_def bs_reload_def shown_def split: if_splits)+
next
  fix s b s' and cs :: bs_cmds
  assume "fetch_wf (bs_fetch s)" and e: "bs_effects b s = (s', cs)"
  then show "fetch_wf (bs_fetch s') \<and> (if fh_nonce (bs_fetch s) = fh_nonce (bs_fetch b)
     then fh_generation (bs_fetch s') = fh_generation (bs_fetch s) \<and> fh_loading (bs_fetch s') = fh_loading (bs_fetch s)
       \<and> (\<forall>n qs. CallAll qs (BsLoaded n) \<notin> set cs)
     else fh_generation (bs_fetch s') = Suc (fh_generation (bs_fetch s))
       \<and> fresh_loads BsLoaded (fh_generation (bs_fetch s)) (fh_generation (bs_fetch s')) (bs_query s) cs)"
    by (intro usual_round [where loaded = BsLoaded and ds = "[]", OF bs_effects_eq [OF e]]) auto
next
  fix b s s1 s2 and cs1 cs2 :: bs_cmds
  assume e: "bs_effects b s = (s1, cs1)" "bs_effects s s1 = (s2, cs2)"
  show "fh_nonce (bs_fetch s2) = fh_nonce (bs_fetch s1)"
    using bs_effects_eq(1) [OF e(1)] bs_effects_eq(1) [OF e(2)] by simp
next
  fix s s' :: db_sources
  show "bs_query s = bs_query s'" by (simp add: bs_query_def)
qed

lemma fp_clamp_fields [simp]: "fp_fetch (fp_clamp b s t) = fp_fetch t"
  by (simp add: fp_clamp_def)

lemma fp_effects_eq:
  assumes "fp_effects b s = (s', cs)"
  shows "fp_fetch s' = (if False then fetch_bump else id) (if fp_key s = fp_key b then fp_fetch s else fetch_effect (fp_fetch s))"
    and "cs = (if fp_key s = fp_key b then [] else [CallAll (fp_query s) (FpLoaded (Suc (fh_generation (fp_fetch s))))]) @ []"
  using assms by (auto simp: fp_effects_def fp_load_def run_load_def fp_query_def Let_def split: if_splits)

lemma fp_child_fetch:
  "fp_fetch (fst (fp_inForm m s)) = fp_fetch s \<or> fp_fetch (fst (fp_inForm m s)) = fetch_bump (fp_fetch s)"
  "fp_fetch (fst (fp_inDatabases x s)) = fp_fetch s"
  "no_load FpLoaded (snd (fp_inForm m s))" "no_load FpLoaded (snd (fp_inDatabases x s))"
proof -
  show "fp_fetch (fst (fp_inForm m s)) = fp_fetch s \<or> fp_fetch (fst (fp_inForm m s)) = fetch_bump (fp_fetch s)"
    by (cases m) (auto simp: fp_inForm_def fg_submit_def fg_saved_def fp_reload_def Let_def)
qed (simp_all add: fp_inForm_def fp_inDatabases_def split: prod.split)

lemma fp_settles: "\<exists>r. fp_fetch (fst (fp_handle (FpLoaded n rs) s)) = fetch_settle n r (fp_fetch s)"
  by (rule exI [where x = "fp_result rs"]) simp

interpretation fp_page: fetch_page fp_handle fp_effects FoldersRoute "FpDatabases ` range BsDocker" "fp_mount create d" fp_fetch fp_key fp_query FpLoaded
  for create d
proof unfold_locales
  fix s and cs :: fp_cmds
  assume m: "fp_mount create d = (s, cs)"
  then show "fetch_wf (fp_fetch s) \<and> fresh_loads FpLoaded 0 (fh_generation (fp_fetch s)) (fp_query s) cs"
    by (auto simp: fp_mount_def fp_load_def fp_load_jobs_def bs_mount_def bs_load_def run_load_def fp_query_def Let_def fresh_loads_def
        fetch_effect_wf)
next
  fix s m t and cs :: fp_cmds
  assume wf: "fetch_wf (fp_fetch s)" and h: "fp_handle m s = (t, cs)"
  have f: "fp_fetch t = fp_fetch s \<or> fp_fetch t = fetch_bump (fp_fetch s) \<or> (\<exists>n r. fp_fetch t = fetch_settle n r (fp_fetch s))" "no_load FpLoaded cs"
    using h fp_child_fetch by (cases m; auto simp: fp_removed_def fp_reload_def shown_def split: if_splits; metis fst_conv snd_conv)+
  show "fetch_wf (fp_fetch t) \<and> fh_generation (fp_fetch t) = fh_generation (fp_fetch s)
      \<and> (\<forall>n qs. CallAll qs (FpLoaded n) \<notin> set cs)
      \<and> (fh_loading (fp_fetch t) \<longrightarrow> fh_loading (fp_fetch s) \<and> (\<forall>rs. m \<noteq> FpLoaded (fh_generation (fp_fetch s)) rs))"
    by (rule usual_handle [where loaded = FpLoaded, OF wf f(1) _ f(2)]) (use h fp_settles [of "fh_generation (fp_fetch s)" _ s] in auto)
next
  fix s b s' and cs :: fp_cmds
  assume "fetch_wf (fp_fetch s)" and e: "fp_effects b s = (s', cs)"
  then show "fetch_wf (fp_fetch s') \<and> (if fp_key s = fp_key b
     then fh_generation (fp_fetch s') = fh_generation (fp_fetch s) \<and> fh_loading (fp_fetch s') = fh_loading (fp_fetch s)
       \<and> (\<forall>n qs. CallAll qs (FpLoaded n) \<notin> set cs)
     else fh_generation (fp_fetch s') = Suc (fh_generation (fp_fetch s))
       \<and> fresh_loads FpLoaded (fh_generation (fp_fetch s)) (fh_generation (fp_fetch s')) (fp_query s) cs)"
    by (intro usual_round [where loaded = FpLoaded and ds = "[]", OF fp_effects_eq [OF e]]) auto
next
  fix b s s1 s2 and cs1 cs2 :: fp_cmds
  assume e: "fp_effects b s = (s1, cs1)" "fp_effects s s1 = (s2, cs2)"
  show "fp_key s2 = fp_key s1" using fp_effects_eq(1) [OF e(1)] fp_effects_eq(1) [OF e(2)] by (simp add: fp_key_def)
next
  fix s s' :: folders_page
  show "fp_query s = fp_query s'" by (simp add: fp_query_def)
qed

section \<open>Properties\<close>

lemma push_at: "push k x m i = (if i = k then Some ((case m i of None \<Rightarrow> [] | Some xs \<Rightarrow> xs) @ [x]) else m i)"
  by (simp add: push_def)

lemma group_fold:
  assumes "i \<noteq> ''''"
  shows "jobs_of by_database (Some (fold add_source js m)) i =
      Some (the (jobs_of by_database (Some m) i) @ filter (\<lambda>j. ostr_or (job_databaseId j) '''' = i) js)"
    and "jobs_of by_folder (Some (fold add_source js m)) i =
      Some (the (jobs_of by_folder (Some m) i) @ filter (\<lambda>j. ostr_or (job_databaseId j) '''' = '''' \<and> ostr_or (job_folderId j) '''' = i) js)"
  using assms by (induction js arbitrary: m) (auto simp: jobs_of_def add_source_def push_at Let_def split: option.splits)

text \<open>
  The cards of the sources name exactly the jobs that back them up, in the order of the list: a database those with its id, a
  folder those with its id and no database; so no job is named by two cards of different sources.
\<close>

theorem sources_name_their_jobs:
  assumes "i \<noteq> ''''"
  shows "jobs_of by_database (Some (groupJobsBySource jobs)) i = Some (filter (\<lambda>j. ostr_or (job_databaseId j) '''' = i) jobs)
    \<and> jobs_of by_folder (Some (groupJobsBySource jobs)) i =
        Some (filter (\<lambda>j. ostr_or (job_databaseId j) '''' = '''' \<and> ostr_or (job_folderId j) '''' = i) jobs)
    \<and> (\<forall>k f. k \<noteq> '''' \<longrightarrow> set (the (jobs_of by_database (Some (groupJobsBySource jobs)) i))
        \<inter> set (the (jobs_of by_folder (Some (groupJobsBySource jobs)) k)) = {})"
proof -
  have d: "k \<noteq> '''' \<Longrightarrow> jobs_of by_database (Some (groupJobsBySource jobs)) k = Some (filter (\<lambda>j. ostr_or (job_databaseId j) '''' = k) jobs)" for k
    by (simp add: groupJobsBySource_def group_fold(1)) (simp add: jobs_of_def)
  have f: "k \<noteq> '''' \<Longrightarrow> jobs_of by_folder (Some (groupJobsBySource jobs)) k =
      Some (filter (\<lambda>j. ostr_or (job_databaseId j) '''' = '''' \<and> ostr_or (job_folderId j) '''' = k) jobs)" for k
    by (simp add: groupJobsBySource_def group_fold(2)) (simp add: jobs_of_def)
  show ?thesis using assms d [OF assms] f [OF assms] by (auto simp: f)
qed

theorem sources_name_their_jobs_witness:
  "jobs_of by_folder (Some (groupJobsBySource [sample_job\<lparr>job_folderId := Some ''f1'', job_databaseId := None\<rparr>])) ''f1'' =
     Some [sample_job\<lparr>job_folderId := Some ''f1'', job_databaseId := None\<rparr>]"
  using sources_name_their_jobs [of "''f1''" "[sample_job\<lparr>job_folderId := Some ''f1'', job_databaseId := None\<rparr>]"] by (simp add: ostr_or_def)

lemma FolderDialog_act:
  assumes "m \<in> msgs (FolderDialog s)"
  shows "m = FgSubmit \<and> fg_open s \<and> fg_ready s \<or> m \<in> range FgName \<union> range FgPath \<union> range FgDismiss"
  using assms by (auto simp: FolderDialog_def Let_def split: if_splits)

definition fg_env :: "fg_msg set" where
  "fg_env = {m. \<exists>b f. m = FgProps b f}"

definition fg_replies :: "fg_msg set" where
  "fg_replies = {m. \<exists>b n res. m = FgSaved b n res}"

lemma fg_keeps [simp]: "fg_busy (fg_reset s) = fg_busy s" "fg_busy (fg_props b f s) = fg_busy s"
  by (simp_all add: fg_reset_def fg_props_def Let_def)

lemmas fg_defs [handlers] = fg_submit_def fg_saved_def

interpretation fg_flight: single_flight fg_update FolderDialog fg_env "fg_mount b f" is_single fg_busy fg_replies "{}"
  for b f
proof unfold_locales
  fix m s s' and cs :: fg_cmds
  assume "m \<in> msgs (FolderDialog s) \<union> fg_env" "fg_update m s = (s', cs)"
  then show "if filter is_single cs = [] then fg_busy s' = fg_busy s
      else \<not> fg_busy s \<and> fg_busy s' \<and> length (filter is_single cs) = 1"
    by (auto simp: handlers fg_env_def fg_ready_def dest!: FolderDialog_act)
next
  fix m s s' c and cs :: fg_cmds
  assume "fg_update m s = (s', cs)" "c \<in> set cs"
  then show "replies c \<subseteq> (if is_single c then fg_replies else {})"
    by (cases m) (auto simp: handlers fg_replies_def Let_def split: if_splits)
next
  fix m s s' and cs :: fg_cmds
  assume "m \<in> fg_replies" "fg_update m s = (s', cs)"
  then show "filter is_single cs = [] \<and> \<not> fg_busy s'" by (auto simp: handlers fg_replies_def Let_def split: if_splits)
qed (auto simp: fg_mount_def)

definition fg_checked :: "(fg_msg, fg_out) cmd \<Rightarrow> bool" where
  "fg_checked c \<longleftrightarrow> (\<exists>t. c = Call (fg_request t) (FgSaved (fg_folder t \<noteq> None) (trim (fg_name t))) \<and> trim (fg_name t) \<noteq> ''''
     \<and> trim (fg_path t) \<noteq> '''')"

lemma fg_checked_submit: "fg_ready s \<Longrightarrow> fg_checked (Call (fg_request s) (FgSaved (fg_folder s \<noteq> None) (trim (fg_name s))))"
  unfolding fg_checked_def fg_ready_def by blast

interpretation fg_sends: component fg_update FolderDialog fg_env "fg_mount b f" "\<lambda>s p. \<forall>c \<in> set p. fg_checked c"
  for b f
proof unfold_locales
  fix s p m s' and cs :: fg_cmds
  assume "\<forall>c \<in> set p. fg_checked c" "m \<in> msgs (FolderDialog s) \<union> fg_env" "fg_update m s = (s', cs)"
  then show "\<forall>c \<in> set (p @ awaiting cs). fg_checked c"
    using fg_checked_submit [of s] by (auto simp: handlers fg_env_def dest!: FolderDialog_act)
next
  fix s p c q m s' and cs :: fg_cmds
  assume "\<forall>c \<in> set (p @ c # q). fg_checked c" "m \<in> replies c" "fg_update m s = (s', cs)"
  then show "\<forall>c \<in> set (p @ q @ awaiting cs). fg_checked c"
    by (auto simp: handlers fg_checked_def Let_def split: if_splits)
qed (auto simp: fg_mount_def)

text \<open>
  The folder dialog never has two saves in flight, and none without a name and a path, both trimmed; what is sent goes to the
  folder that was edited, or creates one.
\<close>

theorem folder_dialog_requests:
  assumes "reach fg_update FolderDialog fg_env (fg_mount b f) s p"
  shows "length (filter is_single p) = (if fg_busy s then 1 else 0)
    \<and> (\<forall>c \<in> set p. \<exists>t. c = Call (fg_request t) (FgSaved (fg_folder t \<noteq> None) (trim (fg_name t))) \<and> trim (fg_name t) \<noteq> ''''
        \<and> trim (fg_path t) \<noteq> '''')"
  using fg_flight.in_flight [OF assms] fg_sends.invariant [OF assms] by (auto simp: fg_checked_def)

definition site_folder :: folder where
  "site_folder = \<lparr>fd_id = ''f1'', fd_name = ''Site'', fd_path = ''/srv''\<rparr>"

theorem folder_dialog_requests_witness:
  "\<exists>s p. reach fg_update FolderDialog fg_env (fg_mount True (Some site_folder)) s p \<and> length (filter is_single p) = 1"
proof -
  let ?start = "fg_mount True (Some site_folder)"
  let ?R = "reach fg_update FolderDialog fg_env ?start"
  have first: "?R (fst ?start) []" using reach_first [of fg_update FolderDialog fg_env ?start] by (simp add: fg_mount_def)
  have r: "fg_ready (fst ?start)" "fg_open (fst ?start)"
    by (simp_all add: fg_mount_def fg_reset_def fg_ready_def site_folder_def opt_str_def trim_def is_space_def str_or_def)
  then have "FgSubmit \<in> msgs (FolderDialog (fst ?start))" by (simp add: FolderDialog_def Let_def)
  then have R: "?R (fst (fg_submit (fst ?start))) ([] @ awaiting (snd (fg_submit (fst ?start))))"
    by (intro reach.act [OF first, where m = FgSubmit]) simp_all
  have "fg_busy (fst (fg_submit (fst ?start)))" by (simp add: fg_submit_def)
  then show ?thesis using folder_dialog_requests [OF R] R by auto
qed

text \<open>What the updates send besides loads.\<close>

lemma bs_sends:
  "Call q (BsRemoved d) \<in> set (snd (bs_update m s)) \<longleftrightarrow> m = BsConfirmed d True \<and> q = Databases_remove (ds_id d)"
  "Ask c k \<in> set (snd (bs_update m s)) \<longleftrightarrow> (\<exists>d. m = BsDelete d \<and> c = bs_question d \<and> k = BsConfirmed d)"
proof -
  obtain t s1 s2 c0 c1 c2 where u: "bs_handle m s = (t, c0)" "bs_effects s t = (s1, c1)" "bs_effects t s1 = (s2, c2)"
    "bs_update m s = (s2, c0 @ c1 @ c2)"
    by (simp add: bs_update_def page_update_def commit_def split: prod.splits) (metis surj_pair)
  note e = bs_effects_eq(2) [OF u(2)] bs_effects_eq(2) [OF u(3)]
  have "Call q (BsRemoved d) \<in> set c0 \<longleftrightarrow> m = BsConfirmed d True \<and> q = Databases_remove (ds_id d)"
    "Ask c k \<in> set c0 \<longleftrightarrow> (\<exists>d. m = BsDelete d \<and> c = bs_question d \<and> k = BsConfirmed d)"
    using u(1) by (cases m; auto simp: bs_removed_def shown_def fun_eq_iff split: if_splits)+
  then show "Call q (BsRemoved d) \<in> set (snd (bs_update m s)) \<longleftrightarrow> m = BsConfirmed d True \<and> q = Databases_remove (ds_id d)"
    "Ask c k \<in> set (snd (bs_update m s)) \<longleftrightarrow> (\<exists>d. m = BsDelete d \<and> c = bs_question d \<and> k = BsConfirmed d)"
    using e by (auto simp: u(4))
qed

lemma fp_inForm_sends: "Call q (FpRemoved f) \<notin> set (snd (fp_inForm m s))" "Call q (FpDatabases \<circ> g) \<notin> set (snd (fp_inForm m s))"
    "Ask c k \<notin> set (snd (fp_inForm m s))"
  by (cases m; auto simp: fp_inForm_def handlers Let_def fun_eq_iff split: if_splits)+

lemma fp_inDatabases_sends: "Call q (FpRemoved f) \<notin> set (snd (fp_inDatabases x s))"
    "Call q (FpDatabases \<circ> BsRemoved d) \<in> set (snd (fp_inDatabases x s)) \<longleftrightarrow> x = BsConfirmed d True \<and> q = Databases_remove (ds_id d)"
    "Ask c k \<in> set (snd (fp_inDatabases x s)) \<longleftrightarrow> (\<exists>d. x = BsDelete d \<and> c = bs_question d \<and> k = FpDatabases \<circ> BsConfirmed d)"
proof -
  have j: "FpDatabases \<circ> g = FpDatabases \<circ> h \<longleftrightarrow> g = h" for g h :: "'x \<Rightarrow> bs_msg" by (auto simp: fun_eq_iff)
  have c: "snd (fp_inDatabases x s) = lift_cmds FpDatabases (snd (bs_update x (fp_databases s)))" by (simp add: fp_inDatabases_def split: prod.split)
  show "Call q (FpRemoved f) \<notin> set (snd (fp_inDatabases x s))" by (auto simp: c lift_cmds_mem fun_eq_iff)
  show "Call q (FpDatabases \<circ> BsRemoved d) \<in> set (snd (fp_inDatabases x s)) \<longleftrightarrow> x = BsConfirmed d True \<and> q = Databases_remove (ds_id d)"
    by (simp add: c lift_cmds_mem j bs_sends)
  show "Ask c k \<in> set (snd (fp_inDatabases x s)) \<longleftrightarrow> (\<exists>d. x = BsDelete d \<and> c = bs_question d \<and> k = FpDatabases \<circ> BsConfirmed d)"
    by (auto simp: c lift_cmds_mem bs_sends)
qed

lemma fp_sends:
  "Call q (FpRemoved f) \<in> set (snd (fp_update m s)) \<longleftrightarrow> m = FpConfirmed f True \<and> q = Folders_remove (fd_id f)"
  "Call q (FpDatabases \<circ> BsRemoved d) \<in> set (snd (fp_update m s)) \<longleftrightarrow> m = FpDatabases (BsConfirmed d True) \<and> q = Databases_remove (ds_id d)"
  "Ask c k \<in> set (snd (fp_update m s)) \<longleftrightarrow> (\<exists>f. m = FpDelete f \<and> c = fp_question f \<and> k = FpConfirmed f)
     \<or> (\<exists>d. m = FpDatabases (BsDelete d) \<and> c = bs_question d \<and> k = FpDatabases \<circ> BsConfirmed d)"
proof -
  obtain t s1 s2 c0 c1 c2 where u: "fp_handle m s = (t, c0)" "fp_effects s t = (s1, c1)" "fp_effects t s1 = (s2, c2)"
    "fp_update m s = (s2, c0 @ c1 @ c2)"
    by (simp add: fp_update_def page_update_def commit_def split: prod.splits) (metis surj_pair)
  note e = fp_effects_eq(2) [OF u(2)] fp_effects_eq(2) [OF u(3)]
  have c0: "c0 = snd (fp_handle m s)" using u(1) by simp
  have "Call q (FpRemoved f) \<in> set c0 \<longleftrightarrow> m = FpConfirmed f True \<and> q = Folders_remove (fd_id f)" unfolding c0
    by (cases m; auto simp: fp_inForm_sends fp_inDatabases_sends fp_removed_def shown_def fun_eq_iff split: if_splits)
  moreover have "Call q (FpDatabases \<circ> BsRemoved d) \<in> set c0 \<longleftrightarrow> m = FpDatabases (BsConfirmed d True) \<and> q = Databases_remove (ds_id d)"
    unfolding c0 by (cases m; simp add: fp_inForm_sends fp_inDatabases_sends fp_removed_def shown_def fun_eq_iff)
  moreover have "Ask c k \<in> set c0 \<longleftrightarrow> (\<exists>f. m = FpDelete f \<and> c = fp_question f \<and> k = FpConfirmed f)
     \<or> (\<exists>d. m = FpDatabases (BsDelete d) \<and> c = bs_question d \<and> k = FpDatabases \<circ> BsConfirmed d)"
    unfolding c0 by (cases m; simp add: fp_inForm_sends fp_inDatabases_sends fp_removed_def shown_def)
  ultimately show
    "Call q (FpRemoved f) \<in> set (snd (fp_update m s)) \<longleftrightarrow> m = FpConfirmed f True \<and> q = Folders_remove (fd_id f)"
    "Call q (FpDatabases \<circ> BsRemoved d) \<in> set (snd (fp_update m s)) \<longleftrightarrow> m = FpDatabases (BsConfirmed d True) \<and> q = Databases_remove (ds_id d)"
    "Ask c k \<in> set (snd (fp_update m s)) \<longleftrightarrow> (\<exists>f. m = FpDelete f \<and> c = fp_question f \<and> k = FpConfirmed f)
     \<or> (\<exists>d. m = FpDatabases (BsDelete d) \<and> c = bs_question d \<and> k = FpDatabases \<circ> BsConfirmed d)"
    using e by (auto simp: u(4) split: if_splits)
qed

lemma named_jobs_msgs [simp]: "msgs_of (named_jobs b js) = {}"
  by (induction b js rule: named_jobs.induct) auto

lemma SourceCard_msgs [simp]: "msgs (SourceCard icon title badge loc jobs actions) = msgs_of badge \<union> msgs_of actions"
  by (auto simp: SourceCard_def UsedBy_def split: option.splits if_splits)

lemma small_parts [simp]: "msgs (IconAction l m d i) = {m}" "msgs SourceGridSkeleton = {}" "msgs_of (counted_title l n) = {}"
    "msgs (Section title description action cs) = msgs_of title \<union> msgs_of action \<union> msgs_of cs"
  by (auto simp: IconAction_def SourceGridSkeleton_def counted_title_def Count_def Section_def para_def is_disabled_def shown_def)

lemma DatabaseSources_msgs: "msgs (DatabaseSources jobs s) \<subseteq> {BsReload} \<union> BsDelete ` set (bs_databases s)"
  by (auto simp: DatabaseSources_def add_from_def Let_def ErrorState_msgs EmptyState_msgs split: option.splits if_splits)

lemma FoldersRoute_no_answer: "FpConfirmed f b \<notin> msgs (FoldersRoute s)" "FpDatabases (BsConfirmed d b) \<notin> msgs (FoldersRoute s)"
  using DatabaseSources_msgs [of "fp_sources s" "fp_databases s"]
  by (auto simp: FoldersRoute_def fp_content_def fp_add_def fp_card_def ErrorState_msgs EmptyState_msgs
      split: option.splits if_splits dest: ListPagination_pages)


definition folders_shown :: folders_page where
  "folders_shown = (fst (fp_mount False None))\<lparr>fp_fetch := fetch_init (Some [site_folder])\<rparr>"


end
