(* ===== verification/JobDetail.thy ===== *)
theory JobDetail
  imports Activity JobCard SnapshotsPanel ScheduleEditor RetentionEditor Overview
begin

text \<open>
  \<open>src/ui/src/routes/job-detail.jsx\<close>: the page of one job, with its overview, its history in pages, the button
  that runs it and the dialog that deletes it. The snapshots panel and the two editors are arguments of the
  tree; what the editors hand out is \<open>JtSaved\<close>, their \<open>onSaved\<close>. A job whose answer of 200 carries no job cannot be drawn.
\<close>

section \<open>The dialog that deletes\<close>

record delete_dialog =
  jx_open :: bool
  jx_forget :: bool
  jx_busy :: bool

datatype jx_out = JxConfirm bool | JxClose bool

text \<open>\<open>JxDone\<close> is what the promise of \<open>onConfirm\<close> resolved to.\<close>

datatype jx_msg = JxProps bool | JxForget bool | JxSubmit | JxDone bool | JxDismiss bool

definition jx_reset :: "delete_dialog \<Rightarrow> delete_dialog" where
  "jx_reset s = (if jx_open s then s\<lparr>jx_forget := False, jx_busy := False\<rparr> else s)"

definition jx_props :: "bool \<Rightarrow> delete_dialog \<Rightarrow> delete_dialog" where
  "jx_props b s = (if b \<noteq> jx_open s then jx_reset (s\<lparr>jx_open := b\<rparr>) else s)"

definition jx_mount :: "bool \<Rightarrow> delete_dialog" where
  "jx_mount b = jx_reset \<lparr>jx_open = b, jx_forget = False, jx_busy = False\<rparr>"

primrec jx_update :: "(delete_dialog, jx_msg, jx_out) update" where
  "jx_update (JxProps b) s = (jx_props b s, [])"
| "jx_update (JxForget b) s = (s\<lparr>jx_forget := b\<rparr>, [])"
| "jx_update JxSubmit s = (s\<lparr>jx_busy := True\<rparr>, [Out (JxConfirm (jx_forget s))])"
| "jx_update (JxDone done_ok) s = (s\<lparr>jx_busy := False\<rparr>, if done_ok then [Out (JxClose False)] else [])"
| "jx_update (JxDismiss b) s = (s, [Out (JxClose b)])"

definition JobDeleteDialog :: "string \<Rightarrow> delete_dialog \<Rightarrow> jx_msg ui" where
  "JobDeleteDialog jobName s = Dialog (jx_open s) JxDismiss [Node ''form'' [On ''submit'' JxSubmit]
     [Node ''DialogHeader'' []
        [Node ''DialogTitle'' [] [Txt (''Delete '' @ lquote @ jobName @ rquote @ ''?'')],
         Node ''DialogDescription'' [] [Txt (''The job is removed from the app. Run history is kept. Snapshots stay in the '' @
           ''repository unless you choose otherwise below.'')]],
      CheckOption (jx_forget s) JxForget (jx_busy s) ''Also delete this job's snapshots''
        ''Forget every snapshot tagged for this job and prune unused data. This cannot be undone.'',
      Node ''DialogFooter'' []
        [Node ''Button'' [At ''type'' ''button'', On ''click'' (JxDismiss False)] [Txt ''Cancel''],
         Node ''Button'' [At ''type'' ''submit'', At ''variant'' ''destructive'', Flag ''disabled'' (jx_busy s)]
           [Txt (if jx_busy s then ''Working'' @ ellipsis else if jx_forget s then ''Delete job and snapshots'' else ''Delete job'')]]]]"

section \<open>State and effects of the page\<close>

record job_history =
  jh_job :: "job option"
  jh_runs :: "run list"
  jh_total :: int

datatype jt_data = JtMissing | JtHas job_history

record job_page =
  jt_id :: string
  jt_version :: nat
  jt_active :: "run list"
  jt_starting :: bool
  jt_deleting :: bool
  jt_page :: int
  jt_fetch :: "(jt_data, string) fetch_hook"
  jt_strips :: strips_hook
  jt_form :: "delete_dialog option"

datatype jt_msg = JtId string | JtLive nat "run list" | JtRetry | JtSaved | JtLoaded nat "response list"
  | JtStrips nat "string list" "response list" | JtRun | JtRan response | JtDelete | JtForm jx_msg | JtRemoved bool string response
  | JtPage int | JtBack | JtPanel panel_msg | JtSchedule sched_msg | JtRetention ret_msg

type_synonym jt_cmds = "(jt_msg, jt_msg) cmd list"

definition jt_job :: "job_page \<Rightarrow> job option" where
  "jt_job s = (case fh_data (jt_fetch s) of Some (JtHas h) \<Rightarrow> jh_job h | _ \<Rightarrow> None)"

definition jt_query :: "job_page \<Rightarrow> request list" where
  "jt_query s = [Jobs_get (jt_id s), Jobs_runs (jt_id s) [(''limit'', Some (show_int PAGE_SIZE)),
     (''offset'', Some (show_int ((jt_page s - 1) * PAGE_SIZE)))]]"

text \<open>A failed list of runs counts as an empty one.\<close>

definition jt_result :: "response list \<Rightarrow> string + jt_data" where
  "jt_result rs =
     (if res_status (rs ! 0) = 404 then Inr JtMissing
      else if \<not> res_ok (rs ! 0) then Inl (errorOf (rs ! 0) ''Could not load the job.'')
      else Inr (JtHas \<lparr>jh_job = b_job (body_of (rs ! 0)), jh_runs = or_empty (b_runs (body_of (rs ! 1))),
        jh_total = b_total (body_of (rs ! 1))\<rparr>))"

definition jt_load :: "job_page \<Rightarrow> job_page \<times> jt_cmds" where
  "jt_load s = run_load jt_fetch (\<lambda>h s. s\<lparr>jt_fetch := h\<rparr>) jt_query JtLoaded s"

definition jt_load_strips :: "job_page \<Rightarrow> job_page \<Rightarrow> job_page \<times> jt_cmds" where
  "jt_load_strips s t =
     (let (h, reqs) = strips_effect [jt_id s] (jt_strips t)
      in (t\<lparr>jt_strips := h\<rparr>, if reqs = [] then [] else [CallAll reqs (JtStrips (js_gen h) (split_on (CHR '','') (jt_id s)))]))"

definition jt_reload :: "job_page \<Rightarrow> job_page" where
  "jt_reload s = s\<lparr>jt_fetch := fetch_bump (jt_fetch s)\<rparr>"

definition jt_key :: "job_page \<Rightarrow> string \<times> int \<times> nat" where
  "jt_key s = (jt_id s, jt_page s, fh_nonce (jt_fetch s))"

definition jt_dialog :: "job_page \<Rightarrow> delete_dialog option" where
  "jt_dialog s = (case jt_job s of None \<Rightarrow> None
     | Some j \<Rightarrow> Some (case jt_form s of None \<Rightarrow> jx_mount (jt_deleting s) | Some d \<Rightarrow> jx_props (jt_deleting s) d))"

definition jt_title :: "job_page \<Rightarrow> job_page \<Rightarrow> jt_cmds" where
  "jt_title before s = (if fh_data (jt_fetch s) = fh_data (jt_fetch before) then []
     else case jt_job s of None \<Rightarrow> [] | Some j \<Rightarrow> [Do (SetTitle (job_name j @ '' '' @ middot @ '' restic backup manager''))])"

text \<open>The last page of the data, when there is any.\<close>

definition jt_last :: "job_page \<Rightarrow> int" where
  "jt_last s = (case fh_data (jt_fetch s) of Some (JtHas h) \<Rightarrow> last_page (jh_total h) | _ \<Rightarrow> jt_page s)"

definition jt_effects :: "(job_page, jt_msg, jt_msg) effects" where
  "jt_effects before s =
     (let s0 = s\<lparr>jt_form := jt_dialog s\<rparr>;
          (s1, cs1) = (if jt_key s = jt_key before then (s0, []) else jt_load s0);
          (s2, cs2) = (if (jt_id s, jt_version s) = (jt_id before, jt_version before) then (s1, []) else jt_load_strips s s1);
          s3 = (if jt_version s \<noteq> jt_version before \<and> 0 < jt_version s then jt_reload s2 else s2);
          s4 = (if (fh_data (jt_fetch s) \<noteq> fh_data (jt_fetch before) \<or> jt_page s \<noteq> jt_page before) \<and> jt_last s < jt_page s
                then s3\<lparr>jt_page := jt_last s\<rparr> else s3)
      in (s4, cs1 @ cs2 @ jt_title before s))"

section \<open>Messages\<close>

definition jt_runNow :: "job_page \<Rightarrow> job_page \<times> jt_cmds" where
  "jt_runNow s = (s\<lparr>jt_starting := True\<rparr>, [Call (Jobs_run (jt_id s)) JtRan])"

definition jt_ran :: "response \<Rightarrow> job_page \<Rightarrow> job_page \<times> jt_cmds" where
  "jt_ran res s0 = (let s = s0\<lparr>jt_starting := False\<rparr>; (started, es) = handleStartResponse res ''Could not start the backup.'' True
     in (if started then jt_reload s else s, map Do es))"

text \<open>\<open>remove\<close>, with the id and the name of the render that made it.\<close>

definition jt_remove :: "bool \<Rightarrow> job_page \<Rightarrow> jt_cmds" where
  "jt_remove forget s = [Call (if forget then Jobs_forget (jt_id s) True else Jobs_remove (jt_id s))
     (JtRemoved forget (opt_str job_name (jt_job s) ''''))]"

fun jt_outs :: "jx_out list \<Rightarrow> job_page \<Rightarrow> job_page \<times> jt_cmds" where
  "jt_outs [] s = (s, [])"
| "jt_outs (JxClose b # os) s = jt_outs os (s\<lparr>jt_deleting := b\<rparr>)"
| "jt_outs (JxConfirm forget # os) s = (let (t, cs) = jt_outs os s in (t, jt_remove forget s @ cs))"

definition jt_inForm :: "jx_msg \<Rightarrow> job_page \<Rightarrow> job_page \<times> jt_cmds" where
  "jt_inForm m s = (case jt_form s of None \<Rightarrow> (s, [])
     | Some d \<Rightarrow> (let (d', cs) = jx_update m d in jt_outs (outs cs) (s\<lparr>jt_form := Some d'\<rparr>)))"

definition jt_removed :: "bool \<Rightarrow> string \<Rightarrow> response \<Rightarrow> bool \<times> effect list" where
  "jt_removed forget name res =
     (if forget then handleStartResponse res ''Could not delete the job and its snapshots.'' False
      else if res_ok res then (True, [Toast (plain_toast Success (''Job '' @ lquote @ name @ rquote @ '' deleted.'')), Navigate ''/jobs'' False])
      else (False, [Toast (plain_toast Failure (errorOf res ''Could not delete the job.''))]))"

primrec jt_handle :: "(job_page, jt_msg, jt_msg) update" where
  "jt_handle (JtId i) s = (s\<lparr>jt_id := i\<rparr>, [])"
| "jt_handle (JtLive v active) s = (s\<lparr>jt_version := v, jt_active := active\<rparr>, [])"
| "jt_handle JtRetry s = (jt_reload s, [])"
| "jt_handle JtSaved s = (jt_reload s, [])"
| "jt_handle (JtLoaded n rs) s = (s\<lparr>jt_fetch := fetch_settle n (jt_result rs) (jt_fetch s)\<rparr>, [])"
| "jt_handle (JtStrips n ids rs) s = (s\<lparr>jt_strips := strips_deliver n (strips_answers ids rs) (jt_strips s)\<rparr>, [])"
| "jt_handle JtRun s = jt_runNow s"
| "jt_handle (JtRan res) s = jt_ran res s"
| "jt_handle JtDelete s = (s\<lparr>jt_deleting := True\<rparr>, [])"
| "jt_handle (JtForm m) s = jt_inForm m s"
| "jt_handle (JtRemoved forget name res) s =
     (let (done_ok, es) = jt_removed forget name res; (t, cs) = jt_inForm (JxDone done_ok) s in (t, map Do es @ cs))"
| "jt_handle (JtPage p) s = (s\<lparr>jt_page := p\<rparr>, [])"
| "jt_handle JtBack s = (s, [Do GoBack])"
| "jt_handle (JtPanel m) s = (s, [Out (JtPanel m)])"
| "jt_handle (JtSchedule m) s = (s, [Out (JtSchedule m)])"
| "jt_handle (JtRetention m) s = (s, [Out (JtRetention m)])"

definition jt_update :: "(job_page, jt_msg, jt_msg) update" where
  "jt_update = page_update jt_handle jt_effects"

definition jt_first :: "string \<Rightarrow> nat \<Rightarrow> run list \<Rightarrow> job_page" where
  "jt_first i version active = \<lparr>jt_id = i, jt_version = version, jt_active = active, jt_starting = False, jt_deleting = False, jt_page = 1,
     jt_fetch = fetch_init None, jt_strips = strips_init, jt_form = None\<rparr>"

text \<open>The effects of the first render all run; a reload they ask for is a second render.\<close>

definition jt_mount :: "string \<Rightarrow> nat \<Rightarrow> run list \<Rightarrow> job_page \<times> jt_cmds" where
  "jt_mount i version active =
     (let s0 = jt_first i version active; (s1, cs1) = jt_load s0; (s2, cs2) = jt_load_strips s0 s1;
          s3 = (if 0 < version then jt_reload s2 else s2); (s4, cs4) = jt_effects s0 s3
      in (s4, cs1 @ cs2 @ cs4))"

section \<open>What it renders\<close>

definition Route :: "job \<Rightarrow> 'm ui" where
  "Route j = Node ''span'' []
     [Node ''span'' [] [Icon (if job_sourceKind j = ''database'' then ''Database'' else ''FolderOpen''),
        Node ''span'' [At ''title'' (job_sourceLabel j)]
          [Txt (str_or (job_sourceLabel j) (str_or (job_folderPath j) (str_or (job_folderName j) ''?'')))]],
      Icon ''ArrowRight'',
      Node ''Link'' [At ''to'' (''/repositories/'' @ job_repositoryId j)] [Icon ''Vault'', Node ''span'' [] [Txt (str_or (job_repoName j) ''?'')]]]"

definition overview_last :: "env \<Rightarrow> run list \<Rightarrow> 'm ui list" where
  "overview_last e strip = (case strip of [] \<Rightarrow> [Node ''span'' [] [Txt ''Never'']]
     | r # rs \<Rightarrow>
       [Node ''span'' [At ''tooltip'' (statusLabel (run_status r) @ '' '' @ middot @ '' '' @ fmtTime e (run_startedAt r))]
          [StatusDot (run_status r), Txt (fmtRelative e (run_startedAt r))],
        Node ''p'' [At ''class'' (if run_error r \<noteq> '''' then ''text-destructive'' else ''text-muted-foreground'')]
          [Txt (ostr_or (lastRunSummary (Some r)) (statusLabel (run_status r)))]])"

definition Overview :: "env \<Rightarrow> job \<Rightarrow> run list \<Rightarrow> int \<Rightarrow> 'm ui" where
  "Overview e j strip tot =
     (let retention = (case job_retention j of None \<Rightarrow> '''' | Some p \<Rightarrow> if ret_enabled p then describeRetentionTitle (Some p) else '''') in
      Node ''Card'' []
       [Node ''div'' []
          [Node ''div'' [] [Node ''h2'' [] [Txt ''Recent backups''],
             Node ''p'' [] [Txt (''The last '' @ show_nat STRIP_SLOTS @ '', newest on the right'')]],
           Node ''div'' [] [RunStrip e (Some strip) STRIP_SLOTS, RunStripLegend]],
        Node ''dl'' []
          [Node ''div'' [] [Node ''dt'' [] [Txt ''Last backup''], Node ''dd'' [] (overview_last e strip)],
           Node ''div'' [] [Node ''dt'' [] [Txt ''Automatic backup''],
             Node ''dd'' (shown (job_scheduleState j = ''overdue'') [At ''class'' ''text-warning'']) [Txt (scheduleText e j)]],
           Node ''div'' [] [Node ''dt'' [] [Txt ''Retention''],
             Node ''dd'' [] [Node ''p'' [] [Txt (str_or retention ''Keeps every snapshot'')],
               Node ''p'' [] [Txt (show_int tot @ '' operation'' @ (if tot = 1 then '''' else ''s'') @ '' so far'')]]]]])"

definition jt_jobActive :: "job_page \<Rightarrow> run list" where
  "jt_jobActive s = filter (\<lambda>r. run_jobId r = jt_id s) (jt_active s)"

definition jt_activeRun :: "job_page \<Rightarrow> job_history \<Rightarrow> run option" where
  "jt_activeRun s h = (case jt_jobActive s of r # rs \<Rightarrow> Some r
     | [] \<Rightarrow> find (\<lambda>r. run_status r = ''running'' \<or> run_status r = ''starting'') (jh_runs h))"

definition jt_header :: "job_page \<Rightarrow> job_history \<Rightarrow> job \<Rightarrow> jt_msg ui" where
  "jt_header s h j = PageHeader [Txt (job_name j)] [Route j]
     [(case jt_activeRun s h of
         Some r \<Rightarrow> Node ''Button'' [] [Node ''Link'' [At ''to'' (''/runs/'' @ run_id r)] [StatusBadge (run_status r), Txt ''View progress'']]
       | None \<Rightarrow> Node ''Button'' [On ''click'' JtRun, Flag ''disabled'' (jt_starting s)]
           [Icon ''Play'', Txt (if jt_starting s then ''Starting'' @ ellipsis else ''Run backup'')]),
      Node ''Button'' [On ''click'' JtDelete, At ''aria-label'' ''Delete job'', At ''tooltip'' ''Delete this job''] [Icon ''Trash2'']]
     [Breadcrumb ''/jobs'' ''Jobs'' (job_name j)] [KindTile ''job'' None ''lg'']"

definition jt_running :: "env \<Rightarrow> (run \<Rightarrow> run_stream) \<Rightarrow> job_page \<Rightarrow> jt_msg ui list" where
  "jt_running e stream s = shown (jt_jobActive s \<noteq> []) [Node ''div'' [] [ActiveRunsCard e stream (jt_jobActive s)
     (active_card_defaults\<lparr>ac_title := ''Running for this job'', ac_description := ''Live operations started from this job.''\<rparr>)]]"

definition jt_history :: "env \<Rightarrow> job_page \<Rightarrow> job_history \<Rightarrow> jt_msg ui" where
  "jt_history e s h = Node ''Card'' []
     ([Node ''CardHeader'' [] [Node ''div'' []
         [Node ''CardTitle'' [] [Txt ''Activity'', Node ''span'' [] [Txt (show_int (jh_total h))]],
          Node ''CardDescription'' [] [Txt ''Finished and in-progress operations for this job. Open a row for the full log.'']]],
       Node ''div'' [] [RunHistory e (jh_runs h) False False (Some ''This job has never run. Start a backup and it will appear here.'')]] @
      shown (PAGE_SIZE < jh_total h) [Node ''div'' [] (ListPagination (jt_page s) PAGE_SIZE (jh_total h) JtPage)])"

record job_panels =
  jp_panel :: "panel_msg ui"
  jp_schedule :: "sched_msg ui"
  jp_retention :: "ret_msg ui"

definition jt_screen :: "env \<Rightarrow> (run \<Rightarrow> run_stream) \<Rightarrow> job_panels \<Rightarrow> job_page \<Rightarrow> job_history \<Rightarrow> job \<Rightarrow> jt_msg ui" where
  "jt_screen e stream ps s h j = Page
     ([jt_header s h j] @ jt_running e stream s @
      [Overview e j (or_empty (js_strips (jt_strips s) (jt_id s))) (jh_total h),
       Node ''div'' []
         [Node ''div'' [] [jt_history e s h, map_ui JtPanel (jp_panel ps)],
          Node ''div'' [] [map_ui JtSchedule (jp_schedule ps), map_ui JtRetention (jp_retention ps)]]] @
      (case jt_form s of None \<Rightarrow> [] | Some d \<Rightarrow> [map_ui JtForm (JobDeleteDialog (job_name j) d)]))"

definition JobDetail :: "env \<Rightarrow> (run \<Rightarrow> run_stream) \<Rightarrow> job_panels \<Rightarrow> job_page \<Rightarrow> jt_msg ui" where
  "JobDetail e stream ps s =
     (case (fh_data (jt_fetch s), fh_error (jt_fetch s)) of
        (Some JtMissing, _) \<Rightarrow> NotFound JtBack
      | (None, Some err) \<Rightarrow> Page [Breadcrumb ''/jobs'' ''Jobs'' ''Job'',
          ErrorState (Some ''Could not load this job'') (err @ '' Check that the server is running, then retry.'') (Some JtRetry)]
      | (None, None) \<Rightarrow> Page [Node ''Skeleton'' [] [], Node ''Skeleton'' [] [], Node ''Skeleton'' [] [],
          Node ''div'' [] [Node ''Skeleton'' [] [], Node ''Skeleton'' [] []]]
      | (Some (JtHas h), _) \<Rightarrow> (case jh_job h of None \<Rightarrow> Node ''div'' [] [] | Some j \<Rightarrow> jt_screen e stream ps s h j))"

section \<open>Loading\<close>

lemma jt_loaded_eq [simp]: "JtLoaded n = JtLoaded n' \<longleftrightarrow> n = n'" "JtStrips n ids \<noteq> JtLoaded n'" "JtLoaded n' \<noteq> JtStrips n ids"
  by (auto simp: fun_eq_iff)

lemma jt_load_eq: "jt_load s = (s\<lparr>jt_fetch := fetch_effect (jt_fetch s)\<rparr>,
    [CallAll (jt_query s) (JtLoaded (Suc (fh_generation (jt_fetch s))))])"
  by (simp add: jt_load_def run_load_def Let_def)

lemma jt_load_strips_frame: "fst (jt_load_strips s t) = t\<lparr>jt_strips := jt_strips (fst (jt_load_strips s t))\<rparr>"
    "no_load JtLoaded (snd (jt_load_strips s t))"
    "c \<in> set (snd (jt_load_strips s t)) \<Longrightarrow> \<exists>q k. c = CallAll q k"
  by (auto simp: jt_load_strips_def no_load_def split: prod.splits if_splits)

lemma jt_title_simps [simp]: "no_load f (jt_title b s)" "c \<in> set (jt_title b s) \<Longrightarrow> \<exists>x. c = Do (SetTitle x)"
  by (auto simp: jt_title_def split: option.splits if_splits)

definition jt_page_after :: "job_page \<Rightarrow> job_page \<Rightarrow> int" where
  "jt_page_after b s = (if (fh_data (jt_fetch s) \<noteq> fh_data (jt_fetch b) \<or> jt_page s \<noteq> jt_page b) \<and> jt_last s < jt_page s
     then jt_last s else jt_page s)"

lemma jt_effects_eq:
  assumes "jt_effects b s = (s', cs)"
  shows "jt_fetch s' = (if jt_version s \<noteq> jt_version b \<and> 0 < jt_version s then fetch_bump else id)
      (if jt_key s = jt_key b then jt_fetch s else fetch_effect (jt_fetch s))"
    and "\<exists>ds. cs = (if jt_key s = jt_key b then [] else [CallAll (jt_query s) (JtLoaded (Suc (fh_generation (jt_fetch s))))]) @ ds
      \<and> no_load JtLoaded ds \<and> (\<forall>c \<in> set ds. (\<exists>q k. c = CallAll q k) \<or> (\<exists>x. c = Do (SetTitle x)))"
    and "jt_id s' = jt_id s" "jt_version s' = jt_version s" "jt_starting s' = jt_starting s" "jt_deleting s' = jt_deleting s"
    and "jt_form s' = jt_dialog s" "jt_page s' = jt_page_after b s"
proof -
  let ?s0 = "s\<lparr>jt_form := jt_dialog s\<rparr>"
  define s1 where "s1 = (if jt_key s = jt_key b then ?s0 else ?s0\<lparr>jt_fetch := fetch_effect (jt_fetch s)\<rparr>)"
  define cs1 :: jt_cmds where "cs1 = (if jt_key s = jt_key b then [] else [CallAll (jt_query s) (JtLoaded (Suc (fh_generation (jt_fetch s))))])"
  define r where "r = (if (jt_id s, jt_version s) = (jt_id b, jt_version b) then (s1, []) else jt_load_strips s s1)"
  define s3 where "s3 = (if jt_version s \<noteq> jt_version b \<and> 0 < jt_version s then jt_reload (fst r) else fst r)"
  have q: "jt_query ?s0 = jt_query s" by (simp add: jt_query_def)
  have e: "s' = (if (fh_data (jt_fetch s) \<noteq> fh_data (jt_fetch b) \<or> jt_page s \<noteq> jt_page b) \<and> jt_last s < jt_page s
      then s3\<lparr>jt_page := jt_last s\<rparr> else s3)" "cs = cs1 @ snd r @ jt_title b s"
    using assms by (auto simp: jt_effects_def Let_def jt_load_eq s1_def cs1_def r_def s3_def q split: prod.splits if_splits)
  have f: "fst r = s1\<lparr>jt_strips := jt_strips (fst r)\<rparr>" using jt_load_strips_frame(1) [of s s1] by (simp add: r_def)
  then obtain st where st: "fst r = s1\<lparr>jt_strips := st\<rparr>" by blast
  show "jt_fetch s' = (if jt_version s \<noteq> jt_version b \<and> 0 < jt_version s then fetch_bump else id)
      (if jt_key s = jt_key b then jt_fetch s else fetch_effect (jt_fetch s))"
    "jt_id s' = jt_id s" "jt_version s' = jt_version s" "jt_starting s' = jt_starting s" "jt_deleting s' = jt_deleting s"
    "jt_form s' = jt_dialog s" "jt_page s' = jt_page_after b s"
    by (simp_all add: e(1) s3_def st s1_def jt_reload_def jt_page_after_def)
  have "no_load JtLoaded (snd r)" "\<forall>c \<in> set (snd r). \<exists>q k. c = CallAll q k"
    using jt_load_strips_frame(2,3) [where s = s and t = s1] by (auto simp: r_def)
  then show "\<exists>ds. cs = (if jt_key s = jt_key b then [] else [CallAll (jt_query s) (JtLoaded (Suc (fh_generation (jt_fetch s))))]) @ ds
      \<and> no_load JtLoaded ds \<and> (\<forall>c \<in> set ds. (\<exists>q k. c = CallAll q k) \<or> (\<exists>x. c = Do (SetTitle x)))"
    by (intro exI [where x = "snd r @ jt_title b s"]) (auto simp: e(2) cs1_def)
qed

lemma jt_outs_fields: "jt_fetch (fst (jt_outs os s)) = jt_fetch s" "jt_id (fst (jt_outs os s)) = jt_id s"
    "jt_form (fst (jt_outs os s)) = jt_form s" "no_load f (snd (jt_outs os s))" "jt_page (fst (jt_outs os s)) = jt_page s"
  by (induction os s rule: jt_outs.induct) (auto simp: jt_remove_def split: prod.splits)

lemma jt_inForm_fields: "jt_fetch (fst (jt_inForm m s)) = jt_fetch s" "jt_id (fst (jt_inForm m s)) = jt_id s"
    "no_load f (snd (jt_inForm m s))" "jt_page (fst (jt_inForm m s)) = jt_page s"
  by (simp_all add: jt_inForm_def jt_outs_fields split: option.split prod.split)

lemma jt_handle_load: "jt_fetch (fst (jt_handle m s)) = jt_fetch s \<or> jt_fetch (fst (jt_handle m s)) = fetch_bump (jt_fetch s)
    \<or> (\<exists>n r. jt_fetch (fst (jt_handle m s)) = fetch_settle n r (jt_fetch s))"
  "no_load JtLoaded (snd (jt_handle m s))"
  "\<exists>r. jt_fetch (fst (jt_handle (JtLoaded n rs) s)) = fetch_settle n r (jt_fetch s)"
proof -
  show "jt_fetch (fst (jt_handle m s)) = jt_fetch s \<or> jt_fetch (fst (jt_handle m s)) = fetch_bump (jt_fetch s)
    \<or> (\<exists>n r. jt_fetch (fst (jt_handle m s)) = fetch_settle n r (jt_fetch s))"
    by (cases m; auto simp: jt_reload_def jt_runNow_def jt_ran_def jt_inForm_fields Let_def split: prod.splits)
      (metis fst_conv jt_inForm_fields(1))+
  show "no_load JtLoaded (snd (jt_handle m s))"
    by (cases m; auto simp: jt_runNow_def jt_ran_def jt_inForm_fields Let_def split: prod.splits) (metis snd_conv jt_inForm_fields(3))
  show "\<exists>r. jt_fetch (fst (jt_handle (JtLoaded n rs) s)) = fetch_settle n r (jt_fetch s)"
    by (rule exI [where x = "jt_result rs"]) simp
qed

definition jt_env :: "jt_msg set" where
  "jt_env = range JtId \<union> {m. \<exists>v rs. m = JtLive v rs} \<union> {JtSaved}"

lemma jt_round:
  assumes "fetch_wf (jt_fetch s)" and "jt_effects b s = (s', cs)"
  shows "fetch_wf (jt_fetch s') \<and> (if jt_key s = jt_key b
     then fh_generation (jt_fetch s') = fh_generation (jt_fetch s) \<and> fh_loading (jt_fetch s') = fh_loading (jt_fetch s)
       \<and> (\<forall>n qs. CallAll qs (JtLoaded n) \<notin> set cs)
     else fh_generation (jt_fetch s') = Suc (fh_generation (jt_fetch s))
       \<and> fresh_loads JtLoaded (fh_generation (jt_fetch s)) (fh_generation (jt_fetch s')) (jt_query s) cs)"
proof -
  obtain ds where ds: "cs = (if jt_key s = jt_key b then [] else [CallAll (jt_query s) (JtLoaded (Suc (fh_generation (jt_fetch s))))]) @ ds"
    "no_load JtLoaded ds" using jt_effects_eq(2) [OF assms(2)] by blast
  show ?thesis by (rule usual_round [where loaded = JtLoaded, OF jt_effects_eq(1) [OF assms(2)] ds]) (simp_all add: assms(1))
qed

lemma jt_mount_load:
  assumes "jt_mount i version active = (s, cs)"
  shows "fetch_wf (jt_fetch s) \<and> fresh_loads JtLoaded 0 (fh_generation (jt_fetch s)) (jt_query s) cs"
proof -
  let ?s0 = "jt_first i version active"
  let ?s1 = "fst (jt_load ?s0)"
  let ?s2 = "fst (jt_load_strips ?s0 ?s1)"
  define s3 where "s3 = (if 0 < version then jt_reload ?s2 else ?s2)"
  define cs4 where "cs4 = snd (jt_effects ?s0 s3)"
  have "jt_mount i version active = (fst (jt_effects ?s0 s3), snd (jt_load ?s0) @ snd (jt_load_strips ?s0 ?s1) @ cs4)"
    by (simp add: jt_mount_def Let_def s3_def cs4_def split_beta)
  then have e: "jt_effects ?s0 s3 = (s, cs4)" "cs = snd (jt_load ?s0) @ snd (jt_load_strips ?s0 ?s1) @ cs4"
    using assms by (auto simp: cs4_def)
  obtain st where st: "?s2 = ?s1\<lparr>jt_strips := st\<rparr>" using jt_load_strips_frame(1) by blast
  have s3: "jt_fetch s3 = (if 0 < version then fetch_bump else id) (fetch_effect (fetch_init None))" "jt_id s3 = i" "jt_page s3 = 1"
    "jt_version s3 = version"
    unfolding s3_def st by (simp_all add: jt_load_eq jt_reload_def jt_first_def)
  have wf: "fetch_wf (jt_fetch s3)" by (simp add: s3 fetch_effect_wf)
  have q: "jt_query s = jt_query s3" "jt_query ?s0 = jt_query s3"
    using s3 jt_effects_eq(3,8) [OF e(1)] by (simp_all add: jt_query_def jt_page_after_def jt_last_def jt_first_def)
  define pre where "pre = snd (jt_load ?s0) @ snd (jt_load_strips ?s0 ?s1)"
  have f: "fresh_loads JtLoaded 0 1 (jt_query s3) pre" unfolding pre_def
    by (rule fresh_loads_skip(2))
      (use jt_load_strips_frame(2) [of ?s0 ?s1] q in \<open>auto simp: fresh_loads_def jt_load_eq no_load_def jt_first_def\<close>)
  have cs: "cs = pre @ cs4" by (simp add: e(2) pre_def)
  note r = jt_round [OF wf e(1)]
  show ?thesis
  proof (cases "version = 0")
    case True
    then have "jt_key s3 = jt_key ?s0" using s3 by (simp add: jt_key_def jt_first_def)
    then show ?thesis using r f s3 True unfolding cs q(1) by (auto intro: fresh_loads_skip(2))
  next
    case False
    then have "jt_key s3 \<noteq> jt_key ?s0" using s3 by (simp add: jt_key_def jt_first_def)
    then show ?thesis using r f s3 False unfolding cs q(1) by (auto intro: fresh_loads_later)
  qed
qed

lemma jt_rest:
  assumes "jt_effects b s = (s1, cs1)" and "jt_effects s s1 = (s2, cs2)"
  shows "jt_key s2 = jt_key s1"
proof -
  note e1 = jt_effects_eq(1,3,4,8) [OF assms(1)] and e2 = jt_effects_eq(1,3,4,8) [OF assms(2)]
  have d: "fh_data (jt_fetch s1) = fh_data (jt_fetch s)" by (simp add: e1(1))
  have "jt_page_after s s1 = jt_page s1"
  proof (cases "jt_page s1 = jt_page s")
    case False
    then have "jt_page s1 = jt_last s" by (simp add: e1(4) jt_page_after_def split: if_splits)
    moreover have "jt_last s1 \<in> {jt_last s, jt_page s1}" by (simp add: jt_last_def d split: option.split jt_data.split)
    ultimately show ?thesis by (auto simp: jt_page_after_def)
  qed (simp add: jt_page_after_def d)
  then show ?thesis using e1 e2 by (simp add: jt_key_def)
qed

interpretation jt_loads: fetch_page jt_handle jt_effects "JobDetail e stream ps" jt_env "jt_mount i version active" jt_fetch jt_key jt_query
    JtLoaded for e stream ps i version active
proof unfold_locales
  fix s m t and cs :: jt_cmds
  assume wf: "fetch_wf (jt_fetch s)" and "jt_handle m s = (t, cs)"
  then have t: "t = fst (jt_handle m s)" "cs = snd (jt_handle m s)" by simp_all
  show "fetch_wf (jt_fetch t) \<and> fh_generation (jt_fetch t) = fh_generation (jt_fetch s)
      \<and> (\<forall>n qs. CallAll qs (JtLoaded n) \<notin> set cs)
      \<and> (fh_loading (jt_fetch t) \<longrightarrow> fh_loading (jt_fetch s) \<and> (\<forall>rs. m \<noteq> JtLoaded (fh_generation (jt_fetch s)) rs))"
    unfolding t by (rule usual_handle [where loaded = JtLoaded, OF wf jt_handle_load(1) _ jt_handle_load(2)])
      (use jt_handle_load(3) [of "fh_generation (jt_fetch s)" _ s] in blast)
next
  fix s b s' and cs :: jt_cmds
  assume "fetch_wf (jt_fetch s)" "jt_effects b s = (s', cs)"
  then show "fetch_wf (jt_fetch s') \<and> (if jt_key s = jt_key b
     then fh_generation (jt_fetch s') = fh_generation (jt_fetch s) \<and> fh_loading (jt_fetch s') = fh_loading (jt_fetch s)
       \<and> (\<forall>n qs. CallAll qs (JtLoaded n) \<notin> set cs)
     else fh_generation (jt_fetch s') = Suc (fh_generation (jt_fetch s))
       \<and> fresh_loads JtLoaded (fh_generation (jt_fetch s)) (fh_generation (jt_fetch s')) (jt_query s) cs)" by (rule jt_round)
qed (auto simp: jt_query_def jt_key_def dest: jt_mount_load jt_rest)

section \<open>Properties\<close>

lemma jx_props_idem [simp]: "jx_props b (jx_props b d) = jx_props b d" "jx_props b (jx_mount b) = jx_mount b"
  by (simp_all add: jx_props_def jx_mount_def jx_reset_def)

lemma jt_after:
  "jt_id (fst (jt_update m s)) = jt_id (fst (jt_handle m s))"
  "jt_deleting (fst (jt_update m s)) = jt_deleting (fst (jt_handle m s))"
  "jt_job (fst (jt_update m s)) = jt_job (fst (jt_handle m s))"
  "jt_form (fst (jt_update m s)) = jt_dialog (fst (jt_handle m s))"
  "fh_data (jt_fetch (fst (jt_update m s))) = fh_data (jt_fetch (fst (jt_handle m s)))"
  "Call q k \<in> set (snd (jt_update m s)) \<longleftrightarrow> Call q k \<in> set (snd (jt_handle m s))"
proof -
  define t where "t = fst (jt_handle m s)"
  obtain s1 c1 where e1: "jt_effects s t = (s1, c1)" by (metis surj_pair)
  obtain s2 c2 where e2: "jt_effects t s1 = (s2, c2)" by (metis surj_pair)
  have u: "jt_update m s = (s2, snd (jt_handle m s) @ c1 @ c2)"
    using e1 e2 by (simp add: jt_update_def page_update_def commit_def t_def split_beta)
  note f1 = jt_effects_eq [OF e1] and f2 = jt_effects_eq [OF e2]
  have d: "fh_data (jt_fetch s1) = fh_data (jt_fetch t)" "fh_data (jt_fetch s2) = fh_data (jt_fetch t)" by (simp_all add: f1(1) f2(1))
  then have j: "jt_job s1 = jt_job t" "jt_job s2 = jt_job t" by (simp_all add: jt_job_def)
  show "jt_id (fst (jt_update m s)) = jt_id (fst (jt_handle m s))" "jt_deleting (fst (jt_update m s)) = jt_deleting (fst (jt_handle m s))"
    "jt_job (fst (jt_update m s)) = jt_job (fst (jt_handle m s))"
    "fh_data (jt_fetch (fst (jt_update m s))) = fh_data (jt_fetch (fst (jt_handle m s)))"
    using f1(3,6) f2(3,6) d j by (simp_all add: u t_def [symmetric])
  have "jt_form s2 = jt_dialog t"
    unfolding f2(7) jt_dialog_def j f1(6,7) by (simp add: jt_dialog_def split: option.split)
  then show "jt_form (fst (jt_update m s)) = jt_dialog (fst (jt_handle m s))" by (simp add: u t_def)
  have "Call q k \<notin> set c1" "Call q k \<notin> set c2" using f1(2) f2(2) by (auto split: if_splits)
  then show "Call q k \<in> set (snd (jt_update m s)) \<longleftrightarrow> Call q k \<in> set (snd (jt_handle m s))" by (simp add: u)
qed

definition delete_request :: "bool \<Rightarrow> string \<Rightarrow> request" where
  "delete_request forget i = (if forget then Jobs_forget i True else Jobs_remove i)"

lemma jt_inForm_sends: "Call q (JtRemoved f n) \<in> set (snd (jt_inForm x s)) \<longleftrightarrow>
    x = JxSubmit \<and> (\<exists>d. jt_form s = Some d \<and> f = jx_forget d) \<and> n = opt_str job_name (jt_job s) '''' \<and> q = delete_request f (jt_id s)"
  by (cases x; auto simp: jt_inForm_def jt_remove_def delete_request_def fun_eq_iff jt_job_def split: option.splits if_splits)

lemma jt_sends: "Call q (JtRemoved f n) \<in> set (snd (jt_update m s)) \<longleftrightarrow>
    m = JtForm JxSubmit \<and> (\<exists>d. jt_form s = Some d \<and> f = jx_forget d) \<and> n = opt_str job_name (jt_job s) '''' \<and> q = delete_request f (jt_id s)"
proof -
  have "(Call q (JtRemoved f n) \<in> set (snd (jt_handle m s))) =
    (m = JtForm JxSubmit \<and> (\<exists>d. jt_form s = Some d \<and> f = jx_forget d) \<and> n = opt_str job_name (jt_job s) '''' \<and> q = delete_request f (jt_id s))"
  proof (cases m)
    case (JtForm x)
    then show ?thesis using jt_inForm_sends [of q f n x s] by simp
  next
    case (JtRemoved g nm res)
    then show ?thesis using jt_inForm_sends [of q f n "JxDone (fst (jt_removed g nm res))" s] by (auto simp: Let_def split: prod.splits)
  qed (auto simp: jt_runNow_def jt_ran_def Let_def fun_eq_iff split: prod.splits)
  then show ?thesis by (simp add: jt_after(6))
qed

lemma JobDeleteDialog_msgs: "msgs (JobDeleteDialog n d) = range JxDismiss \<union> (if jx_open d \<and> \<not> jx_busy d then {JxSubmit} \<union> range JxForget else {})"
  by (auto simp: JobDeleteDialog_def)

lemma jt_quiet [simp]: "msgs (Overview e j strip tot) = {}" "msgs_of (jt_running e stream s) = {}" "msgs (Route j) = {}"
  by (auto simp: Overview_def overview_last_def Let_def jt_running_def active_card_defaults_def Route_def shown_def RunStripLegend_def split: list.splits)

lemma jt_screen_submit: "JtForm x \<in> msgs (jt_screen e stream ps s h j) \<longleftrightarrow>
    (\<exists>d. jt_form s = Some d \<and> x \<in> msgs (JobDeleteDialog (job_name j) d))"
  by (auto simp: jt_screen_def jt_header_def jt_history_def shown_def split: option.splits if_splits dest: ListPagination_pages)

lemma jt_dialog_shown: "JtForm x \<in> msgs (JobDetail e stream ps s) \<longleftrightarrow>
    (\<exists>j d. jt_job s = Some j \<and> jt_form s = Some d \<and> x \<in> msgs (JobDeleteDialog (job_name j) d))"
  by (auto simp: JobDetail_def jt_job_def jt_screen_submit ErrorState_msgs split: option.splits jt_data.splits)

lemma texts_map_ui [simp]: "texts (map_ui f u) = texts u"
  by (induction u) (auto simp: comp_def intro!: arg_cong [where f = concat])

lemma dialog_names_job: "jx_open d \<Longrightarrow> ''Delete '' @ lquote @ n @ rquote @ ''?'' \<in> set (texts (JobDeleteDialog n d))"
  by (simp add: JobDeleteDialog_def Dialog_def shown_def)

lemma jt_dialog_names: "jt_job s = Some j \<Longrightarrow> jt_form s = Some d \<Longrightarrow> jx_open d \<Longrightarrow>
    ''Delete '' @ lquote @ job_name j @ rquote @ ''?'' \<in> set (texts (JobDetail e stream ps s))"
  using dialog_names_job [of d "job_name j"]
  by (auto simp: JobDetail_def jt_job_def jt_screen_def Page_def split: option.splits jt_data.splits)


lemma jt_job_frame [simp]: "jt_job (s\<lparr>jt_form := x\<rparr>) = jt_job s" "jt_job (s\<lparr>jt_deleting := b\<rparr>) = jt_job s" "jt_job (s\<lparr>jt_id := i\<rparr>) = jt_job s"
  by (simp_all add: jt_job_def)

lemma jt_steps:
  "jt_form (fst (jt_update (JtForm JxSubmit) s)) = jt_dialog (s\<lparr>jt_form := map_option (\<lambda>d. d\<lparr>jx_busy := True\<rparr>) (jt_form s)\<rparr>)"
  "jt_form (fst (jt_update (JtForm (JxDismiss b)) s)) = jt_dialog (if jt_form s = None then s else s\<lparr>jt_deleting := b\<rparr>)"
  "jt_form (fst (jt_update JtDelete s)) = jt_dialog (s\<lparr>jt_deleting := True\<rparr>)"
  "jt_deleting (fst (jt_update (JtForm JxSubmit) s)) = jt_deleting s"
  "jt_deleting (fst (jt_update (JtForm (JxDismiss b)) s)) = (if jt_form s = None then jt_deleting s else b)"
  "jt_deleting (fst (jt_update JtDelete s)) = True"
  by (auto simp: jt_after jt_inForm_def jt_remove_def jt_dialog_def jt_job_def split: option.splits)

lemma jt_steps_same:
  "jt_job (fst (jt_update (JtForm JxSubmit) s)) = jt_job s" "jt_id (fst (jt_update (JtForm JxSubmit) s)) = jt_id s"
  "jt_job (fst (jt_update (JtForm (JxDismiss b)) s)) = jt_job s" "jt_id (fst (jt_update (JtForm (JxDismiss b)) s)) = jt_id s"
  "jt_job (fst (jt_update JtDelete s)) = jt_job s" "jt_id (fst (jt_update JtDelete s)) = jt_id s"
  "jt_job (fst (jt_update (JtId i) s)) = jt_job s" "jt_id (fst (jt_update (JtId i) s)) = i"
  by (auto simp: jt_after jt_inForm_def jt_remove_def jt_job_def split: option.splits)

text \<open>
  The dialog forgets a delete in flight: cancelled while the request is out and opened again, its button is there again,
  and sends a second delete of the job.
\<close>

theorem job_delete_sent_twice:
  assumes "jt_job s = Some j" and "jt_form s = Some d" and "jx_open d" and "\<not> jx_busy d" and "jt_deleting s"
    and "s' = fst (jt_update JtDelete (fst (jt_update (JtForm (JxDismiss False)) (fst (jt_update (JtForm JxSubmit) s)))))"
  shows "Call (delete_request (jx_forget d) (jt_id s)) (JtRemoved (jx_forget d) (job_name j)) \<in> set (snd (jt_update (JtForm JxSubmit) s))
    \<and> JtForm JxSubmit \<in> msgs (JobDetail e stream ps s')
    \<and> Call (delete_request False (jt_id s)) (JtRemoved False (job_name j)) \<in> set (snd (jt_update (JtForm JxSubmit) s'))"
proof -
  define s1 where "s1 = fst (jt_update (JtForm JxSubmit) s)"
  define s2 where "s2 = fst (jt_update (JtForm (JxDismiss False)) s1)"
  have s1: "jt_job s1 = Some j" "jt_id s1 = jt_id s" "jt_form s1 = Some (d\<lparr>jx_busy := True\<rparr>)" "jt_deleting s1"
    using assms by (auto simp: s1_def jt_steps jt_steps_same jt_dialog_def jx_props_def)
  have s2: "jt_job s2 = Some j" "jt_id s2 = jt_id s" "jt_form s2 = Some (d\<lparr>jx_busy := True, jx_open := False\<rparr>)" "\<not> jt_deleting s2"
    using s1 assms(3) by (auto simp: s2_def jt_steps jt_steps_same jt_dialog_def jx_props_def jx_reset_def)
  have s': "jt_job s' = Some j" "jt_id s' = jt_id s" "jt_form s' = Some \<lparr>jx_open = True, jx_forget = False, jx_busy = False\<rparr>"
    using s2 by (auto simp: assms(6) s1_def [symmetric] s2_def [symmetric] jt_steps jt_steps_same jt_dialog_def jx_props_def jx_reset_def)
  show ?thesis using assms(1-4) s' by (auto simp: jt_sends jt_dialog_shown JobDeleteDialog_msgs opt_str_def)
qed

definition job_shown :: job_page where
  "job_shown = fst (jt_update JtDelete ((jt_first ''j1'' 0 [])\<lparr>jt_fetch := fetch_init (Some (JtHas \<lparr>jh_job = Some sample_job, jh_runs = [], jh_total = 0\<rparr>))\<rparr>))"

lemma job_shown_simps: "jt_job job_shown = Some sample_job" "jt_id job_shown = ''j1''" "jt_deleting job_shown"
    "jt_form job_shown = Some \<lparr>jx_open = True, jx_forget = False, jx_busy = False\<rparr>"
  by (simp_all add: job_shown_def jt_after jt_first_def jt_job_def jt_dialog_def jx_mount_def jx_reset_def)

theorem job_delete_sent_twice_witness:
  "\<exists>s. Call (Jobs_remove ''j1'') (JtRemoved False (job_name sample_job)) \<in> set (snd (jt_update (JtForm JxSubmit) job_shown))
     \<and> s = fst (jt_update JtDelete (fst (jt_update (JtForm (JxDismiss False)) (fst (jt_update (JtForm JxSubmit) job_shown)))))
     \<and> Call (Jobs_remove ''j1'') (JtRemoved False (job_name sample_job)) \<in> set (snd (jt_update (JtForm JxSubmit) s))"
  using job_delete_sent_twice [OF job_shown_simps(1,4) _ _ job_shown_simps(3) refl] by (simp add: delete_request_def job_shown_simps)

text \<open>
  After the address changes to another job, and until that one is loaded, the page shows the first: the dialog asks
  whether to delete the first by name, and its button deletes the other.
\<close>

theorem job_deletes_another:
  assumes "jt_job s = Some j" and "jt_form s = Some d" and "\<not> jx_open d" and "\<not> jt_deleting s"
    and "s' = fst (jt_update JtDelete (fst (jt_update (JtId i) s)))"
  shows "''Delete '' @ lquote @ job_name j @ rquote @ ''?'' \<in> set (texts (JobDetail e stream ps s'))
    \<and> JtForm JxSubmit \<in> msgs (JobDetail e stream ps s')
    \<and> Call (Jobs_remove i) (JtRemoved False (job_name j)) \<in> set (snd (jt_update (JtForm JxSubmit) s'))"
proof -
  define s1 where "s1 = fst (jt_update (JtId i) s)"
  have s1: "jt_job s1 = Some j" "jt_id s1 = i" "jt_form s1 = Some d" "\<not> jt_deleting s1"
    using assms(1-4) by (auto simp: s1_def jt_steps_same jt_after jt_dialog_def jx_props_def)
  have s': "jt_job s' = Some j" "jt_id s' = i" "jt_form s' = Some \<lparr>jx_open = True, jx_forget = False, jx_busy = False\<rparr>"
    using s1 assms(3) by (auto simp: assms(5) s1_def [symmetric] jt_steps jt_steps_same jt_dialog_def jx_props_def jx_reset_def)
  then show ?thesis using jt_dialog_names [OF s'(1,3)]
    by (intro conjI) (simp_all add: jt_sends jt_dialog_shown JobDeleteDialog_msgs opt_str_def delete_request_def)
qed

definition job_page_open :: job_page where
  "job_page_open = fst (jt_update JtRetry ((jt_first ''j1'' 0 [])\<lparr>jt_fetch := fetch_init (Some (JtHas \<lparr>jh_job = Some sample_job, jh_runs = [], jh_total = 0\<rparr>))\<rparr>))"

theorem job_deletes_another_witness:
  "Call (Jobs_remove ''j2'') (JtRemoved False (job_name sample_job))
     \<in> set (snd (jt_update (JtForm JxSubmit) (fst (jt_update JtDelete (fst (jt_update (JtId ''j2'') job_page_open))))))"
proof -
  have "jt_job job_page_open = Some sample_job" "\<not> jt_deleting job_page_open"
    "jt_form job_page_open = Some \<lparr>jx_open = False, jx_forget = False, jx_busy = False\<rparr>"
    by (simp_all add: job_page_open_def jt_after jt_first_def jt_job_def jt_dialog_def jx_mount_def jx_reset_def jt_reload_def)
  from job_deletes_another [OF this(1,3) _ this(2) refl] show ?thesis by simp
qed

text \<open>
  When the job loads and the list of its runs does not, the page says that the job never ran, whatever history it
  was showing, and goes back to the first page.
\<close>

theorem job_history_lost_on_error:
  assumes "fetch_wf (jt_fetch s)" and "fh_data (jt_fetch s) = Some (JtHas h)" and "0 < jh_total h" and "1 \<le> jt_page s"
    and "res_ok (rs ! 0)" and "res_status (rs ! 0) \<noteq> 404" and "b_job (body_of (rs ! 0)) = Some j"
    and "b_runs (body_of (rs ! 1)) = None" and "b_total (body_of (rs ! 1)) = 0"
    and "s' = fst (jt_update (JtLoaded (fh_generation (jt_fetch s)) rs) s)"
  shows "''This job has never run. Start a backup and it will appear here.'' \<in> set (texts (JobDetail e stream ps s'))
    \<and> jt_page s' = 1"
proof -
  let ?h = "\<lparr>jh_job = Some j, jh_runs = [], jh_total = 0\<rparr>"
  define t where "t = fst (jt_handle (JtLoaded (fh_generation (jt_fetch s)) rs) s)"
  have t: "fh_data (jt_fetch t) = Some (JtHas ?h)" "jt_page t = jt_page s" "jt_version t = jt_version s" "jt_id t = jt_id s"
    using assms(1,5-9) by (simp_all add: t_def fetch_settle_data jt_result_def or_empty_def)
  obtain s1 c1 where e1: "jt_effects s t = (s1, c1)" by (metis surj_pair)
  obtain s2 c2 where e2: "jt_effects t s1 = (s2, c2)" by (metis surj_pair)
  have u: "s' = s2" using e1 e2 by (simp add: assms(10) jt_update_def page_update_def commit_def t_def split_beta)
  note f1 = jt_effects_eq [OF e1] and f2 = jt_effects_eq [OF e2]
  have l: "jt_last t = 1" by (simp add: jt_last_def t(1) last_page_def ceil_div_def PAGE_SIZE_def)
  have "fh_data (jt_fetch t) \<noteq> fh_data (jt_fetch s)" using t(1) assms(2,3) by auto
  then have p1: "jt_page s1 = 1" using f1(8) l t(2) assms(4) by (simp add: jt_page_after_def)
  have d1: "fh_data (jt_fetch s1) = Some (JtHas ?h)" "fh_data (jt_fetch s2) = Some (JtHas ?h)" by (simp_all add: f1(1) f2(1) t(1))
  then have "jt_last s1 = 1" by (simp add: jt_last_def last_page_def ceil_div_def PAGE_SIZE_def)
  then have "jt_page s' = 1" using f2(8) p1 u by (simp add: jt_page_after_def)
  moreover have "''This job has never run. Start a backup and it will appear here.'' \<in> set (texts (jt_history e s' ?h))"
    by (simp add: jt_history_def RunHistory_def)
  then have "''This job has never run. Start a backup and it will appear here.'' \<in> set (texts (JobDetail e stream ps s'))"
    unfolding JobDetail_def u d1 by (simp add: jt_screen_def Page_def)
  ultimately show ?thesis by simp
qed

theorem job_history_lost_on_error_witness:
  "\<exists>s rs. (\<forall>h. fh_data (jt_fetch s) = Some (JtHas h) \<longrightarrow> jh_total h = 40) \<and> jt_page s = 3
     \<and> jt_page (fst (jt_update (JtLoaded (fh_generation (jt_fetch s)) rs) s)) = 1"
proof -
  let ?s = "(jt_first ''j1'' 0 [])\<lparr>jt_fetch := fetch_init (Some (JtHas \<lparr>jh_job = Some sample_job, jh_runs = [], jh_total = 40\<rparr>)), jt_page := 3\<rparr>"
  let ?rs = "[\<lparr>res_status = 200, res_ok = True, res_body = Some (empty_body\<lparr>b_job := Some sample_job\<rparr>)\<rparr>,
    \<lparr>res_status = 500, res_ok = False, res_body = Some (empty_body\<lparr>b_error := ''database is locked''\<rparr>)\<rparr>]"
  have "jt_page (fst (jt_update (JtLoaded (fh_generation (jt_fetch ?s)) ?rs) ?s)) = 1"
    using job_history_lost_on_error [of ?s "\<lparr>jh_job = Some sample_job, jh_runs = [], jh_total = 40\<rparr>" ?rs sample_job, OF _ _ _ _ _ _ _ _ _ refl]
    by (simp add: body_of_def empty_body_def)
  then show ?thesis by (intro exI [where x = ?s] exI [where x = ?rs]) simp
qed

end
