(* ===== verification/Shell.thy ===== *)
theory Shell
  imports Hooks Live Auth Theme Widgets Endpoints
begin

text \<open>
  \<open>src/ui/src/components/shell.jsx\<close>: the frame around the pages. The status of Docker, the live state and the
  path are its inputs; whether a link is the active one (\<open>NavLink\<close> of the router library) is an argument.
\<close>

section \<open>Navigation\<close>

record nav_item =
  nv_to :: string
  nv_label :: string
  nv_icon :: string
  nv_tone :: string

definition NAV :: "nav_item list" where
  "NAV = [\<lparr>nv_to = ''/dashboard'', nv_label = ''Dashboard'', nv_icon = ''LayoutGrid'', nv_tone = ''brand''\<rparr>,
     \<lparr>nv_to = ''/jobs'', nv_label = ''Jobs'', nv_icon = ''Workflow'', nv_tone = ''violet''\<rparr>,
     \<lparr>nv_to = ''/repositories'', nv_label = ''Repositories'', nv_icon = ''Vault'', nv_tone = ''cyan''\<rparr>,
     \<lparr>nv_to = ''/folders'', nv_label = ''Sources'', nv_icon = ''FolderOpen'', nv_tone = ''fuchsia''\<rparr>,
     \<lparr>nv_to = ''/activity'', nv_label = ''Activity'', nv_icon = ''Activity'', nv_tone = ''brand''\<rparr>]"

definition useNav :: "docker_status option \<Rightarrow> nav_item list" where
  "useNav docker = (case docker of None \<Rightarrow> NAV
     | Some d \<Rightarrow> if \<not> dk_available d then NAV
         else take 2 NAV @ [\<lparr>nv_to = ''/coolify'', nv_label = (if dk_coolify d then ''Coolify'' else ''Docker''), nv_icon = ''Container'',
           nv_tone = ''fuchsia''\<rparr>] @ drop 2 NAV)"

section \<open>The version of restic\<close>

text \<open>\<open>version.match(/restic\s+([\d.]+)/)[1]\<close>: the first match from the left, as long as it goes.\<close>

definition version_char :: "char \<Rightarrow> bool" where
  "version_char c \<longleftrightarrow> is_digit c \<or> c = CHR ''.''"

definition version_at :: "string \<Rightarrow> string option" where
  "version_at s = (if \<not> starts_with ''restic'' s then None
     else let r = drop 6 s; v = takeWhile version_char (dropWhile is_space r)
       in if takeWhile is_space r = [] \<or> v = [] then None else Some v)"

fun match_version :: "string \<Rightarrow> string option" where
  "match_version s = (case version_at s of Some v \<Rightarrow> Some v
     | None \<Rightarrow> (case s of [] \<Rightarrow> None | c # cs \<Rightarrow> match_version cs))"

declare match_version.simps [simp del]

definition version_line :: "server_status \<Rightarrow> string" where
  "version_line st = hd (split_on (CHR ''\<newline>'') (ss_resticVersion st))"

section \<open>State and handlers\<close>

record shell =
  sh_menuOpen :: bool
  sh_path :: string
  sh_docker :: "docker_status option"
  sh_live :: live
  sh_theme :: string

text \<open>\<open>ShLogout drawer\<close>: the button of the drawer or of the fixed side bar. What the reply means for the session is handed out.\<close>

datatype sh_msg = ShPath string | ShDocker "docker_status option" | ShLive live | ShMenu bool | ShClose | ShLogout bool
  | ShLoggedOut response | ShTheme string | ShThemed string

type_synonym sh_cmds = "(sh_msg, sh_msg) cmd list"

definition sh_commit :: "shell \<Rightarrow> shell \<Rightarrow> shell" where
  "sh_commit before s = (if sh_path s = sh_path before then s else s\<lparr>sh_menuOpen := False\<rparr>)"

primrec sh_handle :: "(shell, sh_msg, sh_msg) update" where
  "sh_handle (ShPath p) s = (s\<lparr>sh_path := p\<rparr>, [])"
| "sh_handle (ShDocker d) s = (s\<lparr>sh_docker := d\<rparr>, [])"
| "sh_handle (ShLive l) s = (s\<lparr>sh_live := l\<rparr>, [])"
| "sh_handle (ShMenu b) s = (s\<lparr>sh_menuOpen := b\<rparr>, [])"
| "sh_handle ShClose s = (s\<lparr>sh_menuOpen := False\<rparr>, [])"
| "sh_handle (ShLogout drawer) s = (if drawer then s\<lparr>sh_menuOpen := False\<rparr> else s, [Call Auth_logout ShLoggedOut])"
| "sh_handle (ShLoggedOut res) s = (s, [Out (ShLoggedOut res), Do (Navigate ''/login'' True)])"
| "sh_handle (ShTheme t) s = (s, [Out (ShTheme t)])"
| "sh_handle (ShThemed t) s = (s\<lparr>sh_theme := t\<rparr>, [])"

definition sh_update :: "(shell, sh_msg, sh_msg) update" where
  "sh_update m s = (let (t, cs) = sh_handle m s in (sh_commit s t, cs))"

definition sh_mount :: "string \<Rightarrow> docker_status option \<Rightarrow> live \<Rightarrow> string \<Rightarrow> shell \<times> sh_cmds" where
  "sh_mount path docker lv theme = (\<lparr>sh_menuOpen = False, sh_path = path, sh_docker = docker, sh_live = lv, sh_theme = theme\<rparr>, [])"

section \<open>What it renders\<close>

text \<open>A link of the drawer closes it; the links of the fixed side bar have no handler.\<close>

definition closing :: "bool \<Rightarrow> sh_msg attr list" where
  "closing drawer = shown drawer [On ''click'' ShClose]"

definition Brand :: "bool \<Rightarrow> sh_msg ui" where
  "Brand drawer = Node ''Link'' ([At ''to'' ''/dashboard''] @ closing drawer)
     [BrandMark, Node ''span'' [] [Node ''span'' [] [Txt ''restic''], Node ''span'' [] [Txt ''backup manager'']]]"

definition NavItem :: "(string \<Rightarrow> bool) \<Rightarrow> bool \<Rightarrow> nav_item \<Rightarrow> sh_msg ui list \<Rightarrow> sh_msg ui" where
  "NavItem active drawer i badge = Node ''NavLink'' ([At ''to'' (nv_to i)] @ closing drawer @
       [At ''class'' (if active (nv_to i) then ''bg-card text-foreground'' else ''text-muted-foreground'')])
     ([Node (nv_icon i) (class_of (if active (nv_to i) then lookup TONE_TEXT (nv_tone i) else Some ''text-muted-foreground'')) [],
       Node ''span'' [] [Txt (nv_label i)]] @ badge)"

definition RunningCount :: "nat \<Rightarrow> sh_msg ui list" where
  "RunningCount n = shown (n \<noteq> 0) [Node ''span'' [] [Icon ''Loader2'', Txt (show_nat n)]]"

definition ResticStatus :: "server_status \<Rightarrow> sh_msg ui" where
  "ResticStatus st =
     (let v = version_line st in
      if \<not> ss_resticInstalled st then Node ''div'' [] [Icon ''CircleAlert'', Txt ''restic not found'']
      else Node ''div'' [At ''tooltip'' (str_or v ''restic is installed'')]
        [Node ''span'' [] [], Node ''span'' [] ([Txt ''restic ''] @
           (case match_version v of None \<Rightarrow> [] | Some x \<Rightarrow> [Node ''span'' [] [Txt x]]) @ [Txt '' ready''])])"

definition settings_item :: nav_item where
  "settings_item = \<lparr>nv_to = ''/settings'', nv_label = ''Settings'', nv_icon = ''Settings'', nv_tone = ''neutral''\<rparr>"

definition SidebarContent :: "(string \<Rightarrow> bool) \<Rightarrow> bool \<Rightarrow> shell \<Rightarrow> sh_msg ui" where
  "SidebarContent active drawer s = Node ''div'' []
     [Node ''div'' [] [Brand drawer],
      Node ''nav'' [At ''aria-label'' ''Main''] (map (\<lambda>i. NavItem active drawer i
        (if nv_to i = ''/activity'' then RunningCount (length (lv_activeRuns (sh_live s))) else [])) (useNav (sh_docker s))),
      Node ''div'' [] [NavItem active drawer settings_item [], ResticStatus (lv_status (sh_live s)),
        Node ''div'' [] [map_ui ShTheme (ThemeSwitch (sh_theme s)),
          Node ''Button'' [At ''aria-label'' ''Log out'', On ''click'' (ShLogout drawer), At ''tooltip'' ''Log out''] [Icon ''LogOut'']]]]"

definition MobileActivity :: "shell \<Rightarrow> sh_msg ui list" where
  "MobileActivity s = (let n = length (lv_activeRuns (sh_live s)) in shown (n \<noteq> 0)
     [Node ''Link'' [At ''to'' ''/activity''] [Icon ''Loader2'', Node ''span'' [] [Txt (show_nat n @ '' running'')]]])"

definition ResticBanner :: "server_status \<Rightarrow> sh_msg ui list" where
  "ResticBanner st = shown (\<not> ss_resticInstalled st) [Node ''div'' [] [Icon ''CircleAlert'',
     Node ''p'' [] [Node ''strong'' [] [Txt ''restic is not installed.''], Txt '' This app runs the '', Node ''code'' [] [Txt ''restic''],
       Txt ('' binary '' @ em_dash @ '' install it (for example ''), Node ''code'' [] [Txt ''brew install restic''], Txt '', or see '',
       Node ''a'' [At ''href'' ''https://restic.net''] [Txt ''restic.net''], Txt '') and restart the app.'']]]"

definition Shell :: "(string \<Rightarrow> bool) \<Rightarrow> sh_msg ui \<Rightarrow> shell \<Rightarrow> sh_msg ui" where
  "Shell active outlet s = Node ''div'' []
     ([Node ''aside'' [] [SidebarContent active False s],
       Node ''header'' [] [Node ''Button'' [At ''aria-label'' ''Open menu'', On ''click'' (ShMenu True)] [Icon ''Menu''],
         Brand False, Node ''div'' [] (MobileActivity s)],
       Node ''Sheet'' [Flag ''open'' (sh_menuOpen s), OnBool ''openChange'' ShMenu]
         (shown (sh_menuOpen s) [Node ''SheetContent'' [] [Node ''SheetTitle'' [] [Txt ''Menu''], SidebarContent active True s]])] @
      ResticBanner (lv_status (sh_live s)) @
      [Node ''main'' [] [outlet],
       Node ''footer'' [] [Txt (''Single-user tool '' @ middot @ '' password-protected '' @ middot @ '' the backup engine is ''),
         Node ''code'' [] [Txt ''restic'']]])"

section \<open>Properties\<close>

lemma match_version_here: "version_at s = Some v \<Longrightarrow> match_version s = Some v"
  by (subst match_version.simps) simp

text \<open>
  The side bar shows the version that \<open>restic version\<close> prints: from a line that begins with "restic", the number after it,
  whole, whatever follows.
\<close>

theorem shell_reads_version:
  assumes "v \<noteq> ''''" and "list_all version_char v" and "rest = '''' \<or> \<not> version_char (hd rest)"
  shows "match_version (''restic '' @ v @ rest) = Some v"
proof -
  have "takeWhile version_char (v @ rest) = v" using assms(2,3) by (cases rest) (auto simp: takeWhile_append list_all_iff)
  moreover have "\<not> is_space c" if "version_char c" for c using that by (auto simp: version_char_def is_digit_def is_space_def)
  then have "dropWhile is_space (v @ rest) = v @ rest" "is_space (CHR '' '')"
    using assms(1,2) by (cases v; simp add: is_space_def)+
  ultimately have "version_at (''restic '' @ v @ rest) = Some v"
    using assms(1) by (simp add: version_at_def starts_with_def Let_def)
  then show ?thesis by (rule match_version_here)
qed

theorem shell_reads_version_witness: "match_version ''restic 0.16.4 compiled with go1.21.6 on linux/amd64'' = Some ''0.16.4''"
  using shell_reads_version [of "''0.16.4''" "'' compiled with go1.21.6 on linux/amd64''"] by (simp add: version_char_def is_digit_def)

text \<open>
  Until an answer about the server arrives, and for ever when those requests fail, the frame says that restic is not installed,
  whatever the server has.
\<close>

theorem shell_banner_before_status:
  assumes "list_all (\<lambda>r. \<not> res_ok r) rs" and "sh_live s = fold refreshStatus rs live_init"
  shows "''restic is not installed.'' \<in> set (texts (Shell active outlet s)) \<and> ''restic not found'' \<in> set (texts (Shell active outlet s))
    \<and> (\<forall>r. res_ok r \<and> b_resticInstalled (body_of r) \<longrightarrow> ResticBanner (lv_status (refreshStatus r (sh_live s))) = [])"
proof -
  have "fold refreshStatus rs live_init = live_init"
    using assms(1) by (induction rs) (simp_all add: refreshStatus_def)
  then have "\<not> ss_resticInstalled (lv_status (sh_live s))" using assms(2) by (simp add: live_init_def)
  then show ?thesis by (simp add: Shell_def ResticBanner_def SidebarContent_def ResticStatus_def refreshStatus_def Let_def)
qed

definition first_shell :: shell where
  "first_shell = fst (sh_mount ''/dashboard'' None live_init ''system'')"

theorem shell_banner_before_status_witness:
  "''restic is not installed.'' \<in> set (texts (Shell (\<lambda>p. False) (Txt '''') first_shell))"
  using shell_banner_before_status [of "[]" first_shell "\<lambda>p. False" "Txt ''''"] by (simp add: first_shell_def sh_mount_def)

lemma nav_msgs: "msgs (NavItem active d i badge) \<subseteq> {ShClose} \<union> msgs_of badge" "msgs (Brand d) \<subseteq> {ShClose}"
  by (auto simp: NavItem_def Brand_def closing_def BrandMark_def shown_def class_of_def split: if_splits option.splits)

lemma status_line_msgs [simp]: "msgs (ResticStatus st) = {}" "msgs_of (RunningCount n) = {}"
  by (auto simp: ResticStatus_def RunningCount_def Let_def split: option.splits)

lemma drawer_msgs: "msgs (SidebarContent active d s) \<subseteq> {ShClose, ShLogout d} \<union> range ShTheme"
proof -
  have "msgs (NavItem active d i (if nv_to i = ''/activity'' then RunningCount n else [])) \<subseteq> {ShClose}" for i n
    using nav_msgs(1) [of active d i "if nv_to i = ''/activity'' then RunningCount n else []"] by (auto split: if_splits)
  then show ?thesis using nav_msgs(1) [of active d settings_item "[]"] nav_msgs(2) [of d]
    by (simp add: SidebarContent_def) blast
qed

text \<open>
  The drawer never stays over a page it led to: whatever is pressed in it, the theme apart, closes it, and so does every
  change of the path, and the page below it is not touched by any of them.
\<close>

theorem shell_drawer_closes:
  "(\<forall>m \<in> msgs (SidebarContent active True s). (\<exists>t. m = ShTheme t) \<or> \<not> sh_menuOpen (fst (sh_update m s)))
   \<and> (\<forall>p. p \<noteq> sh_path s \<longrightarrow> \<not> sh_menuOpen (fst (sh_update (ShPath p) s)))
   \<and> (\<forall>m \<in> msgs (SidebarContent active True s). sh_path (fst (sh_update m s)) = sh_path s)"
  using drawer_msgs [of active True s] by (auto simp: sh_update_def sh_commit_def)

text \<open>
  A log-out that fails looks like one that worked: whatever its answer, the page goes to the login, and the next load of the
  application, whose session the server still has, is inside again.
\<close>

theorem shell_failed_logout:
  assumes "\<not> res_ok res" and "\<not> au_loading a" and "\<not> au_setupRequired a"
    and "res_ok st" and "b_authenticated (body_of st)" and "\<not> b_setupRequired (body_of st)"
  shows "snd (sh_update (ShLoggedOut res) s) = [Out (ShLoggedOut res), Do (Navigate ''/login'' True)]
    \<and> router (auth_logout res a) [''login''] = Show PLogin
    \<and> router (auth_refresh st auth_init) [''dashboard''] = Show PDashboard"
proof -
  have "res_body st = Some (body_of st)" using assms(5) by (cases "res_body st") (simp_all add: body_of_def empty_body_def)
  then show ?thesis using assms
    by (simp add: sh_update_def sh_commit_def auth_logout_def auth_refresh_def auth_apply_def router_def login_screen_def RequireAuth_def)
qed

theorem shell_failed_logout_witness:
  "let st = \<lparr>res_status = 200, res_ok = True, res_body = Some (empty_body\<lparr>b_authenticated := True\<rparr>)\<rparr>;
       lost = \<lparr>res_status = 0, res_ok = False, res_body = None\<rparr> in
     router (auth_logout lost (auth_refresh st auth_init)) [''login''] = Show PLogin
   \<and> router (auth_refresh st auth_init) [''dashboard''] = Show PDashboard"
proof -
  let ?st = "\<lparr>res_status = 200, res_ok = True, res_body = Some (empty_body\<lparr>b_authenticated := True\<rparr>)\<rparr>"
  let ?lost = "\<lparr>res_status = 0, res_ok = False, res_body = None\<rparr>"
  have "\<not> au_loading (auth_refresh ?st auth_init)" "\<not> au_setupRequired (auth_refresh ?st auth_init)"
    by (simp_all add: auth_refresh_def auth_apply_def body_of_def empty_body_def)
  from shell_failed_logout [OF _ this, of ?lost ?st] show ?thesis by (simp add: body_of_def empty_body_def)
qed

end
