(* ===== verification/QuickBackup.thy ===== *)
theory QuickBackup
  imports Loads Widgets StartRun GoChecks NewJob
begin

text \<open>
  \<open>QuickBackupDialog\<close> of \<open>src/ui/src/routes/coolify.jsx\<close>: a job for a discovered volume or database in one step, and what
  the server reads of its request (\<open>QuickJobRequest\<close>, the checks at the start of \<open>CreateQuickJob\<close>). The repositories
  are a new array whenever the page has loaded: \<open>fresh\<close> says so. A created job that the answer does not carry would throw.
\<close>

section \<open>State and handlers\<close>

record target =
  tg_kind :: string
  tg_path :: "string option"
  tg_container :: "string option"
  tg_database :: "string option"
  tg_title :: string
  tg_defaultName :: string
  tg_description :: string

record quick_backup =
  qb_target :: "target option"
  qb_repositories :: "repository list"
  qb_name :: string
  qb_repositoryId :: string
  qb_daily :: bool
  qb_runNow :: bool
  qb_busy :: bool
  qb_error :: string

datatype qb_out = QbClose bool | QbDone

datatype qb_msg = QbProps "target option" "repository list" bool | QbName string | QbRepository string | QbDaily bool | QbRunNow bool
  | QbSubmit | QbCreated bool response | QbRan response | QbDismiss bool

type_synonym qb_cmds = "(qb_msg, qb_out) cmd list"

definition qb_reset :: "quick_backup \<Rightarrow> quick_backup" where
  "qb_reset s = (case qb_target s of None \<Rightarrow> s
     | Some t \<Rightarrow> s\<lparr>qb_name := tg_defaultName t, qb_repositoryId := (case qb_repositories s of [] \<Rightarrow> '''' | r # rs \<Rightarrow> repo_id r),
         qb_daily := True, qb_runNow := True, qb_error := ''''\<rparr>)"

definition qb_props :: "target option \<Rightarrow> repository list \<Rightarrow> bool \<Rightarrow> quick_backup \<Rightarrow> quick_backup" where
  "qb_props t rs fresh s = (let u = s\<lparr>qb_target := t, qb_repositories := rs\<rparr> in
     if t \<noteq> qb_target s \<or> fresh then qb_reset u else u)"

definition qb_mount :: "quick_backup \<times> qb_cmds" where
  "qb_mount = (\<lparr>qb_target = None, qb_repositories = [], qb_name = '''', qb_repositoryId = '''', qb_daily = True, qb_runNow = True,
     qb_busy = False, qb_error = ''''\<rparr>, [])"

definition daily_schedule :: schedule where
  "daily_schedule = \<lparr>sch_enabled = True, sch_kind = ''daily'', sch_every = None, sch_at = Some ''02:00'', sch_weekdays = None\<rparr>"

definition qb_body :: "target \<Rightarrow> string \<Rightarrow> string \<Rightarrow> bool \<Rightarrow> json" where
  "qb_body t name repositoryId daily = json_of
     ([(''kind'', Some (JStr (tg_kind t))), (''path'', opt_json JStr (tg_path t)), (''container'', opt_json JStr (tg_container t)),
       (''database'', opt_json JStr (tg_database t)), (''name'', Some (JStr (trim name))), (''repositoryId'', Some (JStr repositoryId))] @
      shown daily [(''schedule'', Some (schedule_json daily_schedule))])"

definition qb_submit :: "quick_backup \<Rightarrow> quick_backup \<times> qb_cmds" where
  "qb_submit s = (case qb_target s of None \<Rightarrow> (s, [])
     | Some t \<Rightarrow> (s\<lparr>qb_busy := True\<rparr>,
         [Call (Docker_createJob (qb_body t (qb_name s) (qb_repositoryId s) (qb_daily s))) (QbCreated (qb_runNow s))]))"

definition qb_finish :: "quick_backup \<Rightarrow> effect list \<Rightarrow> quick_backup \<times> qb_cmds" where
  "qb_finish s es = (s\<lparr>qb_busy := False\<rparr>, map Do es @ [Out (QbClose False), Out QbDone])"

definition qb_created :: "bool \<Rightarrow> response \<Rightarrow> quick_backup \<Rightarrow> quick_backup \<times> qb_cmds" where
  "qb_created runNow res s =
     (if \<not> res_ok res then (s\<lparr>qb_busy := False, qb_error := errorOf res ''Could not create the job.''\<rparr>, [])
      else case b_job (body_of res) of None \<Rightarrow> (s, [])
        | Some j \<Rightarrow> if runNow then (s, [Call (Jobs_run (job_id j)) QbRan])
            else qb_finish s [Toast \<lparr>to_kind = Success, to_title = ''Job '' @ lquote @ job_name j @ rquote @ '' created.'',
              to_description = '''', to_action = Some (''Open job'', ''/jobs/'' @ job_id j), to_duration = None\<rparr>])"

definition qb_ran :: "response \<Rightarrow> quick_backup \<Rightarrow> quick_backup \<times> qb_cmds" where
  "qb_ran res s = qb_finish s (snd (handleStartResponse res ''The job was created, but its first backup could not start.'' True))"

primrec qb_update :: "(quick_backup, qb_msg, qb_out) update" where
  "qb_update (QbProps t rs fresh) s = (qb_props t rs fresh s, [])"
| "qb_update (QbName v) s = (s\<lparr>qb_name := v\<rparr>, [])"
| "qb_update (QbRepository v) s = (s\<lparr>qb_repositoryId := v\<rparr>, [])"
| "qb_update (QbDaily b) s = (s\<lparr>qb_daily := b\<rparr>, [])"
| "qb_update (QbRunNow b) s = (s\<lparr>qb_runNow := b\<rparr>, [])"
| "qb_update QbSubmit s = qb_submit s"
| "qb_update (QbCreated runNow res) s = qb_created runNow res s"
| "qb_update (QbRan res) s = qb_ran res s"
| "qb_update (QbDismiss b) s = (s, [Out (QbClose b)])"

section \<open>What it renders\<close>

definition qb_ready :: "quick_backup \<Rightarrow> bool" where
  "qb_ready s \<longleftrightarrow> \<not> qb_busy s \<and> trim (qb_name s) \<noteq> '''' \<and> qb_repositoryId s \<noteq> ''''"

definition qb_fields :: "quick_backup \<Rightarrow> qb_msg ui list" where
  "qb_fields s =
     [Field ''Job name'' ''quick-name'' '''' [Node ''Input'' [At ''id'' ''quick-name'', At ''value'' (qb_name s), OnText ''change'' QbName] []],
      Field ''Store it in'' ''quick-repo'' '''' [Select (qb_repositoryId s) QbRepository ''quick-repo''
        (map (\<lambda>r. (repo_id r, repo_name r)) (qb_repositories s))],
      Node ''div'' []
        [CheckOption (qb_daily s) QbDaily False ''Back up every day''
           ''At 02:00. Change the schedule or add retention on the job page.'',
         CheckOption (qb_runNow s) QbRunNow False ''Run the first backup now''
           ''Starts as soon as the job is created, so you can check it worked.'']] @ InlineError (qb_error s)"

definition QuickBackupDialog :: "quick_backup \<Rightarrow> qb_msg ui" where
  "QuickBackupDialog s = Dialog (qb_target s \<noteq> None) QbDismiss [Node ''form'' [On ''submit'' QbSubmit]
     [Node ''DialogHeader'' []
        [Node ''DialogTitle'' [] [Txt (''Back up '' @ opt_str tg_title (qb_target s) '''')],
         Node ''DialogDescription'' [] [Txt (opt_str tg_description (qb_target s) '''')]],
      (if qb_repositories s = [] then Callout ''warning'' None ''Add a storage repository first''
         [Txt ''Then come back here. '', Node ''Link'' [At ''to'' ''/repositories''] [Txt ''Open Repositories'']]
       else Node ''div'' [] (qb_fields s)),
      Node ''DialogFooter'' []
        [Node ''Button'' [At ''type'' ''button'', On ''click'' (QbDismiss False)] [Txt ''Cancel''],
         Node ''Button'' [At ''type'' ''submit'', Flag ''disabled'' (\<not> qb_ready s)]
           [Txt (if qb_busy s then ''Creating'' @ ellipsis else ''Create job'')]]]]"

section \<open>The server's side\<close>

record quick_request =
  qr_kind :: string
  qr_path :: string
  qr_container :: string
  qr_database :: string
  qr_name :: string
  qr_sourceName :: string
  qr_repositoryId :: string
  qr_schedule :: "schedule option"
  qr_retention :: "retention option"

definition go_decode_quick :: "json \<Rightarrow> quick_request option" where
  "go_decode_quick v = do {
     k \<leftarrow> go_field '''' go_string v ''kind''; p \<leftarrow> go_field '''' go_string v ''path'';
     c \<leftarrow> go_field '''' go_string v ''container''; d \<leftarrow> go_field '''' go_string v ''database'';
     n \<leftarrow> go_field '''' go_string v ''name''; sn \<leftarrow> go_field '''' go_string v ''sourceName''; r \<leftarrow> go_field '''' go_string v ''repositoryId'';
     s \<leftarrow> go_field None (\<lambda>u. map_option Some (go_decode_schedule u)) v ''schedule'';
     rt \<leftarrow> go_field None (\<lambda>u. map_option Some (go_decode_retention u)) v ''retention'';
     Some \<lparr>qr_kind = k, qr_path = p, qr_container = c, qr_database = d, qr_name = n, qr_sourceName = sn, qr_repositoryId = r,
       qr_schedule = s, qr_retention = rt\<rparr> }"

text \<open>
  The checks \<open>CreateQuickJob\<close> makes of the request itself, with the ids of the repositories: a cleaned path is
  absolute exactly when the trimmed one is. What it asks of Docker and the stores is not modelled.
\<close>

definition go_quick_check :: "string set \<Rightarrow> quick_request \<Rightarrow> string option" where
  "go_quick_check repos q =
     (if trim (qr_name q) = '''' then Some ''a job name is required''
      else if qr_repositoryId q \<notin> repos then Some ''please choose a storage repository''
      else if qr_kind q = ''folder'' then (if \<not> starts_with ''/'' (trim (qr_path q)) then Some ''an absolute folder path is required'' else None)
      else if qr_kind q = ''database'' then None
      else Some ''kind must be \"folder\" or \"database\"'')"

section \<open>What it sends\<close>

lemma QuickBackupDialog_act:
  assumes "m \<in> msgs (QuickBackupDialog s)"
  shows "m = QbSubmit \<and> qb_target s \<noteq> None \<and> qb_ready s \<or> m \<in> range QbName \<union> range QbRepository \<union> range QbDaily \<union> range QbRunNow \<union> range QbDismiss"
  using assms by (auto simp: QuickBackupDialog_def qb_fields_def Select_def split: if_splits)

definition qb_env :: "qb_msg set" where
  "qb_env = {m. \<exists>t rs b. m = QbProps t rs b}"

lemma qb_keeps [simp]: "qb_busy (qb_reset s) = qb_busy s" "qb_busy (qb_props t rs b s) = qb_busy s"
  by (simp_all add: qb_reset_def qb_props_def Let_def split: option.split)

lemmas qb_defs [handlers] = qb_submit_def qb_created_def qb_ran_def qb_finish_def

definition qb_checked :: "(qb_msg, qb_out) cmd \<Rightarrow> bool" where
  "qb_checked c \<longleftrightarrow> (\<exists>t n r d k. c = Call (Docker_createJob (qb_body t n r d)) (QbCreated k) \<and> trim n \<noteq> '''' \<and> r \<noteq> '''')
     \<or> (\<exists>j. c = Call (Jobs_run j) QbRan)"

lemma qb_checked_simps: "qb_ready s \<Longrightarrow> qb_checked (Call (Docker_createJob (qb_body t (qb_name s) (qb_repositoryId s) d)) (QbCreated k))"
    "qb_checked (Call (Jobs_run j) QbRan)"
  unfolding qb_checked_def qb_ready_def by blast+

lemma qb_checked_single: "qb_checked c \<Longrightarrow> is_single c"
  by (auto simp: qb_checked_def)

definition qb_inv :: "quick_backup \<Rightarrow> qb_cmds \<Rightarrow> bool" where
  "qb_inv s p \<longleftrightarrow> length p \<le> (if qb_busy s then 1 else 0) \<and> list_all qb_checked p"

interpretation qb_flight: component qb_update QuickBackupDialog qb_env qb_mount qb_inv
proof unfold_locales
  fix s and cs :: qb_cmds
  assume "qb_mount = (s, cs)"
  then show "qb_inv s (awaiting cs)" by (auto simp: qb_mount_def qb_inv_def)
next
  fix s p m s' and cs :: qb_cmds
  assume inv: "qb_inv s p" and m: "m \<in> msgs (QuickBackupDialog s) \<union> qb_env" and u: "qb_update m s = (s', cs)"
  show "qb_inv s' (p @ awaiting cs)"
  proof (cases "m = QbSubmit")
    case True
    then have "qb_ready s" "p = []" using m inv by (auto simp: qb_env_def qb_inv_def qb_ready_def dest!: QuickBackupDialog_act)
    then show ?thesis using u True by (auto simp: qb_inv_def handlers qb_checked_simps split: option.splits)
  next
    case False
    then have "awaiting cs = [] \<and> qb_busy s' = qb_busy s" using m u by (auto simp: qb_env_def dest!: QuickBackupDialog_act)
    then show ?thesis using inv by (simp add: qb_inv_def)
  qed
next
  fix s p c q m s' and cs :: qb_cmds
  assume inv: "qb_inv s (p @ c # q)" and m: "m \<in> replies c" and u: "qb_update m s = (s', cs)"
  then have e: "p = []" "q = []" "qb_busy s" "qb_checked c" by (auto simp: qb_inv_def split: if_splits)
  then have "(\<exists>k res. m = QbCreated k res) \<or> (\<exists>res. m = QbRan res)" using m by (auto simp: qb_checked_def)
  then have "length (awaiting cs) \<le> (if qb_busy s' then 1 else 0) \<and> list_all qb_checked (awaiting cs)"
    using u e(3) by (auto simp: handlers qb_checked_simps split: if_splits option.splits)
  then show "qb_inv s' (p @ q @ awaiting cs)" by (simp add: qb_inv_def e)
qed

lemma go_decode_qb_body: "go_decode_quick (qb_body t n r d) = Some \<lparr>qr_kind = tg_kind t, qr_path = ostr_or (tg_path t) '''',
    qr_container = ostr_or (tg_container t) '''', qr_database = ostr_or (tg_database t) '''', qr_name = trim n, qr_sourceName = '''', qr_repositoryId = r,
    qr_schedule = (if d then Some (daily_schedule\<lparr>sch_every := Some '''', sch_weekdays := Some []\<rparr>) else None), qr_retention = None\<rparr>"
  by (cases "tg_path t"; cases "tg_container t"; cases "tg_database t"; cases d)
    (simp_all add: go_decode_quick_def qb_body_def json_of_def opt_json_def go_field_def go_string_def json_prop_def shown_def
      schedule_json_def daily_schedule_def go_decode_schedule_def go_bool_def go_ints_def ostr_or_def)

lemma clock_at_two: "go_parseClock ''02:00'' = Inr (2, 0)"
  by code_simp

lemma daily_valid: "go_schedule_validate (daily_schedule\<lparr>sch_every := e, sch_weekdays := ds\<rparr>) = Inr (daily_schedule\<lparr>sch_every := e, sch_weekdays := ds\<rparr>)"
  by (simp add: go_schedule_validate_def daily_schedule_def clock_at_two ostr_or_def)

lemma qb_body_taken: "\<exists>q. go_decode_quick (qb_body t n r d) = Some q \<and> qr_name q = trim n \<and> qr_repositoryId q = r
    \<and> (\<forall>x. qr_schedule q = Some x \<longrightarrow> go_schedule_validate x = Inr x)
    \<and> (\<forall>repos. trim n \<noteq> '''' \<and> r \<in> repos \<and> (tg_kind t = ''database'' \<or> tg_kind t = ''folder'' \<and> starts_with ''/'' (trim (ostr_or (tg_path t) ''''))) \<longrightarrow>
        go_quick_check repos q = None)"
  unfolding go_decode_qb_body by (auto simp: go_quick_check_def daily_valid)

text \<open>
  C7. The dialog never has two requests out, and none while it is not busy. A job is created with a name that is not blank, a
  repository, and a schedule the server's validation takes as it is; of a database, or of a folder whose path is absolute, the
  server refuses none for what the request says. The other request it sends is the first run of the created job.
\<close>

theorem quick_backup_requests:
  assumes "reach qb_update QuickBackupDialog qb_env qb_mount s p"
  shows "length p \<le> (if qb_busy s then 1 else 0)
    \<and> (\<forall>c \<in> set p. (\<exists>j. c = Call (Jobs_run j) QbRan)
      \<or> (\<exists>t n r d k q. c = Call (Docker_createJob (qb_body t n r d)) (QbCreated k) \<and> go_decode_quick (qb_body t n r d) = Some q
          \<and> qr_name q = trim n \<and> trim n \<noteq> '''' \<and> qr_repositoryId q = r \<and> r \<noteq> ''''
          \<and> (\<forall>x. qr_schedule q = Some x \<longrightarrow> go_schedule_validate x = Inr x)
          \<and> (\<forall>repos. r \<in> repos \<and> (tg_kind t = ''database'' \<or> tg_kind t = ''folder'' \<and> starts_with ''/'' (trim (ostr_or (tg_path t) ''''))) \<longrightarrow>
              go_quick_check repos q = None)))"
proof -
  have i: "qb_inv s p" by (rule qb_flight.invariant [OF assms])
  have "(\<exists>j. c = Call (Jobs_run j) QbRan)
      \<or> (\<exists>t n r d k q. c = Call (Docker_createJob (qb_body t n r d)) (QbCreated k) \<and> go_decode_quick (qb_body t n r d) = Some q
          \<and> qr_name q = trim n \<and> trim n \<noteq> '''' \<and> qr_repositoryId q = r \<and> r \<noteq> ''''
          \<and> (\<forall>x. qr_schedule q = Some x \<longrightarrow> go_schedule_validate x = Inr x)
          \<and> (\<forall>repos. r \<in> repos \<and> (tg_kind t = ''database'' \<or> tg_kind t = ''folder'' \<and> starts_with ''/'' (trim (ostr_or (tg_path t) ''''))) \<longrightarrow>
              go_quick_check repos q = None))" if "c \<in> set p" for c
  proof -
    have "qb_checked c" using i that by (simp add: qb_inv_def list_all_iff)
    then consider j where "c = Call (Jobs_run j) QbRan"
      | t n r d k where "c = Call (Docker_createJob (qb_body t n r d)) (QbCreated k)" "trim n \<noteq> ''''" "r \<noteq> ''''"
      by (auto simp: qb_checked_def)
    then show ?thesis
    proof cases
      case 2
      obtain q where "go_decode_quick (qb_body t n r d) = Some q \<and> qr_name q = trim n \<and> qr_repositoryId q = r
          \<and> (\<forall>x. qr_schedule q = Some x \<longrightarrow> go_schedule_validate x = Inr x)
          \<and> (\<forall>repos. trim n \<noteq> '''' \<and> r \<in> repos \<and> (tg_kind t = ''database'' \<or> tg_kind t = ''folder'' \<and> starts_with ''/'' (trim (ostr_or (tg_path t) ''''))) \<longrightarrow>
              go_quick_check repos q = None)"
        using qb_body_taken by (rule exE)
      with 2 show ?thesis
        by - (rule disjI2, rule exI [of _ t], rule exI [of _ n], rule exI [of _ r], rule exI [of _ d], rule exI [of _ k], rule exI [of _ q], simp)
    qed blast
  qed
  then show ?thesis using i by (simp add: qb_inv_def)
qed

definition shop_files :: target where
  "shop_files = \<lparr>tg_kind = ''folder'', tg_path = Some ''/data'', tg_container = None, tg_database = None, tg_title = ''shop files'',
     tg_defaultName = ''shop files'', tg_description = ''''\<rparr>"

definition shop_dialog :: quick_backup where
  "shop_dialog = fst (qb_update (QbProps (Some shop_files) [sample_repository] True) (fst qb_mount))"

lemma shop_dialog_reached: "reach qb_update QuickBackupDialog qb_env qb_mount shop_dialog []"
proof -
  have "reach qb_update QuickBackupDialog qb_env qb_mount (fst qb_mount) []"
    using reach_first [of qb_update QuickBackupDialog qb_env qb_mount] by (simp add: qb_mount_def)
  from reach.act [OF this, of "QbProps (Some shop_files) [sample_repository] True" shop_dialog "[]"] show ?thesis
    by (auto simp: shop_dialog_def qb_env_def)
qed

theorem quick_backup_requests_witness:
  "\<exists>s p. reach qb_update QuickBackupDialog qb_env qb_mount s p \<and> length p = 1 \<and> qb_busy s"
proof -
  have "qb_ready shop_dialog" "qb_target shop_dialog = Some shop_files"
    by (simp_all add: shop_dialog_def qb_props_def qb_reset_def qb_mount_def qb_ready_def shop_files_def sample_repository_def trim_def is_space_def)
  then have "QbSubmit \<in> msgs (QuickBackupDialog shop_dialog)" by (simp add: QuickBackupDialog_def)
  then have R: "reach qb_update QuickBackupDialog qb_env qb_mount (fst (qb_submit shop_dialog)) ([] @ awaiting (snd (qb_submit shop_dialog)))"
    by (intro reach.act [OF shop_dialog_reached, where m = QbSubmit]) simp_all
  moreover have "length (awaiting (snd (qb_submit shop_dialog))) = 1"
    by (simp add: qb_submit_def \<open>qb_target shop_dialog = Some shop_files\<close>)
  ultimately show ?thesis using quick_backup_requests [OF R] by (auto split: if_splits)
qed

end
