(* ===== verification/Coolify.thy ===== *)
theory Coolify
  imports QuickBackup SnapshotTags "HOL-Library.Sublist" "HOL-Library.Multiset"
begin

text \<open>
  \<open>src/ui/src/routes/coolify.jsx\<close> without its dialog (QuickBackup): the rows of a resource, the row of a database
  server as a component of its own, the search, the projects, and the page with its load and the dialog as a component
  inside. The rows' states are an argument of the page's tree, by resource and container; what the user does on one
  leaves the page as its message.
\<close>

section \<open>The rows\<close>

definition isCoolifyKind :: "string \<Rightarrow> bool" where
  "isCoolifyKind k \<longleftrightarrow> k = ''application'' \<or> k = ''service'' \<or> k = ''database''"

definition primaryName :: "resource \<Rightarrow> string" where
  "primaryName r = (case re_domains r of [] \<Rightarrow> re_name r | d # ds \<Rightarrow> str_or d (re_name r))"

fun backed_jobs :: "bool \<Rightarrow> job_ref list \<Rightarrow> 'm ui list" where
  "backed_jobs later [] = []"
| "backed_jobs later (j # js) = [Txt (if later then '', '' else ''''), Node ''Link'' [At ''to'' (''/jobs/'' @ jr_id j)] [Txt (jr_name j)]] @
     backed_jobs True js"

definition BackedUp :: "job_ref list \<Rightarrow> 'm ui list" where
  "BackedUp jobs = shown (jobs \<noteq> []) [Node ''span'' []
     [Node ''Badge'' [] [Icon ''Check'', Txt ''Backed up''], Node ''span'' [] ([Txt ''by ''] @ backed_jobs False jobs)]]"

definition Row :: "string \<Rightarrow> 'm ui list \<Rightarrow> string \<Rightarrow> 'm ui list \<Rightarrow> 'm ui" where
  "Row icon title detail children = Node ''div'' []
     [IconTile (Some icon) ''fuchsia'' ''sm'',
      Node ''div'' [] ([Node ''div'' [] title] @ shown (detail \<noteq> '''') [Node ''div'' [] [Txt detail]]),
      Node ''div'' [] children]"

definition back_up :: "'m \<Rightarrow> 'm ui" where
  "back_up m = Node ''Button'' [On ''click'' m] [Icon ''Plus'', Txt ''Back up'']"

definition files_of :: "resource \<Rightarrow> volume list" where
  "files_of r = filter (\<lambda>v. \<not> vo_databaseData v) (re_volumes r)"

definition volume_target :: "resource \<Rightarrow> volume \<Rightarrow> target" where
  "volume_target r v = (let mounted = join '', '' (vo_mountedAt v) in
     \<lparr>tg_kind = ''folder'', tg_path = Some (vo_path v), tg_container = None, tg_database = None,
      tg_title = primaryName r @ '' files'',
      tg_defaultName = (if 1 < length (files_of r) then primaryName r @ '' '' @ mounted else primaryName r @ '' files''),
      tg_description = ''Backs up '' @ vo_path v @ '', mounted at '' @ mounted @ '' in '' @ join '', '' (vo_containers v) @ ''.''\<rparr>)"

definition VolumeRow :: "(target \<Rightarrow> 'm) \<Rightarrow> resource \<Rightarrow> volume \<Rightarrow> 'm ui" where
  "VolumeRow onBackup r v = Row ''FolderOpen'' [Mono [Txt (join '', '' (vo_mountedAt v))]]
     (if vo_type v = ''volume'' then ''volume '' @ vo_name v else vo_hostPath v)
     (if vo_jobs v \<noteq> [] then BackedUp (vo_jobs v)
      else if vo_path v \<noteq> '''' then [back_up (onBackup (volume_target r v))]
      else [Node ''span'' [At ''tooltip'' (''This app does not see '' @ vo_hostPath v @
          ''. Mount it into the restic-web container to back it up.'')] [Icon ''Unplug'', Txt ''Not reachable'']])"

definition linked_target :: "resource \<Rightarrow> db_link \<Rightarrow> target" where
  "linked_target r l =
     \<lparr>tg_kind = ''database'', tg_path = None, tg_container = Some (lk_container l), tg_database = Some (lk_database l),
      tg_title = ''the '' @ lk_database l @ '' database'', tg_defaultName = primaryName r @ '' database'',
      tg_description = ''Dumps '' @ lk_database l @ '' inside '' @ lk_container l @ '', the database '' @ primaryName r @
        '' is configured to use. The database stays online.''\<rparr>"

text \<open>\<open>byKey\<close>: of several resources with a key the last counts; a link without a resource finds none.\<close>

definition by_key :: "resource list \<Rightarrow> string \<Rightarrow> resource option" where
  "by_key rs k = (if k = '''' then None else map_of (rev (map (\<lambda>r. (re_key r, r)) rs)) k)"

definition source_jobs :: "db_server option \<Rightarrow> string \<Rightarrow> job_ref list" where
  "source_jobs sv db = (case sv of None \<Rightarrow> []
     | Some d \<Rightarrow> (case find (\<lambda>x. sr_database x = db) (sv_sources d) of None \<Rightarrow> [] | Some x \<Rightarrow> sr_jobs x))"

definition linked_jobs :: "resource list \<Rightarrow> db_link \<Rightarrow> job_ref list" where
  "linked_jobs rs l = source_jobs (case by_key rs (lk_resource l) of None \<Rightarrow> None
     | Some r \<Rightarrow> find (\<lambda>d. sv_container d = lk_container l) (re_databases r)) (lk_database l)"

definition LinkedDatabaseRow :: "(target \<Rightarrow> 'm) \<Rightarrow> resource list \<Rightarrow> resource \<Rightarrow> db_link \<Rightarrow> 'm ui" where
  "LinkedDatabaseRow onBackup rs r l = Row ''Database'' [Node ''span'' [] [Txt ''Uses database '', Mono [Txt (lk_database l)]]]
     (if lk_container l \<noteq> ''''
      then engineLabel (lk_engine l) @ '' on '' @ str_or (opt_str re_name (by_key rs (lk_resource l)) '''') (lk_container l)
      else ''on '' @ lk_host l @ '' (not found on this host)'')
     (if linked_jobs rs l \<noteq> [] then BackedUp (linked_jobs rs l)
      else shown (lk_container l \<noteq> '''') [back_up (onBackup (linked_target r l))])"

section \<open>A database server\<close>

record db_row =
  dv_server :: db_server
  dv_open :: bool
  dv_loading :: bool
  dv_databases :: "string list option"
  dv_error :: string

datatype dv_msg = DvServer db_server | DvToggle | DvListed response

type_synonym dv_cmds = "(dv_msg, unit) cmd list"

definition dv_mount :: "db_server \<Rightarrow> db_row \<times> dv_cmds" where
  "dv_mount d = (\<lparr>dv_server = d, dv_open = False, dv_loading = False, dv_databases = None, dv_error = ''''\<rparr>, [])"

definition dv_toggle :: "db_row \<Rightarrow> db_row \<times> dv_cmds" where
  "dv_toggle s = (let next = \<not> dv_open s; t = s\<lparr>dv_open := next\<rparr> in
     if \<not> next \<or> dv_databases s \<noteq> None then (t, [])
     else (t\<lparr>dv_loading := True, dv_databases := None, dv_error := ''''\<rparr>,
       [Call (Docker_databases (sv_container (dv_server s))) DvListed]))"

definition dv_listed :: "response \<Rightarrow> db_row \<Rightarrow> db_row" where
  "dv_listed res s = (if res_ok res
     then s\<lparr>dv_loading := False, dv_databases := Some (or_empty (b_databaseNames (body_of res))), dv_error := ''''\<rparr>
     else s\<lparr>dv_loading := False, dv_databases := None, dv_error := errorOf res ''Could not list the databases.''\<rparr>)"

primrec dv_update :: "(db_row, dv_msg, unit) update" where
  "dv_update (DvServer d) s = (s\<lparr>dv_server := d\<rparr>, [])"
| "dv_update DvToggle s = dv_toggle s"
| "dv_update (DvListed res) s = (dv_listed res s, [])"

definition database_target :: "resource \<Rightarrow> db_server \<Rightarrow> string \<Rightarrow> target" where
  "database_target r d db =
     \<lparr>tg_kind = ''database'', tg_path = None, tg_container = Some (sv_container d), tg_database = Some db,
      tg_title = ''the '' @ db @ '' database'', tg_defaultName = primaryName r @ '' '' @ db,
      tg_description = ''Dumps '' @ db @ '' inside '' @ sv_container d @ '' with the '' @ engineLabel (sv_engine d) @
        '' tools and keeps each dump as a snapshot. The database stays online.''\<rparr>"

definition database_row :: "(target \<Rightarrow> 'm) \<Rightarrow> resource \<Rightarrow> db_server \<Rightarrow> string \<Rightarrow> 'm ui" where
  "database_row onBackup r d db = Row ''Database'' [Mono [Txt db]] ''''
     (if source_jobs (Some d) db \<noteq> [] then BackedUp (source_jobs (Some d) db)
      else [back_up (onBackup (database_target r d db))])"

definition database_list :: "(target \<Rightarrow> 'm) \<Rightarrow> resource \<Rightarrow> db_row \<Rightarrow> 'm ui list" where
  "database_list onBackup r s =
     (if dv_loading s then [Node ''div'' [] (replicate 2 (Node ''Skeleton'' [] []))]
      else if dv_error s \<noteq> '''' then [Node ''p'' [] [Txt (dv_error s)]]
      else if dv_databases s = Some [] then [Node ''p'' [] [Txt ''This server has no databases yet.'']]
      else map (database_row onBackup r (dv_server s)) (or_empty (dv_databases s)))"

definition DatabaseServerRow :: "(target \<Rightarrow> 'm) \<Rightarrow> 'm \<Rightarrow> resource \<Rightarrow> db_row \<Rightarrow> 'm ui" where
  "DatabaseServerRow onBackup onToggle r s =
     (let d = dv_server s; running = (sv_state d = ''running'') in
      Node ''div'' []
        ([Row ''Server'' [Node ''span'' [] [Node ''span'' [] [Txt (engineLabel (sv_engine d))], Mono [Txt (sv_container d)]]]
            (if running then sv_image d else sv_state d @ '' '' @ middot @ '' '' @ sv_image d)
            [Node ''Button'' [On ''click'' onToggle, Flag ''disabled'' (\<not> running), Flag ''aria-expanded'' (dv_open s)]
               [Icon (if dv_open s then ''ChevronDown'' else ''ChevronRight''), Txt (if dv_open s then ''Hide databases'' else ''Show databases'')]]] @
         shown (dv_open s) [Node ''div'' [] [Node ''div'' [] (database_list onBackup r s)]]))"

section \<open>A resource\<close>

type_synonym db_rows = "string \<Rightarrow> string \<Rightarrow> db_row"

definition stopped_of :: "resource \<Rightarrow> resource_container list" where
  "stopped_of r = filter (\<lambda>c. rk_state c \<noteq> ''running'') (re_containers r)"

definition resource_icon :: "resource \<Rightarrow> string" where
  "resource_icon r = (if re_kind r = ''database'' then ''Database'' else if re_domains r \<noteq> [] then ''Globe'' else ''Boxes'')"

definition resource_head :: "resource \<Rightarrow> 'm ui" where
  "resource_head r = Node ''div'' []
     [IconTile (Some (resource_icon r)) (if isCoolifyKind (re_kind r) then ''fuchsia'' else ''neutral'') ''md'',
      Node ''div'' []
        ([Node ''div'' [] ([Node ''p'' [] [Txt (re_name r)], Node ''Badge'' [] [Txt (re_kind r)]] @
            shown (re_self r) [Node ''Badge'' [] [Txt ''This app'']] @
            shown (stopped_of r \<noteq> []) [Node ''Badge'' [] [Txt (if length (stopped_of r) = length (re_containers r) then ''stopped''
              else show_nat (length (stopped_of r)) @ '' stopped'')]])] @
         shown (re_domains r \<noteq> [] \<or> re_environment r \<noteq> '''') [Node ''p'' []
           (map (\<lambda>d. Node ''a'' [At ''href'' (''https://'' @ d)] [Node ''span'' [] [Txt d], Icon ''ArrowUpRight'']) (re_domains r) @
            shown (re_environment r \<noteq> '''') [Node ''span'' [] [Txt (re_environment r)]])])]"

definition ResourceCard :: "(target \<Rightarrow> 'm) \<Rightarrow> (string \<Rightarrow> string \<Rightarrow> 'm) \<Rightarrow> db_rows \<Rightarrow> resource list \<Rightarrow> resource \<Rightarrow> 'm ui" where
  "ResourceCard onBackup onToggle rows rs r = Node ''Card'' []
     [resource_head r,
      if files_of r = [] \<and> re_databases r = [] \<and> re_linked r = [] then Node ''p'' [] [Txt ''No volumes or databases to back up.'']
      else Node ''div'' []
        (map (VolumeRow onBackup r) (files_of r) @
         map (LinkedDatabaseRow onBackup rs r) (re_linked r) @
         map (\<lambda>d. DatabaseServerRow onBackup (onToggle (re_key r) (sv_containerId d)) r
           ((rows (re_key r) (sv_containerId d))\<lparr>dv_server := d\<rparr>)) (re_databases r))]"

section \<open>Search and projects\<close>

definition named_parts :: "resource \<Rightarrow> string list" where
  "named_parts r = [re_name r, re_project r, re_environment r] @ re_domains r @ map rk_name (re_containers r)"

definition resource_matches :: "resource \<Rightarrow> string \<Rightarrow> bool" where
  "resource_matches r q \<longleftrightarrow> q = '''' \<or> includes_text q (to_lower (join '' '' (named_parts r)))"

definition project_of :: "resource \<Rightarrow> string" where
  "project_of r = str_or (re_project r) ''other''"

text \<open>A \<open>Map\<close> keeps its keys in the order they came.\<close>

definition add_project :: "resource \<Rightarrow> (string \<times> resource list) list \<Rightarrow> (string \<times> resource list) list" where
  "add_project r gs = (let p = project_of r in
     if p \<in> set (map fst gs) then map (\<lambda>(k, l). (k, if k = p then l @ [r] else l)) gs else gs @ [(p, [r])])"

definition projects_of :: "resource list \<Rightarrow> (string \<times> resource list) list" where
  "projects_of rs = fold add_project rs []"

section \<open>The page\<close>

record docker_host =
  dh_ok :: bool
  dh_error :: string
  dh_resources :: "resource list"
  dh_repositories :: "repository list"

text \<open>\<open>cf_stamp\<close> counts the times the array of repositories is a new object.\<close>

record coolify_page =
  cf_docker :: "docker_status option"
  cf_query :: string
  cf_showOther :: "bool option"
  cf_target :: "target option"
  cf_fetch :: "(docker_host, string) fetch_hook"
  cf_stamp :: nat
  cf_form :: quick_backup

datatype cf_msg = CfDocker "docker_status option" | CfQuery string | CfOther bool | CfBackup target | CfReload
  | CfLoaded nat "response list" | CfRow string string dv_msg | CfForm qb_msg

type_synonym cf_cmds = "(cf_msg, string \<times> string \<times> dv_msg) cmd list"

definition cf_resources :: "coolify_page \<Rightarrow> resource list" where
  "cf_resources s = (case fh_data (cf_fetch s) of None \<Rightarrow> [] | Some d \<Rightarrow> dh_resources d)"

definition cf_repositories :: "coolify_page \<Rightarrow> repository list" where
  "cf_repositories s = (case fh_data (cf_fetch s) of None \<Rightarrow> [] | Some d \<Rightarrow> dh_repositories d)"

definition cf_search :: "coolify_page \<Rightarrow> string" where
  "cf_search s = to_lower (trim (cf_query s))"

definition cf_coolify :: "coolify_page \<Rightarrow> resource list" where
  "cf_coolify s = filter (\<lambda>r. isCoolifyKind (re_kind r) \<and> resource_matches r (cf_search s)) (cf_resources s)"

definition cf_other :: "coolify_page \<Rightarrow> resource list" where
  "cf_other s = filter (\<lambda>r. \<not> isCoolifyKind (re_kind r) \<and> resource_matches r (cf_search s)) (cf_resources s)"

definition cf_otherOpen :: "coolify_page \<Rightarrow> bool" where
  "cf_otherOpen s = (case cf_showOther s of Some b \<Rightarrow> b | None \<Rightarrow> cf_coolify s = [])"

definition cf_loader :: "request list" where
  "cf_loader = [Docker_resources, Repositories_list]"

definition cf_result :: "response list \<Rightarrow> docker_host" where
  "cf_result rs = \<lparr>dh_ok = res_ok (rs ! 0), dh_error = (if res_ok (rs ! 0) then '''' else errorOf (rs ! 0) ''Could not read the Docker host.''),
     dh_resources = or_empty (b_resources (body_of (rs ! 0))), dh_repositories = or_empty (b_repositories (body_of (rs ! 1)))\<rparr>"

definition cf_load :: "coolify_page \<Rightarrow> coolify_page \<times> cf_cmds" where
  "cf_load s = run_load cf_fetch (\<lambda>h s. s\<lparr>cf_fetch := h\<rparr>) (\<lambda>s. cf_loader) CfLoaded s"

definition cf_reload :: "coolify_page \<Rightarrow> coolify_page" where
  "cf_reload s = s\<lparr>cf_fetch := fetch_bump (cf_fetch s)\<rparr>"

definition cf_title :: "coolify_page \<Rightarrow> string" where
  "cf_title s = (if (case cf_docker s of None \<Rightarrow> False | Some k \<Rightarrow> dk_coolify k) then ''Coolify'' else ''Docker'')"

definition cf_set_title :: "coolify_page \<Rightarrow> cf_cmds" where
  "cf_set_title s = [Do (SetTitle (cf_title s @ '' '' @ middot @ '' restic backup manager''))]"

definition cf_effects :: "(coolify_page, cf_msg, string \<times> string \<times> dv_msg) effects" where
  "cf_effects before s =
     (let s0 = s\<lparr>cf_form := qb_props (cf_target s) (cf_repositories s) (cf_stamp s \<noteq> cf_stamp before) (cf_form s)\<rparr>;
          (s1, cs) = (if fh_nonce (cf_fetch s) = fh_nonce (cf_fetch before) then (s0, []) else cf_load s0)
      in (s1, cs @ shown (cf_docker s \<noteq> cf_docker before) (cf_set_title s)))"

text \<open>Without data the array of repositories is a new object on every render of the page.\<close>

definition cf_render :: "coolify_page \<Rightarrow> coolify_page" where
  "cf_render s = (if fh_data (cf_fetch s) = None then s\<lparr>cf_stamp := Suc (cf_stamp s)\<rparr> else s)"

definition cf_loaded :: "nat \<Rightarrow> response list \<Rightarrow> coolify_page \<Rightarrow> coolify_page" where
  "cf_loaded n rs s = (let t = s\<lparr>cf_fetch := fetch_settle n (Inr (cf_result rs)) (cf_fetch s)\<rparr> in
     if n = fh_generation (cf_fetch s) then t\<lparr>cf_stamp := Suc (cf_stamp s)\<rparr> else t)"

fun cf_outs :: "qb_out list \<Rightarrow> coolify_page \<Rightarrow> coolify_page" where
  "cf_outs [] s = s"
| "cf_outs (QbClose b # os) s = cf_outs os (if b then s else cf_render (s\<lparr>cf_target := None\<rparr>))"
| "cf_outs (QbDone # os) s = cf_outs os (cf_render (cf_reload s))"

definition cf_inForm :: "qb_msg \<Rightarrow> coolify_page \<Rightarrow> coolify_page \<times> cf_cmds" where
  "cf_inForm m s = (let (f, cs) = qb_update m (cf_form s) in (cf_outs (outs cs) (s\<lparr>cf_form := f\<rparr>), lift_cmds CfForm cs))"

primrec cf_handle :: "(coolify_page, cf_msg, string \<times> string \<times> dv_msg) update" where
  "cf_handle (CfDocker d) s = (cf_render (s\<lparr>cf_docker := d\<rparr>), [])"
| "cf_handle (CfQuery v) s = (cf_render (s\<lparr>cf_query := v\<rparr>), [])"
| "cf_handle (CfOther b) s = (cf_render (s\<lparr>cf_showOther := Some b\<rparr>), [])"
| "cf_handle (CfBackup t) s = (cf_render (s\<lparr>cf_target := Some t\<rparr>), [])"
| "cf_handle CfReload s = (cf_render (cf_reload s), [])"
| "cf_handle (CfLoaded n rs) s = (cf_loaded n rs s, [])"
| "cf_handle (CfRow k c m) s = (s, [Out (k, c, m)])"
| "cf_handle (CfForm m) s = cf_inForm m s"

definition cf_update :: "(coolify_page, cf_msg, string \<times> string \<times> dv_msg) update" where
  "cf_update = page_update cf_handle cf_effects"

definition cf_first :: "docker_status option \<Rightarrow> coolify_page" where
  "cf_first d = \<lparr>cf_docker = d, cf_query = '''', cf_showOther = None, cf_target = None, cf_fetch = fetch_init None, cf_stamp = 0,
     cf_form = fst qb_mount\<rparr>"

definition cf_mount :: "docker_status option \<Rightarrow> coolify_page \<times> cf_cmds" where
  "cf_mount d = (let (s, cs) = cf_load (cf_first d) in (s, cs @ cf_set_title s))"

section \<open>What it renders\<close>

definition cf_card :: "db_rows \<Rightarrow> coolify_page \<Rightarrow> resource \<Rightarrow> cf_msg ui" where
  "cf_card rows s = ResourceCard CfBackup (\<lambda>k c. CfRow k c DvToggle) rows (cf_resources s)"

definition cf_empty :: "coolify_page \<Rightarrow> cf_msg ui" where
  "cf_empty s = EmptyState (Some ''Search'') ''neutral'' ''Nothing matches''
     (if cf_search s \<noteq> '''' then ''No site, domain or project matches '' @ lquote @ trim (cf_query s) @ rquote @ ''.''
      else ''No containers were found on this host.'')
     (shown (cf_search s \<noteq> '''') [Node ''Button'' [On ''click'' (CfQuery '''')] [Txt ''Clear search'']]) True"

definition cf_project :: "db_rows \<Rightarrow> coolify_page \<Rightarrow> string \<times> resource list \<Rightarrow> cf_msg ui" where
  "cf_project rows s g = Node ''section'' []
     ([Node ''h2'' [] [Txt (fst g), Node ''span'' [] [Txt (show_nat (length (snd g)))]]] @ map (cf_card rows s) (snd g))"

definition cf_others :: "db_rows \<Rightarrow> coolify_page \<Rightarrow> cf_msg ui" where
  "cf_others rows s = Node ''section'' []
     ([Node ''button'' [On ''click'' (CfOther (\<not> cf_otherOpen s)), Flag ''aria-expanded'' (cf_otherOpen s)]
        [Icon (if cf_otherOpen s then ''ChevronDown'' else ''ChevronRight''), Txt ''Other containers'',
         Node ''span'' [] [Txt (show_nat (length (cf_other s)))]]] @
      shown (cf_otherOpen s) (map (cf_card rows s) (cf_other s)))"

definition cf_content :: "db_rows \<Rightarrow> coolify_page \<Rightarrow> cf_msg ui" where
  "cf_content rows s =
     (case fh_data (cf_fetch s) of
        None \<Rightarrow> if fh_loading (cf_fetch s) then Node ''div'' [] (replicate 3 (Node ''Skeleton'' [] []))
          else ErrorState (Some ''Docker is not reachable'') (opt_str dk_message (cf_docker s) '''') (Some CfReload)
      | Some d \<Rightarrow>
        if \<not> dh_ok d then ErrorState (Some ''Docker is not reachable'')
          (str_or (dh_error d) (opt_str dk_message (cf_docker s) '''')) (Some CfReload)
        else Node ''div'' []
          ([Node ''div'' [] [Icon ''Search'', Node ''Input'' [At ''value'' (cf_query s), OnText ''change'' CfQuery,
              At ''placeholder'' ''Search sites, domains, projects'', At ''aria-label'' ''Search sites, domains and projects''] []]] @
           shown (projects_of (cf_coolify s) = [] \<and> cf_other s = []) [cf_empty s] @
           map (cf_project rows s) (projects_of (cf_coolify s)) @
           shown (cf_other s \<noteq> []) [cf_others rows s]))"

definition CoolifyRoute :: "db_rows \<Rightarrow> coolify_page \<Rightarrow> cf_msg ui" where
  "CoolifyRoute rows s = Page
     [PageHeader [Txt (cf_title s)]
        [Txt (''The sites and databases running on this server. Pick a site's files or a database and it is backed up on a '' @
           ''schedule '' @ em_dash @ '' nothing to change in the deployment.'')]
        [Node ''Button'' [On ''click'' CfReload, Flag ''disabled'' (fh_loading (cf_fetch s))] [Icon ''RefreshCw'', Txt ''Refresh'']] [] [],
      cf_content rows s,
      map_ui CfForm (QuickBackupDialog (cf_form s))]"

section \<open>Loading\<close>

lemma cf_loaded_eq [simp]: "CfLoaded n = CfLoaded n' \<longleftrightarrow> n = n'"
  by (auto simp: fun_eq_iff)

lemma cf_render_fields [simp]:
  "cf_docker (cf_render s) = cf_docker s" "cf_query (cf_render s) = cf_query s" "cf_showOther (cf_render s) = cf_showOther s"
  "cf_target (cf_render s) = cf_target s" "cf_fetch (cf_render s) = cf_fetch s" "cf_form (cf_render s) = cf_form s"
  by (simp_all add: cf_render_def)

lemma cf_render_loaded: "fh_data (cf_fetch s) \<noteq> None \<Longrightarrow> cf_render s = s"
  by (simp add: cf_render_def)

lemma cf_effects_eq:
  assumes "cf_effects b s = (s', cs)"
  shows "cf_fetch s' = (if False then fetch_bump else id)
       (if fh_nonce (cf_fetch s) = fh_nonce (cf_fetch b) then cf_fetch s else fetch_effect (cf_fetch s))"
    and "cs = (if fh_nonce (cf_fetch s) = fh_nonce (cf_fetch b) then [] else [CallAll cf_loader (CfLoaded (Suc (fh_generation (cf_fetch s))))]) @
       shown (cf_docker s \<noteq> cf_docker b) (cf_set_title s)"
    and "cf_form s' = qb_props (cf_target s) (cf_repositories s) (cf_stamp s \<noteq> cf_stamp b) (cf_form s)"
    and "cf_target s' = cf_target s" "cf_stamp s' = cf_stamp s" "cf_docker s' = cf_docker s"
  using assms by (auto simp: cf_effects_def cf_load_def run_load_def Let_def split: if_splits)

lemma cf_outs_fetch:
  "fetch_wf (cf_fetch (cf_outs os s)) = fetch_wf (cf_fetch s) \<and> fh_generation (cf_fetch (cf_outs os s)) = fh_generation (cf_fetch s)
    \<and> fh_loading (cf_fetch (cf_outs os s)) = fh_loading (cf_fetch s)"
proof (induction os arbitrary: s)
  case (Cons x os)
  then show ?case by (cases x) (auto simp: cf_reload_def)
qed simp

lemma cf_form_quiet [simp]: "no_load CfLoaded (lift_cmds CfForm cs)"
proof (induction cs)
  case (Cons c cs)
  have "CfLoaded n \<noteq> CfForm \<circ> g" for n g by (auto simp: fun_eq_iff)
  then show ?case using Cons by (cases c) (auto simp: no_load_def comp_def)
qed (simp add: no_load_def)

lemma cf_set_title_quiet [simp]: "no_load CfLoaded (cf_set_title s)" "no_load CfLoaded (shown b (cf_set_title s))"
  by (simp_all add: cf_set_title_def shown_def)

lemma cf_handle_load:
  assumes "fetch_wf (cf_fetch s)" and "cf_handle m s = (t, cs)"
  shows "fetch_wf (cf_fetch t) \<and> fh_generation (cf_fetch t) = fh_generation (cf_fetch s) \<and> (\<forall>n qs. CallAll qs (CfLoaded n) \<notin> set cs)
    \<and> (fh_loading (cf_fetch t) \<longrightarrow> fh_loading (cf_fetch s) \<and> (\<forall>rs. m \<noteq> CfLoaded (fh_generation (cf_fetch s)) rs))"
proof (cases m)
  case (CfLoaded n rs)
  then show ?thesis using assms by (auto simp: cf_loaded_def fetch_facts Let_def split: if_splits)
next
  case (CfForm x)
  then obtain k ds where "qb_update x (cf_form s) = (k, ds)" "t = cf_outs (outs ds) (s\<lparr>cf_form := k\<rparr>)" "cs = lift_cmds CfForm ds"
    using assms(2) by (auto simp: cf_inForm_def split: prod.splits)
  then show ?thesis using assms(1) CfForm cf_form_quiet [of ds] by (simp add: cf_outs_fetch no_load_def)
qed (use assms in \<open>auto simp: cf_reload_def\<close>)

interpretation cf_page: fetch_page cf_handle cf_effects "CoolifyRoute rows" "range CfDocker" "cf_mount d" cf_fetch "\<lambda>s. fh_nonce (cf_fetch s)"
    "\<lambda>s. cf_loader" CfLoaded for rows d
proof unfold_locales
  fix s and cs :: cf_cmds
  assume "cf_mount d = (s, cs)"
  then show "fetch_wf (cf_fetch s) \<and> fresh_loads CfLoaded 0 (fh_generation (cf_fetch s)) cf_loader cs"
    by (intro usual_mount [where loaded = CfLoaded and ds = "cf_set_title s"])
      (auto simp: cf_mount_def cf_load_def run_load_def cf_first_def cf_set_title_def cf_title_def Let_def)
next
  fix s m t and cs :: cf_cmds
  assume "fetch_wf (cf_fetch s)" "cf_handle m s = (t, cs)"
  then show "fetch_wf (cf_fetch t) \<and> fh_generation (cf_fetch t) = fh_generation (cf_fetch s)
      \<and> (\<forall>n qs. CallAll qs (CfLoaded n) \<notin> set cs)
      \<and> (fh_loading (cf_fetch t) \<longrightarrow> fh_loading (cf_fetch s) \<and> (\<forall>rs. m \<noteq> CfLoaded (fh_generation (cf_fetch s)) rs))"
    by (rule cf_handle_load)
next
  fix s b s' and cs :: cf_cmds
  assume "fetch_wf (cf_fetch s)" and e: "cf_effects b s = (s', cs)"
  then show "fetch_wf (cf_fetch s') \<and> (if fh_nonce (cf_fetch s) = fh_nonce (cf_fetch b)
     then fh_generation (cf_fetch s') = fh_generation (cf_fetch s) \<and> fh_loading (cf_fetch s') = fh_loading (cf_fetch s)
       \<and> (\<forall>n qs. CallAll qs (CfLoaded n) \<notin> set cs)
     else fh_generation (cf_fetch s') = Suc (fh_generation (cf_fetch s))
       \<and> fresh_loads CfLoaded (fh_generation (cf_fetch s)) (fh_generation (cf_fetch s')) cf_loader cs)"
    by (intro usual_round [where loaded = CfLoaded and ds = "shown (cf_docker s \<noteq> cf_docker b) (cf_set_title s)", OF cf_effects_eq(1,2) [OF e]]) auto
next
  fix b s s1 s2 and cs1 cs2 :: cf_cmds
  assume e: "cf_effects b s = (s1, cs1)" "cf_effects s s1 = (s2, cs2)"
  show "fh_nonce (cf_fetch s2) = fh_nonce (cf_fetch s1)" using cf_effects_eq(1) [OF e(1)] cf_effects_eq(1) [OF e(2)] by simp
qed simp

section \<open>What is shown\<close>

lemma projects_snoc: "projects_of (rs @ [r]) = add_project r (projects_of rs)"
  by (simp add: projects_of_def)

definition first_of_each :: "'a list \<Rightarrow> 'a list" where
  "first_of_each xs = rev (remdups (rev xs))"

lemma first_of_each_facts [simp]: "first_of_each [] = []" "set (first_of_each xs) = set xs" "distinct (first_of_each xs)"
    "first_of_each (xs @ [x]) = (if x \<in> set xs then first_of_each xs else first_of_each xs @ [x])"
  by (simp_all add: first_of_each_def)

text \<open>
  The projects of the page are the groups a reader expects: every project once, in the order in which the server names them
  first, each with all of its resources in the order they came.
\<close>

theorem projects_are_groups:
  "projects_of rs = map (\<lambda>p. (p, filter (\<lambda>r. project_of r = p) rs)) (first_of_each (map project_of rs))"
proof (induction rs rule: rev_induct)
  case (snoc r rs)
  have "filter (\<lambda>r. project_of r = p) (rs @ [r]) = filter (\<lambda>r. project_of r = p) rs @ (if project_of r = p then [r] else [])" for p
    by simp
  moreover have "project_of r \<notin> project_of ` set rs \<Longrightarrow> filter (\<lambda>x. project_of x = project_of r) rs = []"
    by (rule filter_False) (metis imageI)
  ultimately show ?case by (auto simp: projects_snoc add_project_def snoc Let_def comp_def image_image)
qed (simp add: projects_of_def)

lemma includes_sublist: "includes_text p s \<longleftrightarrow> sublist p s"
proof
  assume "includes_text p s"
  then obtain i where "take (length p) (drop i s) = p" by (auto simp: includes_text_def list_ex_iff starts_with_def)
  then have "s = take i s @ p @ drop (length p) (drop i s)" by (metis append_take_drop_id)
  then show "sublist p s" by (metis sublist_appendI)
next
  assume "sublist p s"
  then obtain a b where s: "s = a @ p @ b" by (auto simp: sublist_def)
  then have "starts_with p (drop (length a) s)" "length a \<in> set [0..<Suc (length s)]" by simp_all
  then show "includes_text p s" by (auto simp: includes_text_def list_ex_iff simp del: upt_Suc)
qed

lemma part_of_join: "x \<in> set xs \<Longrightarrow> sublist x (join sep xs)"
proof (induction sep xs rule: join.induct)
  case (3 sep x' y zs)
  show ?case
  proof (cases "x = x'")
    case True
    then show ?thesis by (simp add: sublist_append_rightI)
  next
    case False
    then have "sublist x (join sep (y # zs))" using 3 by simp
    then show ?thesis by (simp add: sublist_append)
  qed
qed simp_all

lemma filter_either: "p \<notin> P \<Longrightarrow> filter_mset (\<lambda>r. f r = p) M + filter_mset (\<lambda>r. f r \<in> P) M = filter_mset (\<lambda>r. f r = p \<or> f r \<in> P) M"
  by (induction M) auto

lemma filter_split: "filter_mset (\<lambda>x. A x \<and> B x) M + filter_mset (\<lambda>x. \<not> A x \<and> B x) M = filter_mset B M"
  by (induction M) auto

lemma group_mset: "distinct ps \<Longrightarrow> mset (concat (map (\<lambda>p. filter (\<lambda>r. f r = p) rs) ps)) = mset (filter (\<lambda>r. f r \<in> set ps) rs)"
  by (induction ps) (simp_all add: filter_either)

lemma projects_mset: "mset (concat (map snd (projects_of rs))) = mset rs"
proof -
  have "map snd (projects_of rs) = map (\<lambda>p. filter (\<lambda>r. project_of r = p) rs) (first_of_each (map project_of rs))"
    unfolding projects_are_groups by simp
  then show ?thesis by (simp only: group_mset [OF first_of_each_facts(3)]) simp
qed

lemma search_finds:
  assumes "part \<in> set (named_parts r)" and "sublist q (to_lower part)"
  shows "resource_matches r q"
proof -
  obtain a b where "join '' '' (named_parts r) = a @ part @ b" using part_of_join [OF assms(1), of "'' ''"] unfolding sublist_def by blast
  then have "to_lower (join '' '' (named_parts r)) = to_lower a @ to_lower part @ to_lower b" by (simp add: to_lower_def)
  moreover obtain c d where "to_lower part = c @ q @ d" using assms(2) unfolding sublist_def by blast
  ultimately have "to_lower (join '' '' (named_parts r)) = (to_lower a @ c) @ q @ (d @ to_lower b)" by simp
  then show ?thesis by (metis resource_matches_def includes_sublist sublist_appendI)
qed

text \<open>
  C25. The search leaves no resource out and shows none twice: the cards of the projects and of the other containers are together
  the resources that match, each as often as the server reported it; and one matches whenever what was typed, blanks around it
  and letter case apart, is part of its name, its project, its environment, one of its domains or one of its containers.
\<close>

theorem search_shows_all_matches:
  assumes "r \<in> set (cf_resources s)" and "part \<in> set (named_parts r)" and "sublist (to_lower (trim (cf_query s))) (to_lower part)"
  shows "mset (concat (map snd (projects_of (cf_coolify s)))) + mset (cf_other s) =
      filter_mset (\<lambda>x. resource_matches x (cf_search s)) (mset (cf_resources s))
    \<and> (if isCoolifyKind (re_kind r) then \<exists>l. (project_of r, l) \<in> set (projects_of (cf_coolify s)) \<and> r \<in> set l else r \<in> set (cf_other s))"
proof -
  have m: "resource_matches r (cf_search s)" using search_finds [OF assms(2,3)] by (simp add: cf_search_def)
  have "mset (cf_coolify s) + mset (cf_other s) = filter_mset (\<lambda>x. resource_matches x (cf_search s)) (mset (cf_resources s))"
    unfolding cf_coolify_def cf_other_def mset_filter by (rule filter_split)
  moreover have "r \<in> set (cf_coolify s) \<Longrightarrow> \<exists>l. (project_of r, l) \<in> set (projects_of (cf_coolify s)) \<and> r \<in> set l"
    unfolding projects_are_groups by force
  ultimately show ?thesis using m assms(1) by (auto simp: projects_mset cf_coolify_def cf_other_def)
qed

definition shop_volume :: volume where
  "shop_volume = \<lparr>vo_name = ''shop-data'', vo_type = ''volume'', vo_hostPath = ''/var/lib/docker/volumes/shop-data'', vo_path = ''/data/shop'',
     vo_mountedAt = [''/app''], vo_containers = [''shop''], vo_databaseData = False, vo_jobs = []\<rparr>"

definition shop_resource :: resource where
  "shop_resource = \<lparr>re_key = ''application:u1'', re_kind = ''application'', re_name = ''shop'', re_project = ''Web'', re_environment = '''',
     re_self = False, re_domains = [''shop.example.com''], re_containers = [], re_volumes = [shop_volume], re_databases = [], re_linked = []\<rparr>"

definition shop_page :: coolify_page where
  "shop_page = (cf_first None)\<lparr>cf_fetch := fetch_init (Some \<lparr>dh_ok = True, dh_error = '''', dh_resources = [shop_resource],
     dh_repositories = [sample_repository]\<rparr>)\<rparr>"

lemma shop_page_simps: "fh_data (cf_fetch shop_page) = Some \<lparr>dh_ok = True, dh_error = '''', dh_resources = [shop_resource],
     dh_repositories = [sample_repository]\<rparr>" "cf_query shop_page = ''''" "cf_resources shop_page = [shop_resource]"
  by (simp_all add: shop_page_def cf_first_def cf_resources_def)

theorem search_shows_all_matches_witness:
  "\<exists>l. (''Web'', l) \<in> set (projects_of (cf_coolify (shop_page\<lparr>cf_query := '' SHOP.ex''\<rparr>))) \<and> shop_resource \<in> set l"
proof -
  have l: "to_lower (trim '' SHOP.ex'') = ''shop.ex''" "to_lower ''shop.example.com'' = [] @ ''shop.ex'' @ ''ample.com''" by code_simp+
  have q: "cf_query (shop_page\<lparr>cf_query := '' SHOP.ex''\<rparr>) = '' SHOP.ex''" by simp
  have "sublist (to_lower (trim (cf_query (shop_page\<lparr>cf_query := '' SHOP.ex''\<rparr>)))) (to_lower ''shop.example.com'')"
    unfolding q l by (rule sublist_appendI)
  then have "if isCoolifyKind (re_kind shop_resource)
      then \<exists>l. (project_of shop_resource, l) \<in> set (projects_of (cf_coolify (shop_page\<lparr>cf_query := '' SHOP.ex''\<rparr>))) \<and> shop_resource \<in> set l
      else shop_resource \<in> set (cf_other (shop_page\<lparr>cf_query := '' SHOP.ex''\<rparr>))"
    by (intro search_shows_all_matches [THEN conjunct2]) (simp_all add: cf_resources_def shop_page_simps named_parts_def shop_resource_def)
  moreover have "isCoolifyKind (re_kind shop_resource)" "project_of shop_resource = ''Web''"
    by (simp_all add: shop_resource_def isCoolifyKind_def project_of_def str_or_def)
  ultimately show ?thesis by simp
qed

section \<open>What is offered\<close>

lemma backed_jobs_msgs [simp]: "msgs_of (backed_jobs b js) = {}"
  by (induction b js rule: backed_jobs.induct) auto

lemma row_msgs [simp]: "msgs (Row icon title detail children) = msgs_of title \<union> msgs_of children"
    "msgs_of (BackedUp jobs) = {}" "msgs (back_up m) = {m}" "msgs (resource_head r) = {}"
  by (auto simp: Row_def BackedUp_def back_up_def resource_head_def)

lemma VolumeRow_msgs: "msgs (VolumeRow f r v) = (if vo_jobs v = [] \<and> vo_path v \<noteq> '''' then {f (volume_target r v)} else {})"
  by (simp add: VolumeRow_def)

lemma LinkedDatabaseRow_msgs:
  "msgs (LinkedDatabaseRow f rs r l) = (if linked_jobs rs l = [] \<and> lk_container l \<noteq> '''' then {f (linked_target r l)} else {})"
  by (simp add: LinkedDatabaseRow_def)

lemma DatabaseServerRow_msgs:
  "msgs (DatabaseServerRow f t r s) \<subseteq> {t} \<union> (\<lambda>db. f (database_target r (dv_server s) db)) `
     {db \<in> set (or_empty (dv_databases s)). source_jobs (Some (dv_server s)) db = []}"
  by (auto simp: DatabaseServerRow_def database_list_def database_row_def Let_def split: if_splits)

text \<open>Why a resource's card may offer a target.\<close>

definition offered :: "db_rows \<Rightarrow> resource list \<Rightarrow> resource \<Rightarrow> target \<Rightarrow> bool" where
  "offered rows rs r t \<longleftrightarrow>
     (\<exists>v \<in> set (re_volumes r). t = volume_target r v \<and> \<not> vo_databaseData v \<and> vo_path v \<noteq> '''' \<and> vo_jobs v = [])
     \<or> (\<exists>l \<in> set (re_linked r). t = linked_target r l \<and> lk_container l \<noteq> '''' \<and> linked_jobs rs l = [])
     \<or> (\<exists>d \<in> set (re_databases r). \<exists>db \<in> set (or_empty (dv_databases (rows (re_key r) (sv_containerId d)))).
          t = database_target r d db \<and> source_jobs (Some d) db = [])"

lemma ResourceCard_msgs:
  "msgs (ResourceCard f g rows rs r) \<subseteq> {m. \<exists>k c. m = g k c} \<union> f ` {t. offered rows rs r t}"
proof
  fix m assume "m \<in> msgs (ResourceCard f g rows rs r)"
  then consider v where "v \<in> set (files_of r)" "m \<in> msgs (VolumeRow f r v)"
    | l where "l \<in> set (re_linked r)" "m \<in> msgs (LinkedDatabaseRow f rs r l)"
    | d where "d \<in> set (re_databases r)" "m \<in> msgs (DatabaseServerRow f (g (re_key r) (sv_containerId d)) r
        ((rows (re_key r) (sv_containerId d))\<lparr>dv_server := d\<rparr>))"
    by (auto simp: ResourceCard_def split: if_splits)
  then show "m \<in> {m. \<exists>k c. m = g k c} \<union> f ` {t. offered rows rs r t}"
  proof cases
    case 3
    then consider "m = g (re_key r) (sv_containerId d)" | db where "db \<in> set (or_empty (dv_databases (rows (re_key r) (sv_containerId d))))"
        "source_jobs (Some d) db = []" "m = f (database_target r d db)"
      using DatabaseServerRow_msgs [of f "g (re_key r) (sv_containerId d)" r "(rows (re_key r) (sv_containerId d))\<lparr>dv_server := d\<rparr>"] by auto
    then show ?thesis
    proof cases
      case 2
      then have "offered rows rs r (database_target r d db)" using 3(1) unfolding offered_def by blast
      then show ?thesis using 2(3) by blast
    qed blast
  qed (auto simp: VolumeRow_msgs LinkedDatabaseRow_msgs files_of_def offered_def split: if_splits)
qed

lemma cards_msgs:
  assumes "CfBackup t \<in> msgs (cf_card rows s r)"
  shows "offered rows (cf_resources s) r t"
  using assms ResourceCard_msgs [of CfBackup "\<lambda>k c. CfRow k c DvToggle" rows "cf_resources s" r] by (auto simp: cf_card_def)

lemma CoolifyRoute_offers:
  assumes "CfBackup t \<in> msgs (CoolifyRoute rows s)"
  shows "\<exists>r \<in> set (cf_coolify s) \<union> set (cf_other s). offered rows (cf_resources s) r t"
proof -
  have "\<exists>r \<in> set (cf_coolify s) \<union> set (cf_other s). CfBackup t \<in> msgs (cf_card rows s r)"
    using assms unfolding CoolifyRoute_def cf_content_def cf_project_def cf_others_def cf_empty_def projects_are_groups
    by (auto simp: ErrorState_msgs EmptyState_msgs split: option.splits if_splits)
  then show ?thesis using cards_msgs by blast
qed

text \<open>
  C24. The page offers a backup only of something that has none and can have one: a volume of a resource that matches the search
  which no job covers, that this app reaches and that is no database's data directory; or a database without a job, in a known
  container. What it asks for is a folder with that path, or a database of that container, which the dialog's request names.
\<close>

theorem offers_only_uncovered:
  assumes "CfBackup t \<in> msgs (CoolifyRoute rows s)"
  shows "\<exists>r \<in> set (cf_resources s). resource_matches r (cf_search s) \<and>
     ((\<exists>v \<in> set (re_volumes r). \<not> vo_databaseData v \<and> vo_path v \<noteq> '''' \<and> vo_jobs v = []
          \<and> tg_kind t = ''folder'' \<and> tg_path t = Some (vo_path v))
      \<or> (\<exists>l \<in> set (re_linked r). lk_container l \<noteq> '''' \<and> linked_jobs (cf_resources s) l = []
          \<and> tg_kind t = ''database'' \<and> tg_container t = Some (lk_container l) \<and> tg_database t = Some (lk_database l))
      \<or> (\<exists>d \<in> set (re_databases r). \<exists>db. source_jobs (Some d) db = []
          \<and> tg_kind t = ''database'' \<and> tg_container t = Some (sv_container d) \<and> tg_database t = Some db))"
proof -
  obtain r where r: "r \<in> set (cf_resources s)" "resource_matches r (cf_search s)" and "offered rows (cf_resources s) r t"
    using CoolifyRoute_offers [OF assms] by (auto simp: cf_coolify_def cf_other_def)
  then show ?thesis
    by (intro bexI [OF _ r(1)] conjI [OF r(2)]) (auto simp: offered_def volume_target_def linked_target_def database_target_def Let_def)
qed

theorem offers_only_uncovered_witness:
  "CfBackup (volume_target shop_resource shop_volume) \<in> msgs (CoolifyRoute (\<lambda>k c. undefined) shop_page)
   \<and> (\<exists>r \<in> set (cf_resources shop_page). resource_matches r (cf_search shop_page))"
proof -
  have s: "cf_coolify shop_page = [shop_resource]"
    by (simp add: cf_coolify_def shop_page_simps shop_resource_def isCoolifyKind_def resource_matches_def cf_search_def to_lower_def trim_def)
  have "CfBackup (volume_target shop_resource shop_volume) \<in> msgs (cf_card (\<lambda>k c. undefined) shop_page shop_resource)"
    by (simp add: cf_card_def ResourceCard_def files_of_def VolumeRow_msgs) (simp add: shop_resource_def shop_volume_def)
  then have "CfBackup (volume_target shop_resource shop_volume) \<in> msgs (CoolifyRoute (\<lambda>k c. undefined) shop_page)"
    by (simp add: CoolifyRoute_def cf_content_def shop_page_simps s projects_are_groups cf_project_def)
  then show ?thesis using offers_only_uncovered [of "volume_target shop_resource shop_volume" "\<lambda>k c. undefined" shop_page] by blast
qed

section \<open>The dialog inside the page\<close>

lemma qb_props_again: "qb_props t rs False (qb_props t rs fresh s) = qb_props t rs fresh s"
  by (simp add: qb_props_def qb_reset_def Let_def split: option.split)

lemma qb_props_fields: "qb_target (qb_props t rs fresh s) = t" "qb_busy (qb_props t rs fresh s) = qb_busy s"
    "fresh \<Longrightarrow> t = Some x \<Longrightarrow> qb_name (qb_props t rs fresh s) = tg_defaultName x \<and> qb_daily (qb_props t rs fresh s)
       \<and> qb_repositoryId (qb_props t rs fresh s) = (case rs of [] \<Rightarrow> '''' | r # _ \<Rightarrow> repo_id r)"
  by (auto simp: qb_props_def qb_reset_def Let_def split: option.split)

text \<open>One step of the page, on the fields the dialog depends on.\<close>

lemma cf_after:
  assumes "cf_handle m s = (t, c0)"
  shows "cf_target (fst (cf_update m s)) = cf_target t" "cf_stamp (fst (cf_update m s)) = cf_stamp t"
    and "fh_data (cf_fetch (fst (cf_update m s))) = fh_data (cf_fetch t)"
    and "cf_form (fst (cf_update m s)) = qb_props (cf_target t) (cf_repositories t) (cf_stamp t \<noteq> cf_stamp s) (cf_form t)"
    and "fh_generation (cf_fetch (fst (cf_update m s))) =
      (if fh_nonce (cf_fetch t) = fh_nonce (cf_fetch s) then fh_generation (cf_fetch t) else Suc (fh_generation (cf_fetch t)))"
    and "set c0 \<subseteq> set (snd (cf_update m s))"
    and "fh_nonce (cf_fetch t) \<noteq> fh_nonce (cf_fetch s) \<Longrightarrow>
      CallAll cf_loader (CfLoaded (Suc (fh_generation (cf_fetch t)))) \<in> set (snd (cf_update m s))"
proof -
  obtain s1 c1 where e1: "cf_effects s t = (s1, c1)" by (metis surj_pair)
  obtain s2 c2 where e2: "cf_effects t s1 = (s2, c2)" by (metis surj_pair)
  note f1 = cf_effects_eq [OF e1] and f2 = cf_effects_eq [OF e2]
  have u: "cf_update m s = (s2, c0 @ c1 @ c2)" by (simp add: cf_update_def page_update_def commit_def assms e1 e2)
  have n: "fh_nonce (cf_fetch s1) = fh_nonce (cf_fetch t)" "fh_data (cf_fetch s1) = fh_data (cf_fetch t)" using f1(1) by simp_all
  then have r: "cf_repositories s1 = cf_repositories t" by (simp add: cf_repositories_def)
  show "cf_target (fst (cf_update m s)) = cf_target t" "cf_stamp (fst (cf_update m s)) = cf_stamp t" using f1 f2 by (simp_all add: u)
  show "fh_data (cf_fetch (fst (cf_update m s))) = fh_data (cf_fetch t)" using f2(1) n by (simp add: u)
  show "cf_form (fst (cf_update m s)) = qb_props (cf_target t) (cf_repositories t) (cf_stamp t \<noteq> cf_stamp s) (cf_form t)"
    using f1(3-5) f2(3) r by (simp add: u qb_props_again)
  show "fh_generation (cf_fetch (fst (cf_update m s))) =
      (if fh_nonce (cf_fetch t) = fh_nonce (cf_fetch s) then fh_generation (cf_fetch t) else Suc (fh_generation (cf_fetch t)))"
    using f1(1) f2(1) n by (simp add: u)
  show "set c0 \<subseteq> set (snd (cf_update m s))" by (simp add: u)
  show "fh_nonce (cf_fetch t) \<noteq> fh_nonce (cf_fetch s) \<Longrightarrow>
      CallAll cf_loader (CfLoaded (Suc (fh_generation (cf_fetch t)))) \<in> set (snd (cf_update m s))"
    using f1(2) by (simp add: u)
qed

lemma cf_form_step:
  assumes "fh_data (cf_fetch s) = Some d" and "qb_update m (cf_form s) = (f, cs)"
  shows "cf_handle (CfForm m) s = (cf_outs (outs cs) (s\<lparr>cf_form := f\<rparr>), lift_cmds CfForm cs)"
  by (simp add: cf_inForm_def assms)

text \<open>A message of the form that tells the page nothing changes the form alone.\<close>

lemma cf_form_only:
  assumes "fh_data (cf_fetch s) = Some d" and "qb_update m (cf_form s) = (f, cs)" and "outs cs = []"
    and "qb_target f = cf_target s" and "qb_repositories f = cf_repositories s"
  shows "cf_form (fst (cf_update (CfForm m) s)) = f" "cf_target (fst (cf_update (CfForm m) s)) = cf_target s"
    and "fh_data (cf_fetch (fst (cf_update (CfForm m) s))) = Some d"
    and "fh_generation (cf_fetch (fst (cf_update (CfForm m) s))) = fh_generation (cf_fetch s)"
    and "set (lift_cmds CfForm cs) \<subseteq> set (snd (cf_update (CfForm m) s))"
proof -
  have h: "cf_handle (CfForm m) s = (s\<lparr>cf_form := f\<rparr>, lift_cmds CfForm cs)" using cf_form_step [OF assms(1,2)] assms(3) by simp
  note a = cf_after [OF h]
  show "cf_form (fst (cf_update (CfForm m) s)) = f" using a(4) assms(4,5) by (simp add: qb_props_def cf_repositories_def)
  show "cf_target (fst (cf_update (CfForm m) s)) = cf_target s" "fh_data (cf_fetch (fst (cf_update (CfForm m) s))) = Some d"
    "fh_generation (cf_fetch (fst (cf_update (CfForm m) s))) = fh_generation (cf_fetch s)" using a assms(1) by simp_all
  show "set (lift_cmds CfForm cs) \<subseteq> set (snd (cf_update (CfForm m) s))" by (rule a(6))
qed

lemma cf_backup_step:
  assumes "fh_data (cf_fetch s) = Some d"
  shows "cf_target (fst (cf_update (CfBackup t) s)) = Some t" "qb_target (cf_form (fst (cf_update (CfBackup t) s))) = Some t"
    and "qb_repositories (cf_form (fst (cf_update (CfBackup t) s))) = cf_repositories s"
    and "fh_data (cf_fetch (fst (cf_update (CfBackup t) s))) = Some d"
    and "fh_generation (cf_fetch (fst (cf_update (CfBackup t) s))) = fh_generation (cf_fetch s)"
proof -
  have h: "cf_handle (CfBackup t) s = (s\<lparr>cf_target := Some t\<rparr>, [])" using assms by (simp add: cf_render_loaded)
  note a = cf_after [OF h]
  show "cf_target (fst (cf_update (CfBackup t) s)) = Some t" "qb_target (cf_form (fst (cf_update (CfBackup t) s))) = Some t"
    "fh_data (cf_fetch (fst (cf_update (CfBackup t) s))) = Some d"
    "fh_generation (cf_fetch (fst (cf_update (CfBackup t) s))) = fh_generation (cf_fetch s)"
    using a assms by (simp_all add: qb_props_fields)
  show "qb_repositories (cf_form (fst (cf_update (CfBackup t) s))) = cf_repositories s"
    using a(4) by (simp add: qb_props_def qb_reset_def cf_repositories_def Let_def)
qed

text \<open>
  A refresh that is still out when the dialog opens takes away what was typed in it: its answer, also one that reports the same,
  puts the proposed name, the first repository and the daily schedule back.
\<close>

theorem refresh_resets_quick_backup:
  assumes "fh_data (cf_fetch s) = Some d" and "s1 = fst (cf_update CfReload s)" and "s2 = fst (cf_update (CfBackup t) s1)"
    and "s3 = fst (cf_update (CfForm (QbName v)) s2)"
  shows "\<exists>n. CallAll cf_loader (CfLoaded n) \<in> set (snd (cf_update CfReload s)) \<and> qb_name (cf_form s3) = v
    \<and> (\<forall>rs. cf_target (fst (cf_update (CfLoaded n rs) s3)) = Some t
        \<and> qb_name (cf_form (fst (cf_update (CfLoaded n rs) s3))) = tg_defaultName t
        \<and> qb_daily (cf_form (fst (cf_update (CfLoaded n rs) s3))))"
proof -
  have h: "cf_handle CfReload s = (s\<lparr>cf_fetch := fetch_bump (cf_fetch s)\<rparr>, [])"
    using assms(1) by (simp add: cf_reload_def cf_render_loaded)
  note a = cf_after [OF h]
  have d1: "fh_data (cf_fetch s1) = Some d" and g1: "fh_generation (cf_fetch s1) = Suc (fh_generation (cf_fetch s))"
    using a(3,5) assms(1,2) by simp_all
  note b = cf_backup_step [OF d1, of t, folded assms(3)]
  have q: "qb_update (QbName v) (cf_form s2) = ((cf_form s2)\<lparr>qb_name := v\<rparr>, [])" by simp
  have e: "qb_target ((cf_form s2)\<lparr>qb_name := v\<rparr>) = cf_target s2" "qb_repositories ((cf_form s2)\<lparr>qb_name := v\<rparr>) = cf_repositories s2"
    using b d1 by (simp_all add: cf_repositories_def)
  note f = cf_form_only [OF b(4) q _ e, folded assms(4)]
  have s3: "cf_target s3 = Some t" "fh_generation (cf_fetch s3) = Suc (fh_generation (cf_fetch s))" "qb_name (cf_form s3) = v"
    using f b g1 by simp_all
  let ?n = "Suc (fh_generation (cf_fetch s))"
  have "cf_target (fst (cf_update (CfLoaded ?n rs) s3)) = Some t \<and> qb_name (cf_form (fst (cf_update (CfLoaded ?n rs) s3))) = tg_defaultName t
      \<and> qb_daily (cf_form (fst (cf_update (CfLoaded ?n rs) s3)))" for rs
  proof -
    have "cf_handle (CfLoaded ?n rs) s3 = (cf_loaded ?n rs s3, [])" by simp
    note c = cf_after [OF this]
    show ?thesis using c(1,4) s3 by (simp add: cf_loaded_def Let_def qb_props_fields)
  qed
  moreover have "CallAll cf_loader (CfLoaded ?n) \<in> set (snd (cf_update CfReload s))" using a(7) by simp
  ultimately show ?thesis using s3(3) by blast
qed

theorem refresh_resets_quick_backup_witness:
  "\<exists>n. CallAll cf_loader (CfLoaded n) \<in> set (snd (cf_update CfReload shop_page))
    \<and> qb_name (cf_form (fst (cf_update (CfLoaded n []) (fst (cf_update (CfForm (QbName ''mine''))
        (fst (cf_update (CfBackup shop_files) (fst (cf_update CfReload shop_page))))))))) = ''shop files''"
  using refresh_resets_quick_backup [OF shop_page_simps(1) refl refl refl, where t = shop_files and v = "''mine''"] by (auto simp: shop_files_def)

text \<open>
  The answer to a creation closes the dialog that is open when it arrives: sent, dismissed, and another thing's dialog opened
  since, that one is closed.
\<close>

theorem quick_reply_closes_other:
  assumes "fh_data (cf_fetch s) = Some d" and "cf_target s = Some t" and "qb_target (cf_form s) = Some t"
    and "qb_repositories (cf_form s) = cf_repositories s" and "\<not> qb_runNow (cf_form s)"
    and "s1 = fst (cf_update (CfForm QbSubmit) s)" and "s2 = fst (cf_update (CfForm (QbDismiss False)) s1)"
    and "s3 = fst (cf_update (CfBackup u) s2)" and "res_ok res" and "b_job (body_of res) = Some j"
  shows "(\<exists>q. Call q (CfForm \<circ> QbCreated False) \<in> set (snd (cf_update (CfForm QbSubmit) s)))
    \<and> cf_target s3 = Some u \<and> qb_target (cf_form s3) = Some u
    \<and> cf_target (fst (cf_update (CfForm (QbCreated False res)) s3)) = None"
proof -
  let ?f = "cf_form s"
  let ?c = "[Call (Docker_createJob (qb_body t (qb_name ?f) (qb_repositoryId ?f) (qb_daily ?f))) (QbCreated False)] :: qb_cmds"
  have q1: "qb_update QbSubmit ?f = (?f\<lparr>qb_busy := True\<rparr>, ?c)" using assms(3,5) by (simp add: qb_submit_def)
  note a = cf_form_only [OF assms(1) q1, folded assms(6)]
  have s1: "fh_data (cf_fetch s1) = Some d" using a(3) assms(2-4) by simp
  have "cf_handle (CfForm (QbDismiss False)) s1 = (s1\<lparr>cf_target := None\<rparr>, [])"
    using cf_form_step [OF s1, of "QbDismiss False"] s1 by (simp add: cf_render_loaded)
  from cf_after(3) [OF this] have s2: "fh_data (cf_fetch s2) = Some d" using s1 assms(7) by simp
  note b = cf_backup_step [OF s2, of u, folded assms(8)]
  have o: "outs (snd (qb_update (QbCreated False res) (cf_form s3))) = [QbClose False, QbDone]"
    using assms(9,10) by (simp add: qb_created_def qb_finish_def)
  obtain f cs where q: "qb_update (QbCreated False res) (cf_form s3) = (f, cs)" by (metis surj_pair)
  have "cf_target (cf_outs (outs cs) (s3\<lparr>cf_form := f\<rparr>)) = None" using o q by (simp add: cf_reload_def)
  then have "cf_target (fst (cf_update (CfForm (QbCreated False res)) s3)) = None"
    using cf_after(1) [OF cf_form_step [OF b(4) q]] by simp
  moreover have "set (lift_cmds CfForm ?c) \<subseteq> set (snd (cf_update (CfForm QbSubmit) s))" using a(5) assms(2-4) by simp
  ultimately show ?thesis using b by auto
qed

definition shop_asking :: coolify_page where
  "shop_asking = shop_page\<lparr>cf_target := Some shop_files,
     cf_form := (fst qb_mount)\<lparr>qb_target := Some shop_files, qb_repositories := [sample_repository], qb_runNow := False\<rparr>\<rparr>"

theorem quick_reply_closes_other_witness:
  "cf_target (fst (cf_update (CfForm (QbCreated False (ok_body (empty_body\<lparr>b_job := Some sample_job\<rparr>))))
     (fst (cf_update (CfBackup (shop_files\<lparr>tg_title := ''other''\<rparr>)) (fst (cf_update (CfForm (QbDismiss False))
       (fst (cf_update (CfForm QbSubmit) shop_asking)))))))) = None"
proof -
  have "fh_data (cf_fetch shop_asking) = fh_data (cf_fetch shop_page)" "cf_repositories shop_asking = [sample_repository]"
    by (simp_all add: shop_asking_def cf_repositories_def shop_page_simps)
  then show ?thesis
    by (intro quick_reply_closes_other [where s = shop_asking and t = shop_files and j = sample_job, OF _ _ _ _ _ refl refl refl, THEN conjunct2, THEN conjunct2, THEN conjunct2])
      (simp_all add: shop_page_simps, simp_all add: shop_asking_def qb_mount_def ok_body_def body_of_def)
qed

section \<open>What the page sends\<close>

definition good_target :: "target \<Rightarrow> bool" where
  "good_target t \<longleftrightarrow> tg_kind t = ''folder'' \<and> ostr_or (tg_path t) '''' \<noteq> ''''
     \<or> tg_kind t = ''database'' \<and> tg_container t \<noteq> None \<and> tg_database t \<noteq> None"

text \<open>The rows change while the page is open: what any of them may offer comes from the environment.\<close>

definition cf_env :: "cf_msg set" where
  "cf_env = range CfDocker \<union> CfBackup ` {t. good_target t} \<union> {m. \<exists>k c x. m = CfRow k c x}"

lemma offers_good: "CfBackup t \<in> msgs (CoolifyRoute rows s) \<Longrightarrow> good_target t"
  by (drule CoolifyRoute_offers)
    (auto simp: offered_def good_target_def volume_target_def linked_target_def database_target_def ostr_or_def Let_def)

lemma cf_card_quiet: "CfForm x \<notin> msgs (cf_card rows s r)" "CfLoaded n rs \<notin> msgs (cf_card rows s r)"
  using ResourceCard_msgs [of CfBackup "\<lambda>k c. CfRow k c DvToggle" rows "cf_resources s" r] by (auto simp: cf_card_def)

lemma cf_content_quiet: "CfForm x \<notin> msgs (cf_content rows s)" "CfLoaded n rs \<notin> msgs (cf_content rows s)"
  unfolding cf_content_def cf_project_def cf_others_def cf_empty_def
  by (auto simp: ErrorState_msgs EmptyState_msgs cf_card_quiet split: option.splits if_splits)

lemma CoolifyRoute_form: "CfForm x \<in> msgs (CoolifyRoute rows s) \<Longrightarrow> x \<in> msgs (QuickBackupDialog (cf_form s))"
    "CfLoaded n rs \<notin> msgs (CoolifyRoute rows s)"
  by (auto simp: CoolifyRoute_def cf_content_quiet split: if_splits)

lemma cf_outs_frame: "cf_form (cf_outs os s) = cf_form s" "cf_target (cf_outs os s) = cf_target s \<or> cf_target (cf_outs os s) = None"
proof -
  have "cf_form (cf_outs os s) = cf_form s \<and> (cf_target (cf_outs os s) = cf_target s \<or> cf_target (cf_outs os s) = None)"
  proof (induction os arbitrary: s)
    case (Cons x os)
    note a = Cons [of s] and b = Cons [of "cf_render (s\<lparr>cf_target := None\<rparr>)"] and c = Cons [of "cf_render (cf_reload s)"]
    show ?case using a b c by (cases x) (auto simp: cf_reload_def)
  qed simp
  then show "cf_form (cf_outs os s) = cf_form s" "cf_target (cf_outs os s) = cf_target s \<or> cf_target (cf_outs os s) = None" by auto
qed

text \<open>The commands in flight, apart from the loads.\<close>

definition cf_sent :: "(cf_msg, string \<times> string \<times> dv_msg) cmd \<Rightarrow> bool" where
  "cf_sent c \<longleftrightarrow> (\<exists>t n r b k. c = Call (Docker_createJob (qb_body t n r b)) (CfForm \<circ> QbCreated k) \<and> good_target t \<and> trim n \<noteq> '''' \<and> r \<noteq> '''')
     \<or> (\<exists>j. c = Call (Jobs_run j) (CfForm \<circ> QbRan))"

definition cf_flies :: "(cf_msg, string \<times> string \<times> dv_msg) cmd \<Rightarrow> bool" where
  "cf_flies c \<longleftrightarrow> cf_sent c \<or> (\<exists>n. c = CallAll cf_loader (CfLoaded n))"

definition cf_ok :: "coolify_page \<Rightarrow> cf_cmds \<Rightarrow> bool" where
  "cf_ok s p \<longleftrightarrow> qb_target (cf_form s) = cf_target s \<and> (case cf_target s of None \<Rightarrow> True | Some t \<Rightarrow> good_target t)
     \<and> length (filter is_single p) \<le> (if qb_busy (cf_form s) then 1 else 0) \<and> list_all cf_flies p"

text \<open>A step keeps this when its handler does.\<close>

lemma cf_effects_sends: "cf_effects b s = (s', cs) \<Longrightarrow> filter is_single (awaiting cs) = [] \<and> list_all cf_flies (awaiting cs)"
  using cf_effects_eq(2) [of b s s' cs] by (auto simp: awaiting_def cf_flies_def cf_set_title_def shown_def)

lemma cf_ok_step:
  assumes "cf_handle m s = (t, c0)" and "cf_update m s = (s', cs)"
    and "case cf_target t of None \<Rightarrow> True | Some x \<Rightarrow> good_target x"
    and "length (filter is_single (p @ awaiting c0)) \<le> (if qb_busy (cf_form t) then 1 else 0)" and "list_all cf_flies (p @ awaiting c0)"
  shows "cf_ok s' (p @ awaiting cs)"
proof -
  obtain s1 c1 where e1: "cf_effects s t = (s1, c1)" by (metis surj_pair)
  obtain s2 c2 where e2: "cf_effects t s1 = (s2, c2)" by (metis surj_pair)
  have "cs = c0 @ c1 @ c2" using assms(2) by (simp add: cf_update_def page_update_def commit_def assms(1) e1 e2)
  then have "filter is_single (awaiting cs) = filter is_single (awaiting c0)" "list_all cf_flies (awaiting cs) = list_all cf_flies (awaiting c0)"
    using cf_effects_sends [OF e1] cf_effects_sends [OF e2] by (auto simp: awaiting_def)
  moreover have "cf_target s' = cf_target t" "cf_form s' = qb_props (cf_target t) (cf_repositories t) (cf_stamp t \<noteq> cf_stamp s) (cf_form t)"
    using cf_after(1,4) [OF assms(1)] assms(2) by simp_all
  ultimately show ?thesis using assms(3-5) by (simp add: cf_ok_def qb_props_fields)
qed

lemma cf_act_cases:
  assumes "m \<in> msgs (CoolifyRoute rows s) \<union> cf_env"
  obtains x where "m = CfForm x" "x \<in> msgs (QuickBackupDialog (cf_form s))"
  | t where "m = CfBackup t" "good_target t"
  | "\<forall>x. m \<noteq> CfForm x" "\<forall>t. m \<noteq> CfBackup t" "\<forall>n rs. m \<noteq> CfLoaded n rs"
  using assms offers_good [where rows = rows and s = s] CoolifyRoute_form [where rows = rows and s = s] by (cases m) (auto simp: cf_env_def)

lemma qb_act_quiet:
  assumes "x \<in> msgs (QuickBackupDialog f0)" and "x \<noteq> QbSubmit" and "qb_update x f0 = (f, ds)"
  shows "awaiting ds = []" "qb_busy f = qb_busy f0"
  using assms by (auto dest!: QuickBackupDialog_act)

lemma cf_submit_flies:
  assumes "qb_target (cf_form s) = Some t" and "good_target t" and "qb_ready (cf_form s)"
  shows "cf_flies (Call (Docker_createJob (qb_body t (qb_name (cf_form s)) (qb_repositoryId (cf_form s)) b)) (CfForm \<circ> QbCreated k))"
  using assms unfolding cf_flies_def cf_sent_def qb_ready_def by blast

lemma cf_run_flies: "cf_flies (Call (Jobs_run j) (CfForm \<circ> QbRan))"
  unfolding cf_flies_def cf_sent_def by blast

lemma cf_ok_act:
  assumes ok: "cf_ok s p" and m: "m \<in> msgs (CoolifyRoute rows s) \<union> cf_env" and u: "cf_update m s = (s', cs)"
  shows "cf_ok s' (p @ awaiting cs)"
  using m
proof (cases rule: cf_act_cases)
  case (1 x)
  obtain f ds where q: "qb_update x (cf_form s) = (f, ds)" by (metis surj_pair)
  have h: "cf_handle m s = (cf_outs (outs ds) (s\<lparr>cf_form := f\<rparr>), lift_cmds CfForm ds)" by (simp add: 1 cf_inForm_def q)
  show ?thesis
  proof (rule cf_ok_step [OF h u])
    show "case cf_target (cf_outs (outs ds) (s\<lparr>cf_form := f\<rparr>)) of None \<Rightarrow> True | Some x \<Rightarrow> good_target x"
      using cf_outs_frame(2) [of "outs ds" "s\<lparr>cf_form := f\<rparr>"] ok by (auto simp: cf_ok_def)
    show "length (filter is_single (p @ awaiting (lift_cmds CfForm ds))) \<le> (if qb_busy (cf_form (cf_outs (outs ds) (s\<lparr>cf_form := f\<rparr>))) then 1 else 0)"
      "list_all cf_flies (p @ awaiting (lift_cmds CfForm ds))"
    proof -
      have "length (filter is_single (p @ awaiting (lift_cmds CfForm ds))) \<le> (if qb_busy f then 1 else 0)
        \<and> list_all cf_flies (p @ awaiting (lift_cmds CfForm ds))"
      proof (cases "x = QbSubmit")
        case True
        then obtain t where t: "qb_target (cf_form s) = Some t" "good_target t" "qb_ready (cf_form s)"
          using 1(2) ok by (cases "cf_target s") (auto simp: cf_ok_def dest!: QuickBackupDialog_act)
        have d: "f = (cf_form s)\<lparr>qb_busy := True\<rparr>"
          "ds = [Call (Docker_createJob (qb_body t (qb_name (cf_form s)) (qb_repositoryId (cf_form s)) (qb_daily (cf_form s)))) (QbCreated (qb_runNow (cf_form s)))]"
          using q True t(1) by (auto simp: qb_submit_def)
        have "\<not> qb_busy (cf_form s)" using t(3) by (simp add: qb_ready_def)
        then show ?thesis using ok cf_submit_flies [OF t] by (auto simp: d cf_ok_def)
      next
        case False
        then show ?thesis using ok qb_act_quiet [OF 1(2) False q] by (simp add: cf_ok_def awaiting_lift)
      qed
      then show "length (filter is_single (p @ awaiting (lift_cmds CfForm ds))) \<le> (if qb_busy (cf_form (cf_outs (outs ds) (s\<lparr>cf_form := f\<rparr>))) then 1 else 0)"
        "list_all cf_flies (p @ awaiting (lift_cmds CfForm ds))" by (simp_all add: cf_outs_frame)
    qed
  qed
next
  case (2 t)
  then have h: "cf_handle m s = (cf_render (s\<lparr>cf_target := Some t\<rparr>), [])" by simp
  show ?thesis using ok 2 by (intro cf_ok_step [OF h u]) (auto simp: cf_ok_def)
next
  case 3
  obtain t c0 where h: "cf_handle m s = (t, c0)" by (metis surj_pair)
  have "cf_form t = cf_form s" "cf_target t = cf_target s" "awaiting c0 = []"
    using h 3 by (cases m; auto simp: cf_reload_def)+
  then show ?thesis using ok by (intro cf_ok_step [OF h u]) (auto simp: cf_ok_def)
qed

lemma cf_ok_reply:
  assumes ok: "cf_ok s (p @ c # q)" and m: "m \<in> replies c" and u: "cf_update m s = (s', cs)"
  shows "cf_ok s' ((p @ q) @ awaiting cs)"
proof (cases "\<exists>n. c = CallAll cf_loader (CfLoaded n)")
  case True
  then obtain n rs where m: "m = CfLoaded n rs" "\<not> is_single c" using m by auto
  then have h: "cf_handle m s = (cf_loaded n rs s, [])" by simp
  have "cf_form (cf_loaded n rs s) = cf_form s" "cf_target (cf_loaded n rs s) = cf_target s" by (simp_all add: cf_loaded_def Let_def)
  then show ?thesis using ok m(2) by (intro cf_ok_step [OF h u]) (auto simp: cf_ok_def)
next
  case False
  then have c: "cf_sent c" "is_single c" using ok by (auto simp: cf_ok_def cf_flies_def cf_sent_def)
  then have one: "filter is_single (p @ q) = []" "qb_busy (cf_form s)" using ok by (auto simp: cf_ok_def split: if_splits)
  obtain x where x: "m = CfForm x" "(\<exists>k res. x = QbCreated k res) \<or> (\<exists>res. x = QbRan res)" using c m by (auto simp: cf_sent_def)
  obtain f ds where d: "qb_update x (cf_form s) = (f, ds)" by (metis surj_pair)
  have h: "cf_handle m s = (cf_outs (outs ds) (s\<lparr>cf_form := f\<rparr>), lift_cmds CfForm ds)" by (simp add: x(1) cf_inForm_def d)
  have "awaiting ds = [] \<or> qb_busy f \<and> (\<exists>j. awaiting ds = [Call (Jobs_run j) QbRan])"
    using x(2) d one(2) by (auto simp: handlers split: if_splits option.splits) blast+
  then have "length (filter is_single ((p @ q) @ awaiting (lift_cmds CfForm ds))) \<le> (if qb_busy f then 1 else 0)"
    "list_all cf_flies ((p @ q) @ awaiting (lift_cmds CfForm ds))"
    using ok one cf_run_flies by (auto simp: awaiting_lift cf_ok_def)
  then show ?thesis using cf_outs_frame(2) [of "outs ds" "s\<lparr>cf_form := f\<rparr>"] ok
    by (intro cf_ok_step [OF h u]) (auto simp: cf_outs_frame cf_ok_def)
qed

interpretation cf_flow: component cf_update "CoolifyRoute rows" cf_env "cf_mount d" cf_ok for rows d
proof unfold_locales
  fix s and cs :: cf_cmds
  assume "cf_mount d = (s, cs)"
  then show "cf_ok s (awaiting cs)"
    by (auto simp: cf_mount_def cf_load_def run_load_def cf_first_def qb_mount_def cf_set_title_def cf_ok_def cf_flies_def Let_def)
next
  fix s p m s' and cs :: cf_cmds
  assume "cf_ok s p" "m \<in> msgs (CoolifyRoute rows s) \<union> cf_env" "cf_update m s = (s', cs)"
  then show "cf_ok s' (p @ awaiting cs)" by (rule cf_ok_act)
next
  fix s p c q m s' and cs :: cf_cmds
  assume "cf_ok s (p @ c # q)" "m \<in> replies c" "cf_update m s = (s', cs)"
  then have "cf_ok s' ((p @ q) @ awaiting cs)" by (rule cf_ok_reply)
  then show "cf_ok s' (p @ q @ awaiting cs)" by simp
qed


definition shop_answers :: "response list" where
  "shop_answers = [ok_body (empty_body\<lparr>b_resources := Some [shop_resource]\<rparr>), ok_body (empty_body\<lparr>b_repositories := Some [sample_repository]\<rparr>)]"

definition shop_loaded :: coolify_page where
  "shop_loaded = fst (cf_update (CfLoaded 1 shop_answers) (fst (cf_mount None)))"

definition shop_chosen :: coolify_page where
  "shop_chosen = fst (cf_update (CfBackup shop_files) shop_loaded)"

lemma cf_mount_simps: "fst (cf_mount None) = (cf_first None)\<lparr>cf_fetch := fetch_effect (fetch_init None)\<rparr>"
    "awaiting (snd (cf_mount None)) = [CallAll cf_loader (CfLoaded 1)]"
  by (simp_all add: cf_mount_def cf_load_def run_load_def cf_first_def cf_set_title_def Let_def)

lemma shop_loaded_data: "fh_data (cf_fetch shop_loaded) = Some (cf_result shop_answers)" "cf_repositories shop_loaded = [sample_repository]"
proof -
  have "cf_handle (CfLoaded 1 shop_answers) (fst (cf_mount None)) = (cf_loaded 1 shop_answers (fst (cf_mount None)), [])" by simp
  from cf_after(3) [OF this] show d: "fh_data (cf_fetch shop_loaded) = Some (cf_result shop_answers)"
    unfolding shop_loaded_def by (simp add: cf_loaded_def cf_mount_simps fetch_settle_data fetch_effect_wf Let_def)
  then show "cf_repositories shop_loaded = [sample_repository]"
    by (simp add: cf_repositories_def cf_result_def shop_answers_def ok_body_def body_of_def or_empty_def)
qed

lemma shop_chosen_reached: "reach cf_update (CoolifyRoute rows) cf_env (cf_mount None) shop_chosen []"
proof -
  have "reach cf_update (CoolifyRoute rows) cf_env (cf_mount None) (fst (cf_mount None)) ([] @ CallAll cf_loader (CfLoaded 1) # [])"
    using reach_first [of cf_update "CoolifyRoute rows" cf_env "cf_mount None"] by (simp add: cf_mount_simps)
  from reach.reply [OF this _ surjective_pairing, where m = "CfLoaded 1 shop_answers"]
  have "reach cf_update (CoolifyRoute rows) cf_env (cf_mount None) shop_loaded (awaiting (snd (cf_update (CfLoaded 1 shop_answers) (fst (cf_mount None)))))"
    by (simp add: cf_loader_def shop_answers_def shop_loaded_def)
  moreover have "awaiting (snd (cf_update (CfLoaded 1 shop_answers) (fst (cf_mount None)))) = []"
    by (simp add: cf_update_def page_update_def commit_def cf_effects_def cf_loaded_def Let_def)
  ultimately have "reach cf_update (CoolifyRoute rows) cf_env (cf_mount None) shop_loaded []" by simp
  from reach.act [OF this _ surjective_pairing, where m = "CfBackup shop_files"]
  have "reach cf_update (CoolifyRoute rows) cf_env (cf_mount None) shop_chosen (awaiting (snd (cf_update (CfBackup shop_files) shop_loaded)))"
    by (simp add: shop_chosen_def cf_env_def good_target_def shop_files_def ostr_or_def)
  moreover have "awaiting (snd (cf_update (CfBackup shop_files) shop_loaded)) = []"
    by (simp add: cf_update_def page_update_def commit_def cf_effects_def Let_def)
  ultimately show ?thesis by simp
qed

lemma shop_chosen_ready: "qb_ready (cf_form shop_chosen)" "qb_target (cf_form shop_chosen) = Some shop_files"
proof -
  have "cf_handle (CfLoaded 1 shop_answers) (fst (cf_mount None)) = (cf_loaded 1 shop_answers (fst (cf_mount None)), [])" by simp
  note l = cf_after [OF this, folded shop_loaded_def]
  have "cf_target shop_loaded = None" "\<not> qb_busy (cf_form shop_loaded)"
    using l(1,4) by (simp_all add: cf_loaded_def cf_mount_simps cf_first_def qb_mount_def qb_props_fields Let_def)
  moreover have "qb_target (cf_form shop_loaded) = cf_target shop_loaded" using l(1,4) by (simp add: qb_props_fields)
  moreover have "cf_handle (CfBackup shop_files) shop_loaded = (shop_loaded\<lparr>cf_target := Some shop_files\<rparr>, [])"
    using shop_loaded_data by (simp add: cf_render_loaded)
  note c = cf_after(4) [OF this, folded shop_chosen_def]
  moreover have "cf_repositories (shop_loaded\<lparr>cf_target := Some shop_files\<rparr>) = [sample_repository]"
    using shop_loaded_data(2) by (simp add: cf_repositories_def)
  ultimately show "qb_ready (cf_form shop_chosen)" "qb_target (cf_form shop_chosen) = Some shop_files"
    by (simp_all add: qb_ready_def qb_props_def qb_reset_def Let_def shop_files_def sample_repository_def trim_def is_space_def)
qed


end
