(* ===== verification/Spec2Isabelle.thy ===== *)
theory Spec2Isabelle
  imports Api Endpoints Format Pagination RunStatus Schedule Retention SnapshotTags React Hooks Live Auth
    Theme StartRun Widgets Confirm AuthScreens ScheduleEditor RetentionEditor LogPanel RunLists JobCard
    RunView SnapshotBrowser DbRestore RestoreDialog SnapshotsPanel Activity RepoSettings Settings JobsPage
    Dashboard SpeedTest RepositoryDetail Folders JobDetail Shell Coolify
begin

text \<open>
  The web UI of the restic backup manager (\<open>src/ui\<close>): a React application over the JSON API
  of a Go server that runs restic. The UI holds no truth of its own. It loads records from the
  server, follows its event streams (\<open>/api/events\<close> for all runs, \<open>/api/runs/<id>/events\<close>
  for one), edits copies of a job's schedule and policy, and starts, watches and stops runs. What can go
  wrong is in the order of things: replies that arrive late or for something left behind, a second
  click while the first request is out, a stream that reconnects and replays, two forms that
  write the same record.

  The parts, in the order of the imports (every path is under \<open>src/ui/src\<close>):

  \<^item> \<open>Prelude\<close>: the JavaScript library the code uses (\<open>||\<close>, \<open>trim\<close>, \<open>split\<close>, \<open>toFixed\<close>,
    \<open>Math.round\<close>) and shared lemmas. \<open>Model\<close>: the records of the API, as the Go structs of
    \<open>internal/core/model.go\<close> define them. \<open>Api\<close>, \<open>Endpoints\<close>: \<open>lib/api.js\<close>; a call is a
    \<open>request\<close> (method, URL, body), an answer a \<open>response\<close> (status, decoded body), a failed
    \<open>fetch\<close> the response with status 0.
  \<^item> \<open>Format\<close>, \<open>Pagination\<close>, \<open>RunStatus\<close>, \<open>Schedule\<close>, \<open>Retention\<close>, \<open>SnapshotTags\<close>: the pure modules
    of \<open>lib\<close> (\<open>format.js\<close> and \<open>speed.js\<close>, \<open>pagination.js\<close>, \<open>runs.js\<close>, \<open>schedule.js\<close>,
    \<open>retention.js\<close>, \<open>snapshots.js\<close>), with the Go functions they have to agree with
    (\<open>JobSchedule.Describe\<close>, \<open>JobRetention.Normalize\<close>).
  \<^item> \<open>React\<close>: how a component is modelled. Its hooks' state is a record. What it renders is a
    value of \<open>'m ui\<close>, whose handlers carry the messages they send. Each handler, and each
    continuation of an \<open>await\<close> in one, is a message of its \<open>_update\<close> function, which returns the
    new state and the commands sent: requests, questions to the confirm dialog, timers, effects. \<open>reach\<close> is
    any execution: the user fires a message of what is on screen, the environment one of its own (new
    props, stream events), or the reply to anything in flight arrives, in any order. The locales
    \<open>component\<close> (an invariant of executions), \<open>sends_only\<close> (whatever is in flight passed the checks
    of its handler) and \<open>single_flight\<close> (a busy flag admits one guarded request at a time)
    are proved once there and interpreted on the screens below.
  \<^item> \<open>Hooks\<close>: \<open>lib/use-fetch.js\<close>, \<open>lib/docker.js\<close> and the contract of a load that ignores replies to what
    came before it (locale \<open>guarded_load\<close>), also met by the run strips, the run screen and the
    snapshot listing. \<open>Live\<close>: \<open>lib/live.jsx\<close>. \<open>Auth\<close>: \<open>lib/auth.jsx\<close> and the routes of \<open>main.jsx\<close>.
    \<open>Theme\<close>: \<open>lib/theme.jsx\<close> with \<open>ui/public/theme-init.js\<close>. \<open>StartRun\<close>: \<open>lib/start-run.js\<close>.
  \<^item> \<open>Widgets\<close>: the stateless elements of \<open>components\<close> (tiles, fields, tabs, badges, run strip, page
    controls, page frames, error boundary). \<open>Confirm\<close>: \<open>components/confirm.jsx\<close>.
  \<^item> The screens and panels with a state of their own: \<open>AuthScreens\<close> (\<open>routes/setup.jsx\<close>,
    \<open>routes/login.jsx\<close>), \<open>ScheduleEditor\<close>, \<open>RetentionEditor\<close>, \<open>LogPanel\<close>, \<open>RunLists\<close>
    (\<open>run-history.jsx\<close>, \<open>active-runs.jsx\<close>), \<open>JobCard\<close>, \<open>RunView\<close> (\<open>routes/run.jsx\<close>),
    \<open>SnapshotBrowser\<close>, \<open>DbRestore\<close> (\<open>db-restore-dialog.jsx\<close>), \<open>RestoreDialog\<close> and \<open>SnapshotsPanel\<close>
    (\<open>snapshots-panel.jsx\<close>: the panel with the dialogs it opens as components inside it).
  \<^item> \<open>Loads\<close>: a page that loads with \<open>useFetch\<close>. A message runs a handler and then two rounds of the page's
    effects, each comparing the state with that of the render before. The locales \<open>fetching\<close> and \<open>fetch_page\<close>
    hold the contract of such a page: while it is loading, the request for what it shows is in flight,
    and an answer that still counts is one to that request. It is interpreted on \<open>Activity\<close> (\<open>routes/activity.jsx\<close>),
    \<open>JobsPage\<close> (\<open>routes/jobs.jsx\<close>, with its dialog in \<open>NewJob\<close>), \<open>SpeedTest\<close> (\<open>speed-test.jsx\<close>),
    \<open>RepositoriesPage\<close> (\<open>routes/repositories.jsx\<close>, with its dialog in \<open>RepoDialog\<close>), \<open>RepositoryDetail\<close>
    (\<open>routes/repository-detail.jsx\<close>), \<open>Folders\<close> (\<open>routes/folders.jsx\<close>), \<open>JobDetail\<close>
    (\<open>routes/job-detail.jsx\<close>) and \<open>Coolify\<close> (\<open>routes/coolify.jsx\<close>, with its dialog in \<open>QuickBackup\<close>).
    \<open>Dashboard\<close> (\<open>routes/dashboard.jsx\<close>, \<open>getting-started.jsx\<close>) loads in two stages and has a proof of its own; what it
    computes from the data is in \<open>Overview\<close>. \<open>Shell\<close> (\<open>shell.jsx\<close>) is the frame around the pages.
  \<^item> \<open>Numbers\<close> and \<open>RepoSettings\<close> (\<open>repo-settings.jsx\<close>): the number inputs, the automatic check, the speed limits;
    \<open>Settings\<close> (\<open>routes/settings.jsx\<close>).
  \<^item> \<open>GoChecks\<close>: what the server reads of a job and accepts (\<open>Job.Validate\<close>, \<open>JobSchedule.Validate\<close>,
    \<open>JobRetention.Validate\<close>, \<open>ValidateJobRefs\<close>, the decoding of the JSON), against which the forms' requests are proved.
    \<open>RepoDialog\<close> has the update of a repository, \<open>QuickBackup\<close> the first checks of \<open>CreateQuickJob\<close>.

  What the lemmas show. For data: formatting, paging, grouping, search and the forms lose nothing and say what
  the server says. For loads: the newest request wins and what is shown belongs to what is on screen. For
  the streams: the list of active runs refines the stream, and the log on screen is the durable
  log, once and in order, over any reconnects. For the screens: one request in flight at a time, each with its
  checks passed, nothing destructive without a yes, and no page without a session. For the forms: what they send,
  the server takes. Some theorems state where the code falls short: a confirmation that is overwritten, a card or a run
  screen that keeps an old record, two editors that undo each other, a duration of "1m 60s", a form that is emptied by a
  load, a dialog closed by another one's answer, and two pages that name the record they still show while
  their buttons act on the one whose address is already there.

  Conventions. Definitions keep the names of the code; helpers stand for an expression or a
  hook of it. CSS classes are left out except those that depend on props or state. A finite
  double is the rational it denotes. A string is its UTF-8 text as 8-bit characters, so
  \<open>length\<close> counts bytes where JavaScript counts UTF-16 units, and case is that of ASCII letters. A table lookup on a
  key that is a name of \<open>Object.prototype\<close> is not modelled. An optional string field of the API is the empty
  string when it is absent, where the code only tests it for truth. A date that cannot be read counts as time 0. Two equal
  records count as the same object, except where a page counts its renders (\<open>stamp\<close>) because an effect depends on the
  identity of an array. What the browser decides is an argument: the
  clock and the locale's date texts (\<open>env\<close>), the height of a rendered log (\<open>heights\<close>), storage and
  system theme, the router's handling of a path that is not the app's. So are the states of the cards, rows and run streams,
  and the trees of the panels, that a page holds as components of their own: what the user does on one leaves the page as
  its message. Every function
  terminates: the recursions are structural or by a measure, and an execution is a finite list of messages or a
  derivation of \<open>reach\<close>, of any length, so no fuel is needed.

  Not modelled: the Go server and its command line (\<open>internal/core\<close>, \<open>cmd\<close>) except the functions named
  above; the primitive controls of \<open>components/ui\<close> other than the progress bar, which wrap a component
  library; the render tree of \<open>main.jsx\<close> around the routes; and the build.
\<close>

section \<open>Properties that span components\<close>

lemma schedule_put_props:
  "json_prop (the (q_body (Jobs_save j [(''schedule'', Some x)]))) ''schedule'' = Some x"
  "k \<noteq> ''schedule'' \<Longrightarrow> json_prop (the (q_body (Jobs_save j [(''schedule'', Some x)]))) k =
     Option.bind (map_of (job_fields j) k) id"
  by (simp_all add: Jobs_save_def api_put_def json_prop_json_of distinct_spread distinct_job_fields map_of_spread)

lemma retention_put_props:
  "json_prop (the (q_body (Jobs_save j [(''retention'', Some x)]))) ''retention'' = Some x"
  "k \<noteq> ''retention'' \<Longrightarrow> json_prop (the (q_body (Jobs_save j [(''retention'', Some x)]))) k =
     Option.bind (map_of (job_fields j) k) id"
  by (simp_all add: Jobs_save_def api_put_def json_prop_json_of distinct_spread distinct_job_fields map_of_spread)

lemma sched_submit_call:
  assumes "Call q k \<in> set (snd (sched_update SchedSubmit s))"
  obtains sc where "q = Jobs_save (sed_job s) [(''schedule'', Some (schedule_json sc))]"
    "schedulePayload (Some (sed_form s)) = Some sc"
  using assms by (auto simp: sched_onSubmit_def sched_save_def split: if_splits option.splits)

lemma ret_submit_call:
  assumes "Call q k \<in> set (snd (ret_update stay RetSubmit s))"
  obtains r where "q = Jobs_save (red_job s) [(''retention'', Some (retention_json r))]"
    "retentionPayload (Some (red_form s)) = Some r"
  using assms by (auto simp: ret_save_def Let_def split: if_splits option.splits)

text \<open>
  C39. The two editors of a job page can undo each other. Both save by replacing the whole job, each from
  the job it was given: when both are submitted before either answer has refreshed the page, the two
  requests replace the same job, the retention one with the old schedule and the schedule one with
  the old policy, so whichever the server handles last restores the other's old value; they agree
  on every other field.
\<close>

theorem editors_overwrite_each_other:
  assumes "sed_job s = j" and "red_job t = j"
    and "Call q k \<in> set (snd (sched_update SchedSubmit s))"
    and "Call q' k' \<in> set (snd (ret_update stay RetSubmit t))"
  shows "q_method q = ''PUT'' \<and> q_method q' = ''PUT'' \<and> q_url q = q_url q'
    \<and> json_prop (the (q_body q')) ''schedule'' = Some (or_null schedule_json (job_schedule j))
    \<and> json_prop (the (q_body q)) ''retention'' = Some (or_null retention_json (job_retention j))
    \<and> (\<forall>f. f \<noteq> ''schedule'' \<and> f \<noteq> ''retention'' \<longrightarrow>
        json_prop (the (q_body q)) f = json_prop (the (q_body q')) f)
    \<and> json_prop (the (q_body q)) ''schedule'' = map_option schedule_json (schedulePayload (Some (sed_form s)))"
proof -
  obtain sc where q: "q = Jobs_save j [(''schedule'', Some (schedule_json sc))]"
    "schedulePayload (Some (sed_form s)) = Some sc"
    using sched_submit_call [OF assms(3)] assms(1) by blast
  obtain r where q': "q' = Jobs_save j [(''retention'', Some (retention_json r))]"
    using ret_submit_call [OF assms(4)] assms(2) by blast
  have "q_method q = ''PUT''" "q_method q' = ''PUT''" "q_url q = q_url q'"
    by (simp_all add: q q' Jobs_save_def api_put_def)
  then show ?thesis
    unfolding q(2) by (simp add: q(1) q' schedule_put_props retention_put_props job_fields_def)
qed

theorem editors_overwrite_each_other_witness:
  "\<exists>q k q' k'. Call q k \<in> set (snd (sched_update SchedSubmit
        (fst (sched_update (SchedEnabled True) (fst (sched_mount sample_job))))))
     \<and> Call q' k' \<in> set (snd (ret_update True RetSubmit (fst (ret_mount sample_job))))
     \<and> json_prop (the (q_body q)) ''schedule'' \<noteq> Some JNull
     \<and> json_prop (the (q_body q')) ''schedule'' = Some JNull"
proof -
  let ?s = "fst (sched_update (SchedEnabled True) (fst (sched_mount sample_job)))"
  let ?t = "fst (ret_mount sample_job)"
  obtain sc where sc: "schedulePayload (Some (sed_form ?s)) = Some sc"
    by (cases "schedulePayload (Some (sed_form ?s))")
      (auto simp: schedulePayload_def sched_mount_def sample_defs scheduleFormFromJob_def Let_def split: if_splits)
  have j: "sed_job ?s = sample_job" "red_job ?t = sample_job"
    by (simp_all add: sched_mount_def ret_mount_def)
  have q: "Call (Jobs_save sample_job [(''schedule'', Some (schedule_json sc))]) (SchedSaved sc)
      \<in> set (snd (sched_update SchedSubmit ?s))"
    using sc by (simp add: sched_onSubmit_def sched_save_def sched_mount_def sample_defs scheduleFormFromJob_def)
  obtain r where r: "Call (Jobs_save sample_job [(''retention'', Some (retention_json r))]) (RetSaved r)
      \<in> set (snd (ret_update True RetSubmit ?t))"
    by (simp add: ret_save_def ret_mount_def sample_defs retentionFormFromJob_def retentionPayload_def Let_def)
  have n: "schedule_json sc \<noteq> JNull" by (simp add: schedule_json_def json_of_def)
  note main = editors_overwrite_each_other [OF j q r]
  have a: "json_prop (the (q_body (Jobs_save sample_job [(''schedule'', Some (schedule_json sc))]))) ''schedule''
      \<noteq> Some JNull"
    using main sc n by simp
  have b: "json_prop (the (q_body (Jobs_save sample_job [(''retention'', Some (retention_json r))]))) ''schedule''
      = Some JNull"
    using main by (simp add: sample_defs or_null_def)
  show ?thesis using q r a b by blast
qed

end
